(* ===== verification/Pawn_Prelude.thy ===== *)
theory Pawn_Prelude
  imports Main "HOL-Library.Word" "HOL-Library.Signed_Division"
begin

text \<open>
  Shared material of the development: how a run of the C++ program is represented, and the
  generic facts the component theories use.

  A piece of the program that touches the outside world is a \<open>prog\<close>: a function
  from the world (an arbitrary type \<open>'w\<close>) to either \<open>None\<close>, which means that
  it never returns, or to a result together with the world it leaves behind. The result is
  \<open>Inl\<close> when the process was terminated on the way (a \<open>LOG(FATAL)\<close>, a failed
  \<open>QCHECK\<close>, an exit from a library call, or an evaluation whose behaviour C++17
  leaves undefined) and \<open>Inr\<close> when the code returned a value. Status values of the program (\<open>absl::Status\<close>) are
  ordinary returned values and are kept apart from process termination.

  \<open>runs m w Q\<close> is total correctness of one run: the run returns a value and the value
  and the final world satisfy \<open>Q\<close>. The collection \<open>prog_simps\<close> unfolds the
  combinators, and \<open>bit_field_simps\<close> collects the bit-level characterisations of the
  register accessors.
\<close>

unbundle bit_operations_syntax

named_theorems prog_simps
named_theorems bit_field_simps

text \<open>Bit positions stay numerals: \<open>1\<close> is not rewritten to \<open>Suc 0\<close>.\<close>

declare One_nat_def [simp del]

section \<open>Process termination and status values\<close>

datatype fatal =
    LogFatal string
  | CheckFailed string
  | UndefinedBehaviour string
  | Exited int

datatype status =
    OkStatus
  | FailedPreconditionError string
  | InvalidArgumentError string
  | UnavailableError string
  | UnimplementedError string

definition status_ok :: "status \<Rightarrow> bool" where
  "status_ok s = (s = OkStatus)"

fun status_message :: "status \<Rightarrow> string" where
  "status_message OkStatus = []"
| "status_message (FailedPreconditionError s) = s"
| "status_message (InvalidArgumentError s) = s"
| "status_message (UnavailableError s) = s"
| "status_message (UnimplementedError s) = s"

section \<open>Programs\<close>

type_synonym ('w, 'a) prog = "'w \<Rightarrow> ((fatal + 'a) \<times> 'w) option"

definition ret :: "'a \<Rightarrow> ('w, 'a) prog" where
  "ret a w = Some (Inr a, w)"

definition die :: "fatal \<Rightarrow> ('w, 'a) prog" where
  "die e w = Some (Inl e, w)"

definition bnd :: "('w, 'a) prog \<Rightarrow> ('a \<Rightarrow> ('w, 'b) prog) \<Rightarrow> ('w, 'b) prog" where
  "bnd m f w =
     Option.bind (m w)
       (\<lambda>rw. case fst rw of Inl e \<Rightarrow> Some (Inl e, snd rw) | Inr a \<Rightarrow> f a (snd rw))"

abbreviation thn :: "('w, 'a) prog \<Rightarrow> ('w, 'b) prog \<Rightarrow> ('w, 'b) prog" where
  "thn m k \<equiv> bnd m (\<lambda>_. k)"

text \<open>\<open>act\<close> lifts a call that returns a value, \<open>eff\<close> one that only changes the world.\<close>

definition act :: "('w \<Rightarrow> 'a \<times> 'w) \<Rightarrow> ('w, 'a) prog" where
  "act f w = Some (Inr (fst (f w)), snd (f w))"

definition eff :: "('w \<Rightarrow> 'w) \<Rightarrow> ('w, unit) prog" where
  "eff f w = Some (Inr (), f w)"

definition runs :: "('w, 'a) prog \<Rightarrow> 'w \<Rightarrow> ('a \<Rightarrow> 'w \<Rightarrow> bool) \<Rightarrow> bool" where
  "runs m w Q =
     (case m w of
        None \<Rightarrow> False
      | Some rw \<Rightarrow> (case fst rw of Inl e \<Rightarrow> False | Inr a \<Rightarrow> Q a (snd rw)))"

text \<open>
  C++ \<open>int\<close> is a mathematical integer with a range check: leaving the range is undefined
  behaviour, never a wrapped value.
\<close>

definition INT_MIN :: int where "INT_MIN = - (2 ^ 31)"

definition INT_MAX :: int where "INT_MAX = 2 ^ 31 - 1"

definition in_int :: "int \<Rightarrow> bool" where
  "in_int i = (INT_MIN \<le> i \<and> i \<le> INT_MAX)"

definition c_int :: "int \<Rightarrow> ('w, int) prog" where
  "c_int i = (if in_int i then ret i else die (UndefinedBehaviour ''signed integer overflow''))"

subsection \<open>Equations\<close>

lemma ret_apply [prog_simps]: "ret a w = Some (Inr a, w)"
  by (simp add: ret_def)

lemma die_apply [prog_simps]: "die e w = Some (Inl e, w)"
  by (simp add: die_def)

lemma act_apply [prog_simps]: "act f w = Some (Inr (fst (f w)), snd (f w))"
  by (simp add: act_def)

lemma eff_apply [prog_simps]: "eff f w = Some (Inr (), f w)"
  by (simp add: eff_def)

lemma bnd_Inr: "m w = Some (Inr a, w') \<Longrightarrow> bnd m f w = f a w'"
  by (simp add: bnd_def)

lemma bnd_Inl: "m w = Some (Inl e, w') \<Longrightarrow> bnd m f w = Some (Inl e, w')"
  by (simp add: bnd_def)

lemma bnd_None: "m w = None \<Longrightarrow> bnd m f w = None"
  by (simp add: bnd_def)

lemma bnd_ret [simp]: "bnd (ret a) f = f a"
  by (rule ext) (simp add: bnd_def ret_def)

lemma bnd_die [simp]: "bnd (die e) f = die e"
  by (rule ext) (simp add: bnd_def die_def)

lemma bnd_ret_right [simp]: "bnd m ret = m"
  by (rule ext) (auto simp: bnd_def ret_def split: sum.splits option.splits bind_splits)

lemma bnd_assoc: "bnd (bnd m f) g = bnd m (\<lambda>a. bnd (f a) g)"
  by (rule ext) (auto simp: bnd_def split: sum.splits bind_splits)

lemma bnd_act [prog_simps]: "bnd (act f) g w = g (fst (f w)) (snd (f w))"
  by (simp add: bnd_def act_def)

lemma bnd_eff [prog_simps]: "bnd (eff f) g w = g () (f w)"
  by (simp add: bnd_def eff_def)

lemma bnd_le:
  assumes "bnd m f w = Some y"
    and "\<And>a w'. m w = Some (Inr a, w') \<Longrightarrow> f a w' = Some y \<Longrightarrow> f' a w' = Some y"
  shows "bnd m f' w = Some y"
  using assms by (auto simp: bnd_def split: bind_splits sum.splits)

lemma if_le:
  assumes "(if b then A else B) w = Some y"
    and "b \<Longrightarrow> A w = Some y \<Longrightarrow> A' w = Some y" and "\<not> b \<Longrightarrow> B w = Some y \<Longrightarrow> B' w = Some y"
  shows "(if b then A' else B') w = Some y"
  using assms by (cases b) simp_all

lemma option_eqI: "(\<And>y. a = Some y \<longleftrightarrow> b = Some y) \<Longrightarrow> a = b"
  by (cases a; cases b) auto

lemma c_int_in [simp]: "in_int i \<Longrightarrow> c_int i = ret i"
  by (simp add: c_int_def)

lemma c_int_out: "\<not> in_int i \<Longrightarrow> c_int i = die (UndefinedBehaviour ''signed integer overflow'')"
  by (simp add: c_int_def)

lemma in_int_iff: "in_int i \<longleftrightarrow> -2147483648 \<le> i \<and> i \<le> 2147483647"
  by (simp add: in_int_def INT_MIN_def INT_MAX_def)

subsection \<open>Total correctness\<close>

lemma runs_ret [simp]: "runs (ret a) w Q = Q a w"
  by (simp add: runs_def ret_def)

lemma runs_die [simp]: "runs (die e) w Q = False"
  by (simp add: runs_def die_def)

lemma runs_act [simp]: "runs (act f) w Q = Q (fst (f w)) (snd (f w))"
  by (simp add: runs_def act_def)

lemma runs_eff [simp]: "runs (eff f) w Q = Q () (f w)"
  by (simp add: runs_def eff_def)

lemma runs_bnd [simp]: "runs (bnd m f) w Q = runs m w (\<lambda>a w'. runs (f a) w' Q)"
  by (auto simp: runs_def bnd_def split: option.splits sum.splits bind_splits)

lemma runsE:
  assumes "runs m w Q"
  obtains a w' where "m w = Some (Inr a, w')" and "Q a w'"
  using assms by (auto simp: runs_def split: option.splits sum.splits)

lemma runsI: "m w = Some (Inr a, w') \<Longrightarrow> Q a w' \<Longrightarrow> runs m w Q"
  by (simp add: runs_def)

lemma runs_mono:
  assumes "runs m w Q" and "\<And>a w'. Q a w' \<Longrightarrow> R a w'"
  shows "runs m w R"
  using assms by (auto simp: runs_def split: option.splits sum.splits)

lemma runs_conj: "runs m w Q \<Longrightarrow> runs m w R \<Longrightarrow> runs m w (\<lambda>a w'. Q a w' \<and> R a w')"
  by (auto simp: runs_def split: option.splits sum.splits)

lemma runs_iff: "runs m w Q \<longleftrightarrow> (\<exists>a w'. m w = Some (Inr a, w') \<and> Q a w')"
  by (auto simp: runs_def split: option.splits sum.splits)

subsection \<open>Loops that may not end\<close>

text \<open>Sequencing is monotone, so it may stand in the body of a \<open>partial_function (option)\<close>.\<close>

lemma bnd_mono [partial_function_mono]:
  assumes M: "\<And>w. mono_option (\<lambda>f. M f w)"
    and N: "\<And>a w. mono_option (\<lambda>f. N f a w)"
  shows "mono_option (\<lambda>f. bnd (M f) (\<lambda>a. N f a) w)"
  unfolding bnd_def
proof (rule bind_mono [OF M])
  fix rw
  show "mono_option (\<lambda>f. case fst rw of Inl e \<Rightarrow> Some (Inl e, snd rw) | Inr a \<Rightarrow> N f a (snd rw))"
    using N by (cases "fst rw") (simp_all add: option.const_mono)
qed

lemma if_apply_mono [partial_function_mono]:
  assumes "mono_option (\<lambda>f. A f w)" and "mono_option (\<lambda>f. B f w)"
  shows "mono_option (\<lambda>f. (if c then A f else B f) w)"
  using assms by (cases c) simp_all

section \<open>Little-endian byte order\<close>

definition le_bytes :: "'a::len word \<Rightarrow> 8 word list" where
  "le_bytes v = map (\<lambda>i. ucast (drop_bit (8 * i) v)) [0..<LENGTH('a) div 8]"

fun le_word :: "8 word list \<Rightarrow> 'a::len word" where
  "le_word [] = 0"
| "le_word (b # bs) = ucast b OR push_bit 8 (le_word bs)"

lemma length_le_bytes [simp]: "length (le_bytes (v :: 'a::len word)) = LENGTH('a) div 8"
  by (simp add: le_bytes_def)

lemma nth_le_bytes: "i < LENGTH('a) div 8 \<Longrightarrow> le_bytes v ! i = ucast (drop_bit (8 * i) v)"
  for v :: "'a::len word"
  by (simp add: le_bytes_def)

lemma bit_le_word:
  "bit (le_word bs :: 'a::len word) n \<longleftrightarrow>
     n < LENGTH('a) \<and> n div 8 < length bs \<and> bit (bs ! (n div 8)) (n mod 8)"
proof (induction bs arbitrary: n)
  case Nil
  then show ?case by simp
next
  case (Cons b bs)
  show ?case
  proof (cases "n < 8")
    case True
    then show ?thesis by (auto simp: bit_simps)
  next
    case False
    then obtain k where n: "n = k + 8" by (metis add.commute le_Suc_ex not_less)
    then have "n div 8 = Suc (k div 8)" "n mod 8 = k mod 8" by simp_all
    with n Cons.IH [of k] show ?thesis
      by (auto simp: bit_simps dest: bit_imp_le_length)
  qed
qed

lemma le_word_le_bytes [simp]:
  assumes "8 dvd LENGTH('a)"
  shows "le_word (le_bytes v) = (v :: 'a::len word)"
proof (rule bit_word_eqI)
  fix n assume n: "n < LENGTH('a)"
  then have "n div 8 < LENGTH('a) div 8" using assms by auto
  moreover have "8 * (n div 8) + n mod 8 = n" by simp
  ultimately show "bit (le_word (le_bytes v) :: 'a word) n = bit v n"
    using n by (simp add: bit_le_word nth_le_bytes bit_simps)
qed

lemma le_bytes_le_word:
  assumes "8 dvd LENGTH('a)" and "length bs = LENGTH('a) div 8"
  shows "le_bytes (le_word bs :: 'a::len word) = bs"
proof (rule nth_equalityI)
  show "length (le_bytes (le_word bs :: 'a word)) = length bs" using assms by simp
  fix i assume "i < length (le_bytes (le_word bs :: 'a word))"
  then have i: "i < LENGTH('a) div 8" by simp
  show "le_bytes (le_word bs :: 'a word) ! i = bs ! i"
  proof (rule bit_word_eqI)
    fix n assume n: "n < LENGTH(8)"
    then have "(8 * i + n) div 8 = i" "(8 * i + n) mod 8 = n" by simp_all
    moreover have "8 * i + n < LENGTH('a)" using i n assms(1) by auto
    ultimately show "bit (le_bytes (le_word bs :: 'a word) ! i) n = bit (bs ! i) n"
      using i n assms(2) by (simp add: nth_le_bytes bit_simps bit_le_word)
  qed
qed

end
