(* ===== verification/Platform.thy ===== *)
theory Platform
  imports Pawn_Prelude
begin

text \<open>
  Everything the program calls that is not part of the repository, as one record of
  functions over an abstract world \<open>'w\<close>: the Linux system calls and port instructions
  (\<open>iopl\<close>, \<open>inb\<close>, \<open>inw\<close>, \<open>inl\<close>, \<open>outl\<close>, \<open>open\<close>,
  \<open>close\<close>, \<open>mmap\<close>, \<open>munmap\<close>), the loads and stores the hardware answers in
  the mapped chipset registers, the C streams the dump is written to, and the Abseil calls with
  an effect (\<open>PrintF\<close>, command line parsing). Every definition that uses one of them
  takes the record as an argument; nothing is fixed about it here. What a theorem needs of
  it is a hypothesis of that theorem, in most cases one of the locales of the component
  theories.

  Pointers, \<open>uintptr_t\<close> and \<open>size_t\<close> are \<open>64 word\<close> (the program targets
  Linux on x86-64), file descriptors and flags are \<open>int\<close>. Loads and stores have one
  field per access width because a device register sees the width of an access.
\<close>

type_synonym ptr = "64 word"

datatype fmt_arg = FmtInt int | FmtStr string

record 'w platform =
  os_iopl :: "int \<Rightarrow> 'w \<Rightarrow> int \<times> 'w"
  os_inb :: "16 word \<Rightarrow> 'w \<Rightarrow> 8 word \<times> 'w"
  os_inw :: "16 word \<Rightarrow> 'w \<Rightarrow> 16 word \<times> 'w"
  os_inl :: "16 word \<Rightarrow> 'w \<Rightarrow> 32 word \<times> 'w"
  os_outl :: "32 word \<Rightarrow> 16 word \<Rightarrow> 'w \<Rightarrow> 'w"
  os_open :: "string \<Rightarrow> int \<Rightarrow> 'w \<Rightarrow> int \<times> 'w"
  os_close :: "int \<Rightarrow> 'w \<Rightarrow> int \<times> 'w"
  os_mmap :: "ptr \<Rightarrow> 64 word \<Rightarrow> int \<Rightarrow> int \<Rightarrow> int \<Rightarrow> 64 word \<Rightarrow> 'w \<Rightarrow> ptr \<times> 'w"
  os_munmap :: "ptr \<Rightarrow> 64 word \<Rightarrow> 'w \<Rightarrow> int \<times> 'w"
  os_strerror_errno :: "'w \<Rightarrow> string"
  mem_load8 :: "ptr \<Rightarrow> 'w \<Rightarrow> 8 word \<times> 'w"
  mem_load16 :: "ptr \<Rightarrow> 'w \<Rightarrow> 16 word \<times> 'w"
  mem_load32 :: "ptr \<Rightarrow> 'w \<Rightarrow> 32 word \<times> 'w"
  mem_load64 :: "ptr \<Rightarrow> 'w \<Rightarrow> 64 word \<times> 'w"
  mem_store8 :: "ptr \<Rightarrow> 8 word \<Rightarrow> 'w \<Rightarrow> 'w"
  mem_store16 :: "ptr \<Rightarrow> 16 word \<Rightarrow> 'w \<Rightarrow> 'w"
  mem_store32 :: "ptr \<Rightarrow> 32 word \<Rightarrow> 'w \<Rightarrow> 'w"
  mem_store64 :: "ptr \<Rightarrow> 64 word \<Rightarrow> 'w \<Rightarrow> 'w"
  io_fopen :: "string \<Rightarrow> string \<Rightarrow> 'w \<Rightarrow> ptr \<times> 'w"
  io_fwrite :: "8 word list \<Rightarrow> ptr \<Rightarrow> 'w \<Rightarrow> nat \<times> 'w"
  io_fflush :: "ptr \<Rightarrow> 'w \<Rightarrow> int \<times> 'w"
  absl_PrintF :: "string \<Rightarrow> fmt_arg list \<Rightarrow> 'w \<Rightarrow> 'w"
  absl_StrFormat :: "string \<Rightarrow> fmt_arg list \<Rightarrow> string"
  absl_SetProgramUsageMessage :: "string \<Rightarrow> 'w \<Rightarrow> 'w"
  absl_ParseCommandLine :: "string list \<Rightarrow> ('w, string list) prog"
  absl_FLAGS_logo :: "'w \<Rightarrow> bool"
  c_basename :: "string \<Rightarrow> string"
  build_kPawnDetailedVersion :: string

text \<open>Constants of the system headers the sources include.\<close>

definition nullptr :: ptr where "nullptr = 0"

definition MAP_FAILED :: ptr where "MAP_FAILED = - 1"

definition O_RDWR :: int where "O_RDWR = 2"

definition PROT_READ :: int where "PROT_READ = 1"

definition PROT_WRITE :: int where "PROT_WRITE = 2"

definition MAP_SHARED :: int where "MAP_SHARED = 1"

end
