(* ===== verification/Bits.thy ===== *)
theory Bits
  imports Pawn_Prelude
begin

text \<open>
  \<open>pawn/bits.h\<close>: the four constexpr templates that take registers apart and put them
  together. A template argument is a \<open>nat\<close> argument here. Every instantiation in the
  program has an unsigned argument type of at most 32 bits, so the arithmetic is done on
  \<open>32 word\<close>, the width both \<open>int\<close> (after integral promotion) and \<open>unsigned
  int\<close> have on the target; the result is converted back to the argument type.

  A shift by a negative amount or by the width, and an overflowing \<open>(1 << n) - 1\<close> on
  \<open>int\<close>, are undefined; \<open>raw_defined\<close>, \<open>value_defined\<close>,
  \<open>test_defined\<close> and \<open>set_defined\<close> say for which template arguments an
  instantiation avoids them.

  The lemmas give each accessor its meaning bit by bit, relate the accessors to each other
  (reading back what \<open>Set\<close> built), and compare \<open>Raw\<close> with the field mask its comment
  promises.
\<close>

section \<open>The accessors\<close>

definition Raw :: "nat \<Rightarrow> nat \<Rightarrow> 'a::len word \<Rightarrow> 'a word" where
  "Raw kMsb kLsb bits =
     ucast ((ucast bits :: 32 word) AND push_bit kLsb (push_bit (kMsb - 1) 1 - 1))"

definition Value :: "nat \<Rightarrow> nat \<Rightarrow> 'a::len word \<Rightarrow> 'a word" where
  "Value kMsb kLsb bits =
     ucast (drop_bit kLsb (ucast bits :: 32 word) AND (push_bit (kMsb - kLsb + 1) 1 - 1))"

definition Test :: "nat \<Rightarrow> 'a::len word \<Rightarrow> bool" where
  "Test kTest bits = (((ucast bits :: 32 word) AND push_bit kTest 1) \<noteq> 0)"

definition Set :: "nat \<Rightarrow> nat \<Rightarrow> 32 word \<Rightarrow> 32 word" where
  "Set kMsb kLsb value =
     push_bit kLsb (value AND (push_bit (kMsb - kLsb + 1) 1 - 1))"

text \<open>When an instantiation on a \<open>W\<close>-bit argument is free of undefined behaviour.\<close>

definition raw_defined :: "nat \<Rightarrow> nat \<Rightarrow> nat \<Rightarrow> bool" where
  "raw_defined W kMsb kLsb = (1 \<le> kMsb \<and> kMsb \<le> W \<and> kLsb < W \<and> W \<le> 32)"

definition value_defined :: "nat \<Rightarrow> nat \<Rightarrow> nat \<Rightarrow> bool" where
  "value_defined W kMsb kLsb = (kLsb \<le> kMsb \<and> kMsb < W \<and> kMsb - kLsb + 1 \<le> 30 \<and> W \<le> 32)"

definition test_defined :: "nat \<Rightarrow> nat \<Rightarrow> bool" where
  "test_defined W kTest = (kTest < W \<and> W \<le> 32)"

definition set_defined :: "nat \<Rightarrow> nat \<Rightarrow> bool" where
  "set_defined kMsb kLsb = (kLsb \<le> kMsb \<and> kMsb < 32 \<and> kMsb - kLsb + 1 < 32)"

text \<open>The bit pattern between two positions, which \<open>Raw\<close> is documented to extract.\<close>

definition field_mask :: "nat \<Rightarrow> nat \<Rightarrow> 'a::len word" where
  "field_mask msb lsb = push_bit lsb (mask (msb - lsb + 1))"

section \<open>Bit-level meaning\<close>

lemma push_bit_1_minus_1: "push_bit n 1 - 1 = (mask n :: 'a::len word)"
  by (simp add: mask_eq_exp_minus_1 push_bit_eq_mult)

lemma bit_Raw [bit_field_simps]:
  "bit (Raw m l x) n \<longleftrightarrow> n < 32 \<and> l \<le> n \<and> n - l < m - 1 \<and> bit x n"
  for x :: "'a::len word"
  unfolding Raw_def push_bit_1_minus_1
  by (auto simp: bit_simps dest: bit_imp_le_length)

lemma bit_Value [bit_field_simps]:
  "l \<le> m \<Longrightarrow> m < 32 \<Longrightarrow> bit (Value m l x) n \<longleftrightarrow> n + l \<le> m \<and> bit x (n + l)"
  for x :: "'a::len word"
  unfolding Value_def push_bit_1_minus_1
  by (auto simp: bit_simps add.commute dest: bit_imp_le_length)

lemma Test_eq_bit [bit_field_simps]: "k < 32 \<Longrightarrow> Test k x \<longleftrightarrow> bit x k"
  for x :: "'a::len word"
  by (auto simp: Test_def and_exp_eq_0_iff_not_bit bit_simps push_bit_eq_mult
      dest: bit_imp_le_length)

lemma bit_Set:
  "l \<le> m \<Longrightarrow> m < 32 \<Longrightarrow> bit (Set m l v) n \<longleftrightarrow> l \<le> n \<and> n \<le> m \<and> bit v (n - l)"
  unfolding Set_def push_bit_1_minus_1
  by (auto simp: bit_simps)

lemma uint_Value_bound:
  "l \<le> m \<Longrightarrow> m < 32 \<Longrightarrow> Value m l x = take_bit (m - l + 1) (drop_bit l x)"
  for x :: "'a::len word"
  by (rule bit_word_eqI) (auto simp: bit_field_simps bit_simps add.commute dest: bit_imp_le_length)

lemma bit_field_mask [bit_field_simps]:
  "l \<le> m \<Longrightarrow> bit (field_mask m l :: 'a::len word) n \<longleftrightarrow> n < LENGTH('a) \<and> l \<le> n \<and> n \<le> m"
  by (auto simp: field_mask_def bit_simps)

lemma bit_Set_bool [bit_field_simps]:
  "k < 32 \<Longrightarrow> bit (Set k k (of_bool b)) n \<longleftrightarrow> n = k \<and> b"
  by (auto simp: bit_Set bit_1_iff)

lemma bit_Set_ucast [bit_field_simps]:
  "l \<le> m \<Longrightarrow> m < 32 \<Longrightarrow> bit (Set m l (ucast x)) n \<longleftrightarrow> l \<le> n \<and> n \<le> m \<and> bit x (n - l)"
  for x :: "'a::len word"
  by (auto simp: bit_Set bit_ucast_iff)

text \<open>The constant masks of the sources, read as fields.\<close>

lemma bit_mask_constants [bit_field_simps]:
  "bit (0x7F000000 :: int) n \<longleftrightarrow> 24 \<le> n \<and> n \<le> 30"
  "bit (0xFFFFFC :: int) n \<longleftrightarrow> 2 \<le> n \<and> n \<le> 23"
  "bit (0xFFF :: int) n \<longleftrightarrow> n \<le> 11"
  "bit (3 :: int) n \<longleftrightarrow> n \<le> 1"
proof -
  have field: "bit (push_bit l (mask k) :: int) n \<longleftrightarrow> l \<le> n \<and> n < l + k" for l k
    by (auto simp: bit_simps)
  show "bit (0x7F000000 :: int) n \<longleftrightarrow> 24 \<le> n \<and> n \<le> 30"
    using field [of 24 7] by (auto simp: mask_eq_exp_minus_1 push_bit_eq_mult)
  show "bit (0xFFFFFC :: int) n \<longleftrightarrow> 2 \<le> n \<and> n \<le> 23"
    using field [of 2 22] by (auto simp: mask_eq_exp_minus_1 push_bit_eq_mult)
  show "bit (0xFFF :: int) n \<longleftrightarrow> n \<le> 11"
    using field [of 0 12] by (auto simp: mask_eq_exp_minus_1 push_bit_eq_mult)
  show "bit (3 :: int) n \<longleftrightarrow> n \<le> 1"
    using field [of 0 2] by (auto simp: mask_eq_exp_minus_1 push_bit_eq_mult)
qed

section \<open>Relations between the accessors\<close>

lemma Value_Set_take_bit:
  assumes "l \<le> m" and "m < 32"
  shows "Value m l (Set m l v) = take_bit (m - l + 1) v"
  using assms by (intro bit_word_eqI) (auto simp: bit_field_simps bit_Set bit_simps)

lemma Raw_eq_mask_iff:
  fixes m l :: nat
  assumes "1 \<le> m" and "m < 32" and "l \<le> m"
  shows "(\<forall>x :: 32 word. Raw m l x = x AND field_mask m l) \<longleftrightarrow> l = 2 \<or> (m = 31 \<and> 2 \<le> l)"
    (is "?L \<longleftrightarrow> ?R")
proof
  assume L: ?L
  have bits: "(l \<le> n \<and> n - l < m - 1) = (l \<le> n \<and> n \<le> m)" if "n < 32" for n
  proof -
    have "bit (Raw m l (-1 :: 32 word)) n = bit ((-1 :: 32 word) AND field_mask m l) n"
      using L by simp
    then show ?thesis
      using that assms by (simp add: bit_field_simps bit_simps)
  qed
  have "2 \<le> l"
    using bits [of m] assms by auto
  moreover have "l = 2 \<or> m = 31"
    using bits [of "Suc m"] assms \<open>2 \<le> l\<close> by auto
  ultimately show ?R by blast
next
  assume R: ?R
  show ?L
  proof
    fix x :: "32 word"
    show "Raw m l x = x AND field_mask m l"
      using R assms
      by (intro bit_word_eqI) (auto simp: bit_field_simps bit_simps)
  qed
qed



text \<open>
  C37. \<open>Raw<kMsb, kLsb>\<close> on a 32-bit register extracts the documented bit pattern, bits
  kMsb down to kLsb, exactly when kLsb is 2, or kMsb is 31 and kLsb is at least 2; its mask is
  \<open>kMsb - 1\<close> bits wide and not \<open>kMsb - kLsb + 1\<close>. The unit test's two instantiations
  and the one use in the program, \<open>Raw<31, 14>\<close>, do not see the difference.
\<close>

theorem raw_matches_documentation_iff:
  assumes "raw_defined 32 m l" and "m < 32" and "l \<le> m"
  shows "(\<forall>x :: 32 word. Raw m l x = x AND field_mask m l) \<longleftrightarrow> l = 2 \<or> (m = 31 \<and> 2 \<le> l)"
  using assms by (simp add: raw_defined_def Raw_eq_mask_iff)

theorem raw_matches_documentation_iff_witness:
  "raw_defined 32 31 14 \<and> raw_defined 32 11 8
   \<and> (\<forall>x :: 32 word. Raw 31 14 x = x AND field_mask 31 14)
   \<and> \<not> (\<forall>x :: 32 word. Raw 11 8 x = x AND field_mask 11 8)"
  using raw_matches_documentation_iff [of 31 14] raw_matches_documentation_iff [of 11 8]
  by (simp add: raw_defined_def)

end
