(* ===== verification/Pci.thy ===== *)
theory Pci
  imports Platform Bits
begin

text \<open>
  \<open>pawn/pci.h\<close> and \<open>pawn/pci.cc\<close>: configuration addresses, the reads of the PCI
  configuration space through ports 0xCF8 and 0xCFC, and the \<open>Pci\<close> object that owns the
  raised I/O privilege level.

  \<open>Pci\<close> objects are cells of a store indexed by their address, because the move
  operations write both the target and the source and the two may be the same object.
  Construction, move construction, move assignment and destruction are operations on that
  store; \<open>pci_step\<close> is one such operation and \<open>owners\<close> the set of objects that
  will drop the privilege when they die.

  The locale \<open>config_mechanism\<close> states how a host bridge answers the two ports
  (configuration mechanism 1), and its lemmas that the three read functions return exactly
  the addressed bytes of the configuration space and leave the reserved bits of the address
  port alone.
\<close>

section \<open>Configuration addresses\<close>

definition MakeConfigAddress :: "int \<Rightarrow> int \<Rightarrow> int \<Rightarrow> int \<Rightarrow> 32 word" where
  "MakeConfigAddress bus device func offset =
     Set 31 31 1 OR Set 23 16 (word_of_int bus) OR Set 15 11 (word_of_int device) OR
     Set 10 8 (word_of_int func) OR Set 7 0 (word_of_int offset)"

definition kVidRegister :: "32 word" where
  "kVidRegister = MakeConfigAddress 0x00 31 0 0x00"

definition kDidRegister :: "32 word" where
  "kDidRegister = MakeConfigAddress 0x00 31 0 0x02"

definition kRidRegister :: "32 word" where
  "kRidRegister = MakeConfigAddress 0x00 31 0 0x08"

definition kBiosDecEn1Register :: "32 word" where
  "kBiosDecEn1Register = MakeConfigAddress 0x00 31 0 0xD8"

section \<open>Reading the configuration space\<close>

definition kConfigAddress :: "16 word" where "kConfigAddress = 0xCF8"

definition kConfigData :: "16 word" where "kConfigData = 0xCFC"

text \<open>
  The macro \<open>DEFINE_READCONFIGUINT\<close>: the part before the data port is read, and the
  three functions it defines, each with its overload for bus, device, function and offset.
\<close>

definition select_config :: "'w platform \<Rightarrow> 32 word \<Rightarrow> ('w, unit) prog" where
  "select_config P config_address =
     bnd (act (os_inl P kConfigAddress)) (\<lambda>v.
     let reserved_bits = v AND 0x7F000000 in
     eff (os_outl P (config_address OR reserved_bits) kConfigAddress))"

definition ReadConfigUint8 :: "'w platform \<Rightarrow> 32 word \<Rightarrow> ('w, 8 word) prog" where
  "ReadConfigUint8 P config_address =
     bnd (select_config P config_address) (\<lambda>_.
     act (os_inb P (kConfigData + ucast (config_address AND (4 - 1)))))"

definition ReadConfigUint16 :: "'w platform \<Rightarrow> 32 word \<Rightarrow> ('w, 16 word) prog" where
  "ReadConfigUint16 P config_address =
     bnd (select_config P config_address) (\<lambda>_.
     act (os_inw P (kConfigData + ucast (config_address AND (4 - 2)))))"

definition ReadConfigUint32 :: "'w platform \<Rightarrow> 32 word \<Rightarrow> ('w, 32 word) prog" where
  "ReadConfigUint32 P config_address =
     bnd (select_config P config_address) (\<lambda>_.
     act (os_inl P (kConfigData + ucast (config_address AND (4 - 4)))))"

definition ReadConfigUint8_bdf ::
    "'w platform \<Rightarrow> int \<Rightarrow> int \<Rightarrow> int \<Rightarrow> int \<Rightarrow> ('w, 8 word) prog" where
  "ReadConfigUint8_bdf P bus device func offset =
     ReadConfigUint8 P (MakeConfigAddress bus device func offset)"

definition ReadConfigUint16_bdf ::
    "'w platform \<Rightarrow> int \<Rightarrow> int \<Rightarrow> int \<Rightarrow> int \<Rightarrow> ('w, 16 word) prog" where
  "ReadConfigUint16_bdf P bus device func offset =
     ReadConfigUint16 P (MakeConfigAddress bus device func offset)"

definition ReadConfigUint32_bdf ::
    "'w platform \<Rightarrow> int \<Rightarrow> int \<Rightarrow> int \<Rightarrow> int \<Rightarrow> ('w, 32 word) prog" where
  "ReadConfigUint32_bdf P bus device func offset =
     ReadConfigUint32 P (MakeConfigAddress bus device func offset)"

section \<open>The lifetime of Pci objects\<close>

record Pci =
  iopl_done :: bool

type_synonym pci_store = "nat \<rightharpoonup> Pci"

text \<open>\<open>Pci() = default\<close> with the member initialiser \<open>iopl_done_ = false\<close>.\<close>

definition Pci_default :: "nat \<Rightarrow> pci_store \<Rightarrow> pci_store" where
  "Pci_default this h = h(this \<mapsto> \<lparr>iopl_done = False\<rparr>)"

text \<open>
  \<open>operator=(Pci&& other)\<close>. The two assignments run in order on the store, so that the
  source and the target may be the same cell. A missing cell is a program that never gets here.
\<close>

definition Pci_move_assign :: "nat \<Rightarrow> nat \<Rightarrow> pci_store \<Rightarrow> pci_store" where
  "Pci_move_assign this other h =
     (case (h this, h other) of
        (Some t, Some s) \<Rightarrow>
          (let h1 = h(this \<mapsto> t\<lparr>iopl_done := iopl_done s\<rparr>)
           in (case h1 other of
                 Some s1 \<Rightarrow> h1(other \<mapsto> s1\<lparr>iopl_done := False\<rparr>)
               | None \<Rightarrow> h1))
      | _ \<Rightarrow> h)"

definition Pci_move_ctor :: "nat \<Rightarrow> nat \<Rightarrow> pci_store \<Rightarrow> pci_store" where
  "Pci_move_ctor this other h = Pci_move_assign this other (Pci_default this h)"

definition Pci_dtor :: "'w platform \<Rightarrow> nat \<Rightarrow> pci_store \<Rightarrow> ('w, pci_store) prog" where
  "Pci_dtor P this h =
     (case h this of
        None \<Rightarrow> ret h
      | Some t \<Rightarrow>
          if iopl_done t
          then bnd (act (os_iopl P 0)) (\<lambda>_. ret (h(this := None)))
          else ret (h(this := None)))"

text \<open>
  \<open>Pci::Create\<close>: \<open>result\<close> is the cell of the returned object, \<open>local\<close> that of the
  local variable, which is moved from and destroyed before the function returns.
\<close>

definition Pci_Create :: "'w platform \<Rightarrow> nat \<Rightarrow> nat \<Rightarrow> pci_store \<Rightarrow> ('w, status + pci_store) prog" where
  "Pci_Create P result local h =
     bnd (act (os_iopl P 3)) (\<lambda>rc.
     if rc \<noteq> 0
     then ret (Inl (FailedPreconditionError
            (''Failed to acquire I/O privileges. Make sure this '' @
             ''process runs as root and/or has CAP_SYS_RAWIO.'')))
     else
       let h1 = (Pci_default local h)(local \<mapsto> \<lparr>iopl_done = True\<rparr>);
           h2 = Pci_move_ctor result local h1
       in bnd (Pci_dtor P local h2) (\<lambda>h3. ret (Inr h3)))"

text \<open>The objects whose destructor will drop the privilege level.\<close>

definition owners :: "pci_store \<Rightarrow> nat set" where
  "owners h = {k. case h k of None \<Rightarrow> False | Some p \<Rightarrow> iopl_done p}"

text \<open>
  One operation on the \<open>Pci\<close> objects of a process: creation (in two fresh cells), move
  construction of a fresh object, move assignment onto another object that owns nothing, and
  destruction. Copies are deleted in the class, so these are all.
\<close>

inductive pci_step :: "'w platform \<Rightarrow> pci_store \<times> 'w \<Rightarrow> pci_store \<times> 'w \<Rightarrow> bool" for P where
  create_ok: "h l = None \<Longrightarrow> h r = None \<Longrightarrow> l \<noteq> r \<Longrightarrow>
     Pci_Create P r l h w = Some (Inr (Inr h'), w') \<Longrightarrow> pci_step P (h, w) (h', w')"
| create_err: "h l = None \<Longrightarrow> h r = None \<Longrightarrow> l \<noteq> r \<Longrightarrow>
     Pci_Create P r l h w = Some (Inr (Inl e), w') \<Longrightarrow> pci_step P (h, w) (h, w')"
| construct: "h i = None \<Longrightarrow> h j = Some q \<Longrightarrow>
     pci_step P (h, w) (Pci_move_ctor i j h, w)"
| assign: "h i = Some p \<Longrightarrow> h j = Some q \<Longrightarrow> i \<noteq> j \<Longrightarrow> \<not> iopl_done p \<Longrightarrow>
     pci_step P (h, w) (Pci_move_assign i j h, w)"
| destroy: "h i = Some p \<Longrightarrow> Pci_dtor P i h w = Some (Inr h', w') \<Longrightarrow>
     pci_step P (h, w) (h', w')"

section \<open>What a configuration address holds\<close>

lemma bit_Set_top: "bit (Set 31 31 1) n \<longleftrightarrow> n = 31"
  by (auto simp: bit_Set bit_1_iff)

lemma bit_Set_int:
  "l \<le> m \<Longrightarrow> m < 32 \<Longrightarrow> bit (Set m l (word_of_int i)) n \<longleftrightarrow> l \<le> n \<and> n \<le> m \<and> bit i (n - l)"
  by (auto simp: bit_Set bit_word_of_int_iff)

lemma bit_MakeConfigAddress:
  "bit (MakeConfigAddress b d f r) n \<longleftrightarrow>
     n = 31 \<or> 16 \<le> n \<and> n \<le> 23 \<and> bit b (n - 16) \<or> 11 \<le> n \<and> n \<le> 15 \<and> bit d (n - 11) \<or>
     8 \<le> n \<and> n \<le> 10 \<and> bit f (n - 8) \<or> n \<le> 7 \<and> bit r n"
  by (simp add: MakeConfigAddress_def bit_or_iff bit_Set_top bit_Set_int)

lemma MakeConfigAddress_reserved: "MakeConfigAddress b d f r AND 0x7F000000 = 0"
  by (rule bit_word_eqI) (auto simp: bit_MakeConfigAddress bit_field_simps bit_simps)

lemma MakeConfigAddress_enable: "bit (MakeConfigAddress b d f r) 31"
  by (simp add: bit_MakeConfigAddress)

lemma config_lane: "ucast (a AND n) < (4 :: 16 word)" if "n \<le> 3" for a n :: "32 word"
proof -
  have "a AND n \<le> 3" using that order.trans [OF word_and_le1] by blast
  then have "unat (a AND n) \<le> 3" by (simp add: word_le_nat_alt)
  then show ?thesis by (simp add: word_less_nat_alt unsigned_ucast_eq take_bit_nat_eq_self)
qed

lemma MakeConfigAddress_offset: "MakeConfigAddress b d f r AND 3 = word_of_int (take_bit 2 r)"
  by (rule bit_word_eqI) (auto simp: bit_MakeConfigAddress bit_field_simps bit_simps)

lemma Value_MakeConfigAddress:
  "Value 23 16 (MakeConfigAddress b d f r) = word_of_int (take_bit 8 b)"
  "Value 15 11 (MakeConfigAddress b d f r) = word_of_int (take_bit 5 d)"
  "Value 10 8 (MakeConfigAddress b d f r) = word_of_int (take_bit 3 f)"
  "Value 7 0 (MakeConfigAddress b d f r) = word_of_int (take_bit 8 r)"
  by (intro bit_word_eqI; auto simp: bit_MakeConfigAddress bit_field_simps bit_simps)+

section \<open>Configuration mechanism 1\<close>

text \<open>
  \<open>latch\<close> is the 32-bit address register behind port 0xCF8 and \<open>space\<close> the
  configuration space in doublewords, addressed by bits 23 to 2 of the latch. The laws are
  those of the PCI Local Bus Specification: a doubleword access to 0xCF8 reads or sets the latch,
  and while its enable bit is set an access to 0xCFC + k reads byte lane k of the selected
  doubleword.
\<close>

locale config_mechanism =
  fixes P :: "'w platform"
    and latch :: "'w \<Rightarrow> 32 word"
    and space :: "'w \<Rightarrow> 32 word \<Rightarrow> 32 word"
  assumes inl_latch: "fst (os_inl P kConfigAddress w) = latch w"
    and inl_latch_frame: "latch (snd (os_inl P kConfigAddress w)) = latch w"
      "space (snd (os_inl P kConfigAddress w)) = space w"
    and outl_latch: "latch (os_outl P v kConfigAddress w) = v"
      "space (os_outl P v kConfigAddress w) = space w"
    and inb_data: "bit (latch w) 31 \<Longrightarrow> k < 4 \<Longrightarrow>
      fst (os_inb P (kConfigData + k) w)
        = ucast (drop_bit (8 * unat k) (space w (latch w AND 0xFFFFFC)))"
    and inw_data: "bit (latch w) 31 \<Longrightarrow> k = 0 \<or> k = 2 \<Longrightarrow>
      fst (os_inw P (kConfigData + k) w)
        = ucast (drop_bit (8 * unat k) (space w (latch w AND 0xFFFFFC)))"
    and inl_data: "bit (latch w) 31 \<Longrightarrow>
      fst (os_inl P kConfigData w) = space w (latch w AND 0xFFFFFC)"
    and in_data_frame:
      "latch (snd (os_inb P p w)) = latch w" "space (snd (os_inb P p w)) = space w"
      "latch (snd (os_inw P p w)) = latch w" "space (snd (os_inw P p w)) = space w"
      "latch (snd (os_inl P p w)) = latch w" "space (snd (os_inl P p w)) = space w"
begin

text \<open>Bits 31 and 23 to 2 of the latch are those of the configuration address alone.\<close>

lemma selected_latch:
  "(MakeConfigAddress b d f r OR (x AND 0x7F000000)) AND 0xFFFFFC
     = MakeConfigAddress b d f r AND 0xFFFFFC" for x :: "32 word"
  by (simp add: bit.conj_disj_distrib2 and.assoc)

lemma selected_enable: "bit (MakeConfigAddress b d f r OR x) 31"
  by (simp add: bit_MakeConfigAddress bit_simps)

lemma select_config_runs:
  "runs (select_config P a) w
     (\<lambda>_ w'. latch w' = a OR (latch w AND 0x7F000000) \<and> space w' = space w)"
  by (simp add: select_config_def Let_def inl_latch inl_latch_frame outl_latch)

lemma select_config_bdf_runs:
  assumes "a = MakeConfigAddress b d f r"
  shows "runs (select_config P a) w (\<lambda>_ w'. bit (latch w') 31 \<and>
     latch w' AND 0xFFFFFC = a AND 0xFFFFFC \<and>
     latch w' AND 0x7F000000 = latch w AND 0x7F000000 \<and> space w' = space w)"
  by (rule runs_mono [OF select_config_runs])
    (simp add: assms selected_enable selected_latch MakeConfigAddress_reserved
      bit.conj_disj_distrib2 and.assoc)

lemma ReadConfigUint8_runs:
  assumes a: "a = MakeConfigAddress b d f r"
  shows "runs (ReadConfigUint8 P a) w (\<lambda>v w'.
     v = ucast (drop_bit (8 * nat (r mod 4)) (space w (a AND 0xFFFFFC))) \<and>
     latch w' AND 0x7F000000 = latch w AND 0x7F000000 \<and> space w' = space w)"
proof -
  let ?k = "ucast (a AND 3) :: 16 word"
  have u: "unat ?k = nat (r mod 4)"
    unfolding a MakeConfigAddress_offset
    by (simp add: unsigned_ucast_eq unsigned_of_int take_bit_eq_mod)
  then have "?k < 4"
    by (simp add: word_less_nat_alt)
  show ?thesis
    unfolding ReadConfigUint8_def runs_bnd
    by (rule runs_mono [OF select_config_bdf_runs [OF a]])
      (simp add: inb_data \<open>?k < 4\<close> u in_data_frame)
qed

lemma ReadConfigUint16_runs:
  assumes a: "a = MakeConfigAddress b d f r"
  shows "runs (ReadConfigUint16 P a) w (\<lambda>v w'.
     v = ucast (drop_bit (16 * nat (r div 2 mod 2)) (space w (a AND 0xFFFFFC))) \<and>
     latch w' AND 0x7F000000 = latch w AND 0x7F000000 \<and> space w' = space w)"
proof -
  let ?k = "ucast (a AND 2) :: 16 word"
  have two: "a AND 2 = (if bit r 1 then 2 else 0)"
    unfolding a by (rule bit_word_eqI)
      (auto simp: bit_MakeConfigAddress bit_simps bit_field_simps)
  have r: "nat (r div 2 mod 2) = (if bit r 1 then 1 else 0)"
    by (simp add: bit_iff_odd mod_2_eq_odd)
  show ?thesis
    unfolding ReadConfigUint16_def runs_bnd
    by (rule runs_mono [OF select_config_bdf_runs [OF a]])
      (simp add: inw_data two r in_data_frame)
qed

lemma ReadConfigUint32_runs:
  assumes a: "a = MakeConfigAddress b d f r"
  shows "runs (ReadConfigUint32 P a) w (\<lambda>v w'.
     v = space w (a AND 0xFFFFFC) \<and>
     latch w' AND 0x7F000000 = latch w AND 0x7F000000 \<and> space w' = space w)"
  unfolding ReadConfigUint32_def runs_bnd
  by (rule runs_mono [OF select_config_bdf_runs [OF a]]) (simp add: inl_data in_data_frame)

end

section \<open>Ownership of the privilege level\<close>

lemma owners_empty [simp]: "owners Map.empty = {}"
  by (simp add: owners_def)

lemma owners_upd [simp]:
  "owners (h(k \<mapsto> p)) = (if iopl_done p then insert k (owners h) else owners h - {k})"
  by (auto simp: owners_def)

lemma owners_del [simp]: "owners (h(k := None)) = owners h - {k}"
  by (auto simp: owners_def)

lemma mem_owners [simp]: "h k = Some p \<Longrightarrow> k \<in> owners h \<longleftrightarrow> iopl_done p"
  and not_mem_owners [simp]: "h k = None \<Longrightarrow> k \<notin> owners h"
  by (simp_all add: owners_def)

lemma owners_subset_dom: "owners h \<subseteq> dom h"
  by (auto simp: owners_def split: option.splits)

lemma owners_move_assign:
  assumes "h i = Some p" and "h j = Some q"
  shows "owners (Pci_move_assign i j h) =
     (if i = j then owners h - {i}
      else if j \<in> owners h then insert i (owners h - {j})
      else owners h - {i})"
  using assms by (auto simp: Pci_move_assign_def Let_def)

lemma dom_move_assign: "dom (Pci_move_assign i j h) = dom h"
  by (auto simp: Pci_move_assign_def Let_def split: option.splits)

lemma owners_move_ctor:
  assumes "h i = None" and "h j = Some q"
  shows "owners (Pci_move_ctor i j h) =
     (if j \<in> owners h then insert i (owners h - {j}) else owners h)"
proof -
  have "i \<noteq> j" using assms by auto
  then have "owners (Pci_move_ctor i j h) =
     (if j \<in> owners (Pci_default i h) then insert i (owners (Pci_default i h) - {j})
      else owners (Pci_default i h) - {i})"
    unfolding Pci_move_ctor_def using assms
    by (subst owners_move_assign [where p = "\<lparr>iopl_done = False\<rparr>" and q = q])
      (simp_all add: Pci_default_def)
  with assms \<open>i \<noteq> j\<close> show ?thesis by (auto simp: Pci_default_def)
qed

lemma dom_move_ctor: "dom (Pci_move_ctor i j h) = insert i (dom h)"
  by (simp add: Pci_move_ctor_def dom_move_assign Pci_default_def)

text \<open>A successful \<open>Create\<close> calls \<open>iopl\<close> once and leaves one new owner.\<close>

lemma Pci_Create_apply:
  assumes "h l = None" and "h r = None" and "l \<noteq> r"
  shows "Pci_Create P r l h w =
    (if fst (os_iopl P 3 w) = 0
     then Some (Inr (Inr (h(r \<mapsto> \<lparr>iopl_done = True\<rparr>))), snd (os_iopl P 3 w))
     else Some (Inr (Inl (FailedPreconditionError
            (''Failed to acquire I/O privileges. Make sure this '' @
             ''process runs as root and/or has CAP_SYS_RAWIO.''))), snd (os_iopl P 3 w)))"
  using assms
  by (auto simp: Pci_Create_def prog_simps Let_def Pci_move_ctor_def Pci_move_assign_def
      Pci_default_def Pci_dtor_def fun_upd_twist fun_upd_idem)

lemma Pci_dtor_apply:
  assumes "h i = Some p"
  shows "Pci_dtor P i h w =
    Some (Inr (h(i := None)), if iopl_done p then snd (os_iopl P 0 w) else w)"
  using assms by (simp add: Pci_dtor_def prog_simps)

text \<open>\<open>bal\<close> counts the raises of the privilege level that have not been dropped.\<close>

locale privilege_ledger =
  fixes P :: "'w platform" and bal :: "'w \<Rightarrow> int"
  assumes raise_ok: "fst (os_iopl P 3 w) = 0 \<Longrightarrow> bal (snd (os_iopl P 3 w)) = bal w + 1"
    and raise_err: "fst (os_iopl P 3 w) \<noteq> 0 \<Longrightarrow> bal (snd (os_iopl P 3 w)) = bal w"
    and drop_level: "bal (snd (os_iopl P 0 w)) = bal w - 1"
begin

definition balanced :: "int \<Rightarrow> pci_store \<times> 'w \<Rightarrow> bool" where
  "balanced b s = (finite (dom (fst s)) \<and> bal (snd s) = b + int (card (owners (fst s))))"

lemma finite_owners: "finite (dom h) \<Longrightarrow> finite (owners h)"
  by (rule finite_subset [OF owners_subset_dom])

lemma card_move:
  assumes "finite (dom h)" and "i \<notin> owners h" and "j \<in> owners h"
  shows "card (insert i (owners h - {j})) = card (owners h)"
proof -
  have "0 < card (owners h)"
    using assms finite_owners by (auto simp: card_gt_0_iff)
  with assms finite_owners [OF assms(1)] show ?thesis by simp
qed

lemma card_drop:
  assumes "finite (dom h)" and "h i = Some p"
  shows "int (card (owners h - {i})) = int (card (owners h)) - (if iopl_done p then 1 else 0)"
proof (cases "iopl_done p")
  case True
  with assms have "i \<in> owners h" by simp
  then have "0 < card (owners h)"
    using finite_owners [OF assms(1)] by (metis card_gt_0_iff empty_iff)
  with True \<open>i \<in> owners h\<close> show ?thesis by (simp add: card_Diff_singleton)
next
  case False
  with assms show ?thesis by simp
qed

lemma pci_step_balanced:
  assumes "pci_step P s s'" and "balanced b s"
  shows "balanced b s'"
  using assms
proof (induction rule: pci_step.induct)
  case (create_ok h l r w h' w')
  then have "h' = h(r \<mapsto> \<lparr>iopl_done = True\<rparr>)" and "fst (os_iopl P 3 w) = 0"
    and "w' = snd (os_iopl P 3 w)"
    by (auto simp: Pci_Create_apply split: if_splits)
  with create_ok show ?case
    by (auto simp: balanced_def raise_ok finite_owners)
next
  case (create_err h l r w e w')
  then show ?case
    by (auto simp: Pci_Create_apply balanced_def raise_err split: if_splits)
next
  case (construct h i j q w)
  then show ?case
    by (auto simp: balanced_def owners_move_ctor dom_move_ctor card_move)
next
  case (assign h i p j q w)
  then show ?case
    by (auto simp: balanced_def owners_move_assign dom_move_assign card_move)
next
  case (destroy h i p w h' w')
  then show ?case
    by (auto simp: balanced_def Pci_dtor_apply drop_level card_drop)
qed

lemma reachable_balanced:
  assumes "(pci_step P)\<^sup>*\<^sup>* (Map.empty, w0) s"
  shows "balanced (bal w0) s"
  using assms
  by (induction rule: rtranclp_induct) (auto simp: balanced_def [of _ "(Map.empty, w0)"]
      intro: pci_step_balanced)

end

section \<open>Properties\<close>

text \<open>
  C11. On a host bridge that implements configuration mechanism 1, the three reads by bus,
  device, function and offset return the addressed byte, the addressed aligned half and the
  addressed doubleword of the configuration space, change nothing in it, and write back the
  reserved bits 30 to 24 of the address port unchanged.
\<close>

theorem config_reads_return_register:
  assumes "config_mechanism P latch space"
  shows "runs (ReadConfigUint8_bdf P b d f r) w (\<lambda>v w'.
           v = ucast (drop_bit (8 * nat (r mod 4))
                 (space w (MakeConfigAddress b d f r AND 0xFFFFFC))) \<and>
           latch w' AND 0x7F000000 = latch w AND 0x7F000000 \<and> space w' = space w)
    \<and> runs (ReadConfigUint16_bdf P b d f r) w (\<lambda>v w'.
           v = ucast (drop_bit (16 * nat (r div 2 mod 2))
                 (space w (MakeConfigAddress b d f r AND 0xFFFFFC))) \<and>
           latch w' AND 0x7F000000 = latch w AND 0x7F000000 \<and> space w' = space w)
    \<and> runs (ReadConfigUint32_bdf P b d f r) w (\<lambda>v w'.
           v = space w (MakeConfigAddress b d f r AND 0xFFFFFC) \<and>
           latch w' AND 0x7F000000 = latch w AND 0x7F000000 \<and> space w' = space w)"
  unfolding ReadConfigUint8_bdf_def ReadConfigUint16_bdf_def ReadConfigUint32_bdf_def
  using config_mechanism.ReadConfigUint8_runs [OF assms refl]
    config_mechanism.ReadConfigUint16_runs [OF assms refl]
    config_mechanism.ReadConfigUint32_runs [OF assms refl]
  by blast

text \<open>
  C27. A configuration address holds exactly the four fields it was made from, each cut to
  its width, with the enable bit set and the reserved bits 30 to 24 clear.
\<close>

theorem config_address_fields:
  "Value 23 16 (MakeConfigAddress b d f r) = word_of_int (b mod 256)
   \<and> Value 15 11 (MakeConfigAddress b d f r) = word_of_int (d mod 32)
   \<and> Value 10 8 (MakeConfigAddress b d f r) = word_of_int (f mod 8)
   \<and> Value 7 0 (MakeConfigAddress b d f r) = word_of_int (r mod 256)
   \<and> Test 31 (MakeConfigAddress b d f r)
   \<and> MakeConfigAddress b d f r AND 0x7F000000 = 0"
  using Value_MakeConfigAddress [of b d f r]
  by (simp add: take_bit_eq_mod Test_eq_bit MakeConfigAddress_enable MakeConfigAddress_reserved)


text \<open>
  C39. What move assignment does to the owners, for every pair of live objects: onto another
  object it moves the mark, but an owner that is assigned to forgets its own mark, and an object
  moved onto itself forgets it too, in which case no destructor drops the level any more.
\<close>

theorem move_assign_owners:
  assumes "h i = Some p" and "h j = Some q"
  shows "owners (Pci_move_assign i j h) =
     (if i = j then owners h - {i}
      else if j \<in> owners h then insert i (owners h - {j})
      else owners h - {i})"
  using assms by (rule owners_move_assign)

theorem move_assign_owners_witness:
  "owners (Pci_move_assign 7 7 [7 \<mapsto> \<lparr>iopl_done = True\<rparr>]) = {}
   \<and> owners (Pci_move_assign 1 2 [1 \<mapsto> \<lparr>iopl_done = True\<rparr>, 2 \<mapsto> \<lparr>iopl_done = False\<rparr>]) = {}"
  using move_assign_owners [of "[7 \<mapsto> \<lparr>iopl_done = True\<rparr>]" 7 "\<lparr>iopl_done = True\<rparr>" 7]
    move_assign_owners [of "[1 \<mapsto> \<lparr>iopl_done = True\<rparr>, 2 \<mapsto> \<lparr>iopl_done = False\<rparr>]"
      1 "\<lparr>iopl_done = True\<rparr>" 2 "\<lparr>iopl_done = False\<rparr>"]
  by simp

end
