(* ===== verification/Physical_Memory.thy ===== *)
theory Physical_Memory
  imports Platform
begin

text \<open>
  \<open>pawn/physical_memory.h\<close> and \<open>pawn/physical_memory.cc\<close>: mapping a range of
  physical memory through \<open>/dev/mem\<close>, the raw accesses of 1, 2, 4 and 8 bytes, and the
  destructor.

  The first part of the lemmas describes every path of \<open>Create\<close> and of the destructor in
  terms of the system calls made. The locale \<open>memory_files\<close> then adds what the kernel promises about
  descriptors and mappings, and shows which of them each path leaves behind. The locale
  \<open>byte_memory\<close> says what a plain memory answers to loads and stores of each width
  (little-endian, no side effects) and its lemmas that a read returns what was last written.
\<close>

section \<open>The class\<close>

record PhysicalMemory =
  mem_fd :: int
  mem :: ptr
  length_mem :: "64 word"

definition PhysicalMemory_default :: PhysicalMemory where
  "PhysicalMemory_default = \<lparr>mem_fd = - 1, mem = nullptr, length_mem = 0\<rparr>"

definition PhysicalMemory_dtor :: "'w platform \<Rightarrow> PhysicalMemory \<Rightarrow> ('w, unit) prog" where
  "PhysicalMemory_dtor P this =
     (if mem this \<noteq> nullptr
      then bnd (act (os_munmap P (mem this) (length_mem this))) (\<lambda>_.
           bnd (act (os_close P (mem_fd this))) (\<lambda>_. ret ()))
      else ret ())"

definition PhysicalMemory_Init ::
    "'w platform \<Rightarrow> PhysicalMemory \<Rightarrow> ptr \<Rightarrow> 64 word \<Rightarrow> ('w, status \<times> PhysicalMemory) prog" where
  "PhysicalMemory_Init P this physical_offset len =
     (let this = this\<lparr>length_mem := len\<rparr> in
      bnd (act (os_open P ''/dev/mem'' O_RDWR)) (\<lambda>fd.
      let this = this\<lparr>mem_fd := fd\<rparr> in
      if mem_fd this = - 1
      then ret (FailedPreconditionError
             (''Could not open physical memory file. Make sure this process runs as '' @
              ''root.''), this)
      else
        bnd (act (os_mmap P nullptr (length_mem this) (PROT_READ OR PROT_WRITE) MAP_SHARED
                (mem_fd this) physical_offset)) (\<lambda>a.
        let this = this\<lparr>mem := a\<rparr> in
        if mem this = MAP_FAILED
        then bnd (act (\<lambda>w. (os_strerror_errno P w, w))) (\<lambda>msg.
             ret (FailedPreconditionError (''Could not map physical memory: '' @ msg),
                  this\<lparr>mem := nullptr\<rparr>))
        else ret (OkStatus, this))))"

text \<open>A failed \<open>Init\<close> lets the \<open>unique_ptr\<close> go out of scope: the destructor runs.\<close>

definition PhysicalMemory_Create ::
    "'w platform \<Rightarrow> ptr \<Rightarrow> 64 word \<Rightarrow> ('w, status + PhysicalMemory) prog" where
  "PhysicalMemory_Create P physical_offset len =
     bnd (PhysicalMemory_Init P PhysicalMemory_default physical_offset len) (\<lambda>r.
     if \<not> status_ok (fst r)
     then bnd (PhysicalMemory_dtor P (snd r)) (\<lambda>_. ret (Inl (fst r)))
     else ret (Inr (snd r)))"

text \<open>\<open>reinterpret_cast<uintptr_t>(mem_) + offset\<close>: the \<open>int\<close> offset is sign-extended.\<close>

definition GetAt :: "PhysicalMemory \<Rightarrow> int \<Rightarrow> ptr" where
  "GetAt this offset = mem this + word_of_int offset"

definition ReadUint8 :: "'w platform \<Rightarrow> PhysicalMemory \<Rightarrow> int \<Rightarrow> ('w, 8 word) prog" where
  "ReadUint8 P this offset = act (mem_load8 P (mem this + word_of_int offset))"

definition ReadUint16 :: "'w platform \<Rightarrow> PhysicalMemory \<Rightarrow> int \<Rightarrow> ('w, 16 word) prog" where
  "ReadUint16 P this offset = act (mem_load16 P (mem this + word_of_int offset))"

definition ReadUint32 :: "'w platform \<Rightarrow> PhysicalMemory \<Rightarrow> int \<Rightarrow> ('w, 32 word) prog" where
  "ReadUint32 P this offset = act (mem_load32 P (mem this + word_of_int offset))"

definition ReadUint64 :: "'w platform \<Rightarrow> PhysicalMemory \<Rightarrow> int \<Rightarrow> ('w, 64 word) prog" where
  "ReadUint64 P this offset = act (mem_load64 P (mem this + word_of_int offset))"

definition WriteUint8 :: "'w platform \<Rightarrow> PhysicalMemory \<Rightarrow> int \<Rightarrow> 8 word \<Rightarrow> ('w, unit) prog" where
  "WriteUint8 P this offset v = eff (mem_store8 P (mem this + word_of_int offset) v)"

definition WriteUint16 :: "'w platform \<Rightarrow> PhysicalMemory \<Rightarrow> int \<Rightarrow> 16 word \<Rightarrow> ('w, unit) prog" where
  "WriteUint16 P this offset v = eff (mem_store16 P (mem this + word_of_int offset) v)"

definition WriteUint32 :: "'w platform \<Rightarrow> PhysicalMemory \<Rightarrow> int \<Rightarrow> 32 word \<Rightarrow> ('w, unit) prog" where
  "WriteUint32 P this offset v = eff (mem_store32 P (mem this + word_of_int offset) v)"

definition WriteUint64 :: "'w platform \<Rightarrow> PhysicalMemory \<Rightarrow> int \<Rightarrow> 64 word \<Rightarrow> ('w, unit) prog" where
  "WriteUint64 P this offset v = eff (mem_store64 P (mem this + word_of_int offset) v)"

lemmas access_defs = ReadUint8_def ReadUint16_def ReadUint32_def ReadUint64_def
  WriteUint8_def WriteUint16_def WriteUint32_def WriteUint64_def

section \<open>The paths of Create\<close>

text \<open>The three system calls a \<open>Create\<close> can make, in the order it makes them.\<close>

definition dev_mem_opened :: "'w platform \<Rightarrow> 'w \<Rightarrow> int \<times> 'w" where
  "dev_mem_opened P w = os_open P ''/dev/mem'' O_RDWR w"

definition dev_mem_mapped :: "'w platform \<Rightarrow> ptr \<Rightarrow> 64 word \<Rightarrow> 'w \<Rightarrow> ptr \<times> 'w" where
  "dev_mem_mapped P off len w =
     os_mmap P nullptr len 3 MAP_SHARED (fst (dev_mem_opened P w)) off (snd (dev_mem_opened P w))"

lemma null_is_not_failed [simp]: "nullptr \<noteq> MAP_FAILED" "MAP_FAILED \<noteq> nullptr"
  by (simp_all add: nullptr_def MAP_FAILED_def)

lemma prot_read_write: "PROT_READ OR PROT_WRITE = 3"
  by (simp add: PROT_READ_def PROT_WRITE_def)

lemmas create_defs = PhysicalMemory_Create_def PhysicalMemory_Init_def PhysicalMemory_dtor_def
  PhysicalMemory_default_def status_ok_def Let_def prot_read_write dev_mem_opened_def
  dev_mem_mapped_def

lemma Create_open_fails:
  assumes "fst (dev_mem_opened P w) = - 1"
  shows "PhysicalMemory_Create P off len w =
    Some (Inr (Inl (FailedPreconditionError
      (''Could not open physical memory file. Make sure this process runs as '' @ ''root.''))),
      snd (dev_mem_opened P w))"
  using assms by (simp add: create_defs prog_simps bnd_def)

lemma Create_map_fails:
  assumes "fst (dev_mem_opened P w) \<noteq> - 1" and "fst (dev_mem_mapped P off len w) = MAP_FAILED"
  shows "PhysicalMemory_Create P off len w =
    Some (Inr (Inl (FailedPreconditionError (''Could not map physical memory: '' @
      os_strerror_errno P (snd (dev_mem_mapped P off len w))))),
      snd (dev_mem_mapped P off len w))"
  using assms by (simp add: create_defs prog_simps bnd_def)

lemma Create_succeeds:
  assumes "fst (dev_mem_opened P w) \<noteq> - 1" and "fst (dev_mem_mapped P off len w) \<noteq> MAP_FAILED"
  shows "PhysicalMemory_Create P off len w =
    Some (Inr (Inr \<lparr>mem_fd = fst (dev_mem_opened P w), mem = fst (dev_mem_mapped P off len w),
      length_mem = len\<rparr>), snd (dev_mem_mapped P off len w))"
  using assms by (simp add: create_defs prog_simps bnd_def)

lemma dtor_apply:
  "PhysicalMemory_dtor P m w =
    Some (Inr (), if mem m = nullptr then w
      else snd (os_close P (mem_fd m) (snd (os_munmap P (mem m) (length_mem m) w))))"
  by (simp add: PhysicalMemory_dtor_def prog_simps)

section \<open>Descriptors and mappings\<close>

text \<open>
  \<open>fds\<close> are the descriptors the process has open and \<open>maps\<close> its mappings, each
  with its length. The laws are those of the manual pages: a successful \<open>open\<close> returns a
  descriptor that was not in use, a successful \<open>mmap\<close> without an address hint returns a
  new, non-null mapping, a failed call changes nothing, and \<open>close\<close> and \<open>munmap\<close>
  remove what they are given.
\<close>

locale memory_files =
  fixes P :: "'w platform" and fds :: "'w \<Rightarrow> int set" and maps :: "'w \<Rightarrow> (ptr \<times> 64 word) set"
  assumes open_ok: "fst (os_open P f n w) \<noteq> - 1 \<Longrightarrow>
      fst (os_open P f n w) \<notin> fds w \<and>
      fds (snd (os_open P f n w)) = insert (fst (os_open P f n w)) (fds w)"
    and open_err: "fst (os_open P f n w) = - 1 \<Longrightarrow> fds (snd (os_open P f n w)) = fds w"
    and open_maps: "maps (snd (os_open P f n w)) = maps w"
    and mmap_ok: "fst (os_mmap P nullptr k pr fl d off w) \<noteq> MAP_FAILED \<Longrightarrow>
      fst (os_mmap P nullptr k pr fl d off w) \<noteq> nullptr \<and>
      (fst (os_mmap P nullptr k pr fl d off w), k) \<notin> maps w \<and>
      maps (snd (os_mmap P nullptr k pr fl d off w)) =
        insert (fst (os_mmap P nullptr k pr fl d off w), k) (maps w)"
    and mmap_err: "fst (os_mmap P nullptr k pr fl d off w) = MAP_FAILED \<Longrightarrow>
      maps (snd (os_mmap P nullptr k pr fl d off w)) = maps w"
    and mmap_fds: "fds (snd (os_mmap P nullptr k pr fl d off w)) = fds w"
    and munmap: "maps (snd (os_munmap P a k w)) = maps w - {(a, k)}"
      "fds (snd (os_munmap P a k w)) = fds w"
    and close_fd: "fds (snd (os_close P d w)) = fds w - {d}"
      "maps (snd (os_close P d w)) = maps w"
begin

lemmas file_laws = open_ok open_err open_maps mmap_ok mmap_err mmap_fds munmap close_fd

lemma mapped_mem:
  assumes "fst (dev_mem_mapped P off len w) \<noteq> MAP_FAILED"
  shows "fst (dev_mem_mapped P off len w) \<noteq> nullptr"
  using assms by (simp add: dev_mem_mapped_def mmap_ok)

lemma opened_fresh: "fst (dev_mem_opened P w) \<noteq> - 1 \<Longrightarrow> fst (dev_mem_opened P w) \<notin> fds w"
  by (simp add: dev_mem_opened_def open_ok)

lemma Create_leaves:
  assumes "fst (dev_mem_opened P w) \<noteq> - 1"
  shows "fds (snd (dev_mem_mapped P off len w)) = insert (fst (dev_mem_opened P w)) (fds w)"
    and "fst (dev_mem_mapped P off len w) \<noteq> MAP_FAILED \<Longrightarrow>
      maps (snd (dev_mem_mapped P off len w)) =
        insert (fst (dev_mem_mapped P off len w), len) (maps w) \<and>
      (fst (dev_mem_mapped P off len w), len) \<notin> maps w"
    and "fst (dev_mem_mapped P off len w) = MAP_FAILED \<Longrightarrow>
      maps (snd (dev_mem_mapped P off len w)) = maps w"
  using assms mmap_ok [of len 3 MAP_SHARED _ off "snd (os_open P ''/dev/mem'' O_RDWR w)"]
  by (auto simp: dev_mem_mapped_def dev_mem_opened_def file_laws)

lemma Create_dtor_runs:
  assumes "PhysicalMemory_Create P off len w = Some (Inr (Inr m), w')"
  shows "runs (PhysicalMemory_dtor P m) w' (\<lambda>_ w''. fds w'' = fds w \<and> maps w'' = maps w)"
proof -
  have ok: "fst (dev_mem_opened P w) \<noteq> - 1" "fst (dev_mem_mapped P off len w) \<noteq> MAP_FAILED"
    using assms Create_open_fails [of P w off len] Create_map_fails [of P w off len] by auto
  with assms have "m = \<lparr>mem_fd = fst (dev_mem_opened P w),
      mem = fst (dev_mem_mapped P off len w), length_mem = len\<rparr>"
    and "w' = snd (dev_mem_mapped P off len w)"
    by (simp_all add: Create_succeeds)
  with ok mapped_mem [OF ok(2)] opened_fresh [OF ok(1)] Create_leaves [OF ok(1), of off len] show ?thesis
    by (intro runsI [OF dtor_apply]) (auto simp: munmap close_fd)
qed

end

section \<open>Plain memory\<close>

text \<open>
  \<open>ram\<close> is the byte contents of the address space and \<open>plain\<close> the addresses that
  behave as ordinary memory. An access of several bytes covers consecutive addresses, lowest
  byte first.
\<close>

definition span :: "ptr \<Rightarrow> nat \<Rightarrow> ptr list" where
  "span a n = map (\<lambda>i. a + of_nat i) [0..<n]"

fun put_bytes :: "ptr list \<Rightarrow> 8 word list \<Rightarrow> (ptr \<Rightarrow> 8 word) \<Rightarrow> (ptr \<Rightarrow> 8 word)" where
  "put_bytes (a # as) (b # bs) f = (put_bytes as bs f)(a := b)"
| "put_bytes _ _ f = f"

lemma put_bytes_other: "a \<notin> set as \<Longrightarrow> put_bytes as bs f a = f a"
  by (induction as bs f rule: put_bytes.induct) auto

lemma map_put_bytes:
  "distinct as \<Longrightarrow> length as = length bs \<Longrightarrow> map (put_bytes as bs f) as = bs"
proof (induction as bs f rule: put_bytes.induct)
  case (1 a as b bs f)
  then have "map ((put_bytes as bs f)(a := b)) as = map (put_bytes as bs f) as"
    by (intro map_cong) auto
  with 1 show ?case by (simp del: fun_upd_apply) (simp add: fun_upd_def)
qed auto

lemma distinct_span: "n \<le> 8 \<Longrightarrow> distinct (span a n)"
proof -
  assume n: "n \<le> 8"
  have "inj_on (\<lambda>i. a + of_nat i :: ptr) {0..<n}"
  proof (rule inj_onI)
    fix i j assume ij: "i \<in> {0..<n}" "j \<in> {0..<n}" "a + of_nat i = a + of_nat j"
    then have "unat (of_nat i :: ptr) = unat (of_nat j :: ptr)" by simp
    moreover have "i < 2 ^ 64" "j < 2 ^ 64" using ij(1,2) n by simp_all
    ultimately show "i = j" by (simp add: unsigned_of_nat take_bit_nat_eq_self)
  qed
  then show ?thesis by (simp add: span_def distinct_map)
qed

lemma span_subset: "n \<le> k \<Longrightarrow> set (span a n) \<subseteq> set (span a k)"
  by (auto simp: span_def)

lemma span_start: "0 < n \<Longrightarrow> a \<in> set (span a n)"
  by (force simp: span_def image_iff)

lemma length_span [simp]: "length (span a n) = n"
  by (simp add: span_def)

locale byte_memory =
  fixes P :: "'w platform" and ram :: "'w \<Rightarrow> ptr \<Rightarrow> 8 word" and plain :: "ptr set"
  assumes loads: "a \<in> plain \<Longrightarrow> mem_load8 P a w = (ram w a, w)"
      "set (span a 2) \<subseteq> plain \<Longrightarrow> mem_load16 P a w = (le_word (map (ram w) (span a 2)), w)"
      "set (span a 4) \<subseteq> plain \<Longrightarrow> mem_load32 P a w = (le_word (map (ram w) (span a 4)), w)"
      "set (span a 8) \<subseteq> plain \<Longrightarrow> mem_load64 P a w = (le_word (map (ram w) (span a 8)), w)"
    and stores: "a \<in> plain \<Longrightarrow> ram (mem_store8 P a v8 w) = (ram w)(a := v8)"
      "set (span a 2) \<subseteq> plain \<Longrightarrow>
        ram (mem_store16 P a v16 w) = put_bytes (span a 2) (le_bytes v16) (ram w)"
      "set (span a 4) \<subseteq> plain \<Longrightarrow>
        ram (mem_store32 P a v32 w) = put_bytes (span a 4) (le_bytes v32) (ram w)"
      "set (span a 8) \<subseteq> plain \<Longrightarrow>
        ram (mem_store64 P a v64 w) = put_bytes (span a 8) (le_bytes v64) (ram w)"
begin

lemma write_read:
  "GetAt m off \<in> plain \<Longrightarrow>
     runs (bnd (WriteUint8 P m off v8) (\<lambda>_. ReadUint8 P m off)) w (\<lambda>v _. v = v8)"
  "set (span (GetAt m off) 2) \<subseteq> plain \<Longrightarrow>
     runs (bnd (WriteUint16 P m off v16) (\<lambda>_. ReadUint16 P m off)) w (\<lambda>v _. v = v16)"
  "set (span (GetAt m off) 4) \<subseteq> plain \<Longrightarrow>
     runs (bnd (WriteUint32 P m off v32) (\<lambda>_. ReadUint32 P m off)) w (\<lambda>v _. v = v32)"
  "set (span (GetAt m off) 8) \<subseteq> plain \<Longrightarrow>
     runs (bnd (WriteUint64 P m off v64) (\<lambda>_. ReadUint64 P m off)) w (\<lambda>v _. v = v64)"
  by (simp_all add: access_defs GetAt_def loads stores map_put_bytes distinct_span)

end

section \<open>Properties\<close>

text \<open>
  A mapping that \<open>Create\<close> returned is released completely by the destructor: the
  descriptor is closed and the range unmapped, and nothing else of the process's descriptors
  and mappings is touched.
\<close>

theorem create_then_destroy_releases:
  assumes "memory_files P fds maps"
    and "PhysicalMemory_Create P off len w = Some (Inr (Inr m), w')"
  shows "runs (PhysicalMemory_dtor P m) w' (\<lambda>_ w''. fds w'' = fds w \<and> maps w'' = maps w)"
  using assms by (rule memory_files.Create_dtor_runs)

text \<open>
  C38. When the kernel opens \<open>/dev/mem\<close> but refuses to map it, \<open>Create\<close> returns the
  error and leaves one more open descriptor behind than there was before: the destructor's test
  of \<open>mem_\<close> guards the \<open>close\<close> too.
\<close>

theorem failed_map_leaks_descriptor:
  assumes "memory_files P fds maps"
    and "fst (dev_mem_opened P w) \<noteq> - 1"
    and "fst (dev_mem_mapped P off len w) = MAP_FAILED"
  shows "runs (PhysicalMemory_Create P off len) w (\<lambda>r w'.
     r = Inl (FailedPreconditionError (''Could not map physical memory: '' @
           os_strerror_errno P w')) \<and>
     fds w' = insert (fst (dev_mem_opened P w)) (fds w) \<and> fst (dev_mem_opened P w) \<notin> fds w \<and>
     maps w' = maps w)"
  using memory_files.Create_leaves [OF assms(1,2), of off len]
    memory_files.opened_fresh [OF assms(1,2)] assms(3)
  by (simp add: runs_def Create_map_fails [OF assms(2,3)])

text \<open>
  C30. On plain memory, reading back at the offset just written returns the value, at every
  access width.
\<close>

theorem write_then_read:
  assumes "byte_memory P ram plain" and "set (span (GetAt m off) 8) \<subseteq> plain"
  shows "runs (bnd (WriteUint8 P m off v8) (\<lambda>_. ReadUint8 P m off)) w (\<lambda>v _. v = v8)
    \<and> runs (bnd (WriteUint16 P m off v16) (\<lambda>_. ReadUint16 P m off)) w (\<lambda>v _. v = v16)
    \<and> runs (bnd (WriteUint32 P m off v32) (\<lambda>_. ReadUint32 P m off)) w (\<lambda>v _. v = v32)
    \<and> runs (bnd (WriteUint64 P m off v64) (\<lambda>_. ReadUint64 P m off)) w (\<lambda>v _. v = v64)"
proof -
  have "GetAt m off \<in> plain" "set (span (GetAt m off) 2) \<subseteq> plain"
    "set (span (GetAt m off) 4) \<subseteq> plain"
    using assms(2) span_start [of 8] span_subset [of 2 8] span_subset [of 4 8] by fastforce+
  with assms show ?thesis by (blast intro: byte_memory.write_read)
qed

end
