(* ===== verification/Chipset_Types.thy ===== *)
theory Chipset_Types
  imports Pci Physical_Memory
begin

text \<open>
  \<open>pawn/chipset.h\<close>: the enumerations, the register structures and the abstract class
  \<open>Chipset\<close>.

  A bit-field of n bits is an \<open>n word\<close>, so that assigning to it keeps the low n bits as
  in C++; a one-bit \<open>bool\<close> is a \<open>bool\<close>. Field names that occur in two structures
  carry the name of the register in front in the second. The object state of a
  chipset is the record \<open>Chipset\<close>: its dynamic class, the probed hardware id and the
  mapping owned by \<open>rcrb_mem_\<close>. The pointer \<open>pci_\<close> is not kept: the functions
  called through it use no member of the \<open>Pci\<close> object. The pure virtual functions are the record
  \<open>Chipset_virtuals\<close>, through which the code of the base class reaches the registers.
\<close>

section \<open>Hardware identification\<close>

record HardwareId =
  vendor :: "16 word"
  device :: "16 word"
  revision :: "8 word"

section \<open>Enumerations\<close>

datatype SpiReadConfiguration =
    kSrcNoPrefetchButCache | kSrcNoPrefetchNoCache | kSrcPrefetchAndCache | kSrcReserved

datatype BootBiosStraps = kBbsLpc | kBbsReserved | kBbsPci | kBbsSpi

datatype BlockSectorEraseSize =
    kBerase256Kb | kBerase4Kb | kBerase8KbOrReserved | kBerase64Kb

datatype FlashCycle = kFcycleRead | kFcycleReserved | kFcycleWrite | kFcycleBlockErase

datatype SpiCycleFrequency = kScf20Mhz | kScf33Mhz

text \<open>
  \<open>static_cast\<close> from and to the integer values of the enumerators. The first four types
  have an enumerator for every two-bit value and are only cast from two-bit fields; a
  \<open>SpiCycleFrequency\<close> has the values 0 and 1 only, and casting any other value to it is
  undefined.
\<close>

definition cast_SpiReadConfiguration :: "nat \<Rightarrow> SpiReadConfiguration" where
  "cast_SpiReadConfiguration n =
     (if n = 0 then kSrcNoPrefetchButCache else if n = 1 then kSrcNoPrefetchNoCache
      else if n = 2 then kSrcPrefetchAndCache else kSrcReserved)"

definition cast_BootBiosStraps :: "nat \<Rightarrow> BootBiosStraps" where
  "cast_BootBiosStraps n =
     (if n = 0 then kBbsLpc else if n = 1 then kBbsReserved
      else if n = 2 then kBbsPci else kBbsSpi)"

fun BootBiosStraps_val :: "BootBiosStraps \<Rightarrow> nat" where
  "BootBiosStraps_val kBbsLpc = 0"
| "BootBiosStraps_val kBbsReserved = 1"
| "BootBiosStraps_val kBbsPci = 2"
| "BootBiosStraps_val kBbsSpi = 3"

definition cast_BlockSectorEraseSize :: "nat \<Rightarrow> BlockSectorEraseSize" where
  "cast_BlockSectorEraseSize n =
     (if n = 0 then kBerase256Kb else if n = 1 then kBerase4Kb
      else if n = 2 then kBerase8KbOrReserved else kBerase64Kb)"

fun BlockSectorEraseSize_val :: "BlockSectorEraseSize \<Rightarrow> 32 word" where
  "BlockSectorEraseSize_val kBerase256Kb = 0"
| "BlockSectorEraseSize_val kBerase4Kb = 1"
| "BlockSectorEraseSize_val kBerase8KbOrReserved = 2"
| "BlockSectorEraseSize_val kBerase64Kb = 3"

definition cast_FlashCycle :: "nat \<Rightarrow> FlashCycle" where
  "cast_FlashCycle n =
     (if n = 0 then kFcycleRead else if n = 1 then kFcycleReserved
      else if n = 2 then kFcycleWrite else kFcycleBlockErase)"

fun FlashCycle_val :: "FlashCycle \<Rightarrow> 32 word" where
  "FlashCycle_val kFcycleRead = 0"
| "FlashCycle_val kFcycleReserved = 1"
| "FlashCycle_val kFcycleWrite = 2"
| "FlashCycle_val kFcycleBlockErase = 3"

definition cast_SpiCycleFrequency :: "nat \<Rightarrow> ('w, SpiCycleFrequency) prog" where
  "cast_SpiCycleFrequency n =
     (if n = 0 then ret kScf20Mhz else if n = 1 then ret kScf33Mhz
      else die (UndefinedBehaviour ''static_cast out of the range of SpiCycleFrequency''))"

fun SpiCycleFrequency_val :: "SpiCycleFrequency \<Rightarrow> 32 word" where
  "SpiCycleFrequency_val kScf20Mhz = 0"
| "SpiCycleFrequency_val kScf33Mhz = 1"

section \<open>Register structures\<close>

record BiosCntl =
  smm_bios_write_protect_disable :: bool
  top_swap_status :: bool
  spi_read_configuration :: SpiReadConfiguration
  bios_lock_enable :: bool
  bios_write_enable :: bool

record Rcba =
  base_address :: "32 word"
  rcba_enable :: bool

record Gcs =
  boot_bios_straps :: BootBiosStraps
  bios_interface_lockdown :: bool

record Bfpr =
  bfpr_reserved31 :: "3 word"
  bios_flash_primary_region_limit :: "32 word"
  bfpr_reserved15 :: "3 word"
  bios_flash_primary_region_base :: "32 word"

record Hsfs =
  flash_configuration_lockdown :: bool
  flash_descriptor_valid :: bool
  flash_descriptor_override_pinstrap_status :: bool
  reserved12 :: "7 word"
  spi_cycle_in_progress :: bool
  blocksector_erase_size :: BlockSectorEraseSize
  access_error_log :: bool
  flash_cycle_error :: bool
  flash_cycle_done :: bool

record Hsfc =
  flash_spi_smi_enable :: bool
  hsfc_reserved14 :: bool
  flash_data_byte_count :: "6 word"
  hsfc_reserved7 :: "5 word"
  flash_cycle :: FlashCycle
  flash_cycle_go :: bool

record Faddr =
  reserved25 :: "7 word"
  flash_linear_address :: "25 word"

record Frap =
  bios_master_write_access_grant :: "8 word"
  bios_master_read_access_grant :: "8 word"
  bios_region_write_access :: "8 word"
  bios_region_read_access :: "8 word"

record FregN =
  fregn_reserved31 :: "3 word"
  region_limit :: "13 word"
  fregn_reserved15 :: "3 word"
  region_base :: "13 word"

record PrN =
  write_protection_enable :: bool
  reserved30 :: "2 word"
  protected_range_limit :: "13 word"
  read_protection_enable :: bool
  prn_reserved14 :: "2 word"
  protected_range_base :: "13 word"

record Ssfs =
  ssfs_reserved7 :: "3 word"
  ssfs_access_error_log :: bool
  ssfs_flash_cycle_error :: bool
  cycle_done_status :: bool
  reserved1 :: bool
  ssfs_spi_cycle_in_progress :: bool

record Ssfc =
  reserved23 :: "5 word"
  spi_cycle_frequency :: SpiCycleFrequency
  spi_smi_enable :: bool
  data_cycle :: bool
  data_byte_count :: "6 word"
  ssfc_reserved7 :: bool
  cycle_opcode_pointer :: "3 word"
  sequence_prefix_opcode_pointer :: bool
  atomic_cycle_sequence :: bool
  spi_cycle_go :: bool
  reserved0 :: bool

section \<open>The class Chipset\<close>

datatype chipset_class =
    IntelIch8Chipset | IntelIch9Chipset | IntelIch10Chipset | Intel6SeriesChipset
  | Intel7SeriesChipset | Intel8SeriesChipset | Intel9SeriesChipset

text \<open>
  The class a class derives from directly; the ICH8 derives from the abstract \<open>Chipset\<close>. The
  classes form a chain, so they are a linear order: \<open>k \<le> k'\<close> when \<open>k'\<close> is
  \<open>k\<close> or derives from it.
\<close>

fun base_class :: "chipset_class \<Rightarrow> chipset_class option" where
  "base_class IntelIch8Chipset = None"
| "base_class IntelIch9Chipset = Some IntelIch8Chipset"
| "base_class IntelIch10Chipset = Some IntelIch9Chipset"
| "base_class Intel6SeriesChipset = Some IntelIch10Chipset"
| "base_class Intel7SeriesChipset = Some Intel6SeriesChipset"
| "base_class Intel8SeriesChipset = Some Intel7SeriesChipset"
| "base_class Intel9SeriesChipset = Some Intel8SeriesChipset"

fun depth :: "chipset_class \<Rightarrow> nat" where
  "depth IntelIch8Chipset = 0"
| "depth IntelIch9Chipset = 1"
| "depth IntelIch10Chipset = 2"
| "depth Intel6SeriesChipset = 3"
| "depth Intel7SeriesChipset = 4"
| "depth Intel8SeriesChipset = 5"
| "depth Intel9SeriesChipset = 6"

lemma depth_inject: "depth k = depth k' \<Longrightarrow> k = k'"
  by (cases k; cases k'; simp)

lemma depth_base: "base_class k = Some k' \<Longrightarrow> depth k = Suc (depth k')"
  by (cases k; simp add: One_nat_def; elim subst; simp add: One_nat_def)

instantiation chipset_class :: linorder
begin

definition less_eq_chipset_class :: "chipset_class \<Rightarrow> chipset_class \<Rightarrow> bool" where
  "k \<le> k' = (depth k \<le> depth k')"

definition less_chipset_class :: "chipset_class \<Rightarrow> chipset_class \<Rightarrow> bool" where
  "k < k' = (depth k < depth k')"

instance
  by standard (auto simp: less_eq_chipset_class_def less_chipset_class_def depth_inject)

end

lemmas class_order = less_eq_chipset_class_def less_chipset_class_def

record Chipset =
  chipset_cls :: chipset_class
  hardware_id :: HardwareId
  rcrb_mem_ptr :: "PhysicalMemory option"

record 'w Chipset_virtuals =
  v_ReadBiosCntlRegister :: "('w, BiosCntl) prog"
  v_ReadRcbaRegister :: "('w, Rcba) prog"
  v_ReadGcsRegister :: "('w, Gcs) prog"
  v_ReadBfprRegister :: "('w, Bfpr) prog"
  v_ReadHsfsRegister :: "('w, Hsfs) prog"
  v_ReadHsfcRegister :: "('w, Hsfc) prog"
  v_ReadFaddrRegister :: "('w, Faddr) prog"
  v_ReadFdataNRegister :: "int \<Rightarrow> ('w, 32 word) prog"
  v_ReadFrapRegister :: "('w, Frap) prog"
  v_ReadFregNRegister :: "int \<Rightarrow> ('w, FregN) prog"
  v_ReadPrNRegister :: "int \<Rightarrow> ('w, PrN) prog"
  v_ReadSsfsRegister :: "('w, Ssfs) prog"
  v_ReadSsfcRegister :: "('w, Ssfc) prog"
  v_WriteHsfsRegister :: "Hsfs \<Rightarrow> ('w, unit) prog"
  v_WriteHsfcRegister :: "Hsfc \<Rightarrow> ('w, unit) prog"
  v_WriteFaddrRegister :: "Faddr \<Rightarrow> ('w, unit) prog"
  v_WriteSsfsRegister :: "Ssfs \<Rightarrow> ('w, unit) prog"
  v_WriteSsfcRegister :: "Ssfc \<Rightarrow> ('w, unit) prog"

text \<open>The constructor the deriving classes use, and the accessor that insists on a mapping.\<close>

definition Chipset_ctor :: "chipset_class \<Rightarrow> HardwareId \<Rightarrow> Chipset" where
  "Chipset_ctor k probed_id = \<lparr>chipset_cls = k, hardware_id = probed_id, rcrb_mem_ptr = None\<rparr>"

definition rcrb_mem :: "Chipset \<Rightarrow> ('w, PhysicalMemory) prog" where
  "rcrb_mem c =
     (case rcrb_mem_ptr c of
        None \<Rightarrow> die (LogFatal ''Call MapRootComplex() first.'')
      | Some m \<Rightarrow> ret m)"

lemma rcrb_mem_Some [simp]: "rcrb_mem_ptr c = Some m \<Longrightarrow> rcrb_mem c = ret m"
  by (simp add: rcrb_mem_def)

lemma cast_val [simp]:
  shows "cast_BlockSectorEraseSize (unat (BlockSectorEraseSize_val e)) = e"
    and "cast_FlashCycle (unat (FlashCycle_val f)) = f"
    and "cast_BootBiosStraps (BootBiosStraps_val b) = b"
proof -
  show "cast_BlockSectorEraseSize (unat (BlockSectorEraseSize_val e)) = e"
    by (cases e) (simp_all add: cast_BlockSectorEraseSize_def)
  show "cast_FlashCycle (unat (FlashCycle_val f)) = f"
    by (cases f) (simp_all add: cast_FlashCycle_def)
  show "cast_BootBiosStraps (BootBiosStraps_val b) = b"
    by (cases b) (simp_all add: cast_BootBiosStraps_def)
qed

lemma less_4_cases: "n < 4 \<Longrightarrow> n = 0 \<or> n = 1 \<or> n = 2 \<or> n = (3 :: nat)"
  by auto

lemma val_cast:
  "n < 4 \<Longrightarrow> BlockSectorEraseSize_val (cast_BlockSectorEraseSize n) = of_nat n"
  "n < 4 \<Longrightarrow> FlashCycle_val (cast_FlashCycle n) = of_nat n"
  "n < 4 \<Longrightarrow> BootBiosStraps_val (cast_BootBiosStraps n) = n"
  by (drule less_4_cases; elim disjE; simp add: cast_BlockSectorEraseSize_def
      cast_FlashCycle_def cast_BootBiosStraps_def)+

end
