(* ===== verification/Chipset_Ich8.thy ===== *)
theory Chipset_Ich8
  imports Chipset_Types
begin

text \<open>
  \<open>pawn/chipset_intel_ich8.h\<close> and \<open>pawn/chipset_intel_ich8.cc\<close>: the register file of
  the ICH8, which every later class inherits. For each register there is the structure read
  from its bits (\<open>*_of\<close>), the bits written for a structure (\<open>*_bits\<close>), and the
  access function that reaches the register through the mapped root complex at the offset
  given by the virtual function \<open>SpiBar\<close>.

  The lemmas characterise the structures and bit patterns bit by bit and give every access
  function its equation on a mapped chipset. The properties are the register round trips that
  hold, and exact descriptions of the ones that do not.
\<close>

section \<open>Register addresses\<close>

definition kBiosCntlRegister :: "32 word" where
  "kBiosCntlRegister = MakeConfigAddress 0x00 31 0 0xDC"

definition kRcbaRegister :: "32 word" where
  "kRcbaRegister = MakeConfigAddress 0x00 31 0 0xF0"

definition kGcsRegister :: "32 word" where "kGcsRegister = 0x3410"

definition kBfprRegisterOffset :: int where "kBfprRegisterOffset = 0x00"
definition kHsfsRegisterOffset :: int where "kHsfsRegisterOffset = 0x04"
definition kHsfcRegisterOffset :: int where "kHsfcRegisterOffset = 0x06"
definition kFaddrRegisterOffset :: int where "kFaddrRegisterOffset = 0x08"
definition kFdata0RegisterOffset :: int where "kFdata0RegisterOffset = 0x10"
definition kFrapRegisterOffset :: int where "kFrapRegisterOffset = 0x50"
definition kFreg0RegisterOffset :: int where "kFreg0RegisterOffset = 0x54"
definition kPr0RegisterOffset :: int where "kPr0RegisterOffset = 0x74"
definition kSsfsRegisterOffset :: int where "kSsfsRegisterOffset = 0x90"
definition kSsfcRegisterOffset :: int where "kSsfcRegisterOffset = 0x91"

text \<open>
  The virtual \<open>SpiBar\<close>: the ICH8 has its own, the ICH9 overrides it and all later classes
  inherit that. The \<open>int\<close> sum is converted to the \<open>uint16_t\<close> result.
\<close>

definition Ich8_SpiBar :: "int \<Rightarrow> ('w, 16 word) prog" where
  "Ich8_SpiBar offset = bnd (c_int (0x3020 + offset)) (\<lambda>i. ret (word_of_int i))"

definition Ich9_SpiBar :: "int \<Rightarrow> ('w, 16 word) prog" where
  "Ich9_SpiBar offset = bnd (c_int (0x3800 + offset)) (\<lambda>i. ret (word_of_int i))"

definition SpiBar :: "Chipset \<Rightarrow> int \<Rightarrow> ('w, 16 word) prog" where
  "SpiBar c offset =
     (case chipset_cls c of
        IntelIch8Chipset \<Rightarrow> Ich8_SpiBar offset
      | _ \<Rightarrow> Ich9_SpiBar offset)"

section \<open>Registers in PCI configuration space\<close>

definition Ich8_BiosCntl_of :: "8 word \<Rightarrow> BiosCntl" where
  "Ich8_BiosCntl_of bios_cntl =
     \<lparr>smm_bios_write_protect_disable = False,
      top_swap_status = Test 4 bios_cntl,
      spi_read_configuration = cast_SpiReadConfiguration (unat (Value 3 2 bios_cntl)),
      bios_lock_enable = Test 1 bios_cntl,
      bios_write_enable = Test 0 bios_cntl\<rparr>"

definition Ich8_ReadBiosCntlRegister :: "'w platform \<Rightarrow> ('w, BiosCntl) prog" where
  "Ich8_ReadBiosCntlRegister P =
     bnd (ReadConfigUint8 P kBiosCntlRegister) (\<lambda>bios_cntl. ret (Ich8_BiosCntl_of bios_cntl))"

definition Rcba_of :: "32 word \<Rightarrow> Rcba" where
  "Rcba_of rcba = \<lparr>base_address = Raw 31 14 rcba, rcba_enable = Test 0 rcba\<rparr>"

definition ReadRcbaRegister :: "'w platform \<Rightarrow> ('w, Rcba) prog" where
  "ReadRcbaRegister P = bnd (ReadConfigUint32 P kRcbaRegister) (\<lambda>rcba. ret (Rcba_of rcba))"

section \<open>Registers in the root complex\<close>

definition Ich8_Gcs_of :: "32 word \<Rightarrow> Gcs" where
  "Ich8_Gcs_of gcs =
     \<lparr>boot_bios_straps = [kBbsSpi, kBbsSpi, kBbsPci, kBbsLpc] ! unat (Value 11 10 gcs),
      bios_interface_lockdown = Test 0 gcs\<rparr>"

definition Ich8_ReadGcsRegister :: "'w platform \<Rightarrow> Chipset \<Rightarrow> ('w, Gcs) prog" where
  "Ich8_ReadGcsRegister P c =
     bnd (rcrb_mem c) (\<lambda>m.
     bnd (ReadUint32 P m (uint kGcsRegister)) (\<lambda>gcs. ret (Ich8_Gcs_of gcs)))"

text \<open>Reading and writing at a register offset of the SPI block, one function per width.\<close>

definition spi_read8 :: "'w platform \<Rightarrow> Chipset \<Rightarrow> int \<Rightarrow> ('w, 8 word) prog" where
  "spi_read8 P c off =
     bnd (rcrb_mem c) (\<lambda>m. bnd (SpiBar c off) (\<lambda>a. ReadUint8 P m (uint a)))"

definition spi_read16 :: "'w platform \<Rightarrow> Chipset \<Rightarrow> int \<Rightarrow> ('w, 16 word) prog" where
  "spi_read16 P c off =
     bnd (rcrb_mem c) (\<lambda>m. bnd (SpiBar c off) (\<lambda>a. ReadUint16 P m (uint a)))"

definition spi_read32 :: "'w platform \<Rightarrow> Chipset \<Rightarrow> int \<Rightarrow> ('w, 32 word) prog" where
  "spi_read32 P c off =
     bnd (rcrb_mem c) (\<lambda>m. bnd (SpiBar c off) (\<lambda>a. ReadUint32 P m (uint a)))"

definition spi_write8 :: "'w platform \<Rightarrow> Chipset \<Rightarrow> int \<Rightarrow> 32 word \<Rightarrow> ('w, unit) prog" where
  "spi_write8 P c off v =
     bnd (rcrb_mem c) (\<lambda>m. bnd (SpiBar c off) (\<lambda>a. WriteUint8 P m (uint a) (ucast v)))"

definition spi_write16 :: "'w platform \<Rightarrow> Chipset \<Rightarrow> int \<Rightarrow> 32 word \<Rightarrow> ('w, unit) prog" where
  "spi_write16 P c off v =
     bnd (rcrb_mem c) (\<lambda>m. bnd (SpiBar c off) (\<lambda>a. WriteUint16 P m (uint a) (ucast v)))"

definition spi_write32 :: "'w platform \<Rightarrow> Chipset \<Rightarrow> int \<Rightarrow> 32 word \<Rightarrow> ('w, unit) prog" where
  "spi_write32 P c off v =
     bnd (rcrb_mem c) (\<lambda>m. bnd (SpiBar c off) (\<lambda>a. WriteUint32 P m (uint a) v))"

definition Bfpr_of :: "32 word \<Rightarrow> Bfpr" where
  "Bfpr_of bfpr =
     \<lparr>bfpr_reserved31 = ucast (Value 31 29 bfpr),
      bios_flash_primary_region_limit = Set 24 12 (Value 28 16 bfpr),
      bfpr_reserved15 = ucast (Value 15 13 bfpr),
      bios_flash_primary_region_base = Set 24 12 (Value 12 0 bfpr)\<rparr>"

definition ReadBfprRegister :: "'w platform \<Rightarrow> Chipset \<Rightarrow> ('w, Bfpr) prog" where
  "ReadBfprRegister P c =
     bnd (spi_read32 P c kBfprRegisterOffset) (\<lambda>bfpr. ret (Bfpr_of bfpr))"

definition Hsfs_of :: "16 word \<Rightarrow> Hsfs" where
  "Hsfs_of hsfs =
     \<lparr>flash_configuration_lockdown = Test 15 hsfs,
      flash_descriptor_valid = Test 14 hsfs,
      flash_descriptor_override_pinstrap_status = Test 13 hsfs,
      reserved12 = ucast (Value 12 6 hsfs),
      spi_cycle_in_progress = Test 5 hsfs,
      blocksector_erase_size = cast_BlockSectorEraseSize (unat (Value 4 3 hsfs)),
      access_error_log = Test 2 hsfs,
      flash_cycle_error = Test 1 hsfs,
      flash_cycle_done = Test 0 hsfs\<rparr>"

definition ReadHsfsRegister :: "'w platform \<Rightarrow> Chipset \<Rightarrow> ('w, Hsfs) prog" where
  "ReadHsfsRegister P c =
     bnd (spi_read16 P c kHsfsRegisterOffset) (\<lambda>hsfs. ret (Hsfs_of hsfs))"

definition Hsfs_bits :: "Hsfs \<Rightarrow> 32 word" where
  "Hsfs_bits hsfs =
     Set 15 15 (of_bool (flash_configuration_lockdown hsfs)) OR
     Set 14 14 (of_bool (flash_descriptor_valid hsfs)) OR
     Set 13 13 (of_bool (flash_descriptor_override_pinstrap_status hsfs)) OR
     Set 12 6 (ucast (reserved12 hsfs)) OR
     Set 5 5 (of_bool (spi_cycle_in_progress hsfs)) OR
     Set 4 4 (BlockSectorEraseSize_val (blocksector_erase_size hsfs)) OR
     Set 2 2 (of_bool (access_error_log hsfs)) OR
     Set 1 1 (of_bool (flash_cycle_error hsfs)) OR
     Set 0 0 (of_bool (flash_cycle_done hsfs))"

definition WriteHsfsRegister :: "'w platform \<Rightarrow> Chipset \<Rightarrow> Hsfs \<Rightarrow> ('w, unit) prog" where
  "WriteHsfsRegister P c hsfs = spi_write16 P c kHsfsRegisterOffset (Hsfs_bits hsfs)"

definition Hsfc_of :: "16 word \<Rightarrow> Hsfc" where
  "Hsfc_of hsfc =
     \<lparr>flash_spi_smi_enable = Test 15 hsfc,
      hsfc_reserved14 = Test 14 hsfc,
      flash_data_byte_count = ucast (Value 13 8 hsfc),
      hsfc_reserved7 = ucast (Value 7 3 hsfc),
      flash_cycle = cast_FlashCycle (unat (Value 2 1 hsfc)),
      flash_cycle_go = Test 0 hsfc\<rparr>"

definition ReadHsfcRegister :: "'w platform \<Rightarrow> Chipset \<Rightarrow> ('w, Hsfc) prog" where
  "ReadHsfcRegister P c =
     bnd (spi_read16 P c kHsfcRegisterOffset) (\<lambda>hsfc. ret (Hsfc_of hsfc))"

definition Hsfc_bits :: "Hsfc \<Rightarrow> 32 word" where
  "Hsfc_bits hsfc =
     Set 15 15 (of_bool (flash_spi_smi_enable hsfc)) OR
     Set 14 14 (of_bool (hsfc_reserved14 hsfc)) OR
     Set 13 8 (ucast (flash_data_byte_count hsfc)) OR
     Set 7 3 (ucast (hsfc_reserved7 hsfc)) OR
     Set 2 1 (FlashCycle_val (flash_cycle hsfc)) OR
     Set 0 0 (of_bool (flash_cycle_go hsfc))"

definition WriteHsfcRegister :: "'w platform \<Rightarrow> Chipset \<Rightarrow> Hsfc \<Rightarrow> ('w, unit) prog" where
  "WriteHsfcRegister P c hsfc = spi_write16 P c kHsfcRegisterOffset (Hsfc_bits hsfc)"

definition Faddr_of :: "32 word \<Rightarrow> Faddr" where
  "Faddr_of faddr =
     \<lparr>reserved25 = ucast (Value 31 25 faddr),
      flash_linear_address = ucast (Value 24 0 faddr)\<rparr>"

definition ReadFaddrRegister :: "'w platform \<Rightarrow> Chipset \<Rightarrow> ('w, Faddr) prog" where
  "ReadFaddrRegister P c =
     bnd (spi_read32 P c kFaddrRegisterOffset) (\<lambda>faddr. ret (Faddr_of faddr))"

definition Faddr_bits :: "Faddr \<Rightarrow> 32 word" where
  "Faddr_bits faddr =
     Set 31 25 (ucast (reserved25 faddr)) OR Set 24 0 (ucast (flash_linear_address faddr))"

definition WriteFaddrRegister :: "'w platform \<Rightarrow> Chipset \<Rightarrow> Faddr \<Rightarrow> ('w, unit) prog" where
  "WriteFaddrRegister P c faddr = spi_write32 P c kFaddrRegisterOffset (Faddr_bits faddr)"

definition Ssfs_bits :: "Ssfs \<Rightarrow> 32 word" where
  "Ssfs_bits ssfs =
     Set 7 5 (ucast (ssfs_reserved7 ssfs)) OR
     Set 4 4 (of_bool (ssfs_access_error_log ssfs)) OR
     Set 3 3 (of_bool (ssfs_flash_cycle_error ssfs)) OR
     Set 2 2 (of_bool (cycle_done_status ssfs)) OR
     Set 1 1 (of_bool (reserved1 ssfs)) OR
     Set 0 0 (of_bool (ssfs_spi_cycle_in_progress ssfs))"

definition WriteSsfsRegister :: "'w platform \<Rightarrow> Chipset \<Rightarrow> Ssfs \<Rightarrow> ('w, unit) prog" where
  "WriteSsfsRegister P c ssfs = spi_write8 P c kSsfsRegisterOffset (Ssfs_bits ssfs)"

text \<open>The two parts of the split write of the 24-bit register, first the byte, then the word.\<close>

definition Ssfc_byte_bits :: "Ssfc \<Rightarrow> 32 word" where
  "Ssfc_byte_bits ssfc =
     Set 7 3 (of_bool (ssfc_reserved7 ssfc)) OR
     Set 2 0 (SpiCycleFrequency_val (spi_cycle_frequency ssfc))"

definition Ssfc_word_bits :: "Ssfc \<Rightarrow> 32 word" where
  "Ssfc_word_bits ssfc =
     Set 15 15 (of_bool (spi_smi_enable ssfc)) OR
     Set 14 14 (of_bool (data_cycle ssfc)) OR
     Set 13 8 (ucast (data_byte_count ssfc)) OR
     Set 7 7 (of_bool (ssfc_reserved7 ssfc)) OR
     Set 6 4 (ucast (cycle_opcode_pointer ssfc)) OR
     Set 3 3 (of_bool (sequence_prefix_opcode_pointer ssfc)) OR
     Set 2 2 (of_bool (atomic_cycle_sequence ssfc)) OR
     Set 1 1 (of_bool (spi_cycle_go ssfc)) OR
     Set 0 0 (of_bool (reserved0 ssfc))"

definition WriteSsfcRegister :: "'w platform \<Rightarrow> Chipset \<Rightarrow> Ssfc \<Rightarrow> ('w, unit) prog" where
  "WriteSsfcRegister P c ssfc =
     bnd (spi_write8 P c kSsfcRegisterOffset (Ssfc_byte_bits ssfc)) (\<lambda>_.
     spi_write16 P c (kSsfcRegisterOffset + 1) (Ssfc_word_bits ssfc))"

definition ReadFdataNRegister :: "'w platform \<Rightarrow> Chipset \<Rightarrow> int \<Rightarrow> ('w, 32 word) prog" where
  "ReadFdataNRegister P c register_num =
     (if register_num < 0 \<or> register_num > 16
      then die (LogFatal ''Flash data register out of range (must be in 0..15).'')
      else spi_read32 P c (kFdata0RegisterOffset + register_num * 4))"

definition Frap_of :: "32 word \<Rightarrow> Frap" where
  "Frap_of frap =
     \<lparr>bios_master_write_access_grant = ucast (Value 31 24 frap),
      bios_master_read_access_grant = ucast (Value 23 16 frap),
      bios_region_write_access = ucast (Value 15 8 frap),
      bios_region_read_access = ucast (Value 7 0 frap)\<rparr>"

definition ReadFrapRegister :: "'w platform \<Rightarrow> Chipset \<Rightarrow> ('w, Frap) prog" where
  "ReadFrapRegister P c = bnd (spi_read32 P c kFrapRegisterOffset) (\<lambda>frap. ret (Frap_of frap))"

text \<open>The address expression of an indexed register: \<open>base + index * 4\<close> on \<open>int\<close>.\<close>

definition indexed_offset :: "int \<Rightarrow> int \<Rightarrow> ('w, int) prog" where
  "indexed_offset base index = bnd (c_int (index * 4)) (\<lambda>i. c_int (base + i))"

definition FregN_of :: "32 word \<Rightarrow> FregN" where
  "FregN_of fregn =
     \<lparr>fregn_reserved31 = ucast (Value 31 29 fregn),
      region_limit = ucast (Set 24 12 (Value 28 16 fregn) OR 0xFFF),
      fregn_reserved15 = ucast (Value 15 13 fregn),
      region_base = ucast (Value 12 0 fregn)\<rparr>"

definition ReadFregNRegister :: "'w platform \<Rightarrow> Chipset \<Rightarrow> int \<Rightarrow> ('w, FregN) prog" where
  "ReadFregNRegister P c index =
     bnd (rcrb_mem c) (\<lambda>_ :: PhysicalMemory.
     bnd (indexed_offset kFreg0RegisterOffset index) (\<lambda>off.
     bnd (spi_read32 P c off) (\<lambda>fregn. ret (FregN_of fregn))))"

definition PrN_of :: "32 word \<Rightarrow> PrN" where
  "PrN_of prn =
     \<lparr>write_protection_enable = Test 31 prn,
      reserved30 = ucast (Value 30 29 prn),
      protected_range_limit = ucast (Set 24 12 (Value 28 16 prn) OR 0xFFF),
      read_protection_enable = Test 15 prn,
      prn_reserved14 = ucast (Value 14 13 prn),
      protected_range_base = ucast (Set 24 12 (Value 12 0 prn))\<rparr>"

definition ReadPrNRegister :: "'w platform \<Rightarrow> Chipset \<Rightarrow> int \<Rightarrow> ('w, PrN) prog" where
  "ReadPrNRegister P c index =
     bnd (rcrb_mem c) (\<lambda>_ :: PhysicalMemory.
     bnd (indexed_offset kPr0RegisterOffset index) (\<lambda>off.
     bnd (spi_read32 P c off) (\<lambda>prn. ret (PrN_of prn))))"

definition Ssfs_of :: "8 word \<Rightarrow> Ssfs" where
  "Ssfs_of ssfs =
     \<lparr>ssfs_reserved7 = ucast (Value 7 5 ssfs),
      ssfs_access_error_log = Test 4 ssfs,
      ssfs_flash_cycle_error = Test 3 ssfs,
      cycle_done_status = Test 2 ssfs,
      reserved1 = Test 1 ssfs,
      ssfs_spi_cycle_in_progress = Test 0 ssfs\<rparr>"

definition ReadSsfsRegister :: "'w platform \<Rightarrow> Chipset \<Rightarrow> ('w, Ssfs) prog" where
  "ReadSsfsRegister P c = bnd (spi_read8 P c kSsfsRegisterOffset) (\<lambda>ssfs. ret (Ssfs_of ssfs))"

definition ReadSsfcRegister :: "'w platform \<Rightarrow> Chipset \<Rightarrow> ('w, Ssfc) prog" where
  "ReadSsfcRegister P c =
     bnd (spi_read32 P c kSsfcRegisterOffset) (\<lambda>ssfc.
     bnd (cast_SpiCycleFrequency (unat (Value 18 16 ssfc))) (\<lambda>scf.
     ret \<lparr>reserved23 = ucast (Value 23 19 ssfc),
          spi_cycle_frequency = scf,
          spi_smi_enable = Test 15 ssfc,
          data_cycle = Test 14 ssfc,
          data_byte_count = ucast (Value 13 8 ssfc),
          ssfc_reserved7 = Test 7 ssfc,
          cycle_opcode_pointer = ucast (Value 6 4 ssfc),
          sequence_prefix_opcode_pointer = Test 3 ssfc,
          atomic_cycle_sequence = Test 2 ssfc,
          spi_cycle_go = Test 1 ssfc,
          reserved0 = Test 0 ssfc\<rparr>))"

section \<open>Where a register lies\<close>

definition spibar_base :: "Chipset \<Rightarrow> int" where
  "spibar_base c = (if chipset_cls c = IntelIch8Chipset then 0x3020 else 0x3800)"

definition spi_addr :: "Chipset \<Rightarrow> PhysicalMemory \<Rightarrow> int \<Rightarrow> ptr" where
  "spi_addr c m off = mem m + word_of_int (spibar_base c + off)"

lemmas offset_defs = kBfprRegisterOffset_def kHsfsRegisterOffset_def kHsfcRegisterOffset_def
  kFaddrRegisterOffset_def kFdata0RegisterOffset_def kFrapRegisterOffset_def
  kFreg0RegisterOffset_def kPr0RegisterOffset_def kSsfsRegisterOffset_def
  kSsfcRegisterOffset_def

lemma SpiBar_small:
  assumes "0 \<le> off" and "off < 0x100"
  shows "SpiBar c off = ret (word_of_int (spibar_base c + off))"
proof -
  have "in_int (0x3020 + off)" "in_int (0x3800 + off)"
    using assms by (simp_all add: in_int_iff)
  then show ?thesis
    by (simp add: SpiBar_def Ich8_SpiBar_def Ich9_SpiBar_def spibar_base_def
        split: chipset_class.split)
qed

lemma uint_spibar:
  assumes "0 \<le> off" and "off < 0x100"
  shows "uint (word_of_int (spibar_base c + off) :: 16 word) = spibar_base c + off"
  using assms by (simp add: uint_word_of_int spibar_base_def mod_pos_pos_trivial del: of_int_add)

lemma ucast_spibar:
  assumes "0 \<le> off" and "off < 0x100"
  shows "ucast (word_of_int (spibar_base c + off) :: 16 word)
    = (word_of_int (spibar_base c + off) :: ptr)"
proof -
  have "ucast a = (word_of_int (uint a) :: ptr)" for a :: "16 word" by simp
  then show ?thesis using uint_spibar [OF assms] by metis
qed

lemma spi_access:
  assumes "rcrb_mem_ptr c = Some m" and "0 \<le> off" and "off < 0x100"
  shows "spi_read8 P c off = act (mem_load8 P (spi_addr c m off))"
    and "spi_read16 P c off = act (mem_load16 P (spi_addr c m off))"
    and "spi_read32 P c off = act (mem_load32 P (spi_addr c m off))"
    and "spi_write8 P c off v = eff (mem_store8 P (spi_addr c m off) (ucast v))"
    and "spi_write16 P c off v = eff (mem_store16 P (spi_addr c m off) (ucast v))"
    and "spi_write32 P c off v = eff (mem_store32 P (spi_addr c m off) v)"
  using assms
  by (simp_all add: spi_read8_def spi_read16_def spi_read32_def spi_write8_def spi_write16_def
      spi_write32_def SpiBar_small ucast_spibar access_defs spi_addr_def del: of_int_add)

lemma indexed_offset_small:
  assumes "0 \<le> index" and "index < 32" and "0 \<le> base" and "base < 0x100"
  shows "indexed_offset base index = ret (base + index * 4)"
proof -
  have "in_int (index * 4)" "in_int (base + index * 4)"
    using assms by (simp_all add: in_int_iff)
  then show ?thesis by (simp add: indexed_offset_def)
qed

lemma unmapped_access:
  assumes "rcrb_mem_ptr c = None"
  shows "spi_read8 P c off = die (LogFatal ''Call MapRootComplex() first.'')"
    and "spi_read16 P c off = die (LogFatal ''Call MapRootComplex() first.'')"
    and "spi_read32 P c off = die (LogFatal ''Call MapRootComplex() first.'')"
    and "spi_write8 P c off v = die (LogFatal ''Call MapRootComplex() first.'')"
    and "spi_write16 P c off v = die (LogFatal ''Call MapRootComplex() first.'')"
    and "spi_write32 P c off v = die (LogFatal ''Call MapRootComplex() first.'')"
  using assms
  by (simp_all add: spi_read8_def spi_read16_def spi_read32_def spi_write8_def spi_write16_def
      spi_write32_def rcrb_mem_def)

section \<open>Structures and bits\<close>

lemma unat_Value_two_bits:
  fixes v :: "'a::len word"
  assumes "Suc l < 32"
  shows "unat (Value (Suc l) l v) < 4"
proof -
  have "Value (Suc l) l v = take_bit 2 (drop_bit l v)"
    using assms by (simp add: uint_Value_bound numeral_2_eq_2)
  then have "unat (Value (Suc l) l v) = take_bit 2 (unat (drop_bit l v))"
    by (simp add: unsigned_take_bit_eq)
  then show ?thesis
    using take_bit_nat_less_exp [of 2 "unat (drop_bit l v)"] by simp
qed

lemma val_two_bits:
  "BlockSectorEraseSize_val e = take_bit 2 (BlockSectorEraseSize_val e)"
  "FlashCycle_val f = take_bit 2 (FlashCycle_val f)"
  by (cases e; simp add: One_nat_def) (cases f; simp add: One_nat_def)

lemma bit_val_less:
  "bit (BlockSectorEraseSize_val e) n \<Longrightarrow> n < 2"
  "bit (FlashCycle_val f) n \<Longrightarrow> n < 2"
  by (metis bit_take_bit_iff val_two_bits)+

lemma bit_Set_val:
  "bit (Set 2 1 (FlashCycle_val f)) n \<longleftrightarrow> 1 \<le> n \<and> n \<le> 2 \<and> bit (FlashCycle_val f) (n - 1)"
  "bit (Set 4 4 (BlockSectorEraseSize_val e)) n \<longleftrightarrow> n = 4 \<and> bit (BlockSectorEraseSize_val e) 0"
  by (auto simp: bit_Set)

lemma bit_Hsfc_bits:
  "bit (Hsfc_bits h) n \<longleftrightarrow>
     n = 15 \<and> flash_spi_smi_enable h \<or> n = 14 \<and> hsfc_reserved14 h \<or>
     8 \<le> n \<and> n \<le> 13 \<and> bit (flash_data_byte_count h) (n - 8) \<or>
     3 \<le> n \<and> n \<le> 7 \<and> bit (hsfc_reserved7 h) (n - 3) \<or>
     1 \<le> n \<and> n \<le> 2 \<and> bit (FlashCycle_val (flash_cycle h)) (n - 1) \<or> n = 0 \<and> flash_cycle_go h"
  by (simp add: Hsfc_bits_def bit_or_iff bit_Set_bool bit_Set_ucast bit_Set_val)

lemma bit_Faddr_bits:
  "bit (Faddr_bits f) n \<longleftrightarrow>
     25 \<le> n \<and> n \<le> 31 \<and> bit (reserved25 f) (n - 25) \<or>
     n \<le> 24 \<and> bit (flash_linear_address f) n"
  by (simp add: Faddr_bits_def bit_or_iff bit_Set_ucast)

lemma bit_Ssfs_bits:
  "bit (Ssfs_bits s) n \<longleftrightarrow>
     5 \<le> n \<and> n \<le> 7 \<and> bit (ssfs_reserved7 s) (n - 5) \<or> n = 4 \<and> ssfs_access_error_log s \<or>
     n = 3 \<and> ssfs_flash_cycle_error s \<or> n = 2 \<and> cycle_done_status s \<or> n = 1 \<and> reserved1 s \<or>
     n = 0 \<and> ssfs_spi_cycle_in_progress s"
  by (simp add: Ssfs_bits_def bit_or_iff bit_Set_bool bit_Set_ucast)

lemma bit_Hsfs_bits:
  "bit (Hsfs_bits h) n \<longleftrightarrow>
     n = 15 \<and> flash_configuration_lockdown h \<or> n = 14 \<and> flash_descriptor_valid h \<or>
     n = 13 \<and> flash_descriptor_override_pinstrap_status h \<or>
     6 \<le> n \<and> n \<le> 12 \<and> bit (reserved12 h) (n - 6) \<or> n = 5 \<and> spi_cycle_in_progress h \<or>
     n = 4 \<and> bit (BlockSectorEraseSize_val (blocksector_erase_size h)) 0 \<or>
     n = 2 \<and> access_error_log h \<or> n = 1 \<and> flash_cycle_error h \<or> n = 0 \<and> flash_cycle_done h"
  by (simp add: Hsfs_bits_def bit_or_iff bit_Set_bool bit_Set_ucast bit_Set_val)

lemma val_cast_Value:
  fixes v :: "16 word"
  shows "FlashCycle_val (cast_FlashCycle (unat (Value 2 1 v))) = ucast (Value 2 1 v)"
    and "BlockSectorEraseSize_val (cast_BlockSectorEraseSize (unat (Value 4 3 v)))
      = ucast (Value 4 3 v)"
  using unat_Value_two_bits [of 1 v] unat_Value_two_bits [of 3 v]
  by (simp_all add: val_cast numeral_eq_Suc)

lemma Hsfc_of_bits: "Hsfc_of (ucast (Hsfc_bits h)) = h"
proof -
  have fc: "Value 2 1 (ucast (Hsfc_bits h) :: 16 word) = ucast (FlashCycle_val (flash_cycle h))"
    by (rule bit_word_eqI)
      (auto simp: bit_field_simps bit_simps bit_Hsfc_bits dest: bit_val_less)
  have "unat (ucast (FlashCycle_val (flash_cycle h)) :: 16 word)
      = unat (FlashCycle_val (flash_cycle h))"
    by (cases "flash_cycle h") simp_all
  moreover have "ucast (Value 13 8 (ucast (Hsfc_bits h) :: 16 word)) = flash_data_byte_count h"
    by (rule bit_word_eqI) (auto simp: bit_field_simps bit_simps bit_Hsfc_bits)
  moreover have "ucast (Value 7 3 (ucast (Hsfc_bits h) :: 16 word)) = hsfc_reserved7 h"
    by (rule bit_word_eqI) (auto simp: bit_field_simps bit_simps bit_Hsfc_bits)
  ultimately show ?thesis
    by (simp add: Hsfc_of_def fc Test_eq_bit bit_simps bit_Hsfc_bits)
qed

lemma less_16_cases:
  "n < 16 \<Longrightarrow> n \<in> {0, 1, 2, 3, 4, 5, 6, 7, 8, 9, 10, 11, 12, 13, 14, 15 :: nat}"
  by (simp; presburger)

lemma Hsfc_bits_of: "ucast (Hsfc_bits (Hsfc_of v)) = v"
proof (rule bit_word_eqI)
  fix n assume "n < LENGTH(16)"
  then have "n < 16" by simp
  then show "bit (ucast (Hsfc_bits (Hsfc_of v)) :: 16 word) n = bit v n"
    using less_16_cases [OF \<open>n < 16\<close>]
    by (elim insertE emptyE; simp add: bit_ucast_iff bit_Hsfc_bits Hsfc_of_def
        val_cast_Value bit_Value Test_eq_bit)
qed

lemma Faddr_of_bits: "Faddr_of (Faddr_bits f) = f"
proof -
  have "ucast (Value 31 25 (Faddr_bits f)) = reserved25 f"
    by (rule bit_word_eqI) (auto simp: bit_field_simps bit_simps bit_Faddr_bits)
  moreover have "ucast (Value 24 0 (Faddr_bits f)) = flash_linear_address f"
    by (rule bit_word_eqI) (auto simp: bit_field_simps bit_simps bit_Faddr_bits)
  ultimately show ?thesis by (simp add: Faddr_of_def)
qed

lemma Faddr_bits_of: "Faddr_bits (Faddr_of v) = v"
  by (rule bit_word_eqI) (auto simp: bit_Faddr_bits Faddr_of_def bit_field_simps bit_simps)

lemma Ssfs_of_bits: "Ssfs_of (ucast (Ssfs_bits s)) = s"
proof -
  have "ucast (Value 7 5 (ucast (Ssfs_bits s) :: 8 word)) = ssfs_reserved7 s"
    by (rule bit_word_eqI) (auto simp: bit_field_simps bit_simps bit_Ssfs_bits)
  then show ?thesis
    by (simp add: Ssfs_of_def Test_eq_bit bit_simps bit_Ssfs_bits)
qed

lemma Ssfs_bits_of: "ucast (Ssfs_bits (Ssfs_of v)) = v"
proof (rule bit_word_eqI)
  fix n assume n: "n < LENGTH(8)"
  then have "n \<in> {0, 1, 2, 3, 4, 5, 6, 7}" by (simp; presburger)
  then show "bit (ucast (Ssfs_bits (Ssfs_of v)) :: 8 word) n = bit v n"
    by (elim insertE emptyE;
        simp add: bit_ucast_iff bit_Ssfs_bits Ssfs_of_def bit_Value Test_eq_bit)
qed

lemma bit_Hsfs_bits_of:
  assumes "n < 16"
  shows "bit (ucast (Hsfs_bits (Hsfs_of v)) :: 16 word) n \<longleftrightarrow>
     (if n = 3 then False else if n = 4 then bit v 3 else bit v n)"
  using less_16_cases [OF assms]
  by (elim insertE emptyE; simp add: bit_ucast_iff bit_Hsfs_bits Hsfs_of_def val_cast_Value
      bit_Value Test_eq_bit)

lemma limit_13_bits:
  fixes v :: "32 word"
  shows "(ucast (Set 24 12 (Value 28 16 v) OR 0xFFF) :: 13 word)
    = (if bit v 16 then 0x1FFF else 0xFFF)"
proof -
  have c: "0x1FFF = (mask 13 :: 13 word)" "0xFFF = (mask 12 :: 13 word)"
    by (simp_all add: mask_eq_exp_minus_1)
  have "n = 12" if "12 \<le> n" "n < 13" for n :: nat using that by simp
  then show ?thesis
    unfolding c
    by (intro bit_word_eqI) (auto simp: bit_simps bit_Set bit_Value bit_mask_constants)
qed

lemma base_13_bits:
  fixes v :: "32 word"
  shows "(ucast (Set 24 12 (Value 12 0 v)) :: 13 word) = (if bit v 0 then 0x1000 else 0)"
proof -
  have c: "0x1000 = (push_bit 12 1 :: 13 word)" by simp
  have "n = 12" if "12 \<le> n" "n < 13" for n :: nat using that by simp
  then show ?thesis
    unfolding c
    by (intro bit_word_eqI)
      (auto simp: bit_simps bit_Set bit_Value simp del: push_bit_of_1 push_bit_numeral)
qed

lemma Rcba_base: "base_address (Rcba_of v) = v AND 0xFFFFC000"
proof -
  have c: "0xFFFFC000 = (field_mask 31 14 :: 32 word)"
    by (simp add: field_mask_def mask_eq_exp_minus_1 One_nat_def)
  have "\<forall>x :: 32 word. Raw 31 14 x = x AND field_mask 31 14"
    using Raw_eq_mask_iff [of 31 14] by simp
  then show ?thesis by (simp add: Rcba_of_def c)
qed

text \<open>Where the split write of the software sequencing control register leaves its bits.\<close>

lemma bit_Ssfc_byte_bits:
  "bit (Ssfc_byte_bits s) n \<longleftrightarrow> n = 3 \<and> ssfc_reserved7 s \<or>
     n = 0 \<and> spi_cycle_frequency s = kScf33Mhz"
  by (cases "spi_cycle_frequency s")
    (auto simp: Ssfc_byte_bits_def bit_or_iff bit_Set bit_simps of_bool_def)

lemma bit_Ssfc_word_bits:
  "bit (Ssfc_word_bits s) n \<longleftrightarrow> n = 15 \<and> spi_smi_enable s \<or> n = 14 \<and> data_cycle s \<or>
     8 \<le> n \<and> n \<le> 13 \<and> bit (data_byte_count s) (n - 8) \<or> n = 7 \<and> ssfc_reserved7 s \<or>
     4 \<le> n \<and> n \<le> 6 \<and> bit (cycle_opcode_pointer s) (n - 4) \<or>
     n = 3 \<and> sequence_prefix_opcode_pointer s \<or> n = 2 \<and> atomic_cycle_sequence s \<or>
     n = 1 \<and> spi_cycle_go s \<or> n = 0 \<and> reserved0 s"
  by (simp add: Ssfc_word_bits_def bit_or_iff bit_Set_bool bit_Set_ucast)

lemma ssfc_stored:
  assumes "byte_memory P ram plain" and "rcrb_mem_ptr c = Some m"
    and "set (span (spi_addr c m 0x91) 4) \<subseteq> plain"
  shows "runs (bnd (WriteSsfcRegister P c s) (\<lambda>_. spi_read32 P c kSsfcRegisterOffset)) w (\<lambda>v _.
     \<exists>d. v = le_word [ucast (Ssfc_byte_bits s), ucast (Ssfc_word_bits s),
       ucast (drop_bit 8 (Ssfc_word_bits s)), d])"
proof -
  let ?a = "spi_addr c m 0x91"
  have next_addr: "spi_addr c m 0x92 = ?a + 1" by (simp add: spi_addr_def)
  have four: "span ?a 4 = [?a, ?a + 1, ?a + 2, ?a + 3]" "span (?a + 1) 2 = [?a + 1, ?a + 2]"
    by (simp_all add: span_def upt_rec add.assoc)
  have bytes: "le_bytes (ucast v :: 16 word) = [ucast v, ucast (drop_bit 8 v)]" for v :: "32 word"
    by (auto simp: le_bytes_def upt_rec bit_simps intro!: bit_word_eqI)
  have "?a \<in> plain" "set (span (?a + 1) 2) \<subseteq> plain" using assms(3) by (simp_all add: four)
  note ops = byte_memory.loads(3) [OF assms(1,3)] byte_memory.stores(1) [OF assms(1) this(1)]
    byte_memory.stores(2) [OF assms(1) this(2)]
  show ?thesis
    by (simp add: WriteSsfcRegister_def offset_defs spi_access [OF assms(2)] next_addr ops)
      (simp add: four bytes, blast)
qed

lemma region_bounds:
  "region_limit (FregN_of v) = (if bit v 16 then 0x1FFF else 0xFFF)"
  "protected_range_limit (PrN_of v) = (if bit v 16 then 0x1FFF else 0xFFF)"
  "protected_range_base (PrN_of v) = (if bit v 0 then 0x1000 else 0)"
  "region_base (FregN_of v) = ucast (take_bit 13 v)"
  "bios_flash_primary_region_limit (Bfpr_of v) = push_bit 12 (take_bit 13 (drop_bit 16 v))"
  "bios_flash_primary_region_base (Bfpr_of v) = push_bit 12 (take_bit 13 v)"
proof -
  have set: "Set 24 12 x = push_bit 12 (take_bit 13 x)" for x
    by (rule bit_word_eqI) (auto simp: bit_Set bit_simps)
  have val: "Value 28 16 v = take_bit 13 (drop_bit 16 v)" "Value 12 0 v = take_bit 13 v"
    by (simp_all add: uint_Value_bound)
  show "bios_flash_primary_region_limit (Bfpr_of v) = push_bit 12 (take_bit 13 (drop_bit 16 v))"
    and "bios_flash_primary_region_base (Bfpr_of v) = push_bit 12 (take_bit 13 v)"
    and "region_base (FregN_of v) = ucast (take_bit 13 v)"
    by (simp_all add: Bfpr_of_def FregN_of_def set val)
  show "region_limit (FregN_of v) = (if bit v 16 then 0x1FFF else 0xFFF)"
    and "protected_range_limit (PrN_of v) = (if bit v 16 then 0x1FFF else 0xFFF)"
    and "protected_range_base (PrN_of v) = (if bit v 0 then 0x1000 else 0)"
    by (simp_all add: FregN_of_def PrN_of_def limit_13_bits base_13_bits)
qed

section \<open>Properties\<close>

text \<open>
  C26. The flash control register, the flash address register and the software sequencing
  status register are read and written consistently: what is written for a structure reads back
  as that structure, and writing back what was read reproduces every bit.
\<close>

theorem register_roundtrips:
  "Hsfc_of (ucast (Hsfc_bits h)) = h \<and> ucast (Hsfc_bits (Hsfc_of v16)) = v16
   \<and> Faddr_of (Faddr_bits f) = f \<and> Faddr_bits (Faddr_of v32) = v32
   \<and> Ssfs_of (ucast (Ssfs_bits s)) = s \<and> ucast (Ssfs_bits (Ssfs_of v8)) = v8"
  by (simp add: Hsfc_of_bits Hsfc_bits_of Faddr_of_bits Faddr_bits_of Ssfs_of_bits Ssfs_bits_of)

text \<open>
  C34. Writing back a flash status register that was just read reproduces every bit except
  the two bits of the erase size: bit 3 is written as 0 and bit 4 as the bit 3 that was read,
  because the write uses \<open>Set<4>\<close> where the read uses \<open>Value<4, 3>\<close>.
\<close>

theorem hsfs_write_back:
  assumes "n < 16"
  shows "bit (ucast (Hsfs_bits (Hsfs_of v)) :: 16 word) n \<longleftrightarrow>
     (if n = 3 then False else if n = 4 then bit v 3 else bit v n)"
  using assms by (rule bit_Hsfs_bits_of)

theorem hsfs_write_back_witness:
  "bit (ucast (Hsfs_bits (Hsfs_of 0x0008)) :: 16 word) 4 \<and>
   \<not> bit (ucast (Hsfs_bits (Hsfs_of 0x0008)) :: 16 word) 3"
  using hsfs_write_back [of 4 "0x0008"] hsfs_write_back [of 3 "0x0008"]
  by (simp add: One_nat_def)

text \<open>
  C36. \<open>ReadFdataNRegister\<close> on a mapped chipset: indices 0 to 15 read the sixteen data
  registers, indices below 0 or above 16 end the process, and index 16, which the message rules
  out, passes the test and reads the access permission register FRAP.
\<close>

theorem fdata_register_cases:
  assumes "rcrb_mem_ptr c = Some m"
  shows "(0 \<le> i \<and> i \<le> 15 \<longrightarrow>
            ReadFdataNRegister P c i = act (mem_load32 P (spi_addr c m (0x10 + 4 * i))))
     \<and> (i < 0 \<or> 16 < i \<longrightarrow> ReadFdataNRegister P c i =
            die (LogFatal ''Flash data register out of range (must be in 0..15).''))
     \<and> (i = 16 \<longrightarrow> ReadFdataNRegister P c i = spi_read32 P c kFrapRegisterOffset)"
  using assms
  by (auto simp: ReadFdataNRegister_def offset_defs spi_access mult.commute)

theorem fdata_register_cases_witness:
  "\<forall>P :: unit platform. ReadFdataNRegister P \<lparr>chipset_cls = IntelIch9Chipset,
       hardware_id = \<lparr>vendor = 0x8086, device = 0x2918, revision = 2\<rparr>,
       rcrb_mem_ptr = Some \<lparr>mem_fd = 3, mem = 0x7F0000000000, length_mem = 0x4000\<rparr>\<rparr> 15
   = act (mem_load32 P 0x7F000000384C)"
proof
  let ?m = "\<lparr>mem_fd = 3, mem = 0x7F0000000000, length_mem = 0x4000\<rparr>"
  let ?c = "\<lparr>chipset_cls = IntelIch9Chipset,
       hardware_id = \<lparr>vendor = 0x8086, device = 0x2918, revision = 2\<rparr>, rcrb_mem_ptr = Some ?m\<rparr>"
  fix P :: "unit platform"
  show "ReadFdataNRegister P ?c 15 = act (mem_load32 P 0x7F000000384C)"
    using fdata_register_cases [of ?c ?m 15 P] by (simp add: spi_addr_def spibar_base_def)
qed

text \<open>
  C33. The limits of flash regions and protected ranges and the bases of protected ranges
  are cut to the 13 bits of their structure members after they have been shifted by 12: of the
  limit only its lowest bit survives above the constant 0xFFF, of the base only its lowest bit
  survives at all. The base of a flash region is stored unshifted, and the BIOS region register,
  whose members are full words, keeps both.
\<close>

theorem region_bounds_truncated:
  "region_limit (FregN_of v) = (if bit v 16 then 0x1FFF else 0xFFF)
   \<and> protected_range_limit (PrN_of v) = (if bit v 16 then 0x1FFF else 0xFFF)
   \<and> protected_range_base (PrN_of v) = (if bit v 0 then 0x1000 else 0)
   \<and> region_base (FregN_of v) = ucast (take_bit 13 v)
   \<and> bios_flash_primary_region_limit (Bfpr_of v) = push_bit 12 (take_bit 13 (drop_bit 16 v))
   \<and> bios_flash_primary_region_base (Bfpr_of v) = push_bit 12 (take_bit 13 v)"
  by (simp add: region_bounds)

text \<open>
  C28. The root complex base address is bits 31 to 14 of the register and so always aligned
  to the 16 KiB that are mapped, and the mapping is attempted exactly when bit 0 is set.
\<close>

theorem rcba_base_aligned:
  "base_address (Rcba_of v) = v AND 0xFFFFC000 \<and> take_bit 14 (base_address (Rcba_of v)) = 0
   \<and> rcba_enable (Rcba_of v) = bit v 0"
proof -
  have "take_bit 14 (base_address (Rcba_of v)) = 0"
    by (rule bit_word_eqI) (auto simp: Rcba_of_def bit_Raw bit_simps)
  then show ?thesis by (simp add: Rcba_base) (simp add: Rcba_of_def Test_eq_bit)
qed


end
