(* ===== verification/Chipset_Series.thy ===== *)
theory Chipset_Series
  imports Chipset_Ich8
begin

text \<open>
  The class hierarchy above the ICH8: \<open>pawn/chipset_intel_ich9.h\<close>,
  \<open>chipset_intel_ich10.h\<close>, \<open>chipset_intel_6_series.h/.cc\<close>,
  \<open>chipset_intel_7_series.h\<close>, \<open>chipset_intel_8_series.h/.cc\<close> and
  \<open>chipset_intel_9_series.h\<close>. Each class has its device table (\<open>SupportsDevice\<close>);
  the 6 series overrides the BIOS control and GCS registers, the 8 series overrides GCS again, and the 8 and 9
  series each have their own test for processor-integrated I/O, which is a virtual function called
  from the 8 series' GCS. \<open>virtuals\<close> is the resulting table of virtual functions of an
  object.
\<close>

section \<open>Device tables\<close>

definition Ich8_SupportsDevice :: "HardwareId \<Rightarrow> bool" where
  "Ich8_SupportsDevice hw = (vendor hw = 0x8086 \<and>
     (device hw = 0x2810 \<or> device hw = 0x2812 \<or> device hw = 0x2814 \<or> device hw = 0x2811))"

definition Ich9_SupportsDevice :: "HardwareId \<Rightarrow> bool" where
  "Ich9_SupportsDevice hw = (vendor hw = 0x8086 \<and>
     (device hw = 0x2912 \<or> device hw = 0x2914 \<or> device hw = 0x2916 \<or> device hw = 0x2918 \<or>
      device hw = 0x2917 \<or> device hw = 0x2919))"

definition Ich10_SupportsDevice :: "HardwareId \<Rightarrow> bool" where
  "Ich10_SupportsDevice hw = (vendor hw = 0x8086 \<and>
     (device hw = 0x3A14 \<or> device hw = 0x3A1A \<or> device hw = 0x3A16 \<or> device hw = 0x3A18))"

definition Series6_SupportsDevice :: "HardwareId \<Rightarrow> bool" where
  "Series6_SupportsDevice hw = (vendor hw = 0x8086 \<and>
     (device hw = 0x1C44 \<or> device hw = 0x1C46 \<or> device hw = 0x1C47 \<or>
      device hw = 0x1C49 \<or> device hw = 0x1C4A \<or> device hw = 0x1C4B \<or>
      device hw = 0x1C4C \<or> device hw = 0x1C4D \<or> device hw = 0x1C4E \<or>
      device hw = 0x1C4F \<or> device hw = 0x1C50 \<or> device hw = 0x1C52 \<or>
      device hw = 0x1C54 \<or> device hw = 0x1C56 \<or> device hw = 0x1C5C \<or>
      device hw = 0x1D40 \<or> device hw = 0x1D41))"

definition Series7_SupportsDevice :: "HardwareId \<Rightarrow> bool" where
  "Series7_SupportsDevice hw = (vendor hw = 0x8086 \<and>
     (device hw = 0x1E47 \<or> device hw = 0x1E48 \<or> device hw = 0x1E49 \<or> device hw = 0x1E44 \<or>
      device hw = 0x1E46 \<or> device hw = 0x1E4A \<or> device hw = 0x1E53 \<or> device hw = 0x1E55 \<or>
      device hw = 0x1E58 \<or> device hw = 0x1E57 \<or> device hw = 0x1E59 \<or> device hw = 0x1E5D \<or>
      device hw = 0x1E5E \<or> device hw = 0x1E56 \<or> device hw = 0x1E5F))"

definition Series8_IsIntegratedIo :: "16 word \<Rightarrow> bool" where
  "Series8_IsIntegratedIo dev = (dev = 0x9C41 \<or> dev = 0x9C43 \<or> dev = 0x9C45)"

definition Series8_SupportsDevice :: "HardwareId \<Rightarrow> bool" where
  "Series8_SupportsDevice hw = (vendor hw = 0x8086 \<and>
     (Series8_IsIntegratedIo (device hw) \<or>
      device hw = 0x8C41 \<or> device hw = 0x8C42 \<or> device hw = 0x8C44 \<or> device hw = 0x8C46 \<or>
      device hw = 0x8C49 \<or> device hw = 0x8C4A \<or> device hw = 0x8C4B \<or> device hw = 0x8C4C \<or>
      device hw = 0x8C4E \<or> device hw = 0x8C4F \<or> device hw = 0x8C50 \<or> device hw = 0x8C52 \<or>
      device hw = 0x8C54 \<or> device hw = 0x8C56 \<or> device hw = 0x8C5C))"

definition Series9_IsIntegratedIo :: "16 word \<Rightarrow> bool" where
  "Series9_IsIntegratedIo dev =
     (dev = 0x9CC1 \<or> dev = 0x9CC2 \<or> dev = 0x9CC3 \<or> dev = 0x9CC5 \<or> dev = 0x9CC6 \<or>
      dev = 0x9CC7 \<or> dev = 0x9CC9)"

definition Series9_SupportsDevice :: "HardwareId \<Rightarrow> bool" where
  "Series9_SupportsDevice hw = (vendor hw = 0x8086 \<and>
     (Series9_IsIntegratedIo (device hw) \<or>
      device hw = 0x8CC2 \<or> device hw = 0x8CC4 \<or> device hw = 0x8CC6))"

section \<open>Constructors\<close>

text \<open>
  Each constructor runs that of the class it derives from; the object then is of the derived class,
  whose virtual functions it has from there on.
\<close>

definition IntelIch8Chipset_ctor :: "HardwareId \<Rightarrow> Chipset" where
  "IntelIch8Chipset_ctor probed_id = Chipset_ctor IntelIch8Chipset probed_id"

definition IntelIch9Chipset_ctor :: "HardwareId \<Rightarrow> Chipset" where
  "IntelIch9Chipset_ctor probed_id =
     (IntelIch8Chipset_ctor probed_id)\<lparr>chipset_cls := IntelIch9Chipset\<rparr>"

definition IntelIch10Chipset_ctor :: "HardwareId \<Rightarrow> Chipset" where
  "IntelIch10Chipset_ctor probed_id =
     (IntelIch9Chipset_ctor probed_id)\<lparr>chipset_cls := IntelIch10Chipset\<rparr>"

definition Intel6SeriesChipset_ctor :: "HardwareId \<Rightarrow> Chipset" where
  "Intel6SeriesChipset_ctor probed_id =
     (IntelIch10Chipset_ctor probed_id)\<lparr>chipset_cls := Intel6SeriesChipset\<rparr>"

definition Intel7SeriesChipset_ctor :: "HardwareId \<Rightarrow> Chipset" where
  "Intel7SeriesChipset_ctor probed_id =
     (Intel6SeriesChipset_ctor probed_id)\<lparr>chipset_cls := Intel7SeriesChipset\<rparr>"

definition Intel8SeriesChipset_ctor :: "HardwareId \<Rightarrow> Chipset" where
  "Intel8SeriesChipset_ctor probed_id =
     (Intel7SeriesChipset_ctor probed_id)\<lparr>chipset_cls := Intel8SeriesChipset\<rparr>"

definition Intel9SeriesChipset_ctor :: "HardwareId \<Rightarrow> Chipset" where
  "Intel9SeriesChipset_ctor probed_id =
     (Intel8SeriesChipset_ctor probed_id)\<lparr>chipset_cls := Intel9SeriesChipset\<rparr>"

lemma ctor_simps [simp]:
  "IntelIch8Chipset_ctor hw = Chipset_ctor IntelIch8Chipset hw"
  "IntelIch9Chipset_ctor hw = Chipset_ctor IntelIch9Chipset hw"
  "IntelIch10Chipset_ctor hw = Chipset_ctor IntelIch10Chipset hw"
  "Intel6SeriesChipset_ctor hw = Chipset_ctor Intel6SeriesChipset hw"
  "Intel7SeriesChipset_ctor hw = Chipset_ctor Intel7SeriesChipset hw"
  "Intel8SeriesChipset_ctor hw = Chipset_ctor Intel8SeriesChipset hw"
  "Intel9SeriesChipset_ctor hw = Chipset_ctor Intel9SeriesChipset hw"
  by (simp_all add: IntelIch8Chipset_ctor_def IntelIch9Chipset_ctor_def IntelIch10Chipset_ctor_def
      Intel6SeriesChipset_ctor_def Intel7SeriesChipset_ctor_def Intel8SeriesChipset_ctor_def
      Intel9SeriesChipset_ctor_def Chipset_ctor_def)

section \<open>Overridden registers\<close>

definition Series6_BiosCntl_of :: "8 word \<Rightarrow> BiosCntl" where
  "Series6_BiosCntl_of bios_cntl =
     \<lparr>smm_bios_write_protect_disable = Test 5 bios_cntl,
      top_swap_status = Test 4 bios_cntl,
      spi_read_configuration = cast_SpiReadConfiguration (unat (Value 3 2 bios_cntl)),
      bios_lock_enable = Test 1 bios_cntl,
      bios_write_enable = Test 0 bios_cntl\<rparr>"

definition Series6_ReadBiosCntlRegister :: "'w platform \<Rightarrow> ('w, BiosCntl) prog" where
  "Series6_ReadBiosCntlRegister P =
     bnd (ReadConfigUint8 P kBiosCntlRegister) (\<lambda>bios_cntl. ret (Series6_BiosCntl_of bios_cntl))"

definition Series6_Gcs_of :: "32 word \<Rightarrow> Gcs" where
  "Series6_Gcs_of gcs =
     \<lparr>boot_bios_straps = cast_BootBiosStraps (unat (Value 11 10 gcs)),
      bios_interface_lockdown = Test 0 gcs\<rparr>"

definition Series6_ReadGcsRegister :: "'w platform \<Rightarrow> Chipset \<Rightarrow> ('w, Gcs) prog" where
  "Series6_ReadGcsRegister P c =
     bnd (rcrb_mem c) (\<lambda>m.
     bnd (ReadUint32 P m (uint kGcsRegister)) (\<lambda>gcs. ret (Series6_Gcs_of gcs)))"

text \<open>
  The virtual \<open>IsIntegratedIo()\<close> of the 8 and the 9 series, which call the static one of their
  class, and the one an object of the 8 series or a class derived from it has.
\<close>

definition Intel8SeriesChipset_IsIntegratedIo :: "Chipset \<Rightarrow> bool" where
  "Intel8SeriesChipset_IsIntegratedIo c = Series8_IsIntegratedIo (device (hardware_id c))"

definition Intel9SeriesChipset_IsIntegratedIo :: "Chipset \<Rightarrow> bool" where
  "Intel9SeriesChipset_IsIntegratedIo c = Series9_IsIntegratedIo (device (hardware_id c))"

definition IsIntegratedIo :: "Chipset \<Rightarrow> bool" where
  "IsIntegratedIo c =
     (case chipset_cls c of
        Intel9SeriesChipset \<Rightarrow> Intel9SeriesChipset_IsIntegratedIo c
      | _ \<Rightarrow> Intel8SeriesChipset_IsIntegratedIo c)"

lemmas integrated_io_defs = IsIntegratedIo_def Intel8SeriesChipset_IsIntegratedIo_def
  Intel9SeriesChipset_IsIntegratedIo_def Series8_IsIntegratedIo_def Series9_IsIntegratedIo_def

definition Series8_Gcs_of :: "bool \<Rightarrow> 32 word \<Rightarrow> Gcs" where
  "Series8_Gcs_of integrated gcs =
     \<lparr>boot_bios_straps =
        (if integrated then [kBbsSpi, kBbsLpc] ! unat (Value 10 10 gcs)
         else [kBbsLpc, kBbsReserved, kBbsReserved, kBbsSpi] ! unat (Value 11 10 gcs)),
      bios_interface_lockdown = Test 0 gcs\<rparr>"

definition Series8_ReadGcsRegister :: "'w platform \<Rightarrow> Chipset \<Rightarrow> ('w, Gcs) prog" where
  "Series8_ReadGcsRegister P c =
     bnd (rcrb_mem c) (\<lambda>m.
     bnd (ReadUint32 P m (uint kGcsRegister)) (\<lambda>gcs. ret (Series8_Gcs_of (IsIntegratedIo c) gcs)))"

section \<open>The virtual functions of an object\<close>

definition ReadBiosCntlRegister :: "'w platform \<Rightarrow> Chipset \<Rightarrow> ('w, BiosCntl) prog" where
  "ReadBiosCntlRegister P c =
     (case chipset_cls c of
        IntelIch8Chipset \<Rightarrow> Ich8_ReadBiosCntlRegister P
      | IntelIch9Chipset \<Rightarrow> Ich8_ReadBiosCntlRegister P
      | IntelIch10Chipset \<Rightarrow> Ich8_ReadBiosCntlRegister P
      | _ \<Rightarrow> Series6_ReadBiosCntlRegister P)"

definition ReadGcsRegister :: "'w platform \<Rightarrow> Chipset \<Rightarrow> ('w, Gcs) prog" where
  "ReadGcsRegister P c =
     (case chipset_cls c of
        IntelIch8Chipset \<Rightarrow> Ich8_ReadGcsRegister P c
      | IntelIch9Chipset \<Rightarrow> Ich8_ReadGcsRegister P c
      | IntelIch10Chipset \<Rightarrow> Ich8_ReadGcsRegister P c
      | Intel6SeriesChipset \<Rightarrow> Series6_ReadGcsRegister P c
      | Intel7SeriesChipset \<Rightarrow> Series6_ReadGcsRegister P c
      | Intel8SeriesChipset \<Rightarrow> Series8_ReadGcsRegister P c
      | Intel9SeriesChipset \<Rightarrow> Series8_ReadGcsRegister P c)"

definition virtuals :: "'w platform \<Rightarrow> Chipset \<Rightarrow> 'w Chipset_virtuals" where
  "virtuals P c =
     \<lparr>v_ReadBiosCntlRegister = ReadBiosCntlRegister P c,
      v_ReadRcbaRegister = ReadRcbaRegister P,
      v_ReadGcsRegister = ReadGcsRegister P c,
      v_ReadBfprRegister = ReadBfprRegister P c,
      v_ReadHsfsRegister = ReadHsfsRegister P c,
      v_ReadHsfcRegister = ReadHsfcRegister P c,
      v_ReadFaddrRegister = ReadFaddrRegister P c,
      v_ReadFdataNRegister = ReadFdataNRegister P c,
      v_ReadFrapRegister = ReadFrapRegister P c,
      v_ReadFregNRegister = ReadFregNRegister P c,
      v_ReadPrNRegister = ReadPrNRegister P c,
      v_ReadSsfsRegister = ReadSsfsRegister P c,
      v_ReadSsfcRegister = ReadSsfcRegister P c,
      v_WriteHsfsRegister = WriteHsfsRegister P c,
      v_WriteHsfcRegister = WriteHsfcRegister P c,
      v_WriteFaddrRegister = WriteFaddrRegister P c,
      v_WriteSsfsRegister = WriteSsfsRegister P c,
      v_WriteSsfcRegister = WriteSsfcRegister P c\<rparr>"

section \<open>Overriding\<close>

text \<open>
  The declarations of each virtual function that more than one class defines, and how C++ finds the
  one an object has: its own class's, else that of the class it derives from.
\<close>

definition SpiBar_overriders :: "int \<Rightarrow> chipset_class \<Rightarrow> ('w, 16 word) prog option" where
  "SpiBar_overriders offset =
     [IntelIch8Chipset \<mapsto> Ich8_SpiBar offset, IntelIch9Chipset \<mapsto> Ich9_SpiBar offset]"

definition ReadBiosCntlRegister_overriders ::
    "'w platform \<Rightarrow> chipset_class \<Rightarrow> ('w, BiosCntl) prog option" where
  "ReadBiosCntlRegister_overriders P =
     [IntelIch8Chipset \<mapsto> Ich8_ReadBiosCntlRegister P,
      Intel6SeriesChipset \<mapsto> Series6_ReadBiosCntlRegister P]"

definition ReadGcsRegister_overriders ::
    "'w platform \<Rightarrow> Chipset \<Rightarrow> chipset_class \<Rightarrow> ('w, Gcs) prog option" where
  "ReadGcsRegister_overriders P c =
     [IntelIch8Chipset \<mapsto> Ich8_ReadGcsRegister P c, Intel6SeriesChipset \<mapsto> Series6_ReadGcsRegister P c,
      Intel8SeriesChipset \<mapsto> Series8_ReadGcsRegister P c]"

definition IsIntegratedIo_overriders :: "Chipset \<Rightarrow> chipset_class \<Rightarrow> bool option" where
  "IsIntegratedIo_overriders c =
     [Intel8SeriesChipset \<mapsto> Intel8SeriesChipset_IsIntegratedIo c,
      Intel9SeriesChipset \<mapsto> Intel9SeriesChipset_IsIntegratedIo c]"

lemmas overriders_defs = SpiBar_overriders_def ReadBiosCntlRegister_overriders_def
  ReadGcsRegister_overriders_def IsIntegratedIo_overriders_def

function final_overrider :: "(chipset_class \<Rightarrow> 'a option) \<Rightarrow> chipset_class \<Rightarrow> 'a option" where
  "final_overrider decls k =
     (case decls k of
        Some f \<Rightarrow> Some f
      | None \<Rightarrow> (case base_class k of None \<Rightarrow> None | Some b \<Rightarrow> final_overrider decls b))"
  by pat_completeness auto

termination
  by (relation "measure (depth \<circ> snd)") (auto dest: depth_base)

declare final_overrider.simps [simp del]

lemma final_overrider_own: "decls k = Some f \<Longrightarrow> final_overrider decls k = Some f"
  by (simp add: final_overrider.simps)

lemma final_overrider_inherits:
  "decls k = None \<Longrightarrow> base_class k = Some b \<Longrightarrow> final_overrider decls k = final_overrider decls b"
  by (simp add: final_overrider.simps [of decls k])

lemma final_overrider_none: "decls k = None \<Longrightarrow> base_class k = None \<Longrightarrow> final_overrider decls k = None"
  by (simp add: final_overrider.simps)

lemmas overrider_rules = final_overrider_own final_overrider_inherits final_overrider_none

lemma below_base: "base_class k = Some b \<Longrightarrow> j < k \<longleftrightarrow> j \<le> b"
  using depth_base [of k b] by (simp add: class_order less_Suc_eq_le)

lemma base_none: "base_class k = None \<Longrightarrow> \<not> j < k"
  by (cases k) (simp_all add: class_order)

text \<open>In the order of the classes: the declaration in the most derived class up to \<open>k\<close>.\<close>

lemma final_overrider_iff:
  "final_overrider decls k = Some f \<longleftrightarrow>
     (\<exists>k' \<le> k. decls k' = Some f \<and> (\<forall>j. k' < j \<and> j \<le> k \<longrightarrow> decls j = None))"
proof (induction decls k rule: final_overrider.induct)
  case (1 decls k)
  show ?case
  proof (cases "decls k")
    case None
    show ?thesis
    proof (cases "base_class k")
      case (Some b)
      have "(\<exists>k' \<le> k. decls k' = Some f \<and> (\<forall>j. k' < j \<and> j \<le> k \<longrightarrow> decls j = None)) \<longleftrightarrow>
          (\<exists>k' \<le> b. decls k' = Some f \<and> (\<forall>j. k' < j \<and> j \<le> b \<longrightarrow> decls j = None))"
        using None below_base [OF Some] by (metis option.distinct(1) order.order_iff_strict)
      with 1 [OF None Some] None Some show ?thesis by (simp add: final_overrider_inherits)
    qed (use None base_none [of k] in \<open>auto simp: final_overrider_none order.order_iff_strict\<close>)
  next
    case (Some g)
    then show ?thesis by (auto simp: final_overrider_own order.order_iff_strict)
  qed
qed

section \<open>Straps\<close>

lemma Value_11_10_cases:
  fixes v :: "32 word"
  shows "unat (Value 11 10 v) = of_bool (bit v 10) + 2 * of_bool (bit v 11)"
proof -
  have "Value 11 10 v = of_bool (bit v 10) OR push_bit 1 (of_bool (bit v 11))"
    by (rule bit_word_eqI) (auto simp: bit_Value bit_simps bit_1_iff le_Suc_eq numeral_eq_Suc)
  then show ?thesis by (simp add: One_nat_def)
qed

lemma Value_10_10_cases:
  fixes v :: "32 word"
  shows "unat (Value 10 10 v) = of_bool (bit v 10)"
proof -
  have "Value 10 10 v = of_bool (bit v 10)"
    by (rule bit_word_eqI) (auto simp: bit_Value bit_1_iff)
  then show ?thesis by simp
qed

lemma Ich8_straps_spi: "boot_bios_straps (Ich8_Gcs_of v) = kBbsSpi \<longleftrightarrow> \<not> bit v 11"
  by (cases "bit v 10"; cases "bit v 11"; simp add: Ich8_Gcs_of_def Value_11_10_cases One_nat_def)

lemma Series6_straps_spi: "boot_bios_straps (Series6_Gcs_of v) = kBbsSpi \<longleftrightarrow> bit v 11 \<and> bit v 10"
  by (simp add: Series6_Gcs_of_def Value_11_10_cases cast_BootBiosStraps_def)

lemma Series8_straps_spi:
  "boot_bios_straps (Series8_Gcs_of i v) = kBbsSpi \<longleftrightarrow>
     (if i then \<not> bit v 10 else bit v 11 \<and> bit v 10)"
  by (cases "bit v 10"; cases "bit v 11";
      simp add: Series8_Gcs_of_def Value_11_10_cases Value_10_10_cases One_nat_def)

text \<open>Which strap values select the SPI flash on a chipset.\<close>

definition straps_select_spi :: "Chipset \<Rightarrow> 32 word \<Rightarrow> bool" where
  "straps_select_spi c v =
     (if chipset_cls c \<in> {IntelIch8Chipset, IntelIch9Chipset, IntelIch10Chipset} then \<not> bit v 11
      else if chipset_cls c = Intel8SeriesChipset \<and>
                device (hardware_id c) \<in> {0x9C41, 0x9C43, 0x9C45} \<or>
              chipset_cls c = Intel9SeriesChipset \<and>
                device (hardware_id c) \<in> {0x9CC1, 0x9CC2, 0x9CC3, 0x9CC5, 0x9CC6, 0x9CC7, 0x9CC9}
      then \<not> bit v 10
      else bit v 11 \<and> bit v 10)"

lemmas gcs_defs = ReadGcsRegister_def Ich8_ReadGcsRegister_def Series6_ReadGcsRegister_def
  Series8_ReadGcsRegister_def

lemma ReadGcs_runs:
  assumes "rcrb_mem_ptr c = Some m" and "mem_load32 P (mem m + 0x3410) w = (v, w')"
  shows "runs (ReadGcsRegister P c) w (\<lambda>gcs w''. w'' = w' \<and>
     bios_interface_lockdown gcs = bit v 0 \<and>
     (boot_bios_straps gcs = kBbsSpi \<longleftrightarrow> straps_select_spi c v))"
proof -
  have lock: "bios_interface_lockdown (Ich8_Gcs_of v) = bit v 0"
    "bios_interface_lockdown (Series6_Gcs_of v) = bit v 0"
    "bios_interface_lockdown (Series8_Gcs_of i v) = bit v 0" for i
    by (simp_all add: Ich8_Gcs_of_def Series6_Gcs_of_def Series8_Gcs_of_def Test_eq_bit)
  show ?thesis
    using assms
    by (cases "chipset_cls c")
      (simp_all add: gcs_defs ReadUint32_def kGcsRegister_def lock Ich8_straps_spi
        Series6_straps_spi Series8_straps_spi integrated_io_defs
        straps_select_spi_def)
qed

section \<open>The mapped window\<close>

text \<open>
  An access of k bytes at an address lies in the window of a mapping when it ends within the
  16 KiB after its start. Two platforms that agree on the accesses inside the window and on the
  port instructions cannot be told apart by a function that stays inside it.
\<close>

definition in_window :: "PhysicalMemory \<Rightarrow> ptr \<Rightarrow> nat \<Rightarrow> bool" where
  "in_window m a k = (unat (a - mem m) + k \<le> 0x4000)"

definition agree_in_window :: "PhysicalMemory \<Rightarrow> 'w platform \<Rightarrow> 'w platform \<Rightarrow> bool" where
  "agree_in_window m P Q =
     ((\<forall>a. (in_window m a 1 \<longrightarrow> mem_load8 P a = mem_load8 Q a \<and> mem_store8 P a = mem_store8 Q a) \<and>
           (in_window m a 2 \<longrightarrow> mem_load16 P a = mem_load16 Q a \<and> mem_store16 P a = mem_store16 Q a) \<and>
           (in_window m a 4 \<longrightarrow> mem_load32 P a = mem_load32 Q a \<and> mem_store32 P a = mem_store32 Q a)) \<and>
      os_inb P = os_inb Q \<and> os_inw P = os_inw Q \<and> os_inl P = os_inl Q \<and> os_outl P = os_outl Q)"

lemma spi_addr_in_window:
  assumes "0 \<le> off" and "off < 0x100" and "k \<le> 4"
  shows "in_window m (spi_addr c m off) k"
proof -
  have "unat (word_of_int (spibar_base c + off) :: ptr) = nat (spibar_base c + off)"
    using assms by (simp add: unsigned_of_int take_bit_eq_mod spibar_base_def mod_pos_pos_trivial
        del: of_int_add)
  moreover have "nat (spibar_base c + off) + k \<le> 0x4000"
    using assms by (auto simp: spibar_base_def)
  ultimately show ?thesis by (simp add: in_window_def spi_addr_def del: of_int_add)
qed

lemma gcs_in_window: "in_window m (mem m + word_of_int (uint kGcsRegister)) 4"
  by (simp add: in_window_def kGcsRegister_def)

lemma spi_access_agree:
  assumes "rcrb_mem_ptr c = Some m" and "agree_in_window m P Q" and "0 \<le> off" and "off < 0x100"
  shows "spi_read8 P c off = spi_read8 Q c off" "spi_read16 P c off = spi_read16 Q c off"
    "spi_read32 P c off = spi_read32 Q c off" "spi_write8 P c off v = spi_write8 Q c off v"
    "spi_write16 P c off v = spi_write16 Q c off v" "spi_write32 P c off v = spi_write32 Q c off v"
  using assms(2) spi_addr_in_window [OF assms(3,4), of 1 m c]
    spi_addr_in_window [OF assms(3,4), of 2 m c] spi_addr_in_window [OF assms(3,4), of 4 m c]
  by (simp_all add: spi_access [OF assms(1,3,4)] agree_in_window_def)

lemma gcs_agree:
  assumes "agree_in_window m P Q"
  shows "ReadUint32 P m (uint kGcsRegister) = ReadUint32 Q m (uint kGcsRegister)"
  using assms gcs_in_window [of m] by (simp add: ReadUint32_def agree_in_window_def)

lemma config_agree:
  assumes "agree_in_window m P Q"
  shows "ReadConfigUint8 P a = ReadConfigUint8 Q a" "ReadConfigUint32 P a = ReadConfigUint32 Q a"
  using assms
  by (simp_all add: ReadConfigUint8_def ReadConfigUint32_def select_config_def agree_in_window_def)

lemmas register_defs = ReadBfprRegister_def ReadHsfsRegister_def WriteHsfsRegister_def
  ReadHsfcRegister_def WriteHsfcRegister_def ReadFaddrRegister_def WriteFaddrRegister_def
  WriteSsfsRegister_def WriteSsfcRegister_def ReadFdataNRegister_def ReadFrapRegister_def
  ReadSsfsRegister_def ReadSsfcRegister_def

lemmas bios_cntl_defs = ReadBiosCntlRegister_def Ich8_ReadBiosCntlRegister_def
  Series6_ReadBiosCntlRegister_def

lemma indexed_agree:
  assumes "rcrb_mem_ptr c = Some m" and "agree_in_window m P Q" and "0 \<le> i" and "i < 32"
  shows "ReadFregNRegister P c i = ReadFregNRegister Q c i"
    and "ReadPrNRegister P c i = ReadPrNRegister Q c i"
  using assms
  by (simp_all add: ReadFregNRegister_def ReadPrNRegister_def offset_defs indexed_offset_small
      spi_access_agree [OF assms(1,2)])

section \<open>Properties\<close>



text \<open>
  C18. Which strap settings count as booting from SPI flash, per class: bit 11 clear on the
  ICH8 to ICH10, bits 11 and 10 both set on the 6 to 9 series, bit 10 clear where the I/O is
  integrated in the processor, for both generations that have it.
\<close>

theorem boot_straps_spi:
  assumes "rcrb_mem_ptr c = Some m"
    and "mem_load32 P (mem m + 0x3410) w = (v, w')"
  shows "runs (ReadGcsRegister P c) w (\<lambda>gcs w''. w'' = w' \<and>
     bios_interface_lockdown gcs = bit v 0 \<and>
     (boot_bios_straps gcs = kBbsSpi \<longleftrightarrow>
       (if chipset_cls c \<in> {IntelIch8Chipset, IntelIch9Chipset, IntelIch10Chipset} then \<not> bit v 11
        else if chipset_cls c = Intel8SeriesChipset \<and>
                  device (hardware_id c) \<in> {0x9C41, 0x9C43, 0x9C45} \<or>
                chipset_cls c = Intel9SeriesChipset \<and>
                  device (hardware_id c) \<in> {0x9CC1, 0x9CC2, 0x9CC3, 0x9CC5, 0x9CC6, 0x9CC7, 0x9CC9}
        then \<not> bit v 10
        else bit v 11 \<and> bit v 10)))"
  using ReadGcs_runs [OF assms] by (simp add: straps_select_spi_def)

text \<open>
  C25. Before \<open>MapRootComplex\<close> every register of the root complex, read or written,
  ends the process with the message to call it first; only the two registers in PCI
  configuration space can be read.
\<close>

theorem unmapped_registers_are_fatal:
  assumes "rcrb_mem_ptr c = None"
  shows "virtuals P c =
     \<lparr>v_ReadBiosCntlRegister = ReadBiosCntlRegister P c, v_ReadRcbaRegister = ReadRcbaRegister P,
      v_ReadGcsRegister = die (LogFatal ''Call MapRootComplex() first.''),
      v_ReadBfprRegister = die (LogFatal ''Call MapRootComplex() first.''),
      v_ReadHsfsRegister = die (LogFatal ''Call MapRootComplex() first.''),
      v_ReadHsfcRegister = die (LogFatal ''Call MapRootComplex() first.''),
      v_ReadFaddrRegister = die (LogFatal ''Call MapRootComplex() first.''),
      v_ReadFdataNRegister = (\<lambda>i. if i < 0 \<or> 16 < i
         then die (LogFatal ''Flash data register out of range (must be in 0..15).'')
         else die (LogFatal ''Call MapRootComplex() first.'')),
      v_ReadFrapRegister = die (LogFatal ''Call MapRootComplex() first.''),
      v_ReadFregNRegister = (\<lambda>_. die (LogFatal ''Call MapRootComplex() first.'')),
      v_ReadPrNRegister = (\<lambda>_. die (LogFatal ''Call MapRootComplex() first.'')),
      v_ReadSsfsRegister = die (LogFatal ''Call MapRootComplex() first.''),
      v_ReadSsfcRegister = die (LogFatal ''Call MapRootComplex() first.''),
      v_WriteHsfsRegister = (\<lambda>_. die (LogFatal ''Call MapRootComplex() first.'')),
      v_WriteHsfcRegister = (\<lambda>_. die (LogFatal ''Call MapRootComplex() first.'')),
      v_WriteFaddrRegister = (\<lambda>_. die (LogFatal ''Call MapRootComplex() first.'')),
      v_WriteSsfsRegister = (\<lambda>_. die (LogFatal ''Call MapRootComplex() first.'')),
      v_WriteSsfcRegister = (\<lambda>_. die (LogFatal ''Call MapRootComplex() first.''))\<rparr>"
  using assms
  by (cases "chipset_cls c")
    (simp_all add: virtuals_def register_defs unmapped_access gcs_defs ReadFregNRegister_def
      ReadPrNRegister_def rcrb_mem_def fun_eq_iff)

end
