(* ===== verification/Chipset_Base.thy ===== *)
theory Chipset_Base
  imports Chipset_Series
begin

text \<open>
  \<open>pawn/chipset.cc\<close>: probing for a supported chipset, mapping and unmapping the root
  complex, and reading the flash with hardware sequencing.

  \<open>ReadSpiWithHardwareSequencing\<close> is written against the virtual functions of the object.
  Its busy wait and its block loop have no bound in the code, so both are
  \<open>partial_function (option)\<close> definitions: \<open>None\<close> is a run that never returns, and
  that the function does return is part of what is proved.
\<close>

section \<open>Probing\<close>

definition Chipset_probe :: "HardwareId \<Rightarrow> status + Chipset" where
  "Chipset_probe hw_id =
     (if vendor hw_id \<noteq> 0x8086
      then Inl (UnimplementedError ''Only Intel chipsets are currently supported'')
      else if Ich8_SupportsDevice hw_id then Inr (IntelIch8Chipset_ctor hw_id)
      else if Ich9_SupportsDevice hw_id then Inr (IntelIch9Chipset_ctor hw_id)
      else if Ich10_SupportsDevice hw_id then Inr (IntelIch10Chipset_ctor hw_id)
      else if Series6_SupportsDevice hw_id then Inr (Intel6SeriesChipset_ctor hw_id)
      else if Series7_SupportsDevice hw_id then Inr (Intel7SeriesChipset_ctor hw_id)
      else if Series8_SupportsDevice hw_id then Inr (Intel8SeriesChipset_ctor hw_id)
      else if Series9_SupportsDevice hw_id then Inr (Intel9SeriesChipset_ctor hw_id)
      else Inl (UnimplementedError ''Unsupported Intel chipset, check hardware id.''))"

text \<open>The first component of the result is the out-parameter \<open>probed_id\<close>.\<close>

definition Chipset_Create :: "'w platform \<Rightarrow> ('w, HardwareId \<times> (status + Chipset)) prog" where
  "Chipset_Create P =
     bnd (ReadConfigUint16 P kVidRegister) (\<lambda>vid.
     bnd (ReadConfigUint16 P kDidRegister) (\<lambda>did.
     bnd (ReadConfigUint8 P kRidRegister) (\<lambda>rid.
     let hw_id = \<lparr>vendor = vid, device = did, revision = rid\<rparr>
     in ret (hw_id, Chipset_probe hw_id))))"

section \<open>The root complex mapping\<close>

text \<open>\<open>unique_ptr::reset\<close> and the destructor of \<open>Chipset\<close>: the old mapping, if any, dies.\<close>

definition destroy_mapping :: "'w platform \<Rightarrow> PhysicalMemory option \<Rightarrow> ('w, unit) prog" where
  "destroy_mapping P old =
     (case old of None \<Rightarrow> ret () | Some m \<Rightarrow> PhysicalMemory_dtor P m)"

definition MapRootComplex :: "'w platform \<Rightarrow> Chipset \<Rightarrow> Rcba \<Rightarrow> ('w, status \<times> Chipset) prog" where
  "MapRootComplex P c rcba =
     (if \<not> rcba_enable rcba
      then ret (InvalidArgumentError ''RCBA Enable (EN) must be set'', c)
      else
        bnd (PhysicalMemory_Create P (ucast (base_address rcba)) 0x4000) (\<lambda>mem_or.
        case mem_or of
          Inl status \<Rightarrow> ret (status, c)
        | Inr m \<Rightarrow>
            bnd (destroy_mapping P (rcrb_mem_ptr c)) (\<lambda>_.
            ret (OkStatus, c\<lparr>rcrb_mem_ptr := Some m\<rparr>))))"

definition UnMapRootComplex :: "'w platform \<Rightarrow> Chipset \<Rightarrow> ('w, Chipset) prog" where
  "UnMapRootComplex P c =
     bnd (destroy_mapping P (rcrb_mem_ptr c)) (\<lambda>_. ret (c\<lparr>rcrb_mem_ptr := None\<rparr>))"

definition Chipset_dtor :: "'w platform \<Rightarrow> Chipset \<Rightarrow> ('w, unit) prog" where
  "Chipset_dtor P c = destroy_mapping P (rcrb_mem_ptr c)"

section \<open>Reading the flash\<close>

text \<open>\<open>do hsfs = ReadHsfsRegister(); while (!hsfs.flash_cycle_done);\<close>\<close>

partial_function (option) wait_cycle_done ::
    "'w Chipset_virtuals \<Rightarrow> 'w \<Rightarrow> ((fatal + Hsfs) \<times> 'w) option" where
  "wait_cycle_done V w =
     bnd (v_ReadHsfsRegister V) (\<lambda>hsfs.
       if \<not> flash_cycle_done hsfs then wait_cycle_done V else ret hsfs) w"

text \<open>\<open>for (int i = 0; i < buf.size(); ++i) buf[i] = ReadFdataNRegister(i);\<close>\<close>

fun fill_buf :: "'w Chipset_virtuals \<Rightarrow> nat list \<Rightarrow> 32 word list \<Rightarrow> ('w, 32 word list) prog" where
  "fill_buf V [] buf = ret buf"
| "fill_buf V (i # is) buf =
     bnd (v_ReadFdataNRegister V (int i)) (\<lambda>v. fill_buf V is (buf[i := v]))"

text \<open>The body of the block loop up to the end of the busy wait: one read cycle.\<close>

definition run_cycle :: "'w Chipset_virtuals \<Rightarrow> int \<Rightarrow> int \<Rightarrow> ('w, Hsfs) prog" where
  "run_cycle V cur_flash_address block_size =
     bnd (v_ReadHsfsRegister V) (\<lambda>hsfs.
     bnd (v_WriteHsfsRegister V
            (hsfs\<lparr>access_error_log := False, flash_cycle_error := False,
                  flash_cycle_done := False\<rparr>)) (\<lambda>_.
     bnd (v_ReadFaddrRegister V) (\<lambda>faddr.
     bnd (v_WriteFaddrRegister V
            (faddr\<lparr>flash_linear_address := word_of_int cur_flash_address\<rparr>)) (\<lambda>_.
     bnd (v_ReadHsfcRegister V) (\<lambda>hsfc.
     bnd (v_WriteHsfcRegister V
            (hsfc\<lparr>flash_data_byte_count := word_of_int (block_size - 1),
                  flash_cycle := kFcycleRead, flash_cycle_go := True\<rparr>)) (\<lambda>_.
     wait_cycle_done V))))))"

text \<open>
  The rest of the body: the error callback, the copy out of the data registers and the block
  callback, which gets the bytes of the buffer. The result says whether the loop goes on and
  carries the buffer, which lives across iterations.
\<close>

definition read_block ::
    "'w Chipset_virtuals \<Rightarrow> int \<Rightarrow> int \<Rightarrow> (int \<Rightarrow> 8 word list \<Rightarrow> ('w, bool) prog) \<Rightarrow>
     (int \<Rightarrow> ('w, bool) prog) option \<Rightarrow> 32 word list \<Rightarrow> ('w, bool \<times> 32 word list) prog" where
  "read_block V cur_flash_address block_size block_read block_read_error buf =
     bnd (run_cycle V cur_flash_address block_size) (\<lambda>hsfs.
     bnd (case block_read_error of
            Some f \<Rightarrow> if flash_cycle_error hsfs then f cur_flash_address else ret True
          | None \<Rightarrow> ret True) (\<lambda>go.
     if \<not> go then ret (False, buf)
     else
       bnd (fill_buf V [0..<length buf] buf) (\<lambda>buf.
       bnd (block_read cur_flash_address (concat (map le_bytes buf))) (\<lambda>more.
       ret (more, buf)))))"

text \<open>
  The \<open>for\<close> loop. \<open>flash_address + size\<close> is evaluated at every test and
  \<open>cur_flash_address += block_size\<close> after every block, both on \<open>int\<close>. The result is
  whether the loop ran to its end.
\<close>

partial_function (option) block_loop ::
    "'w Chipset_virtuals \<Rightarrow> int \<Rightarrow> int \<Rightarrow> int \<Rightarrow> (int \<Rightarrow> 8 word list \<Rightarrow> ('w, bool) prog) \<Rightarrow>
     (int \<Rightarrow> ('w, bool) prog) option \<Rightarrow> int \<Rightarrow> 32 word list \<Rightarrow> 'w \<Rightarrow>
     ((fatal + bool) \<times> 'w) option" where
  "block_loop V flash_address flash_size block_size block_read block_read_error cur buf w =
     bnd (c_int (flash_address + flash_size)) (\<lambda>end.
       if \<not> cur < end then ret True
       else
         bnd (read_block V cur block_size block_read block_read_error buf) (\<lambda>r.
         if \<not> fst r then ret False
         else
           bnd (c_int (cur + block_size)) (\<lambda>next.
           block_loop V flash_address flash_size block_size block_read block_read_error next
             (snd r)))) w"

definition ReadSpiWithHardwareSequencing ::
    "'w Chipset_virtuals \<Rightarrow> int \<Rightarrow> int \<Rightarrow> int \<Rightarrow>
     (int \<Rightarrow> 8 word list \<Rightarrow> ('w, bool) prog) option \<Rightarrow> (int \<Rightarrow> ('w, bool) prog) option \<Rightarrow>
     ('w, unit) prog option \<Rightarrow> ('w, status) prog" where
  "ReadSpiWithHardwareSequencing V flash_address flash_size block_size
     block_read block_read_error block_read_done =
     (case block_read of
        None \<Rightarrow> die (CheckFailed ''block_read'')
      | Some block_read \<Rightarrow>
          if block_size < 4 \<or> block_size > 64
          then ret (InvalidArgumentError ''Block size must be a value between 4-64 (inclusive).'')
          else if flash_size smod block_size \<noteq> 0
          then ret (InvalidArgumentError ''Size must be divisible by block size'')
          else
            bnd (v_ReadHsfsRegister V) (\<lambda>hsfs.
            if spi_cycle_in_progress hsfs
            then ret (UnavailableError ''SPI flash cycle in progress'')
            else
              bnd (block_loop V flash_address flash_size block_size block_read block_read_error
                     flash_address (replicate (nat (block_size sdiv 4)) 0)) (\<lambda>finished.
              if \<not> finished then ret OkStatus
              else
                bnd (case block_read_done of None \<Rightarrow> ret () | Some f \<Rightarrow> f) (\<lambda>_.
                ret OkStatus))))"

section \<open>Probing: the tables decide\<close>

text \<open>The static \<open>SupportsDevice\<close> of a class.\<close>

definition SupportsDevice :: "chipset_class \<Rightarrow> HardwareId \<Rightarrow> bool" where
  "SupportsDevice k =
     (case k of
        IntelIch8Chipset \<Rightarrow> Ich8_SupportsDevice
      | IntelIch9Chipset \<Rightarrow> Ich9_SupportsDevice
      | IntelIch10Chipset \<Rightarrow> Ich10_SupportsDevice
      | Intel6SeriesChipset \<Rightarrow> Series6_SupportsDevice
      | Intel7SeriesChipset \<Rightarrow> Series7_SupportsDevice
      | Intel8SeriesChipset \<Rightarrow> Series8_SupportsDevice
      | Intel9SeriesChipset \<Rightarrow> Series9_SupportsDevice)"

lemmas table_defs = Ich8_SupportsDevice_def Ich9_SupportsDevice_def Ich10_SupportsDevice_def
  Series6_SupportsDevice_def Series7_SupportsDevice_def Series8_SupportsDevice_def
  Series9_SupportsDevice_def Series8_IsIntegratedIo_def Series9_IsIntegratedIo_def

lemma probe_vendor: "SupportsDevice k hw \<Longrightarrow> vendor hw = 0x8086"
  by (cases k) (simp_all add: SupportsDevice_def table_defs)

lemma probe_table:
  assumes "SupportsDevice k hw"
  shows "Chipset_probe hw = Inr (Chipset_ctor k hw)"
  using assms
  by (cases k; simp add: SupportsDevice_def table_defs; elim conjE disjE;
      simp add: Chipset_probe_def table_defs)

lemma Chipset_ctor_inject: "Chipset_ctor k hw = Chipset_ctor k' hw \<Longrightarrow> k = k'"
  by (simp add: Chipset_ctor_def)

lemma tables_disjoint: "SupportsDevice k hw \<Longrightarrow> SupportsDevice k' hw \<Longrightarrow> k = k'"
  by (metis probe_table Chipset_ctor_inject sum.inject(2))

lemma probe_unsupported:
  assumes "\<nexists>k. SupportsDevice k hw"
  shows "Chipset_probe hw = Inl (UnimplementedError
    (if vendor hw = 0x8086 then ''Unsupported Intel chipset, check hardware id.''
     else ''Only Intel chipsets are currently supported''))"
proof -
  have "\<not> SupportsDevice k hw" for k using assms by blast
  from this [of IntelIch8Chipset] this [of IntelIch9Chipset] this [of IntelIch10Chipset]
    this [of Intel6SeriesChipset] this [of Intel7SeriesChipset] this [of Intel8SeriesChipset]
    this [of Intel9SeriesChipset]
  show ?thesis by (simp add: Chipset_probe_def SupportsDevice_def)
qed

section \<open>Byte blocks\<close>

lemma concat_le_bytes:
  assumes "4 * k \<le> length d"
  shows "concat (map (\<lambda>i. le_bytes (le_word (take 4 (drop (4 * i) d)) :: 32 word)) [0..<k])
    = take (4 * k) d"
  using assms
proof (induction k)
  case 0
  then show ?case by simp
next
  case (Suc k)
  have "le_bytes (le_word (take 4 (drop (4 * k) d)) :: 32 word) = take 4 (drop (4 * k) d)"
    using Suc.prems by (intro le_bytes_le_word) simp_all
  moreover have "take (4 * Suc k) d = take (4 * k) d @ take 4 (drop (4 * k) d)"
    by (simp add: take_add [symmetric] add.commute)
  ultimately show ?case using Suc by simp
qed

section \<open>The mapping over the life of a chipset\<close>

text \<open>
  Mapping, mapping again, and unmapping, in any order. \<open>own_maps\<close> and \<open>own_fds\<close> are what
  the object holds through \<open>rcrb_mem_\<close>.
\<close>

inductive map_step :: "'w platform \<Rightarrow> Chipset \<times> 'w \<Rightarrow> Chipset \<times> 'w \<Rightarrow> bool" for P where
  map_rcrb: "MapRootComplex P c rcba w = Some (Inr (s, c'), w') \<Longrightarrow> map_step P (c, w) (c', w')"
| unmap_rcrb: "UnMapRootComplex P c w = Some (Inr c', w') \<Longrightarrow> map_step P (c, w) (c', w')"

inductive_cases map_stepE: "map_step P (c, w) (c', w')"

definition own_maps :: "Chipset \<Rightarrow> (ptr \<times> 64 word) set" where
  "own_maps c = (case rcrb_mem_ptr c of None \<Rightarrow> {} | Some m \<Rightarrow> {(mem m, length_mem m)})"

definition own_fds :: "Chipset \<Rightarrow> int set" where
  "own_fds c = (case rcrb_mem_ptr c of None \<Rightarrow> {} | Some m \<Rightarrow> {mem_fd m})"

lemma own_simps [simp]:
  "own_maps (c\<lparr>rcrb_mem_ptr := None\<rparr>) = {}" "own_fds (c\<lparr>rcrb_mem_ptr := None\<rparr>) = {}"
  "own_maps (c\<lparr>rcrb_mem_ptr := Some m\<rparr>) = {(mem m, length_mem m)}"
  "own_fds (c\<lparr>rcrb_mem_ptr := Some m\<rparr>) = {mem_fd m}"
  by (simp_all add: own_maps_def own_fds_def)

lemma MapRootComplex_apply:
  "MapRootComplex P c rcba w =
     (if \<not> rcba_enable rcba
      then Some (Inr (InvalidArgumentError ''RCBA Enable (EN) must be set'', c), w)
      else bnd (PhysicalMemory_Create P (ucast (base_address rcba)) 0x4000) (\<lambda>r.
        case r of
          Inl status \<Rightarrow> ret (status, c)
        | Inr m \<Rightarrow> bnd (destroy_mapping P (rcrb_mem_ptr c)) (\<lambda>_.
            ret (OkStatus, c\<lparr>rcrb_mem_ptr := Some m\<rparr>))) w)"
  by (simp add: MapRootComplex_def ret_apply)

context memory_files
begin

text \<open>What the process holds besides \<open>F\<close> and \<open>M\<close> is what the object owns.\<close>

definition holds :: "int set \<Rightarrow> (ptr \<times> 64 word) set \<Rightarrow> Chipset \<times> 'w \<Rightarrow> bool" where
  "holds F M s = (maps (snd s) = M \<union> own_maps (fst s) \<and> M \<inter> own_maps (fst s) = {} \<and>
     F \<union> own_fds (fst s) \<subseteq> fds (snd s) \<and> F \<inter> own_fds (fst s) = {} \<and>
     (\<forall>m. rcrb_mem_ptr (fst s) = Some m \<longrightarrow> mem m \<noteq> nullptr))"

lemma destroy_mapping_runs:
  assumes "holds F M (c, w)"
  shows "runs (destroy_mapping P (rcrb_mem_ptr c)) w (\<lambda>_ w'.
     maps w' = M \<and> F \<subseteq> fds w' \<and> fds w' = fds w - own_fds c)"
proof (cases "rcrb_mem_ptr c")
  case None
  with assms show ?thesis by (simp add: holds_def destroy_mapping_def own_maps_def own_fds_def)
next
  case (Some m)
  with assms show ?thesis
    by (auto simp: holds_def destroy_mapping_def own_maps_def own_fds_def runs_def dtor_apply
        munmap close_fd)
qed

lemma Create_holds:
  assumes "holds F M (c, w)"
    and "PhysicalMemory_Create P off len w = Some (Inr r, w')"
  shows "case r of
      Inl e \<Rightarrow> holds F M (c, w')
    | Inr m \<Rightarrow> holds (insert (mem_fd m) F) (insert (mem m, length_mem m) M) (c, w') \<and>
        mem_fd m \<notin> F \<and> (mem m, length_mem m) \<notin> M \<and> mem m \<noteq> nullptr"
proof (cases "fst (dev_mem_opened P w) = - 1")
  case True
  with assms show ?thesis
    by (auto simp: Create_open_fails holds_def dev_mem_opened_def file_laws)
next
  case opened: False
  show ?thesis
  proof (cases "fst (dev_mem_mapped P off len w) = MAP_FAILED")
    case True
    with assms opened Create_leaves [OF opened, of off len] show ?thesis
      by (auto simp: Create_map_fails holds_def)
  next
    case False
    with assms opened Create_leaves [OF opened, of off len] opened_fresh [OF opened]
      mapped_mem [OF False]
    show ?thesis
      by (auto simp: Create_succeeds holds_def)
  qed
qed

lemma MapRootComplex_holds:
  assumes "holds F M (c, w)" and "MapRootComplex P c rcba w = Some (Inr (s, c'), w')"
  shows "holds F M (c', w')"
proof (cases "rcba_enable rcba")
  case False
  with assms show ?thesis by (simp add: MapRootComplex_apply)
next
  case True
  with assms(2) obtain r w1 where
    r: "PhysicalMemory_Create P (ucast (base_address rcba)) 0x4000 w = Some (Inr r, w1)"
    and rest: "(case r of Inl status \<Rightarrow> ret (status, c)
        | Inr m \<Rightarrow> bnd (destroy_mapping P (rcrb_mem_ptr c)) (\<lambda>_.
            ret (OkStatus, c\<lparr>rcrb_mem_ptr := Some m\<rparr>))) w1 = Some (Inr (s, c'), w')"
    by (auto simp: MapRootComplex_apply bnd_def split: bind_splits sum.splits)
  note held = Create_holds [OF assms(1) r]
  show ?thesis
  proof (cases r)
    case (Inl e)
    with held rest show ?thesis by (simp add: ret_apply)
  next
    case (Inr m)
    with held have "holds (insert (mem_fd m) F) (insert (mem m, length_mem m) M) (c, w1)"
      by simp
    from destroy_mapping_runs [OF this] Inr rest held show ?thesis
      by (auto simp: runs_iff bnd_Inr ret_apply holds_def)
  qed
qed

lemma map_step_holds: "map_step P s s' \<Longrightarrow> holds F M s \<Longrightarrow> holds F M s'"
proof (induction rule: map_step.induct)
  case (map_rcrb c rcba w s c' w')
  then show ?case by (blast intro: MapRootComplex_holds)
next
  case (unmap_rcrb c w c' w')
  with destroy_mapping_runs [of F M c w] show ?case
    by (auto simp: UnMapRootComplex_def runs_iff bnd_Inr ret_apply holds_def)
qed

lemma reachable_dtor_runs:
  assumes "(map_step P)\<^sup>*\<^sup>* (Chipset_ctor k hw, w0) (c, w)"
  shows "runs (Chipset_dtor P c) w (\<lambda>_ w'. maps w' = maps w0 \<and> fds w0 \<subseteq> fds w')"
proof -
  have "holds (fds w0) (maps w0) (c, w)"
    using assms
  proof (induction rule: rtranclp_induct)
    case base
    show ?case by (simp add: holds_def Chipset_ctor_def own_maps_def own_fds_def)
  next
    case (step y z)
    then show ?case by (blast intro: map_step_holds)
  qed
  from destroy_mapping_runs [OF this] show ?thesis
    by (simp add: Chipset_dtor_def runs_iff) blast
qed

end

section \<open>The identification read\<close>

lemma lpc_dwords:
  "kVidRegister AND 0xFFFFFC = 0xF800" "kDidRegister AND 0xFFFFFC = 0xF800"
  "kRidRegister AND 0xFFFFFC = 0xF808"
  by (simp_all add: kVidRegister_def kDidRegister_def kRidRegister_def MakeConfigAddress_def
      Set_def One_nat_def)

context config_mechanism
begin

lemma id_registers_run:
  "runs (ReadConfigUint16 P kVidRegister) w (\<lambda>v w'. v = ucast (space w 0xF800) \<and> space w' = space w)"
  "runs (ReadConfigUint16 P kDidRegister) w (\<lambda>v w'.
     v = ucast (drop_bit 16 (space w 0xF800)) \<and> space w' = space w)"
  "runs (ReadConfigUint8 P kRidRegister) w (\<lambda>v w'. v = ucast (space w 0xF808) \<and> space w' = space w)"
  using ReadConfigUint16_runs [OF kVidRegister_def, of w]
    ReadConfigUint16_runs [OF kDidRegister_def, of w]
    ReadConfigUint8_runs [OF kRidRegister_def, of w]
  by (auto simp: lpc_dwords elim!: runs_mono)

lemma Chipset_Create_runs:
  "runs (Chipset_Create P) w (\<lambda>r w'.
     fst r = \<lparr>vendor = ucast (space w 0xF800), device = ucast (drop_bit 16 (space w 0xF800)),
              revision = ucast (space w 0xF808)\<rparr> \<and>
     snd r = Chipset_probe (fst r) \<and> space w' = space w)"
  unfolding Chipset_Create_def Let_def
  by (auto intro!: runs_mono [OF id_registers_run(1)] runs_mono [OF id_registers_run(2)]
      runs_mono [OF id_registers_run(3)])

end

section \<open>Properties\<close>

text \<open>
  C12. Probing decides by the device tables alone: it returns a chipset object exactly when
  some class lists the device, the object is of that class and carries the identification and no mapping, and at most
  one class lists any device. For all other devices it returns the unimplemented error, with the
  message that tells an unknown Intel device from a foreign vendor.
\<close>

theorem probe_decides_by_tables:
  "(Chipset_probe hw = Inr c \<longleftrightarrow> (\<exists>k. SupportsDevice k hw \<and>
      c = \<lparr>chipset_cls = k, hardware_id = hw, rcrb_mem_ptr = None\<rparr>))
   \<and> (SupportsDevice k hw \<and> SupportsDevice k' hw \<longrightarrow> k = k')
   \<and> (Chipset_probe hw = Inl s \<longleftrightarrow> (\<forall>k. \<not> SupportsDevice k hw) \<and> s = UnimplementedError
        (if vendor hw = 0x8086 then ''Unsupported Intel chipset, check hardware id.''
         else ''Only Intel chipsets are currently supported''))"
proof (cases "\<exists>k. SupportsDevice k hw")
  case True
  then obtain k0 where "SupportsDevice k0 hw" ..
  with tables_disjoint [of _ hw] probe_table [of k0 hw] show ?thesis
    by (auto simp: Chipset_ctor_def)
next
  case False
  then show ?thesis by (auto simp: probe_unsupported)
qed

theorem probe_decides_by_tables_witness:
  "Chipset_probe \<lparr>vendor = 0x8086, device = 0x2918, revision = 2\<rparr> =
     Inr \<lparr>chipset_cls = IntelIch9Chipset,
       hardware_id = \<lparr>vendor = 0x8086, device = 0x2918, revision = 2\<rparr>, rcrb_mem_ptr = None\<rparr>"
proof -
  let ?hw = "\<lparr>vendor = 0x8086, device = 0x2918, revision = 2\<rparr>"
  have "SupportsDevice IntelIch9Chipset ?hw"
    by (simp add: SupportsDevice_def Ich9_SupportsDevice_def)
  then show ?thesis
    using probe_decides_by_tables [of ?hw "\<lparr>chipset_cls = IntelIch9Chipset, hardware_id = ?hw,
      rcrb_mem_ptr = None\<rparr>" IntelIch9Chipset IntelIch9Chipset] by blast
qed

text \<open>
  C13. On a host bridge with configuration mechanism 1, \<open>Chipset::Create\<close> reports the
  vendor, device and revision registers of the LPC bridge, bus 0 device 31 function 0, in its
  out-parameter, returns what probing says of exactly that identification, and changes nothing in
  the configuration space.
\<close>

theorem create_probes_lpc_bridge:
  assumes "config_mechanism P latch space"
  shows "runs (Chipset_Create P) w (\<lambda>r w'.
     fst r = \<lparr>vendor = ucast (space w 0xF800), device = ucast (drop_bit 16 (space w 0xF800)),
              revision = ucast (space w 0xF808)\<rparr> \<and>
     snd r = Chipset_probe (fst r) \<and> space w' = space w)"
  using assms by (rule config_mechanism.Chipset_Create_runs)

text \<open>
  C14. Over any sequence of \<open>MapRootComplex\<close> and \<open>UnMapRootComplex\<close> calls on a newly
  created chipset, successful or not, the object holds at most one mapping, and its destructor leaves
  exactly the mappings the process had before, without closing a descriptor that was open before.
\<close>

theorem mapping_released_after_any_sequence:
  assumes "memory_files P fds maps"
    and "(map_step P)\<^sup>*\<^sup>* (Chipset_ctor k hw, w0) (c, w)"
  shows "runs (Chipset_dtor P c) w (\<lambda>_ w'. maps w' = maps w0 \<and> fds w0 \<subseteq> fds w')"
  using assms by (rule memory_files.reachable_dtor_runs)

text \<open>
  C20. A call of the flash reader with unusable arguments touches nothing: a missing block
  callback ends the process, a block size outside 4 to 64 or a size that is not a multiple of it
  returns the invalid argument status, and a cycle already in progress returns the unavailable
  status, in all cases without a register write or a callback.
\<close>

theorem flash_read_rejects:
  "ReadSpiWithHardwareSequencing V fa n bs None be bd w = Some (Inl (CheckFailed ''block_read''), w)
   \<and> (bs < 4 \<or> 64 < bs \<longrightarrow> ReadSpiWithHardwareSequencing V fa n bs (Some br) be bd w =
        Some (Inr (InvalidArgumentError
          ''Block size must be a value between 4-64 (inclusive).''), w))
   \<and> (4 \<le> bs \<and> bs \<le> 64 \<and> \<not> bs dvd n \<longrightarrow>
        ReadSpiWithHardwareSequencing V fa n bs (Some br) be bd w =
        Some (Inr (InvalidArgumentError ''Size must be divisible by block size''), w))
   \<and> (4 \<le> bs \<and> bs \<le> 64 \<and> bs dvd n \<and> v_ReadHsfsRegister V w = Some (Inr h, w') \<and>
        spi_cycle_in_progress h \<longrightarrow>
        ReadSpiWithHardwareSequencing V fa n bs (Some br) be bd w =
        Some (Inr (UnavailableError ''SPI flash cycle in progress''), w'))"
proof -
  have "n smod bs = 0 \<longleftrightarrow> bs dvd n" if "4 \<le> bs"
    using that by (auto simp: signed_modulo_int_def sgn_0_0 dvd_eq_mod_eq_0 [symmetric])
  then show ?thesis
    by (auto simp: ReadSpiWithHardwareSequencing_def ret_apply die_apply bnd_Inr)
qed

theorem flash_read_rejects_witness:
  "\<forall>V :: unit Chipset_virtuals.
   ReadSpiWithHardwareSequencing V 0 100 64
     (Some (\<lambda>_ _. ret True)) None None () =
     Some (Inr (InvalidArgumentError ''Size must be divisible by block size''), ())
   \<and> ReadSpiWithHardwareSequencing V 0 100 65 (Some (\<lambda>_ _. ret True)) None None () =
     Some (Inr (InvalidArgumentError
       ''Block size must be a value between 4-64 (inclusive).''), ())"
    (is "\<forall>V. ?P V")
proof
  fix V :: "unit Chipset_virtuals"
  show "?P V"
    using flash_read_rejects [where V = V and fa = 0 and n = 100 and bs = 64 and be = None
        and bd = None and w = "()" and br = "\<lambda>_ _. ret True"]
      flash_read_rejects [where V = V and fa = 0 and n = 100 and bs = 65 and be = None
        and bd = None and w = "()" and br = "\<lambda>_ _. ret True"]
    by simp
qed

end
