(* ===== verification/Pawn_Main.thy ===== *)
theory Pawn_Main
  imports Chipset_Base
begin

text \<open>
  \<open>pawn/pawn.cc\<close>: the command line tool. \<open>PawnMain\<close> is the whole function, with
  every early return and every check that ends the process; the part that runs once the root
  complex is mapped is \<open>dump_flash\<close>. On every return the destructors of the local objects
  run, the chipset's first, then that of the \<open>Pci\<close> object; a failed check ends the process
  without them.

  Text goes to \<open>absl::PrintF\<close> as the format string and the argument values. A \<open>FILE*\<close>
  is a pointer; \<open>fflush(STDIN_FILENO)\<close> passes the constant 0, the null pointer, and so
  flushes every stream. Closing the dump file is left to the process exit: the lambda
  \<open>dump_closer\<close> is never called.
\<close>

section \<open>Constants and output\<close>

definition EXIT_SUCCESS :: int where "EXIT_SUCCESS = 0"

definition EXIT_FAILURE :: int where "EXIT_FAILURE = 1"

definition kPawnName :: string where "kPawnName = ''pawn''"

definition kPawnCopyright :: string where "kPawnCopyright = ''(c)2014-2023 Google LLC.''"

definition kNumFlashRegions :: nat where "kNumFlashRegions = 5"

definition kBlockSize :: int where "kBlockSize = 64"

definition kMaxFlash :: int where "kMaxFlash = push_bit 20 16"

definition nl :: string where "nl = [CHR 0x0A]"

definition printf :: "'w platform \<Rightarrow> string \<Rightarrow> fmt_arg list \<Rightarrow> ('w, unit) prog" where
  "printf P fmt args = eff (absl_PrintF P fmt args)"

definition fmt_bool :: "bool \<Rightarrow> fmt_arg" where
  "fmt_bool b = FmtInt (of_bool b)"

definition fmt_word :: "'a::len word \<Rightarrow> fmt_arg" where
  "fmt_word v = FmtInt (uint v)"

definition kBootBiosStrapsDesc :: "string list" where
  "kBootBiosStrapsDesc = [''LPC'', ''Reserved'', ''PCI'', ''SPI'']"

text \<open>
  \<open>*reinterpret_cast<uint32_t*>(&frap)\<close>: the x86-64 ABI allocates bit-fields from the
  least significant bit up, so the first field is the lowest byte.
\<close>

definition Frap_reinterpret :: "Frap \<Rightarrow> 32 word" where
  "Frap_reinterpret frap =
     ucast (bios_master_write_access_grant frap) OR
     push_bit 8 (ucast (bios_master_read_access_grant frap)) OR
     push_bit 16 (ucast (bios_region_write_access frap)) OR
     push_bit 24 (ucast (bios_region_read_access frap))"

section \<open>Flash regions\<close>

fun read_regions ::
    "'w platform \<Rightarrow> 'w Chipset_virtuals \<Rightarrow> nat list \<Rightarrow> ('w, (FregN \<times> PrN) list) prog" where
  "read_regions P V [] = ret []"
| "read_regions P V (i # is) =
     bnd (v_ReadFregNRegister V (int i)) (\<lambda>freg.
     bnd (v_ReadPrNRegister V (int i)) (\<lambda>pr.
     thn (printf P (''FREG%d  Base: 0x%08X  Limit: 0x%08X'' @ nl)
            [FmtInt (int i), fmt_word (region_base freg), fmt_word (region_limit freg)])
     (bnd (read_regions P V is) (\<lambda>rest. ret ((freg, pr) # rest)))))"

fun print_ranges :: "'w platform \<Rightarrow> (nat \<times> (FregN \<times> PrN)) list \<Rightarrow> ('w, unit) prog" where
  "print_ranges P [] = ret ()"
| "print_ranges P ((i, region) # rest) =
     thn (printf P (''    PR%d Write Protection Enable: %d'' @ nl)
            [FmtInt (int i), fmt_bool (write_protection_enable (snd region))])
     (thn (printf P (''        Read Protection Enable:  %d'' @ nl)
            [fmt_bool (read_protection_enable (snd region))])
     (thn (printf P (''        Protected Range Base:    0x%08X  Limit: 0x%08X'' @ nl)
            [fmt_word (protected_range_base (snd region)),
             fmt_word (protected_range_limit (snd region))])
     (print_ranges P rest)))"

section \<open>The block callback\<close>

definition dump_block :: "'w platform \<Rightarrow> ptr \<Rightarrow> int \<Rightarrow> 8 word list \<Rightarrow> ('w, bool) prog" where
  "dump_block P dump fla data =
     thn (if (fla sdiv kBlockSize) smod 256 = 0
          then thn (printf P ''.'' []) (thn (act (io_fflush P nullptr)) (ret ()))
          else ret ())
     (if length data < nat kBlockSize
      then die (UndefinedBehaviour ''read past the end of the block buffer'')
      else
        bnd (act (io_fwrite P (take (nat kBlockSize) data) dump)) (\<lambda>n.
        if n \<noteq> nat kBlockSize then die (LogFatal ''Could not write 64 bytes.'') else ret True))"

section \<open>Dumping\<close>

text \<open>What is printed of the protection registers before the dump, in order.\<close>

definition report_protection ::
    "'w platform \<Rightarrow> 'w Chipset_virtuals \<Rightarrow> (FregN \<times> PrN) list \<Rightarrow> ('w, Hsfs) prog" where
  "report_protection P V regions =
     thn (printf P (''BIOS protection mechanisms:'' @ nl) [])
     (bnd (v_ReadHsfsRegister V) (\<lambda>hsfs.
     thn (printf P (''  HSFS Flash Configuration Lock-Down (FLOCKDN): %d'' @ nl)
            [fmt_bool (flash_configuration_lockdown hsfs)])
     (thn (printf P (''  BIOS Control Register (BIOS_CNTL):'' @ nl) [])
     (bnd (v_ReadBiosCntlRegister V) (\<lambda>bios_cntl.
     thn (printf P (''    SMM BIOS Write Protect Disable (SMM_BWP):   %d'' @ nl)
            [fmt_bool (smm_bios_write_protect_disable bios_cntl)])
     (thn (printf P (''    BIOS Lock Enable (BLE):                     %d'' @ nl)
            [fmt_bool (bios_lock_enable bios_cntl)])
     (thn (printf P (''    BIOS Write Enable (BIOSWE):                 %d'' @ nl)
            [fmt_bool (bios_write_enable bios_cntl)])
     (thn (printf P (''  Protected Range Registers:'' @ nl) [])
     (thn (print_ranges P (enumerate 0 regions))
     (ret hsfs))))))))))"

text \<open>From opening the output file to the end.\<close>

definition write_dump ::
    "'w platform \<Rightarrow> 'w Chipset_virtuals \<Rightarrow> string \<Rightarrow> ('w, int) prog" where
  "write_dump P V dump_filename =
     bnd (act (io_fopen P dump_filename ''wb'')) (\<lambda>dump.
     if dump = nullptr
     then thn (printf P (''Error: Could not open output file for writing.'' @ nl) [])
          (ret EXIT_FAILURE)
     else
       thn (printf P ''Reading SPI flash'' [])
       (thn (act (io_fflush P nullptr))
       (bnd (v_ReadSsfsRegister V) (\<lambda>ssfs.
       if ssfs_spi_cycle_in_progress ssfs
       then thn (printf P (''Error: SPI flash cycle in progress'' @ nl) []) (ret EXIT_FAILURE)
       else
         bnd (ReadSpiWithHardwareSequencing V 0 kMaxFlash kBlockSize
                (Some (dump_block P dump)) None (Some (printf P nl []))) (\<lambda>status.
         if \<not> status_ok status then die (CheckFailed (status_message status))
         else ret EXIT_SUCCESS)))))"

definition dump_flash ::
    "'w platform \<Rightarrow> 'w Chipset_virtuals \<Rightarrow> string \<Rightarrow> ('w, int) prog" where
  "dump_flash P V dump_filename =
     bnd (v_ReadGcsRegister V) (\<lambda>gcs.
     thn (printf P (''Boot BIOS Straps (BBS): %s'' @ nl)
            [FmtStr (kBootBiosStrapsDesc ! BootBiosStraps_val (boot_bios_straps gcs))])
     (if boot_bios_straps gcs \<noteq> kBbsSpi
      then thn (printf P (''Error: BIOS not located in SPI flash.'' @ nl) []) (ret EXIT_FAILURE)
      else
        bnd (v_ReadBfprRegister V) (\<lambda>bfpr.
        thn (printf P (''PRB: 0x%08X  PRL: 0x%08X'' @ nl)
               [fmt_word (bios_flash_primary_region_base bfpr),
                fmt_word (bios_flash_primary_region_limit bfpr)])
        (bnd (v_ReadFrapRegister V) (\<lambda>frap.
        thn (printf P (''FRAP: 0x%08X'' @ nl) [fmt_word (Frap_reinterpret frap)])
        (bnd (read_regions P V [0..<kNumFlashRegions]) (\<lambda>regions.
        bnd (report_protection P V regions) (\<lambda>hsfs.
        thn (printf P (''Flash Descriptor Valid (FDV): %d'' @ nl)
               [fmt_bool (flash_descriptor_valid hsfs)])
        (if \<not> flash_descriptor_valid hsfs
         then thn (printf P (''Error: System not in descriptor mode!'' @ nl) [])
              (ret EXIT_FAILURE)
         else write_dump P V dump_filename)))))))))"

section \<open>The program\<close>

text \<open>
  A return once the chipset exists: its destructor and that of the \<open>Pci\<close> object, which is
  in cell 0 of \<open>h\<close>, run.
\<close>

definition return_code :: "'w platform \<Rightarrow> pci_store \<Rightarrow> Chipset \<Rightarrow> int \<Rightarrow> ('w, int) prog" where
  "return_code P h chipset code =
     thn (Chipset_dtor P chipset) (thn (Pci_dtor P 0 h) (ret code))"

definition map_and_dump ::
    "'w platform \<Rightarrow> pci_store \<Rightarrow> Chipset \<Rightarrow> Rcba \<Rightarrow> string \<Rightarrow> ('w, int) prog" where
  "map_and_dump P h chipset rcba dump_filename =
     bnd (MapRootComplex P chipset rcba) (\<lambda>mapped.
     bnd (if \<not> status_ok (fst mapped)
          then thn (printf P
                 (''Error: %s'' @ nl @
                  ''       Check if your kernel was compiled with IO_STRICT_DEVMEM=y.'' @ nl @
                  ''       On Debian kernels > 4.8.4, boot with iomem=relaxed to'' @ nl @
                  ''       temporarily disable /dev/mem IO protection.'' @ nl)
                 [FmtStr (status_message (fst mapped))])
               (ret EXIT_FAILURE)
          else dump_flash P (virtuals P (snd mapped)) dump_filename)
     (return_code P h (snd mapped)))"

text \<open>From the acquired privilege to the return.\<close>

definition probe_and_dump ::
    "'w platform \<Rightarrow> pci_store \<Rightarrow> string \<Rightarrow> ('w, int) prog" where
  "probe_and_dump P h dump_filename =
     thn (printf P ''Reading chipset LPC device identification: '' [])
     (bnd (Chipset_Create P) (\<lambda>created.
     let hw_id = fst created in
     thn (printf P (''  VID: 0x%04X  DID: 0x%04X  RID: 0x%02X (%d)'' @ nl)
            [fmt_word (vendor hw_id), fmt_word (device hw_id), fmt_word (revision hw_id),
             fmt_word (revision hw_id)])
     (case snd created of
        Inl status \<Rightarrow> die (CheckFailed (status_message status))
      | Inr chipset \<Rightarrow>
          bnd (v_ReadRcbaRegister (virtuals P chipset)) (\<lambda>rcba.
          thn (printf P (''Mapping 16KiB chipset configuration space at RCBA = 0x%8X, this may '' @
                         ''fail...'' @ nl) [fmt_word (base_address rcba)])
          (map_and_dump P h chipset rcba dump_filename)))))"

definition PawnMain :: "'w platform \<Rightarrow> string list \<Rightarrow> ('w, int) prog" where
  "PawnMain P argv =
     (case argv of
        [] \<Rightarrow> die (UndefinedBehaviour ''basename(nullptr)'')
      | arg0 # _ \<Rightarrow>
          thn (eff (absl_SetProgramUsageMessage P
                 (absl_StrFormat P
                    (''Extract BIOS/UEFI firmware'' @ nl @ ''Usage: %1$s [OPTION] OUTPUT'' @ nl)
                    [FmtStr (c_basename P arg0)])))
          (bnd (absl_ParseCommandLine P argv) (\<lambda>parsed_argv.
          let dump_filename =
                (if length parsed_argv = 2 then parsed_argv ! 1 else ''bios_via_spi_hs.bin'')
          in if \<not> length parsed_argv \<le> 2 then die (CheckFailed ''parsed_argv.size() <= 2'')
          else
            bnd (act (\<lambda>w. (absl_FLAGS_logo P w, w))) (\<lambda>logo.
            thn (if logo
                 then printf P (''%s %s, %s'' @ nl)
                        [FmtStr kPawnName, FmtStr (build_kPawnDetailedVersion P),
                         FmtStr kPawnCopyright]
                 else ret ())
            (thn (printf P (''Acquiring I/O port read permissions, this may fail...'' @ nl) [])
            (bnd (Pci_Create P 0 1 Map.empty) (\<lambda>pci.
            case pci of
              Inl status \<Rightarrow> die (CheckFailed (status_message status))
            | Inr h \<Rightarrow> probe_and_dump P h dump_filename)))))))"

definition main :: "'w platform \<Rightarrow> string list \<Rightarrow> ('w, int) prog" where
  "main P argv = PawnMain P argv"

end
