(* ===== verification/Flash_Sequencing.thy ===== *)
theory Flash_Sequencing
  imports Chipset_Base
begin

text \<open>
  Correctness of \<open>ReadSpiWithHardwareSequencing\<close> (\<open>pawn/chipset.cc\<close>).

  \<open>spec_blocks\<close> is the abstract specification: walk a list of block addresses, ask the
  flash for each block, and hand what it answered to the callbacks. The locale
  \<open>flash_sequencer\<close> is the contract between the generic reader and the virtual functions of
  a chipset: what a client sees of a controller that is idle, has its status cleared, has its
  address set, is busy with a cycle, or has finished one. Inside it the reader is shown to
  return, and to compute the specification.

  The locale \<open>spi_controller\<close> is the contract one level down: what the device behind the
  mapped registers answers to single loads and stores at the offsets of HSFS, HSFC, FADDR and
  FDATA. The \<open>sublocale\<close> shows that the register accessors of every chipset class turn a
  device with that behaviour into a \<open>flash_sequencer\<close>.
\<close>

section \<open>The specification\<close>

text \<open>
  \<open>ans a n\<close> is what the flash answers to a read cycle of n bytes at linear address a: the
  error flag and the n data bytes. The callbacks act on the client's own state \<open>'v\<close> and say
  whether to go on. The data handed over is cut to whole registers of four bytes.
\<close>

type_synonym flash_answer = "25 word \<Rightarrow> nat \<Rightarrow> bool \<times> 8 word list"

definition spec_error :: "(int \<Rightarrow> 'v \<Rightarrow> bool \<times> 'v) option \<Rightarrow> bool \<Rightarrow> int \<Rightarrow> 'v \<Rightarrow> bool \<times> 'v" where
  "spec_error on_error err a v =
     (case on_error of
        Some f \<Rightarrow> if err then f a v else (True, v)
      | None \<Rightarrow> (True, v))"

definition block_data :: "flash_answer \<Rightarrow> int \<Rightarrow> int \<Rightarrow> 8 word list" where
  "block_data ans bs a = take (4 * (nat bs div 4)) (snd (ans (word_of_int a) (nat bs)))"

definition spec_block ::
    "flash_answer \<Rightarrow> int \<Rightarrow> (int \<Rightarrow> 8 word list \<Rightarrow> 'v \<Rightarrow> bool \<times> 'v) \<Rightarrow>
     (int \<Rightarrow> 'v \<Rightarrow> bool \<times> 'v) option \<Rightarrow> int \<Rightarrow> 'v \<Rightarrow> bool \<times> 'v" where
  "spec_block ans bs on_block on_error a v =
     (case spec_error on_error (fst (ans (word_of_int a) (nat bs))) a v of
        (go, v1) \<Rightarrow> if go then on_block a (block_data ans bs a) v1 else (False, v1))"

fun spec_blocks ::
    "flash_answer \<Rightarrow> int \<Rightarrow> (int \<Rightarrow> 8 word list \<Rightarrow> 'v \<Rightarrow> bool \<times> 'v) \<Rightarrow>
     (int \<Rightarrow> 'v \<Rightarrow> bool \<times> 'v) option \<Rightarrow> int list \<Rightarrow> 'v \<Rightarrow> bool \<times> 'v" where
  "spec_blocks ans bs on_block on_error [] v = (True, v)"
| "spec_blocks ans bs on_block on_error (a # as) v =
     (case spec_block ans bs on_block on_error a v of
        (cont, v') \<Rightarrow> if cont then spec_blocks ans bs on_block on_error as v' else (False, v'))"

definition block_addresses :: "int \<Rightarrow> int \<Rightarrow> int \<Rightarrow> int list" where
  "block_addresses fa n bs = map (\<lambda>i. fa + int i * bs) [0..<nat (n div bs)]"

definition spec_read ::
    "flash_answer \<Rightarrow> int \<Rightarrow> int \<Rightarrow> int \<Rightarrow> (int \<Rightarrow> 8 word list \<Rightarrow> 'v \<Rightarrow> bool \<times> 'v) \<Rightarrow>
     (int \<Rightarrow> 'v \<Rightarrow> bool \<times> 'v) option \<Rightarrow> ('v \<Rightarrow> 'v) \<Rightarrow> 'v \<Rightarrow> 'v" where
  "spec_read ans fa n bs on_block on_error on_done v =
     (case spec_blocks ans bs on_block on_error (block_addresses fa n bs) v of
        (finished, v') \<Rightarrow> if finished then on_done v' else v')"

section \<open>Generic facts\<close>

lemma runs_cong: "m w = m' w \<Longrightarrow> runs m w Q = runs m' w Q"
  by (simp add: runs_def)

lemma runs_step:
  "runs m w Q \<Longrightarrow> (\<And>a w'. Q a w' \<Longrightarrow> runs (f a) w' R) \<Longrightarrow> runs (bnd m f) w R"
  by (simp add: runs_mono)

lemma runs_wait_unfold:
  "runs (wait_cycle_done V) w Q = runs (v_ReadHsfsRegister V) w
     (\<lambda>h w'. if \<not> flash_cycle_done h then runs (wait_cycle_done V) w' Q else Q h w')"
proof -
  have "runs (wait_cycle_done V) w Q = runs (bnd (v_ReadHsfsRegister V) (\<lambda>hsfs.
       if \<not> flash_cycle_done hsfs then wait_cycle_done V else ret hsfs)) w Q"
    by (rule runs_cong) (rule wait_cycle_done.simps)
  then show ?thesis by (simp add: if_distrib [where f = "\<lambda>m. runs m _ Q"] cong: if_cong)
qed

lemma runs_block_loop_unfold:
  assumes "in_int (fa + n)"
  shows "runs (block_loop V fa n bs br be cur buf) w Q =
     (if \<not> cur < fa + n then Q True w
      else runs (read_block V cur bs br be buf) w (\<lambda>r w'.
        if \<not> fst r then Q False w'
        else runs (c_int (cur + bs)) w' (\<lambda>cur' w''.
          runs (block_loop V fa n bs br be cur' (snd r)) w'' Q)))"
proof -
  have "runs (block_loop V fa n bs br be cur buf) w Q =
     runs (bnd (c_int (fa + n)) (\<lambda>end.
       if \<not> cur < end then ret True
       else
         bnd (read_block V cur bs br be buf) (\<lambda>r.
         if \<not> fst r then ret False
         else bnd (c_int (cur + bs)) (\<lambda>next. block_loop V fa n bs br be next (snd r))))) w Q"
    by (rule runs_cong) (rule block_loop.simps)
  then show ?thesis
    using assms by (simp add: if_distrib [where f = "\<lambda>m. runs m _ Q"] cong: if_cong)
qed

text \<open>
  A callback implements an action on the client's state when, started in a client state that
  satisfies the client's invariant \<open>J\<close>, it returns, does to that state what the action says,
  keeps the invariant and leaves the flash controller alone.
\<close>

definition implements ::
    "('w \<Rightarrow> 'c) \<Rightarrow> ('w \<Rightarrow> 'v) \<Rightarrow> ('v \<Rightarrow> bool) \<Rightarrow> ('w, 'b) prog \<Rightarrow> ('v \<Rightarrow> 'b \<times> 'v) \<Rightarrow> bool" where
  "implements ctl view J m f = (\<forall>w. J (view w) \<longrightarrow>
     runs m w (\<lambda>b w'. ctl w' = ctl w \<and> J (view w') \<and> (b, view w') = f (view w)))"

definition implements_error ::
    "('w \<Rightarrow> 'c) \<Rightarrow> ('w \<Rightarrow> 'v) \<Rightarrow> ('v \<Rightarrow> bool) \<Rightarrow> (int \<Rightarrow> ('w, bool) prog) option \<Rightarrow>
     (int \<Rightarrow> 'v \<Rightarrow> bool \<times> 'v) option \<Rightarrow> bool" where
  "implements_error ctl view J cb on_error =
     (case (cb, on_error) of
        (None, None) \<Rightarrow> True
      | (Some m, Some f) \<Rightarrow> \<forall>a. implements ctl view J (m a) (f a)
      | _ \<Rightarrow> False)"

definition implements_done ::
    "('w \<Rightarrow> 'c) \<Rightarrow> ('w \<Rightarrow> 'v) \<Rightarrow> ('v \<Rightarrow> bool) \<Rightarrow> ('w, unit) prog option \<Rightarrow> ('v \<Rightarrow> 'v) \<Rightarrow> bool" where
  "implements_done ctl view J cb on_done =
     implements ctl view J (case cb of None \<Rightarrow> ret () | Some f \<Rightarrow> f) (\<lambda>v. ((), on_done v))"

section \<open>What the reader needs of the virtual functions\<close>

text \<open>
  \<open>ctl\<close> is the state of the flash controller and \<open>view\<close> the part of the world the
  callbacks work on, which no register access touches. The predicates on the controller are the
  stages of one read cycle; \<open>busy k a n\<close> bounds by k how often the controller may still be
  polled before it reports the cycle done.
\<close>

locale flash_sequencer =
  fixes V :: "'w Chipset_virtuals"
    and ctl :: "'w \<Rightarrow> 'c"
    and view :: "'w \<Rightarrow> 'v"
    and idle :: "'c \<Rightarrow> bool"
    and cleared :: "'c \<Rightarrow> bool"
    and addressed :: "25 word \<Rightarrow> 'c \<Rightarrow> bool"
    and busy :: "nat \<Rightarrow> 25 word \<Rightarrow> 6 word \<Rightarrow> 'c \<Rightarrow> bool"
    and finished :: "25 word \<Rightarrow> 6 word \<Rightarrow> 'c \<Rightarrow> bool"
    and ans :: flash_answer
  assumes status_idle: "idle (ctl w) \<Longrightarrow> runs (v_ReadHsfsRegister V) w (\<lambda>h w'.
      \<not> spi_cycle_in_progress h \<and> idle (ctl w') \<and> view w' = view w)"
    and clear_status: "idle (ctl w) \<Longrightarrow> \<not> access_error_log h \<Longrightarrow> \<not> flash_cycle_error h \<Longrightarrow>
      \<not> flash_cycle_done h \<Longrightarrow> runs (v_WriteHsfsRegister V h) w (\<lambda>_ w'.
      cleared (ctl w') \<and> view w' = view w)"
    and read_address: "cleared (ctl w) \<Longrightarrow> runs (v_ReadFaddrRegister V) w (\<lambda>_ w'.
      cleared (ctl w') \<and> view w' = view w)"
    and set_address: "cleared (ctl w) \<Longrightarrow> runs (v_WriteFaddrRegister V f) w (\<lambda>_ w'.
      addressed (flash_linear_address f) (ctl w') \<and> view w' = view w)"
    and read_control: "addressed a (ctl w) \<Longrightarrow> runs (v_ReadHsfcRegister V) w (\<lambda>_ w'.
      addressed a (ctl w') \<and> view w' = view w)"
    and start_cycle: "addressed a (ctl w) \<Longrightarrow> flash_cycle h' = kFcycleRead \<Longrightarrow>
      flash_cycle_go h' \<Longrightarrow> runs (v_WriteHsfcRegister V h') w (\<lambda>_ w'.
      (\<exists>k. busy k a (flash_data_byte_count h') (ctl w')) \<and> view w' = view w)"
    and poll: "busy k a n (ctl w) \<Longrightarrow> runs (v_ReadHsfsRegister V) w (\<lambda>h w'. view w' = view w \<and>
      (if flash_cycle_done h
       then finished a n (ctl w') \<and> flash_cycle_error h = fst (ans a (unat n + 1))
       else \<exists>j < k. busy j a n (ctl w')))"
    and data_register: "finished a n (ctl w) \<Longrightarrow> 4 * i + 4 \<le> unat n + 1 \<Longrightarrow>
      runs (v_ReadFdataNRegister V (int i)) w (\<lambda>v w'.
      v = le_word (take 4 (drop (4 * i) (snd (ans a (unat n + 1))))) \<and>
      finished a n (ctl w') \<and> view w' = view w)"
    and release: "finished a n s \<Longrightarrow> idle s"
    and answer_length: "length (snd (ans a l)) = l"
begin

lemma wait_returns:
  "busy k a n (ctl w) \<Longrightarrow> runs (wait_cycle_done V) w (\<lambda>h w'.
     finished a n (ctl w') \<and> flash_cycle_error h = fst (ans a (unat n + 1)) \<and> view w' = view w)"
proof (induction k arbitrary: w rule: less_induct)
  case (less k)
  show ?case
    unfolding runs_wait_unfold [of V w]
  proof (rule runs_mono [OF poll [OF less.prems]], goal_cases)
    case (1 h w')
    show ?case
    proof (cases "flash_cycle_done h")
      case False
      with 1 obtain j where "j < k" "busy j a n (ctl w')" by auto
      from less.IH [OF this] False 1 show ?thesis by simp
    qed (use 1 in simp)
  qed
qed

lemma run_cycle_runs:
  assumes "idle (ctl w)" and n: "word_of_int (bs - 1) = n"
  shows "runs (run_cycle V a bs) w (\<lambda>h w'. finished (word_of_int a) n (ctl w') \<and>
     flash_cycle_error h = fst (ans (word_of_int a) (unat n + 1)) \<and> view w' = view w)"
    (is "runs _ w ?Q")
proof -
  let ?go = "\<lambda>hsfc. hsfc\<lparr>flash_data_byte_count := n, flash_cycle := kFcycleRead,
      flash_cycle_go := True\<rparr>"
  have wait: "runs (wait_cycle_done V) w' ?Q"
    if "busy k (word_of_int a) n (ctl w')" "view w' = view w" for w' k
    using wait_returns [OF that(1)] that(2) by simp
  have go: "runs (bnd (v_ReadHsfcRegister V) (\<lambda>hsfc.
      bnd (v_WriteHsfcRegister V (?go hsfc)) (\<lambda>_. wait_cycle_done V))) w' ?Q"
    if "addressed (word_of_int a) (ctl w')" "view w' = view w" for w'
    by (rule runs_step [OF read_control [OF that(1)]], rule runs_step [OF start_cycle])
      (use that in \<open>auto intro: wait\<close>)
  have addr: "runs (bnd (v_ReadFaddrRegister V) (\<lambda>faddr.
      bnd (v_WriteFaddrRegister V (faddr\<lparr>flash_linear_address := word_of_int a\<rparr>)) (\<lambda>_.
      bnd (v_ReadHsfcRegister V) (\<lambda>hsfc.
      bnd (v_WriteHsfcRegister V (?go hsfc)) (\<lambda>_. wait_cycle_done V))))) w' ?Q"
    if "cleared (ctl w')" "view w' = view w" for w'
    by (rule runs_step [OF read_address [OF that(1)]], rule runs_step [OF set_address])
      (use that in \<open>auto intro!: go simp del: runs_bnd\<close>)
  show ?thesis
    unfolding run_cycle_def n
    by (rule runs_step [OF status_idle [OF assms(1)]], rule runs_step [OF clear_status])
      (use assms(1) in \<open>auto intro!: addr simp del: runs_bnd\<close>)
qed

lemma fill_buf_runs:
  assumes "finished a n (ctl w)" and "length buf = k" and "4 * k \<le> unat n + 1" and "j \<le> k"
    and "\<And>i. i < j \<Longrightarrow> buf ! i = le_word (take 4 (drop (4 * i) (snd (ans a (unat n + 1)))))"
  shows "runs (fill_buf V [j..<k] buf) w (\<lambda>buf' w'.
     buf' = map (\<lambda>i. le_word (take 4 (drop (4 * i) (snd (ans a (unat n + 1)))))) [0..<k] \<and>
     finished a n (ctl w') \<and> view w' = view w)"
  using assms
proof (induction "k - j" arbitrary: j buf w)
  case 0
  then show ?case by (auto intro!: nth_equalityI)
next
  case (Suc d)
  let ?x = "\<lambda>i. le_word (take 4 (drop (4 * i) (snd (ans a (unat n + 1))))) :: 32 word"
  have j: "j < k" "[j..<k] = j # [Suc j..<k]" using Suc.hyps(2) by (simp_all add: upt_rec)
  have rest: "runs (fill_buf V [Suc j..<k] (buf[j := ?x j])) w' (\<lambda>buf' w'.
     buf' = map ?x [0..<k] \<and> finished a n (ctl w') \<and> view w' = view w)"
    if "finished a n (ctl w')" "view w' = view w" for w'
  proof -
    have "buf[j := ?x j] ! i = ?x i" if "i < Suc j" for i
      using that Suc.prems(2,5) j(1) by (cases "i = j") simp_all
    with Suc.hyps Suc.prems that(1) j(1) have "runs (fill_buf V [Suc j..<k] (buf[j := ?x j])) w'
        (\<lambda>buf' w''. buf' = map ?x [0..<k] \<and> finished a n (ctl w'') \<and> view w'' = view w')"
      by (intro Suc.hyps(1)) simp_all
    then show ?thesis by (simp only: that(2))
  qed
  have "runs (v_ReadFdataNRegister V (int j)) w (\<lambda>v w'.
      v = ?x j \<and> finished a n (ctl w') \<and> view w' = view w)"
    using Suc.prems j(1) by (intro data_register) auto
  then show ?case
    unfolding j(2) fill_buf.simps by (rule runs_step) (auto intro: rest)
qed

lemma buffer_bytes:
  assumes "4 \<le> bs" and "bs \<le> 64"
  shows "concat (map le_bytes (map (\<lambda>i. le_word (take 4 (drop (4 * i)
     (snd (ans (word_of_int a) (nat bs))))) :: 32 word) [0..<nat (bs sdiv 4)])) = block_data ans bs a"
proof -
  have "nat (bs sdiv 4) = nat bs div 4"
    using assms by (simp add: signed_divide_int_def nat_div_distrib)
  then show ?thesis
    using concat_le_bytes [of "nat bs div 4" "snd (ans (word_of_int a) (nat bs))"]
    by (simp add: block_data_def answer_length comp_def)
qed

lemma error_callback_runs:
  assumes "implements_error ctl view J be on_error" and "J (view w)"
  shows "runs (case be of Some f \<Rightarrow> if err then f a else ret True | None \<Rightarrow> ret True) w (\<lambda>go w'.
     ctl w' = ctl w \<and> J (view w') \<and> (go, view w') = spec_error on_error err a (view w))"
  using assms
  by (auto simp: implements_error_def implements_def spec_error_def split: option.splits)

lemma byte_count:
  assumes "4 \<le> bs" and "bs \<le> 64"
  shows "unat (word_of_int (bs - 1) :: 6 word) + 1 = nat bs"
  using assms by (simp add: unsigned_of_int take_bit_eq_mod del: of_int_diff)

lemma copy_block_runs:
  assumes fin: "finished (word_of_int a) (word_of_int (bs - 1)) (ctl w)" and "J (view w)"
    and bs: "4 \<le> bs" "bs \<le> 64" and buf: "length buf = nat (bs sdiv 4)"
    and br: "\<And>a. implements ctl view J (br a (block_data ans bs a)) (on_block a (block_data ans bs a))"
  shows "runs (bnd (fill_buf V [0..<length buf] buf) (\<lambda>buf.
      bnd (br a (concat (map le_bytes buf))) (\<lambda>b. ret (b, buf)))) w (\<lambda>r w'. idle (ctl w') \<and>
      J (view w') \<and> length (snd r) = length buf \<and>
      (fst r, view w') = on_block a (block_data ans bs a) (view w))"
    (is "runs _ w ?Q")
proof -
  have k: "4 * length buf \<le> unat (word_of_int (bs - 1) :: 6 word) + 1"
    using bs unfolding byte_count [OF bs] buf by (simp add: signed_divide_int_def nat_div_distrib)
  have handed: "runs (br a (block_data ans bs a)) w' (\<lambda>b w''. idle (ctl w'') \<and> J (view w'') \<and>
      (b, view w'') = on_block a (block_data ans bs a) (view w))"
    if "finished (word_of_int a) (word_of_int (bs - 1)) (ctl w')" "view w' = view w" for w'
    by (rule runs_mono [OF br [of a, unfolded implements_def, rule_format]])
      (use that release [OF that(1)] assms(2) in simp_all)
  have "runs (fill_buf V [0..<length buf] buf) w (\<lambda>buf' w'. length buf' = length buf \<and>
      concat (map le_bytes buf') = block_data ans bs a \<and>
      finished (word_of_int a) (word_of_int (bs - 1)) (ctl w') \<and> view w' = view w)"
    by (rule runs_mono [OF fill_buf_runs [OF fin refl k, of 0]])
      (use buffer_bytes [OF bs, of a] in
        \<open>simp_all add: byte_count [OF bs] buf del: map_map of_int_diff\<close>)
  then show ?thesis
  proof (rule runs_step)
    fix buf' :: "32 word list" and w'
    assume "length buf' = length buf \<and> concat (map le_bytes buf') = block_data ans bs a \<and>
      finished (word_of_int a) (word_of_int (bs - 1)) (ctl w') \<and> view w' = view w"
    with handed [of w'] show "runs (bnd (br a (concat (map le_bytes buf'))) (\<lambda>b. ret (b, buf'))) w' ?Q"
      by (auto elim!: runs_mono)
  qed
qed

lemma read_block_runs:
  assumes "idle (ctl w)" and J: "J (view w)" and bs: "4 \<le> bs" "bs \<le> 64"
    and buf: "length buf = nat (bs sdiv 4)"
    and br: "\<And>a. implements ctl view J (br a (block_data ans bs a)) (on_block a (block_data ans bs a))"
    and be: "implements_error ctl view J be on_error"
  shows "runs (read_block V a bs br be buf) w (\<lambda>r w'. idle (ctl w') \<and> J (view w') \<and>
     length (snd r) = length buf \<and> (fst r, view w') = spec_block ans bs on_block on_error a (view w))"
    (is "runs _ w ?Q")
proof -
  have checked: "runs (bnd (case be of Some f \<Rightarrow> if flash_cycle_error h then f a else ret True
        | None \<Rightarrow> ret True) (\<lambda>go. if \<not> go then ret (False, buf) else
      bnd (fill_buf V [0..<length buf] buf) (\<lambda>buf.
      bnd (br a (concat (map le_bytes buf))) (\<lambda>b. ret (b, buf))))) w' ?Q"
    if fin: "finished (word_of_int a) (word_of_int (bs - 1)) (ctl w')" and v: "view w' = view w"
      and h: "flash_cycle_error h = fst (ans (word_of_int a) (nat bs))" for h w'
  proof (rule runs_step [OF error_callback_runs [OF be]])
    show "J (view w')" using J v by simp
    fix go w'' assume *: "ctl w'' = ctl w' \<and> J (view w'') \<and>
      (go, view w'') = spec_error on_error (flash_cycle_error h) a (view w')"
    show "runs (if \<not> go then ret (False, buf) else bnd (fill_buf V [0..<length buf] buf) (\<lambda>buf.
        bnd (br a (concat (map le_bytes buf))) (\<lambda>b. ret (b, buf)))) w'' ?Q"
    proof (cases go)
      case True
      have "runs (bnd (fill_buf V [0..<length buf] buf) (\<lambda>buf.
        bnd (br a (concat (map le_bytes buf))) (\<lambda>b. ret (b, buf)))) w'' ?Q"
        by (rule runs_mono [OF copy_block_runs [where br = br and on_block = on_block and J = J,
              OF _ _ bs buf br]])
          (use * fin v h True in \<open>auto simp: spec_block_def dest: sym split: prod.splits\<close>)
      with True show ?thesis by (simp del: runs_bnd)
    next
      case False
      with * fin v h release [OF fin] show ?thesis
        by (auto simp: spec_block_def dest: sym split: prod.splits)
    qed
  qed
  show ?thesis
    unfolding read_block_def
    by (rule runs_step [OF run_cycle_runs [OF assms(1) refl]])
      (use byte_count [OF bs] in \<open>auto intro!: checked simp del: runs_bnd of_int_diff\<close>)
qed

lemma block_loop_runs:
  assumes "idle (ctl w)" and "J (view w)" and bs: "4 \<le> bs" "bs \<le> 64"
    and buf: "length buf = nat (bs sdiv 4)"
    and br: "\<And>a. implements ctl view J (br a (block_data ans bs a)) (on_block a (block_data ans bs a))"
    and be: "implements_error ctl view J be on_error"
    and range: "in_int fa" "in_int (fa + n)" "fa \<le> cur"
    and rest: "k = 0 \<and> fa + n \<le> cur \<or> cur + int k * bs = fa + n"
  shows "runs (block_loop V fa n bs br be cur buf) w (\<lambda>fin w'. idle (ctl w') \<and> J (view w') \<and>
     (fin, view w') = spec_blocks ans bs on_block on_error
        (map (\<lambda>i. cur + int i * bs) [0..<k]) (view w))"
  using assms(1,2) buf range(3) rest
proof (induction k arbitrary: cur buf w)
  case 0
  then have "\<not> cur < fa + n" by auto
  with 0 show ?case by (subst runs_block_loop_unfold [OF range(2)]) simp
next
  case (Suc k)
  have addrs: "map (\<lambda>i. cur + int i * bs) [0..<Suc k]
      = cur # map (\<lambda>i. (cur + bs) + int i * bs) [0..<k]"
    by (simp add: map_upt_Suc algebra_simps del: upt_Suc)
  have eq: "cur + bs + int k * bs = fa + n"
    using Suc.prems(5) by (simp add: algebra_simps)
  have "0 \<le> int k * bs" using bs by simp
  then have "cur + bs \<le> fa + n" using eq by linarith
  then have step: "cur < fa + n" "in_int (cur + bs)"
    using bs range Suc.prems(4) by (simp_all add: in_int_def)
  have more_blocks: "runs (block_loop V fa n bs br be (cur + bs) buf') w' (\<lambda>fin w''.
      idle (ctl w'') \<and> J (view w'') \<and> (fin, view w'') = spec_blocks ans bs on_block on_error
        (map (\<lambda>i. (cur + bs) + int i * bs) [0..<k]) (view w'))"
    if "idle (ctl w')" "J (view w')" "length buf' = length buf" for buf' w'
    using that Suc.prems(3,4) bs eq by (intro Suc.IH) simp_all
  show ?case
    unfolding addrs spec_blocks.simps
    using step
    by (subst runs_block_loop_unfold [OF range(2)]) (auto intro!: runs_mono [OF read_block_runs [where br = br and on_block = on_block and J = J, OF Suc.prems(1,2) bs Suc.prems(3) br be]]
        more_blocks dest: sym split: prod.splits)
qed

lemma ReadSpi_runs:
  assumes "idle (ctl w)" and "J (view w)" and bs: "4 \<le> bs" "bs \<le> 64"
    and br: "\<And>a. implements ctl view J (br a (block_data ans bs a)) (on_block a (block_data ans bs a))"
    and be: "implements_error ctl view J be on_error"
    and bd: "implements_done ctl view J bd on_done"
    and range: "in_int fa" "in_int (fa + n)" and div: "n smod bs = 0"
  shows "runs (ReadSpiWithHardwareSequencing V fa n bs (Some br) be bd) w (\<lambda>s w'.
     s = OkStatus \<and> idle (ctl w') \<and> J (view w') \<and>
     view w' = spec_read ans fa n bs on_block on_error on_done (view w))"
    (is "runs _ w ?Q")
proof -
  let ?buf = "replicate (nat (bs sdiv 4)) 0 :: 32 word list"
  have "bs dvd n"
    using div by (auto simp: signed_modulo_int_def sgn_0_0 dvd_eq_mod_eq_0 [symmetric])
  moreover have "n div bs \<le> 0" if "n < 0"
    using that bs by (simp add: pos_imp_zdiv_neg_iff order.strict_implies_order)
  ultimately have blocks: "nat (n div bs) = 0 \<and> fa + n \<le> fa \<or> fa + int (nat (n div bs)) * bs = fa + n"
    using bs by (cases "0 \<le> n") (simp_all add: pos_imp_zdiv_nonneg_iff)
  have loop: "runs (block_loop V fa n bs br be fa ?buf) w' (\<lambda>fin w''. idle (ctl w'') \<and>
      J (view w'') \<and> (fin, view w'') = spec_blocks ans bs on_block on_error
        (block_addresses fa n bs) (view w))"
    if "idle (ctl w')" "view w' = view w" for w'
    unfolding block_addresses_def that(2) [symmetric]
    by (rule block_loop_runs [where br = br and on_block = on_block and J = J,
        OF that(1) _ bs _ br be range _ blocks])
      (use that assms(2) in simp_all)
  have finish: "runs (if \<not> fin then ret OkStatus
      else bnd (case bd of None \<Rightarrow> ret () | Some f \<Rightarrow> f) (\<lambda>_. ret OkStatus)) w' ?Q"
    if "idle (ctl w')" "J (view w')" "(fin, view w') = spec_blocks ans bs on_block on_error
        (block_addresses fa n bs) (view w)" for fin w'
  proof -
    have "spec_read ans fa n bs on_block on_error on_done (view w)
        = (if fin then on_done (view w') else view w')"
      by (simp add: spec_read_def that(3) [symmetric])
    with bd that(1,2) show ?thesis
      by (auto simp: implements_done_def implements_def elim!: runs_mono)
  qed
  have "runs (bnd (block_loop V fa n bs br be fa ?buf) (\<lambda>fin. if \<not> fin then ret OkStatus
      else bnd (case bd of None \<Rightarrow> ret () | Some f \<Rightarrow> f) (\<lambda>_. ret OkStatus))) w' ?Q"
    if "idle (ctl w')" "view w' = view w" for w'
    by (rule runs_step [OF loop [OF that]]) (simp add: finish del: runs_bnd)
  then show ?thesis
    using bs div unfolding ReadSpiWithHardwareSequencing_def
    by (auto intro!: runs_step [OF status_idle [OF assms(1)]] simp del: runs_bnd)
qed

end

section \<open>The device behind the registers\<close>

text \<open>
  The same stages for single accesses of the device at the mapped register addresses: HSFS at
  offset 4, HSFC at 6, FADDR at 8 and the data registers from 0x10. Bit 5 of HSFS is SCIP, bits
  2 to 0 are the error log, the cycle error and the cycle done bit; HSFC has the go bit at 0,
  the cycle type at 2 to 1 and the byte count less one at 13 to 8.
\<close>

locale spi_controller =
  fixes P :: "'w platform" and c :: Chipset and m :: PhysicalMemory
    and ctl :: "'w \<Rightarrow> 'c"
    and view :: "'w \<Rightarrow> 'v"
    and idle :: "'c \<Rightarrow> bool"
    and cleared :: "'c \<Rightarrow> bool"
    and addressed :: "25 word \<Rightarrow> 'c \<Rightarrow> bool"
    and busy :: "nat \<Rightarrow> 25 word \<Rightarrow> 6 word \<Rightarrow> 'c \<Rightarrow> bool"
    and finished :: "25 word \<Rightarrow> 6 word \<Rightarrow> 'c \<Rightarrow> bool"
    and ans :: flash_answer
  assumes mapped: "rcrb_mem_ptr c = Some m"
    and load_view:
      "view (snd (mem_load16 P (spi_addr c m 0x04) w)) = view w"
      "view (snd (mem_load16 P (spi_addr c m 0x06) w)) = view w"
      "view (snd (mem_load32 P (spi_addr c m 0x08) w)) = view w"
      "i < 16 \<Longrightarrow> view (snd (mem_load32 P (spi_addr c m (0x10 + 4 * int i)) w)) = view w"
    and store_view:
      "view (mem_store16 P (spi_addr c m 0x04) v16 w) = view w"
      "view (mem_store16 P (spi_addr c m 0x06) v16 w) = view w"
      "view (mem_store32 P (spi_addr c m 0x08) v32 w) = view w"
    and hsfs_idle: "idle (ctl w) \<Longrightarrow> \<not> bit (fst (mem_load16 P (spi_addr c m 0x04) w)) 5"
      "idle (ctl w) \<Longrightarrow> idle (ctl (snd (mem_load16 P (spi_addr c m 0x04) w)))"
    and hsfs_clear: "idle (ctl w) \<Longrightarrow> v16 AND 7 = 0 \<Longrightarrow>
      cleared (ctl (mem_store16 P (spi_addr c m 0x04) v16 w))"
    and faddr_load: "cleared (ctl w) \<Longrightarrow>
      cleared (ctl (snd (mem_load32 P (spi_addr c m 0x08) w)))"
    and faddr_store: "cleared (ctl w) \<Longrightarrow>
      addressed (ucast v32) (ctl (mem_store32 P (spi_addr c m 0x08) v32 w))"
    and hsfc_load: "addressed a (ctl w) \<Longrightarrow>
      addressed a (ctl (snd (mem_load16 P (spi_addr c m 0x06) w)))"
    and hsfc_go: "addressed a (ctl w) \<Longrightarrow> bit v16 0 \<Longrightarrow> \<not> bit v16 1 \<Longrightarrow> \<not> bit v16 2 \<Longrightarrow>
      \<exists>k. busy k a (ucast (drop_bit 8 v16)) (ctl (mem_store16 P (spi_addr c m 0x06) v16 w))"
    and hsfs_poll: "busy k a n (ctl w) \<Longrightarrow>
      (if bit (fst (mem_load16 P (spi_addr c m 0x04) w)) 0
       then finished a n (ctl (snd (mem_load16 P (spi_addr c m 0x04) w))) \<and>
         bit (fst (mem_load16 P (spi_addr c m 0x04) w)) 1 = fst (ans a (unat n + 1))
       else \<exists>j < k. busy j a n (ctl (snd (mem_load16 P (spi_addr c m 0x04) w))))"
    and fdata: "finished a n (ctl w) \<Longrightarrow> 4 * i + 4 \<le> unat n + 1 \<Longrightarrow>
      fst (mem_load32 P (spi_addr c m (0x10 + 4 * int i)) w)
        = le_word (take 4 (drop (4 * i) (snd (ans a (unat n + 1))))) \<and>
      finished a n (ctl (snd (mem_load32 P (spi_addr c m (0x10 + 4 * int i)) w)))"
    and finished_idle: "finished a n s \<Longrightarrow> idle s"
    and ans_length: "length (snd (ans a l)) = l"

lemma Hsfs_of_status:
  "spi_cycle_in_progress (Hsfs_of v) = bit v 5" "flash_cycle_error (Hsfs_of v) = bit v 1"
  "flash_cycle_done (Hsfs_of v) = bit v 0"
  by (simp_all add: Hsfs_of_def Test_eq_bit)

lemma Hsfs_bits_cleared:
  assumes "\<not> access_error_log h" and "\<not> flash_cycle_error h" and "\<not> flash_cycle_done h"
  shows "(ucast (Hsfs_bits h) :: 16 word) AND 7 = 0"
proof -
  have c: "7 = (mask 3 :: 16 word)" by (simp add: mask_eq_exp_minus_1)
  have "n \<in> {0, 1, 2}" if "n < 3" for n :: nat using that by auto
  then show ?thesis
    unfolding c using assms
    by (intro bit_word_eqI) (auto simp: bit_simps bit_Hsfs_bits)
qed

lemma Faddr_bits_linear: "ucast (Faddr_bits f) = flash_linear_address f"
  by (rule bit_word_eqI) (auto simp: bit_simps bit_Faddr_bits)

lemma Hsfc_bits_cycle:
  assumes "flash_cycle h = kFcycleRead" and "flash_cycle_go h"
  shows "bit (ucast (Hsfc_bits h) :: 16 word) 0" "\<not> bit (ucast (Hsfc_bits h) :: 16 word) 1"
    "\<not> bit (ucast (Hsfc_bits h) :: 16 word) 2"
    "ucast (drop_bit 8 (ucast (Hsfc_bits h) :: 16 word)) = flash_data_byte_count h"
proof -
  show "ucast (drop_bit 8 (ucast (Hsfc_bits h) :: 16 word)) = flash_data_byte_count h"
    by (rule bit_word_eqI) (auto simp: bit_simps bit_Hsfc_bits)
qed (use assms in \<open>simp_all add: bit_ucast_iff bit_Hsfc_bits\<close>)

lemmas sequencing_registers = virtuals_def ReadHsfsRegister_def WriteHsfsRegister_def
  ReadHsfcRegister_def WriteHsfcRegister_def ReadFaddrRegister_def WriteFaddrRegister_def
  ReadFdataNRegister_def offset_defs

sublocale spi_controller \<subseteq> seq: flash_sequencer "virtuals P c" ctl view idle cleared addressed
  busy finished ans
proof (unfold_locales, goal_cases)
  case (1 w)
  then show ?case
    by (simp add: sequencing_registers spi_access [OF mapped] Hsfs_of_status load_view hsfs_idle)
next
  case (2 w h)
  then show ?case
    by (simp add: sequencing_registers spi_access [OF mapped] store_view hsfs_clear
        Hsfs_bits_cleared)
next
  case (3 w)
  then show ?case
    by (simp add: sequencing_registers spi_access [OF mapped] load_view faddr_load)
next
  case (4 w f)
  then show ?case
    using faddr_store [OF 4, of "Faddr_bits f"]
    by (simp add: sequencing_registers spi_access [OF mapped] store_view Faddr_bits_linear)
next
  case (5 a w)
  then show ?case
    by (simp add: sequencing_registers spi_access [OF mapped] load_view hsfc_load)
next
  case (6 a w h)
  then show ?case
    using hsfc_go [OF 6(1) Hsfc_bits_cycle(1-3) [OF 6(2,3)]] Hsfc_bits_cycle(4) [OF 6(2,3)]
    by (simp add: sequencing_registers spi_access [OF mapped] store_view)
next
  case (7 k a n w)
  then show ?case
    using hsfs_poll [OF 7]
    by (simp add: sequencing_registers spi_access [OF mapped] load_view Hsfs_of_status)
next
  case (8 a n w i)
  have "unat n < 2 ^ LENGTH(6)" by (rule unsigned_less)
  then have "i < 16" using 8(2) by simp
  then show ?case
    using fdata [OF 8] load_view(4) [of i w]
    by (simp add: sequencing_registers spi_access [OF mapped] mult.commute)
next
  case (9 a n s)
  then show ?case by (rule finished_idle)
next
  case (10 a l)
  show ?case by (rule ans_length)
qed

context spi_controller
begin

lemmas axioms_to_sequencer = seq.flash_sequencer_axioms

end

section \<open>Reading a whole image\<close>

text \<open>
  A flash without protected areas that holds the bytes \<open>img\<close>. A cycle that runs over the
  end of the 25-bit address space wraps around.
\<close>

definition image_answer :: "(25 word \<Rightarrow> 8 word) \<Rightarrow> flash_answer" where
  "image_answer img a n = (False, map (\<lambda>i. img (a + of_nat i)) [0..<n])"

lemma block_data_image:
  assumes "4 \<le> bs" and "4 dvd bs"
  shows "block_data (image_answer img) bs a
    = map (\<lambda>i. img (word_of_int (a + int i))) [0..<nat bs]"
proof -
  obtain k where "bs = 4 * k" using assms(2) by (elim dvdE)
  then have "4 * (nat bs div 4) = nat bs" using assms(1) by (simp add: nat_mult_distrib)
  then show ?thesis by (simp add: block_data_def image_answer_def)
qed

lemma spec_blocks_append:
  "spec_blocks ans bs (\<lambda>a d v. (True, v @ d)) None as v
     = (True, v @ concat (map (block_data ans bs) as))"
  by (induction "as" arbitrary: v) (simp_all add: spec_block_def spec_error_def)

lemma concat_blocks:
  "concat (map (\<lambda>j. map (\<lambda>i. f (j * b + i)) [0..<b]) [0..<k]) = map f [0..<k * b]" for k b :: nat
proof (induction k)
  case (Suc k)
  have "[0..<Suc k * b] = [0..<k * b] @ map (\<lambda>i. k * b + i) [0..<b]"
    using upt_add_eq_append [of 0 "k * b" b] map_add_upt [of "k * b" b]
    by (simp add: add.commute)
  with Suc show ?case by simp
qed simp

lemma spec_read_image:
  assumes "4 \<le> bs" and "4 dvd bs" and "0 \<le> n" and "bs dvd n"
  shows "spec_read (image_answer img) fa n bs (\<lambda>a d v. (True, v @ d)) None id v
    = v @ map (\<lambda>i. img (word_of_int (fa + int i))) [0..<nat n]"
proof -
  obtain k where k: "n = bs * k" using assms(4) by (elim dvdE)
  with assms have "0 \<le> k" by (simp add: zero_le_mult_iff)
  with k assms have "nat (n div bs) = nat k" "nat n = nat k * nat bs"
    by (simp_all add: nat_mult_distrib)
  moreover have "(\<lambda>i. img (word_of_int (fa + int j * bs + int i)))
      = (\<lambda>i. img (word_of_int (fa + int (j * nat bs + i))))" for j
    using assms(1) by (simp add: algebra_simps)
  ultimately show ?thesis
    using concat_blocks [of "\<lambda>i. img (word_of_int (fa + int i))" "nat bs" "nat k"]
    by (simp add: spec_read_def block_addresses_def spec_blocks_append comp_def
        block_data_image [OF assms(1,2)] del: of_int_add of_nat_add of_nat_mult)
qed

section \<open>Blocks and hangs\<close>

lemma fill_buf_length:
  "bnd (fill_buf V is buf) f = bnd (fill_buf V is buf)
     (\<lambda>buf'. if length buf' = length buf then f buf' else g buf')"
proof (induction "is" arbitrary: buf)
  case (Cons i "is")
  have "bnd (fill_buf V is (buf[i := v])) f = bnd (fill_buf V is (buf[i := v]))
      (\<lambda>buf'. if length buf' = length buf then f buf' else g buf')" for v
    using Cons [of "buf[i := v]"] by simp
  then show ?case by (simp add: bnd_assoc)
qed simp

lemma length_concat_le_bytes: "length (concat (map le_bytes (buf :: 32 word list))) = 4 * length buf"
  by (induction buf) simp_all

text \<open>Two block loops are the same if their bodies are, on buffers of the length they start with.\<close>

definition same_blocks ::
    "'w Chipset_virtuals \<Rightarrow> 'w Chipset_virtuals \<Rightarrow> int \<Rightarrow> (int \<Rightarrow> 8 word list \<Rightarrow> ('w, bool) prog) \<Rightarrow>
     (int \<Rightarrow> 8 word list \<Rightarrow> ('w, bool) prog) \<Rightarrow> (int \<Rightarrow> ('w, bool) prog) option \<Rightarrow> nat \<Rightarrow> bool" where
  "same_blocks V U bs br br' be k = (\<forall>a buf. length buf = k \<longrightarrow>
     read_block V a bs br be buf = read_block U a bs br' be buf)"

lemma fill_buf_result: "fill_buf V is buf w = Some (Inr buf', w') \<Longrightarrow> length buf' = length buf"
  by (induction "is" arbitrary: buf w)
    (fastforce simp: ret_apply bnd_def split: bind_splits sum.splits)+

lemma read_block_result:
  "read_block V a bs br be buf w = Some (Inr r, w') \<Longrightarrow> length (snd r) = length buf"
  unfolding read_block_def
  by (auto simp: bnd_def ret_apply dest!: fill_buf_result
      split: bind_splits sum.splits if_splits)

lemma block_loop_le:
  assumes "block_loop V fa n bs br be cur buf w = Some y" and "same_blocks V U bs br br' be (length buf)"
  shows "block_loop U fa n bs br' be cur buf w = Some y"
proof -
  have "\<forall>U br'. same_blocks V U bs br br' be (length buf) \<longrightarrow>
      block_loop U fa n bs br' be cur buf w = Some y"
    using assms(1)
  proof (rule block_loop.raw_induct [rotated, where P = "\<lambda>V fa n bs br be cur buf w y.
      \<forall>U br'. same_blocks V U bs br br' be (length buf) \<longrightarrow>
        block_loop U fa n bs br' be cur buf w = Some y"], goal_cases)
    case (1 f V fa n bs br be cur buf w y)
    show ?case
    proof (intro allI impI)
      fix U br' assume same: "same_blocks V U bs br br' be (length buf)"
      have step: "read_block U cur bs br' be buf = read_block V cur bs br be buf"
        using same by (simp add: same_blocks_def)
      show "block_loop U fa n bs br' be cur buf w = Some y"
        by (subst block_loop.simps, rule bnd_le [OF 1(2)], rule if_le, assumption, assumption,
            unfold step, rule bnd_le, assumption, rule if_le, assumption, assumption,
            rule bnd_le, assumption, rule 1(1) [rule_format], assumption)
          (use same in \<open>simp add: read_block_result\<close>)
    qed
  qed
  with assms(2) show ?thesis by blast
qed

lemma block_loop_cong:
  assumes "same_blocks V U bs br br' be (length buf)"
  shows "block_loop V fa n bs br be cur buf = block_loop U fa n bs br' be cur buf"
proof (rule ext, rule option_eqI, rule iffI)
  have "same_blocks U V bs br' br be (length buf)" using assms by (simp add: same_blocks_def)
  then show "block_loop U fa n bs br' be cur buf w = Some y \<Longrightarrow>
      block_loop V fa n bs br be cur buf w = Some y" for w y
    by (rule block_loop_le [rotated])
qed (rule block_loop_le [OF _ assms])

lemma read_block_data_length:
  "read_block V a bs br be buf =
     read_block V a bs (\<lambda>a d. if length d = 4 * length buf then br a d else other a d) be buf"
  unfolding read_block_def
  by (subst (1 2) fill_buf_length [where g = "\<lambda>_. die (LogFatal [])"])
    (simp add: length_concat_le_bytes cong: if_cong)

lemma wait_step:
  assumes "v_ReadHsfsRegister V w = Some (Inr h, w')"
  shows "wait_cycle_done V w = (if flash_cycle_done h then Some (Inr h, w') else wait_cycle_done V w')"
  by (subst wait_cycle_done.simps) (simp add: bnd_Inr [of "v_ReadHsfsRegister V" w h w', OF assms] ret_apply)

lemma wait_sees_done:
  assumes "wait_cycle_done V w = Some y" and "\<forall>w. v_ReadHsfsRegister V w = Some (Inr (hs w), nx w)"
  shows "\<exists>n. flash_cycle_done (hs ((nx ^^ n) w))"
proof -
  have "(\<forall>w. v_ReadHsfsRegister V w = Some (Inr (hs w), nx w)) \<longrightarrow>
      (\<exists>n. flash_cycle_done (hs ((nx ^^ n) w)))"
    using assms(1)
  proof (rule wait_cycle_done.raw_induct [rotated, where P = "\<lambda>V w _.
      (\<forall>w. v_ReadHsfsRegister V w = Some (Inr (hs w), nx w)) \<longrightarrow>
      (\<exists>n. flash_cycle_done (hs ((nx ^^ n) w)))"], goal_cases)
    case (1 f V w y)
    show ?case
    proof
      assume reads: "\<forall>w. v_ReadHsfsRegister V w = Some (Inr (hs w), nx w)"
      show "\<exists>n. flash_cycle_done (hs ((nx ^^ n) w))"
      proof (cases "flash_cycle_done (hs w)")
        case True
        then show ?thesis by (intro exI [of _ 0]) simp
      next
        case False
        have read: "v_ReadHsfsRegister V w = Some (Inr (hs w), nx w)" using reads by blast
        have "f V (nx w) = Some y"
          using 1(2) False
          by (simp add: bnd_Inr [of "v_ReadHsfsRegister V" w "hs w" "nx w", OF read])
        then obtain n where "flash_cycle_done (hs ((nx ^^ n) (nx w)))" using 1(1) reads by blast
        then show ?thesis by (intro exI [of _ "Suc n"]) (simp add: funpow_swap1)
      qed
    qed
  qed
  with assms(2) show ?thesis by blast
qed

lemma wait_first_done:
  assumes "\<forall>w. v_ReadHsfsRegister V w = Some (Inr (hs w), nx w)"
    and "flash_cycle_done (hs ((nx ^^ n) w))" and "\<forall>k < n. \<not> flash_cycle_done (hs ((nx ^^ k) w))"
  shows "wait_cycle_done V w = Some (Inr (hs ((nx ^^ n) w)), (nx ^^ Suc n) w)"
  using assms(2,3)
proof (induction n arbitrary: w)
  case 0
  then show ?case using wait_step [of V w "hs w" "nx w"] assms(1) by simp
next
  case (Suc n)
  have "\<not> flash_cycle_done (hs w)" using Suc.prems(2) [rule_format, of 0] by simp
  then have "wait_cycle_done V w = wait_cycle_done V (nx w)" using wait_step [of V w "hs w" "nx w"] assms(1) by simp
  also have "\<dots> = Some (Inr (hs ((nx ^^ n) (nx w))), (nx ^^ Suc n) (nx w))"
    using Suc.prems by (intro Suc.IH) (auto simp: funpow_swap1 dest: spec [of _ "Suc _"])
  finally show ?case by (simp add: funpow_swap1)
qed

section \<open>Properties\<close>

text \<open>
  C2. Reading the flash with hardware sequencing implements its specification on every
  chipset class. On a device that behaves as \<open>spi_controller\<close> says, started idle, with a block
  size of 4 to 64 that divides the size, and a range of addresses that fits in an \<open>int\<close>, the
  function returns the OK status, leaves the controller idle, and the callbacks have seen exactly
  what the specification says: each block in ascending order, the error callback first where the
  cycle reported an error, the end of the walk at the first callback that answers no, and the
  completion callback once if none did.
\<close>

theorem flash_read_refines_specification:
  assumes "spi_controller P c m ctl view idle cleared addressed busy finished ans"
    and "idle (ctl w)" and "J (view w)"
    and "4 \<le> bs" and "bs \<le> 64" and "n smod bs = 0" and "in_int fa" and "in_int (fa + n)"
    and "\<forall>a. implements ctl view J (br a (block_data ans bs a)) (on_block a (block_data ans bs a))"
    and "implements_error ctl view J be on_error"
    and "implements_done ctl view J bd on_done"
  shows "runs (ReadSpiWithHardwareSequencing (virtuals P c) fa n bs (Some br) be bd) w (\<lambda>s w'.
     s = OkStatus \<and> idle (ctl w') \<and> J (view w') \<and>
     view w' = spec_read ans fa n bs on_block on_error on_done (view w))"
proof -
  have "flash_sequencer (virtuals P c) ctl view idle cleared addressed busy finished ans"
    using assms(1) by (rule spi_controller.axioms_to_sequencer)
  then show ?thesis by (rule flash_sequencer.ReadSpi_runs) (use assms in auto)
qed

text \<open>
  C29. Whatever the chipset answers, the block callback is only ever handed
  \<open>4 * (block_size / 4)\<close> bytes: another callback that differs only on data of other lengths
  cannot be told apart. For a block size that is not a multiple of 4 this is less than the block
  size.
\<close>

theorem block_callback_data_length:
  "ReadSpiWithHardwareSequencing V fa n bs (Some br) be bd =
   ReadSpiWithHardwareSequencing V fa n bs
     (Some (\<lambda>a d. if int (length d) = 4 * (bs div 4) then br a d else other a d)) be bd"
proof (cases "4 \<le> bs")
  case True
  let ?br = "\<lambda>a d. if int (length d) = 4 * (bs div 4) then br a d else other a d"
  let ?k = "nat (bs sdiv 4)"
  have "bs sdiv 4 = bs div 4" using True by (simp add: signed_divide_int_def)
  then have "int (length d) = 4 * (bs div 4) \<longleftrightarrow> length d = 4 * ?k" for d :: "8 word list"
    using True by linarith
  then have "same_blocks V V bs br ?br be ?k"
    unfolding same_blocks_def using read_block_data_length [of V _ bs br be _ other] by auto
  then have "block_loop V fa n bs br be fa (replicate ?k 0) = block_loop V fa n bs ?br be fa (replicate ?k 0)"
    by (intro block_loop_cong) simp
  then show ?thesis by (simp add: ReadSpiWithHardwareSequencing_def cong: if_cong)
qed (simp add: ReadSpiWithHardwareSequencing_def)

text \<open>
  C16. The busy wait returns exactly when the chipset reports the cycle done. On any chipset
  whose status register can be read, let hs w be what a read returns in w and nx w the world after it:
  the wait returns the first status with the done bit set, in the world after that read, and it does
  not return at all if no later read has the bit set.
\<close>

theorem wait_returns_at_first_done:
  assumes "\<forall>w. v_ReadHsfsRegister V w = Some (Inr (hs w), nx w)"
  shows "wait_cycle_done V w =
     (if \<exists>n. flash_cycle_done (hs ((nx ^^ n) w))
      then let n = LEAST n. flash_cycle_done (hs ((nx ^^ n) w))
           in Some (Inr (hs ((nx ^^ n) w)), (nx ^^ Suc n) w)
      else None)"
proof (cases "\<exists>n. flash_cycle_done (hs ((nx ^^ n) w))")
  case True
  then have "wait_cycle_done V w = Some (Inr (hs ((nx ^^ (LEAST n. flash_cycle_done (hs ((nx ^^ n) w)))) w)),
      (nx ^^ Suc (LEAST n. flash_cycle_done (hs ((nx ^^ n) w)))) w)"
    using not_less_Least by (intro wait_first_done [OF assms]) (auto intro: LeastI_ex)
  with True show ?thesis by (simp add: Let_def)
next
  case False
  then show ?thesis using wait_sees_done [OF _ assms, of w] by (cases "wait_cycle_done V w") auto
qed
end
