(* ===== verification/Pawn_Safety.thy ===== *)
theory Pawn_Safety
  imports Pawn_Main Flash_Sequencing
begin

text \<open>
  What \<open>pawn/pawn.cc\<close> cannot do, whatever the hardware answers.

  The first part shows that the dump only ever reads: making every register access that could
  change the flash fatal changes nothing. The second part follows the resources of the process
  through \<open>PawnMain\<close>: on every return the I/O privilege level is dropped and the mapping of
  the root complex is gone. \<open>keeps g m\<close> says that the program leaves the part
  \<open>g\<close> of the world alone; \<open>ends m w Q\<close> is partial correctness of one run, for results
  that are returned.
\<close>

section \<open>The dump only reads\<close>

text \<open>
  The virtual functions with every access that could change the flash made fatal: starting a
  hardware sequencing cycle other than a read, and any write to the software sequencing registers.
\<close>

definition read_only :: "'w Chipset_virtuals \<Rightarrow> 'w Chipset_virtuals" where
  "read_only V = V
     \<lparr>v_WriteHsfcRegister := (\<lambda>h. if flash_cycle h = kFcycleRead then v_WriteHsfcRegister V h
        else die (LogFatal ''flash write'')),
      v_WriteSsfsRegister := (\<lambda>_. die (LogFatal ''flash write'')),
      v_WriteSsfcRegister := (\<lambda>_. die (LogFatal ''flash write''))\<rparr>"

lemma read_only_reads [simp]:
  "v_ReadBiosCntlRegister (read_only V) = v_ReadBiosCntlRegister V"
  "v_ReadRcbaRegister (read_only V) = v_ReadRcbaRegister V"
  "v_ReadGcsRegister (read_only V) = v_ReadGcsRegister V"
  "v_ReadBfprRegister (read_only V) = v_ReadBfprRegister V"
  "v_ReadHsfsRegister (read_only V) = v_ReadHsfsRegister V"
  "v_ReadHsfcRegister (read_only V) = v_ReadHsfcRegister V"
  "v_ReadFaddrRegister (read_only V) = v_ReadFaddrRegister V"
  "v_ReadFdataNRegister (read_only V) = v_ReadFdataNRegister V"
  "v_ReadFrapRegister (read_only V) = v_ReadFrapRegister V"
  "v_ReadFregNRegister (read_only V) = v_ReadFregNRegister V"
  "v_ReadPrNRegister (read_only V) = v_ReadPrNRegister V"
  "v_ReadSsfsRegister (read_only V) = v_ReadSsfsRegister V"
  "v_WriteHsfsRegister (read_only V) = v_WriteHsfsRegister V"
  "v_WriteFaddrRegister (read_only V) = v_WriteFaddrRegister V"
  "flash_cycle h = kFcycleRead \<Longrightarrow> v_WriteHsfcRegister (read_only V) h = v_WriteHsfcRegister V h"
  by (simp_all add: read_only_def)

lemma wait_read_only_le: "wait_cycle_done V w = Some y \<Longrightarrow> wait_cycle_done (read_only V) w = Some y"
proof (rule wait_cycle_done.raw_induct
    [rotated, where P = "\<lambda>V w y. wait_cycle_done (read_only V) w = Some y"], assumption, goal_cases)
  case (1 f V w y)
  show ?case
    by (subst wait_cycle_done.simps, unfold read_only_reads, rule bnd_le [OF 1(3)], rule if_le)
      (auto intro: 1(2))
qed

lemma wait_read_only_ge:
  "wait_cycle_done (read_only V) w = Some y \<Longrightarrow> wait_cycle_done V w = Some y"
proof (rule wait_cycle_done.raw_induct
    [rotated, where P = "\<lambda>U w y. \<forall>V. U = read_only V \<longrightarrow> wait_cycle_done V w = Some y",
      THEN spec, THEN mp, OF _ _ refl], assumption, goal_cases)
  case (1 f U w y)
  show ?case
  proof (intro allI impI)
    fix V assume U: "U = read_only V"
    show "wait_cycle_done V w = Some y"
      by (subst wait_cycle_done.simps, rule bnd_le [OF 1(3) [unfolded U read_only_reads]], rule if_le)
        (auto intro: 1(2) [rule_format])
  qed
qed

lemma wait_read_only [simp]: "wait_cycle_done (read_only V) = wait_cycle_done V"
  by (rule ext, rule option_eqI) (blast intro: wait_read_only_le wait_read_only_ge)

lemma fill_buf_read_only [simp]: "fill_buf (read_only V) is buf = fill_buf V is buf"
  by (induction "is" arbitrary: buf) simp_all

lemma read_block_read_only [simp]: "read_block (read_only V) = read_block V"
  by (intro ext) (simp add: read_block_def run_cycle_def cong: if_cong)

lemma block_loop_read_only [simp]: "block_loop (read_only V) = block_loop V"
  by (intro ext, rule fun_cong, rule block_loop_cong) (simp add: same_blocks_def)

lemma read_regions_read_only [simp]: "read_regions P (read_only V) is = read_regions P V is"
  by (induction "is") simp_all

lemma report_protection_read_only [simp]:
  "report_protection P (read_only V) regions = report_protection P V regions"
  by (simp add: report_protection_def)

lemma ReadSpi_read_only [simp]:
  "ReadSpiWithHardwareSequencing (read_only V) = ReadSpiWithHardwareSequencing V"
  by (intro ext) (simp add: ReadSpiWithHardwareSequencing_def cong: option.case_cong if_cong)

lemma write_dump_read_only [simp]: "write_dump P (read_only V) f = write_dump P V f"
  by (simp add: write_dump_def cong: if_cong)

lemma dump_flash_read_only: "dump_flash P (read_only V) f = dump_flash P V f"
  by (simp add: dump_flash_def cong: if_cong)

text \<open>Reading the FRAP register back through its storage reverses its bytes.\<close>

lemma Frap_reinterpret_rev: "Frap_reinterpret (Frap_of v) = le_word (rev (le_bytes v))"
proof -
  have "rev (le_bytes v) = [ucast (drop_bit 24 v), ucast (drop_bit 16 v), ucast (drop_bit 8 v), ucast v]"
    by (simp add: le_bytes_def upt_rec)
  moreover have "ucast (Value 31 24 v) = (ucast (drop_bit 24 v) :: 8 word)"
    "ucast (Value 23 16 v) = (ucast (drop_bit 16 v) :: 8 word)"
    "ucast (Value 15 8 v) = (ucast (drop_bit 8 v) :: 8 word)"
    "ucast (Value 7 0 v) = (ucast v :: 8 word)"
    by (rule bit_word_eqI, simp add: bit_simps bit_field_simps add.commute)+
  ultimately show ?thesis
    by (simp add: Frap_reinterpret_def Frap_of_def push_bit_or)
qed

section \<open>Frames\<close>

named_theorems keeps_rules

definition keeps :: "('w \<Rightarrow> 'g) \<Rightarrow> ('w, 'a) prog \<Rightarrow> bool" where
  "keeps g m = (\<forall>w r w'. m w = Some (r, w') \<longrightarrow> g w' = g w)"

lemma keeps_ret [keeps_rules]: "keeps g (ret a)" and keeps_die [keeps_rules]: "keeps g (die e)"
  by (simp_all add: keeps_def ret_apply die_apply)

lemma keeps_bnd [keeps_rules]: "keeps g m \<Longrightarrow> (\<And>a. keeps g (f a)) \<Longrightarrow> keeps g (bnd m f)"
  by (fastforce simp: keeps_def bnd_def split: bind_splits sum.splits)

lemma keeps_act: "(\<And>w. g (snd (f w)) = g w) \<Longrightarrow> keeps g (act f)"
  and keeps_eff: "(\<And>w. g (h w) = g w) \<Longrightarrow> keeps g (eff h)"
  by (simp_all add: keeps_def act_apply eff_apply)

lemma keeps_if [keeps_rules]: "keeps g A \<Longrightarrow> keeps g B \<Longrightarrow> keeps g (if b then A else B)"
  by simp

lemma keeps_case_option [keeps_rules]:
  "keeps g A \<Longrightarrow> (\<And>x. keeps g (B x)) \<Longrightarrow> keeps g (case p of None \<Rightarrow> A | Some x \<Rightarrow> B x)"
  by (cases p) simp_all

lemma keeps_Let [keeps_rules]: "(\<And>x. keeps g (F x)) \<Longrightarrow> keeps g (let x = t in F x)"
  by (simp add: Let_def)

lemma keeps_case_class [keeps_rules]:
  "keeps g A1 \<Longrightarrow> keeps g A2 \<Longrightarrow> keeps g A3 \<Longrightarrow> keeps g A4 \<Longrightarrow> keeps g A5 \<Longrightarrow> keeps g A6 \<Longrightarrow> keeps g A7 \<Longrightarrow>
   keeps g (case k of IntelIch8Chipset \<Rightarrow> A1 | IntelIch9Chipset \<Rightarrow> A2 | IntelIch10Chipset \<Rightarrow> A3
     | Intel6SeriesChipset \<Rightarrow> A4 | Intel7SeriesChipset \<Rightarrow> A5 | Intel8SeriesChipset \<Rightarrow> A6
     | Intel9SeriesChipset \<Rightarrow> A7)"
  by (cases k) simp_all

lemma keeps_c_int [keeps_rules]: "keeps g (c_int i)"
  by (simp add: c_int_def keeps_rules)

text \<open>The virtual functions the flash reader calls.\<close>

definition quiet_virtuals :: "('w \<Rightarrow> 'g) \<Rightarrow> 'w Chipset_virtuals \<Rightarrow> bool" where
  "quiet_virtuals g V = (keeps g (v_ReadHsfsRegister V) \<and> (\<forall>h. keeps g (v_WriteHsfsRegister V h)) \<and>
     keeps g (v_ReadFaddrRegister V) \<and> (\<forall>f. keeps g (v_WriteFaddrRegister V f)) \<and>
     keeps g (v_ReadHsfcRegister V) \<and> (\<forall>h. keeps g (v_WriteHsfcRegister V h)) \<and>
     (\<forall>i. keeps g (v_ReadFdataNRegister V i)))"

lemma keeps_bnd_at:
  assumes "bnd m f w = Some y" and "keeps g m"
    and "\<And>a w'. f a w' = Some y \<Longrightarrow> g (snd y) = g w'"
  shows "g (snd y) = g w"
proof (cases "m w")
  case (Some rw)
  obtain r w' where rw: "rw = (r, w')" by fastforce
  with Some assms(2) have "g w' = g w" by (simp add: keeps_def)
  with Some rw assms(1,3) show ?thesis by (cases r) (auto simp: bnd_def)
qed (use assms(1) in \<open>simp add: bnd_def\<close>)

lemma keeps_at: "keeps g m \<Longrightarrow> m w = Some y \<Longrightarrow> g (snd y) = g w"
  by (cases y) (simp add: keeps_def)

lemma keeps_wait:
  assumes "quiet_virtuals g V"
  shows "keeps g (wait_cycle_done V)"
proof -
  have "keeps g (v_ReadHsfsRegister V) \<longrightarrow> g (snd y) = g w" if "wait_cycle_done V w = Some y"
    for V :: "'a Chipset_virtuals" and w y
    using that
  proof (rule wait_cycle_done.raw_induct [rotated, where P = "\<lambda>V w y.
      keeps g (v_ReadHsfsRegister V) \<longrightarrow> g (snd y) = g w"], goal_cases)
    case (1 f V w y)
    show ?case
    proof
      assume keep: "keeps g (v_ReadHsfsRegister V)"
      show "g (snd y) = g w"
        by (rule keeps_bnd_at [OF 1(2) keep]) (use 1(1) keep in \<open>auto simp: ret_apply split: if_splits\<close>)
    qed
  qed
  with assms show ?thesis unfolding keeps_def [of g "wait_cycle_done V"]
    by (auto simp: quiet_virtuals_def)
qed

lemma keeps_fill_buf: "quiet_virtuals g V \<Longrightarrow> keeps g (fill_buf V is buf)"
  by (induction "is" arbitrary: buf) (auto simp: quiet_virtuals_def intro!: keeps_rules)

lemma keeps_read_block:
  assumes "quiet_virtuals g V" and "\<And>a d. keeps g (br a d)"
    and "\<And>f a. be = Some f \<Longrightarrow> keeps g (f a)"
  shows "keeps g (read_block V cur bs br be buf)"
proof -
  have "keeps g (run_cycle V cur bs)"
    unfolding run_cycle_def using assms(1) keeps_wait [OF assms(1)]
    by (intro keeps_rules) (simp_all add: quiet_virtuals_def)
  moreover have "keeps g (case be of Some f \<Rightarrow> if flash_cycle_error h then f cur else ret True
      | None \<Rightarrow> ret True)" for h
    using assms(3) by (cases be) (simp_all add: keeps_rules)
  ultimately show ?thesis
    unfolding read_block_def using assms(2) keeps_fill_buf [OF assms(1)]
    by (intro keeps_bnd keeps_if keeps_ret) simp_all
qed

lemma keeps_block_loop:
  assumes "\<And>cur buf. keeps g (read_block V cur bs br be buf)"
  shows "keeps g (block_loop V fa n bs br be cur buf)"
proof -
  have "(\<forall>cur buf. keeps g (read_block V cur bs br be buf)) \<longrightarrow> g (snd y) = g w"
    if "block_loop V fa n bs br be cur buf w = Some y"
    for V :: "'a Chipset_virtuals" and fa n bs br be cur buf w y
    using that
  proof (rule block_loop.raw_induct [rotated, where P = "\<lambda>V fa n bs br be cur buf w y.
      (\<forall>cur buf. keeps g (read_block V cur bs br be buf)) \<longrightarrow> g (snd y) = g w"], goal_cases)
    case (1 f V fa n bs br be cur buf w y)
    show ?case
    proof
      assume keep: "\<forall>cur buf. keeps g (read_block V cur bs br be buf)"
      have next_block: "g (snd y) = g w'"
        if "bnd (c_int (cur + bs)) (\<lambda>cur'. f V fa n bs br be cur' (snd r)) w' = Some y" for r w'
        by (rule keeps_bnd_at [OF that keeps_c_int]) (use 1(1) keep in blast)
      have "g (snd y) = g w'"
        if "bnd (read_block V cur bs br be buf) (\<lambda>r. if \<not> fst r then ret False
          else bnd (c_int (cur + bs)) (\<lambda>cur'. f V fa n bs br be cur' (snd r))) w' = Some y" for w'
        by (rule keeps_bnd_at [OF that keep [rule_format]])
          (auto simp: ret_apply intro: next_block split: if_splits)
      then show "g (snd y) = g w"
        by (intro keeps_bnd_at [OF 1(2) keeps_c_int]) (auto simp: ret_apply split: if_splits)
    qed
  qed
  with assms show ?thesis unfolding keeps_def [of g "block_loop V fa n bs br be cur buf"]
    by auto
qed

lemma keeps_ReadSpi:
  assumes "quiet_virtuals g V" and "\<And>f a d. br = Some f \<Longrightarrow> keeps g (f a d)"
    and "\<And>f a. be = Some f \<Longrightarrow> keeps g (f a)" and "\<And>f. bd = Some f \<Longrightarrow> keeps g f"
  shows "keeps g (ReadSpiWithHardwareSequencing V fa n bs br be bd)"
proof (cases br)
  case None
  then show ?thesis by (simp add: ReadSpiWithHardwareSequencing_def keeps_die)
next
  case (Some f)
  have "keeps g (block_loop V fa n bs f be cur buf)" for cur buf
    using keeps_read_block [OF assms(1), of f be] assms(2,3) Some by (intro keeps_block_loop) simp
  moreover have "keeps g (case bd of None \<Rightarrow> ret () | Some f \<Rightarrow> f)"
    using assms(4) by (cases bd) (simp_all add: keeps_ret)
  moreover have "keeps g (v_ReadHsfsRegister V)" using assms(1) by (simp add: quiet_virtuals_def)
  ultimately show ?thesis
    by (simp add: ReadSpiWithHardwareSequencing_def Some) (intro conjI impI keeps_bnd keeps_if keeps_ret; simp)
qed

section \<open>Programs that leave a part of the world alone\<close>

text \<open>
  \<open>g\<close> is a part of the world that only the calls that acquire and release resources change:
  \<open>iopl\<close>, \<open>open\<close>, \<open>close\<close>, \<open>mmap\<close> and \<open>munmap\<close>.
\<close>

locale quiet_platform =
  fixes P :: "'w platform" and g :: "'w \<Rightarrow> 'g"
  assumes ports: "g (snd (os_inb P p w)) = g w" "g (snd (os_inw P p w)) = g w"
      "g (snd (os_inl P p w)) = g w" "g (os_outl P v32 p w) = g w"
    and memory: "g (snd (mem_load8 P a w)) = g w" "g (snd (mem_load16 P a w)) = g w"
      "g (snd (mem_load32 P a w)) = g w" "g (mem_store8 P a v8 w) = g w"
      "g (mem_store16 P a v16 w) = g w" "g (mem_store32 P a v32 w) = g w"
    and streams: "g (snd (io_fopen P f n w)) = g w" "g (snd (io_fwrite P d s w)) = g w"
      "g (snd (io_fflush P s w)) = g w" "g (absl_PrintF P f args w) = g w"
    and command_line: "g (absl_SetProgramUsageMessage P f w) = g w"
      "keeps g (absl_ParseCommandLine P argv)"
begin

lemmas quiet = keeps_act keeps_eff ports memory streams command_line

lemma keeps_config:
  "keeps g (ReadConfigUint8 P a)" "keeps g (ReadConfigUint16 P a)" "keeps g (ReadConfigUint32 P a)"
  by (auto simp: ReadConfigUint8_def ReadConfigUint16_def ReadConfigUint32_def select_config_def
      intro!: keeps_rules quiet)

lemma keeps_rcrb: "keeps g (rcrb_mem c)" "keeps g (SpiBar c off)"
  by (auto simp: rcrb_mem_def SpiBar_def Ich8_SpiBar_def Ich9_SpiBar_def intro!: keeps_rules)

lemma keeps_spi:
  "keeps g (spi_read8 P c off)" "keeps g (spi_read16 P c off)" "keeps g (spi_read32 P c off)"
  "keeps g (spi_write8 P c off v)" "keeps g (spi_write16 P c off v)" "keeps g (spi_write32 P c off v)"
  by (auto simp: spi_read8_def spi_read16_def spi_read32_def spi_write8_def spi_write16_def
      spi_write32_def access_defs intro!: keeps_rules keeps_rcrb quiet)

lemma keeps_registers:
  "keeps g (ReadHsfsRegister P c)" "keeps g (WriteHsfsRegister P c hs)"
  "keeps g (ReadHsfcRegister P c)" "keeps g (WriteHsfcRegister P c hc)"
  "keeps g (ReadFaddrRegister P c)" "keeps g (WriteFaddrRegister P c fa)"
  "keeps g (ReadFdataNRegister P c i)" "keeps g (ReadBfprRegister P c)"
  "keeps g (ReadFrapRegister P c)" "keeps g (ReadSsfsRegister P c)"
  by (auto simp: register_defs intro!: keeps_rules keeps_spi)

lemma keeps_indexed: "keeps g (ReadFregNRegister P c i)" "keeps g (ReadPrNRegister P c i)"
  by (auto simp: ReadFregNRegister_def ReadPrNRegister_def indexed_offset_def
      intro!: keeps_rules keeps_spi keeps_rcrb)

lemma keeps_pci_registers: "keeps g (ReadRcbaRegister P)" "keeps g (ReadBiosCntlRegister P c)"
  by (auto simp: ReadRcbaRegister_def bios_cntl_defs intro!: keeps_rules keeps_config)

lemma keeps_gcs: "keeps g (ReadGcsRegister P c)"
  by (auto simp: gcs_defs ReadUint32_def intro!: keeps_rules keeps_rcrb quiet)

lemma virtuals_quiet: "quiet_virtuals g (virtuals P c)"
  by (simp add: quiet_virtuals_def virtuals_def keeps_registers)

lemma keeps_printf: "keeps g (printf P f args)"
  by (simp add: printf_def quiet)

lemma keeps_read_regions: "keeps g (read_regions P (virtuals P c) is)"
  by (induction "is") (auto simp: virtuals_def intro!: keeps_rules keeps_indexed keeps_printf)

lemma keeps_print_ranges: "keeps g (print_ranges P rs)"
proof (induction rs)
  case (Cons r rs)
  then show ?case by (cases r) (auto intro!: keeps_rules keeps_printf)
qed (simp add: keeps_ret)

lemma keeps_report: "keeps g (report_protection P (virtuals P c) rs)"
  unfolding report_protection_def virtuals_def Chipset_virtuals.simps
  by (intro keeps_rules keeps_printf keeps_registers keeps_pci_registers keeps_print_ranges)

lemma keeps_dump_block: "keeps g (dump_block P s a d)"
  unfolding dump_block_def by (intro keeps_rules keeps_printf quiet)

lemma keeps_write_dump: "keeps g (write_dump P (virtuals P c) f)"
proof -
  have "keeps g (ReadSpiWithHardwareSequencing (virtuals P c) 0 kMaxFlash kBlockSize
      (Some (dump_block P s)) None (Some (printf P nl [])))" for s
    by (rule keeps_ReadSpi [OF virtuals_quiet]) (auto intro: keeps_dump_block keeps_printf)
  moreover have "keeps g (v_ReadSsfsRegister (virtuals P c))"
    by (simp add: virtuals_def keeps_registers)
  ultimately show ?thesis
    unfolding write_dump_def by (intro keeps_rules keeps_printf quiet)
qed

lemma keeps_dump_flash: "keeps g (dump_flash P (virtuals P c) f)"
proof -
  have "keeps g (v_ReadGcsRegister (virtuals P c))" "keeps g (v_ReadBfprRegister (virtuals P c))"
    "keeps g (v_ReadFrapRegister (virtuals P c))"
    by (simp_all add: virtuals_def keeps_registers keeps_gcs)
  then show ?thesis
    unfolding dump_flash_def
    by (intro keeps_rules keeps_printf keeps_read_regions keeps_report keeps_write_dump)
qed

lemma keeps_Chipset_Create: "keeps g (Chipset_Create P)"
  unfolding Chipset_Create_def by (intro keeps_rules keeps_config)

end

section \<open>The resources of the process\<close>

definition ends :: "('w, 'a) prog \<Rightarrow> 'w \<Rightarrow> ('a \<Rightarrow> 'w \<Rightarrow> bool) \<Rightarrow> bool" where
  "ends m w Q = (\<forall>a w'. m w = Some (Inr a, w') \<longrightarrow> Q a w')"

lemma ends_simps [simp]:
  "ends (ret a) w Q = Q a w" "ends (die e) w Q" "ends (act f) w Q = Q (fst (f w)) (snd (f w))"
  "ends (eff h) w R = R () (h w)"
  by (simp_all add: ends_def prog_simps)

lemma ends_bnd [simp]: "ends (bnd m f) w Q = ends m w (\<lambda>a w'. ends (f a) w' Q)"
  by (auto simp: ends_def bnd_def split: bind_splits sum.splits)

lemma ends_True [simp]: "ends m w (\<lambda>_ _. True)"
  by (simp add: ends_def)

lemma ends_if [simp]: "ends (if b then A else B) w Q = (if b then ends A w Q else ends B w Q)"
  by simp

lemma ends_ifI: "(b \<Longrightarrow> ends A w Q) \<Longrightarrow> (\<not> b \<Longrightarrow> ends B w Q) \<Longrightarrow> ends (if b then A else B) w Q"
  by simp

lemma ends_step: "ends m w Q \<Longrightarrow> (\<And>a w'. Q a w' \<Longrightarrow> ends (f a) w' R) \<Longrightarrow> ends (bnd m f) w R"
  unfolding ends_bnd by (auto simp: ends_def)

lemma ends_keeps_step:
  "keeps g m \<Longrightarrow> (\<And>a w'. g w' = g w \<Longrightarrow> ends (f a) w' R) \<Longrightarrow> ends (bnd m f) w R"
  unfolding ends_bnd by (simp add: keeps_def ends_def) blast

lemma ends_conj: "ends m w Q \<Longrightarrow> ends m w R \<Longrightarrow> ends m w (\<lambda>a w'. Q a w' \<and> R a w')"
  by (auto simp: ends_def)

lemma exit_codes_write_dump: "ends (write_dump P V f) w (\<lambda>code _. code \<in> {EXIT_SUCCESS, EXIT_FAILURE})"
  by (simp add: write_dump_def if_distrib [where f = "\<lambda>m. ends m _ _"] cong: if_cong)

lemma exit_codes_dump_flash: "ends (dump_flash P V f) w (\<lambda>code _. code \<in> {EXIT_SUCCESS, EXIT_FAILURE})"
  using exit_codes_write_dump [of P V f]
  by (simp add: dump_flash_def if_distrib [where f = "\<lambda>m. ends m _ _"] cong: if_cong)

locale process_resources = privilege_ledger P bal + memory_files P fds maps +
    quiet_platform P "\<lambda>w. (bal w, fds w, maps w)"
  for P :: "'w platform" and bal fds maps +
  assumes iopl_frame: "fds (snd (os_iopl P l w)) = fds w" "maps (snd (os_iopl P l w)) = maps w"
    and file_frame: "bal (snd (os_open P f n w)) = bal w" "bal (snd (os_close P d w)) = bal w"
      "bal (snd (os_mmap P a k pr fl d off w)) = bal w" "bal (snd (os_munmap P a k w)) = bal w"
begin

lemma keeps_bal_mapping:
  "keeps bal (destroy_mapping P old)" "keeps bal (PhysicalMemory_Create P off len)"
  by (auto simp: destroy_mapping_def PhysicalMemory_Create_def PhysicalMemory_Init_def
      PhysicalMemory_dtor_def file_frame intro!: keeps_rules keeps_act)

lemma keeps_bal_MapRootComplex: "keeps bal (MapRootComplex P c rcba)"
proof -
  have "keeps bal (case r of Inl status \<Rightarrow> ret (status, c) | Inr m \<Rightarrow>
      bnd (destroy_mapping P (rcrb_mem_ptr c)) (\<lambda>_. ret (OkStatus, c\<lparr>rcrb_mem_ptr := Some m\<rparr>)))" for r
    by (cases r) (auto intro!: keeps_rules keeps_bal_mapping)
  then show ?thesis
    unfolding MapRootComplex_def by (intro keeps_rules keeps_bal_mapping)
qed

text \<open>From the mapped chipset to the destructors.\<close>

lemma MapRootComplex_ends:
  assumes "holds F M (c, w)"
    and "\<And>s c' w'. holds F M (c', w') \<Longrightarrow> bal w' = bal w \<Longrightarrow> Q (s, c') w'"
  shows "ends (MapRootComplex P c rcba) w Q"
  using assms MapRootComplex_holds [OF assms(1), of rcba] keeps_bal_MapRootComplex [of c rcba]
  by (auto simp: ends_def keeps_def)

lemma destructors_end:
  assumes "holds F M (c, w)" and "h 0 = Some \<lparr>iopl_done = True\<rparr>"
    and "\<And>w'. bal w' = bal w - 1 \<Longrightarrow> maps w' = M \<Longrightarrow> F \<subseteq> fds w' \<Longrightarrow> Q code w'"
  shows "ends (return_code P h c code) w Q"
proof -
  have "ends (Chipset_dtor P c) w (\<lambda>_ w'. bal w' = bal w \<and> maps w' = M \<and> F \<subseteq> fds w')"
    using destroy_mapping_runs [OF assms(1)] keeps_bal_mapping(1) [of "rcrb_mem_ptr c"]
    by (auto simp: Chipset_dtor_def ends_def keeps_def runs_iff)
  moreover have "ends (thn (Pci_dtor P 0 h) (ret code)) w' Q"
    if "bal w' = bal w" "maps w' = M" "F \<subseteq> fds w'" for w'
    using that assms(2,3) by (simp add: Pci_dtor_def drop_level iopl_frame)
  ultimately show ?thesis unfolding return_code_def by (blast intro: ends_step)
qed

lemma holds_frame:
  assumes "holds F M (c, w)" and "(bal w', fds w', maps w') = (bal w, fds w, maps w)"
  shows "holds F M (c, w')"
  using assms by (simp add: holds_def)

lemma dump_or_fail_ends:
  assumes "holds F M (c, w)" and "h 0 = Some \<lparr>iopl_done = True\<rparr>" and "bal w = b + 1"
  shows "ends (bnd (if \<not> status_ok s then thn (printf P msg args) (ret EXIT_FAILURE)
        else dump_flash P (virtuals P c) f) (return_code P h c)) w (\<lambda>code w'.
      code \<in> {EXIT_SUCCESS, EXIT_FAILURE} \<and> bal w' = b \<and> maps w' = M \<and> F \<subseteq> fds w')"
proof -
  let ?m = "if \<not> status_ok s then thn (printf P msg args) (ret EXIT_FAILURE)
        else dump_flash P (virtuals P c) f"
  have "keeps (\<lambda>w. (bal w, fds w, maps w)) ?m"
    by (intro keeps_rules keeps_printf keeps_dump_flash)
  then have "ends ?m w (\<lambda>_ w'. holds F M (c, w') \<and> bal w' = b + 1)"
    using assms(3) by (auto simp: keeps_def ends_def intro: holds_frame [OF assms(1)])
  moreover have "ends ?m w (\<lambda>code _. code \<in> {EXIT_SUCCESS, EXIT_FAILURE})"
    using exit_codes_dump_flash [of P "virtuals P c" f w] by (cases "status_ok s") (simp_all add: printf_def)
  ultimately have "ends ?m w (\<lambda>code w'. (holds F M (c, w') \<and> bal w' = b + 1) \<and>
      code \<in> {EXIT_SUCCESS, EXIT_FAILURE})"
    by (rule ends_conj)
  then show ?thesis
    by (rule ends_step) (auto intro!: destructors_end [where h = h] simp: assms(2))
qed

lemma map_and_dump_ends:
  assumes "holds F M (c, w)" and "h 0 = Some \<lparr>iopl_done = True\<rparr>" and "bal w = b + 1"
  shows "ends (map_and_dump P h c rcba f) w (\<lambda>code w'.
      code \<in> {EXIT_SUCCESS, EXIT_FAILURE} \<and> bal w' = b \<and> maps w' = M \<and> F \<subseteq> fds w')"
proof -
  have "ends (MapRootComplex P c rcba) w (\<lambda>r w'. holds F M (snd r, w') \<and> bal w' = b + 1)"
    by (rule MapRootComplex_ends [OF assms(1)]) (simp add: assms(3))
  then show ?thesis
    unfolding map_and_dump_def
    by (rule ends_step) (use assms(2) in \<open>blast intro: dump_or_fail_ends\<close>)
qed

lemma probe_and_dump_ends:
  assumes "h 0 = Some \<lparr>iopl_done = True\<rparr>" and "bal w = b + 1"
  shows "ends (probe_and_dump P h f) w (\<lambda>code w'. code \<in> {EXIT_SUCCESS, EXIT_FAILURE} \<and>
      bal w' = b \<and> maps w' = maps w \<and> fds w \<subseteq> fds w')"
    (is "ends _ w ?Q")
proof -
  let ?g = "\<lambda>w. (bal w, fds w, maps w)"
  have held: "holds (fds w) (maps w) (c, w')" if "rcrb_mem_ptr c = None" "?g w' = ?g w" for c w'
    using that by (simp add: holds_def own_maps_def own_fds_def)
  have unmapped: "rcrb_mem_ptr c = None" if "Chipset_probe hw = Inr c" for hw c
    using that by (auto simp: Chipset_probe_def Chipset_ctor_def split: if_splits)
  have create: "ends (Chipset_Create P) w' (\<lambda>r w''. snd r = Chipset_probe (fst r) \<and> ?g w'' = ?g w)"
    if "?g w' = ?g w" for w'
    using keeps_Chipset_Create that
    by (intro ends_conj) (auto simp: keeps_def ends_def Chipset_Create_def bnd_def ret_apply Let_def
        split: bind_splits sum.splits)
  have rcba: "keeps ?g (v_ReadRcbaRegister (virtuals P c))" for c
    by (simp add: virtuals_def keeps_pci_registers)
  have dump: "ends (bnd (v_ReadRcbaRegister (virtuals P c)) (\<lambda>rcba.
      thn (printf P msg [fmt_word (base_address rcba)]) (map_and_dump P h c rcba f))) w' ?Q"
    if "rcrb_mem_ptr c = None" "?g w' = ?g w" for c w' msg
  proof (rule ends_keeps_step [OF rcba], rule ends_keeps_step [OF keeps_printf])
    fix r w1 u w2 assume "?g w1 = ?g w'" "?g w2 = ?g w1"
    with that have "?g w2 = ?g w" by simp
    with that(1) assms show "ends (map_and_dump P h c r f) w2 ?Q"
      by (intro map_and_dump_ends held) simp_all
  qed
  have probed: "ends (case snd r of Inl status \<Rightarrow> die (CheckFailed (status_message status))
      | Inr c \<Rightarrow> bnd (v_ReadRcbaRegister (virtuals P c)) (\<lambda>rcba.
          thn (printf P msg [fmt_word (base_address rcba)]) (map_and_dump P h c rcba f))) w' ?Q"
    if "snd r = Chipset_probe (fst r)" "?g w' = ?g w" for r w' msg
    using dump [OF unmapped that(2)] that(1) by (simp split: sum.split)
  show ?thesis
    unfolding probe_and_dump_def Let_def
  proof (rule ends_keeps_step [OF keeps_printf], rule ends_step [OF create], assumption,
      rule ends_keeps_step [OF keeps_printf], goal_cases)
    case (1 u w1 r w2 u' w3)
    then show ?case by (intro probed) simp_all
  qed
qed

lemma PawnMain_ends:
  "ends (PawnMain P argv) w (\<lambda>code w'. code \<in> {EXIT_SUCCESS, EXIT_FAILURE} \<and>
     bal w' = bal w \<and> maps w' = maps w \<and> fds w \<subseteq> fds w')"
    (is "ends _ w ?Q")
proof (cases argv)
  case Nil
  then show ?thesis by (simp add: PawnMain_def)
next
  case (Cons arg0 rest)
  let ?g = "\<lambda>w. (bal w, fds w, maps w)"
  have create: "ends (bnd (Pci_Create P 0 1 Map.empty) (\<lambda>pci. case pci of
        Inl status \<Rightarrow> die (CheckFailed (status_message status))
      | Inr h \<Rightarrow> probe_and_dump P h f)) w' ?Q" if "?g w' = ?g w" for w' f
  proof (cases "fst (os_iopl P 3 w') = 0")
    case True
    let ?w = "snd (os_iopl P 3 w')"
    from True that have "bal ?w = bal w + 1" "fds ?w = fds w" "maps ?w = maps w"
      by (simp_all add: raise_ok iopl_frame)
    with probe_and_dump_ends [of "[0 \<mapsto> \<lparr>iopl_done = True\<rparr>]" ?w "bal w" f] True show ?thesis
      by (simp add: ends_def Pci_Create_apply bnd_Inr)
  qed (simp add: ends_def Pci_Create_apply bnd_Inr die_apply)
  have logo: "keeps ?g (if l then printf P m as else ret ())"
    "keeps ?g (act (\<lambda>w. (absl_FLAGS_logo P w, w)))" for l m as
    by (auto intro!: keeps_rules keeps_printf keeps_act)
  show ?thesis
    unfolding PawnMain_def Cons list.case Let_def
  proof (rule ends_keeps_step [OF keeps_eff], rule command_line,
      rule ends_keeps_step [OF command_line(2)], goal_cases)
    case (1 u w1 parsed w2)
    then have w2: "?g w2 = ?g w" by simp
    show ?case
      by (rule ends_ifI, rule ends_simps, rule ends_keeps_step [OF logo(2)],
          rule ends_keeps_step [OF logo(1)], rule ends_keeps_step [OF keeps_printf], rule create)
        (use w2 in simp)
  qed
qed

end

section \<open>Properties\<close>

text \<open>
  C4. Dumping never changes the flash: the part of the program that runs on the mapped
  chipset behaves the same when every register access that could start a write or erase cycle, and
  every write to the software sequencing registers, is made fatal. This holds for all hardware
  and for runs that do not end too.
\<close>

theorem dump_never_writes_flash:
  "dump_flash P (read_only V) f = dump_flash P V f"
  by (rule dump_flash_read_only)


text \<open>
  C40. The access permission register is printed with its bytes in reverse order: the tool reads
  the bit-fields of the structure, which start with the most significant byte of the register, back
  through a pointer to a 32-bit word.
\<close>

theorem frap_printed_byte_reversed:
  "Frap_reinterpret (Frap_of v) = le_word (rev (le_bytes v))"
  by (rule Frap_reinterpret_rev)

end
