(* ===== verification/Pawn_Confined.thy ===== *)
theory Pawn_Confined
  imports Pawn_Safety
begin

text \<open>
  What \<open>pawn/pawn.cc\<close> can reach of the system it runs on with its privileges. \<open>confine\<close>
  is a platform whose privileged calls go to \<open>P\<close> when they have the few arguments the program is
  meant to use, and to some other platform \<open>Q\<close> in all other cases. The program cannot tell
  the difference, whatever \<open>Q\<close> does: it never makes another call.
\<close>

section \<open>The calls the program is meant to make\<close>

definition confine :: "string \<Rightarrow> 'w platform \<Rightarrow> 'w platform \<Rightarrow> 'w platform" where
  "confine name P Q = P
     \<lparr>os_iopl := (\<lambda>l. if l = 3 \<or> l = 0 then os_iopl P l else os_iopl Q l),
      os_inb := (\<lambda>p. if p - kConfigData < 4 then os_inb P p else os_inb Q p),
      os_inw := (\<lambda>p. if p = kConfigData \<or> p = kConfigData + 2 then os_inw P p else os_inw Q p),
      os_inl := (\<lambda>p. if p = kConfigAddress \<or> p = kConfigData then os_inl P p else os_inl Q p),
      os_outl := (\<lambda>v p. if p = kConfigAddress then os_outl P v p else os_outl Q v p),
      os_open := (\<lambda>f n. if f = ''/dev/mem'' \<and> n = O_RDWR then os_open P f n else os_open Q f n),
      os_mmap := (\<lambda>a k pr fl d off.
        if a = nullptr \<and> k = 0x4000 \<and> pr = 3 \<and> fl = MAP_SHARED then os_mmap P a k pr fl d off
        else os_mmap Q a k pr fl d off),
      mem_load64 := mem_load64 Q,
      mem_store64 := mem_store64 Q,
      io_fopen := (\<lambda>f n. if f = name \<and> n = ''wb'' then io_fopen P f n else io_fopen Q f n)\<rparr>"

text \<open>The output file of a parsed command line.\<close>

definition dump_name :: "string list \<Rightarrow> string" where
  "dump_name parsed_argv =
     (if length parsed_argv = 2 then parsed_argv ! 1 else ''bios_via_spi_hs.bin'')"

lemma confine_same [simp]:
  "os_close (confine name P Q) = os_close P"
  "os_munmap (confine name P Q) = os_munmap P"
  "os_strerror_errno (confine name P Q) = os_strerror_errno P"
  "mem_load8 (confine name P Q) = mem_load8 P"
  "mem_load16 (confine name P Q) = mem_load16 P"
  "mem_load32 (confine name P Q) = mem_load32 P"
  "mem_store8 (confine name P Q) = mem_store8 P"
  "mem_store16 (confine name P Q) = mem_store16 P"
  "mem_store32 (confine name P Q) = mem_store32 P"
  "io_fwrite (confine name P Q) = io_fwrite P"
  "io_fflush (confine name P Q) = io_fflush P"
  "absl_PrintF (confine name P Q) = absl_PrintF P"
  "absl_StrFormat (confine name P Q) = absl_StrFormat P"
  "absl_SetProgramUsageMessage (confine name P Q) = absl_SetProgramUsageMessage P"
  "absl_ParseCommandLine (confine name P Q) = absl_ParseCommandLine P"
  "absl_FLAGS_logo (confine name P Q) = absl_FLAGS_logo P"
  "c_basename (confine name P Q) = c_basename P"
  "build_kPawnDetailedVersion (confine name P Q) = build_kPawnDetailedVersion P"
  by (simp_all add: confine_def)

lemma confine_allowed [simp]:
  "os_iopl (confine name P Q) 3 = os_iopl P 3"
  "os_iopl (confine name P Q) 0 = os_iopl P 0"
  "os_inl (confine name P Q) kConfigAddress = os_inl P kConfigAddress"
  "os_inl (confine name P Q) kConfigData = os_inl P kConfigData"
  "os_outl (confine name P Q) v kConfigAddress = os_outl P v kConfigAddress"
  "os_open (confine name P Q) ''/dev/mem'' O_RDWR = os_open P ''/dev/mem'' O_RDWR"
  "os_mmap (confine name P Q) nullptr 0x4000 3 MAP_SHARED d off = os_mmap P nullptr 0x4000 3 MAP_SHARED d off"
  "io_fopen (confine name P Q) name ''wb'' = io_fopen P name ''wb''"
  by (simp_all add: confine_def)

lemma confine_lanes [simp]:
  "os_inb (confine name P Q) (kConfigData + ucast (a AND 3 :: 32 word))
     = os_inb P (kConfigData + ucast (a AND 3))"
  "os_inw (confine name P Q) (kConfigData + ucast (a AND 2 :: 32 word))
     = os_inw P (kConfigData + ucast (a AND 2))"
proof -
  show "os_inb (confine name P Q) (kConfigData + ucast (a AND 3))
     = os_inb P (kConfigData + ucast (a AND 3))"
    by (simp add: confine_def config_lane)
  have "a AND 2 = (if bit a 1 then 2 else 0)"
    by (rule bit_word_eqI) (auto simp: bit_simps)
  then show "os_inw (confine name P Q) (kConfigData + ucast (a AND 2))
     = os_inw P (kConfigData + ucast (a AND 2))"
    by (simp add: confine_def)
qed

section \<open>Every part of the program stays confined\<close>

lemma confine_config [simp]:
  "ReadConfigUint8 (confine name P Q) = ReadConfigUint8 P"
  "ReadConfigUint16 (confine name P Q) = ReadConfigUint16 P"
  "ReadConfigUint32 (confine name P Q) = ReadConfigUint32 P"
proof -
  have select: "select_config (confine name P Q) = select_config P"
    by (simp add: fun_eq_iff select_config_def)
  show "ReadConfigUint8 (confine name P Q) = ReadConfigUint8 P"
    "ReadConfigUint16 (confine name P Q) = ReadConfigUint16 P"
    "ReadConfigUint32 (confine name P Q) = ReadConfigUint32 P"
    by (simp_all add: fun_eq_iff ReadConfigUint8_def ReadConfigUint16_def ReadConfigUint32_def select)
qed

lemma confine_virtuals [simp]: "virtuals (confine name P Q) = virtuals P"
proof -
  have access: "ReadUint8 (confine name P Q) = ReadUint8 P" "ReadUint16 (confine name P Q) = ReadUint16 P"
    "ReadUint32 (confine name P Q) = ReadUint32 P" "WriteUint8 (confine name P Q) = WriteUint8 P"
    "WriteUint16 (confine name P Q) = WriteUint16 P" "WriteUint32 (confine name P Q) = WriteUint32 P"
    by (simp_all add: fun_eq_iff access_defs)
  have spi: "spi_read8 (confine name P Q) = spi_read8 P" "spi_read16 (confine name P Q) = spi_read16 P"
    "spi_read32 (confine name P Q) = spi_read32 P" "spi_write8 (confine name P Q) = spi_write8 P"
    "spi_write16 (confine name P Q) = spi_write16 P" "spi_write32 (confine name P Q) = spi_write32 P"
    by (simp_all add: fun_eq_iff spi_read8_def spi_read16_def spi_read32_def spi_write8_def
        spi_write16_def spi_write32_def access)
  show ?thesis
    by (simp add: fun_eq_iff virtuals_def register_defs bios_cntl_defs gcs_defs ReadRcbaRegister_def
        ReadFregNRegister_def ReadPrNRegister_def spi access cong: chipset_class.case_cong)
qed

lemma confine_printf [simp]: "printf (confine name P Q) = printf P"
  by (simp add: fun_eq_iff printf_def)

lemma confine_mapping [simp]:
  "destroy_mapping (confine name P Q) = destroy_mapping P"
  "PhysicalMemory_Create (confine name P Q) off 0x4000 = PhysicalMemory_Create P off 0x4000"
  by (simp_all add: fun_eq_iff destroy_mapping_def PhysicalMemory_Create_def PhysicalMemory_Init_def
      PhysicalMemory_dtor_def prot_read_write Let_def cong: option.case_cong if_cong)

lemma confine_MapRootComplex [simp]: "MapRootComplex (confine name P Q) = MapRootComplex P"
  by (simp add: fun_eq_iff MapRootComplex_def cong: if_cong sum.case_cong)

lemma confine_objects [simp]:
  "Chipset_Create (confine name P Q) = Chipset_Create P"
  "Pci_Create (confine name P Q) = Pci_Create P"
  "return_code (confine name P Q) = return_code P"
  by (simp_all add: fun_eq_iff Chipset_Create_def Pci_Create_def return_code_def Chipset_dtor_def
      Pci_dtor_def cong: if_cong option.case_cong)

lemma confine_dump_flash [simp]:
  "dump_flash (confine name P Q) V name = dump_flash P V name"
proof -
  have "read_regions (confine name P Q) V is = read_regions P V is" for "is"
    by (induction "is") simp_all
  moreover have "print_ranges (confine name P Q) rs = print_ranges P rs" for rs
    by (induction P rs rule: print_ranges.induct) simp_all
  moreover have "dump_block (confine name P Q) = dump_block P"
    by (simp add: fun_eq_iff dump_block_def cong: if_cong)
  ultimately show ?thesis
    by (simp add: dump_flash_def report_protection_def write_dump_def cong: if_cong)
qed

lemma confine_probe [simp]: "probe_and_dump (confine name P Q) h name = probe_and_dump P h name"
  by (simp add: probe_and_dump_def map_and_dump_def Let_def cong: if_cong sum.case_cong)

text \<open>A continuation counts only for the results its predecessor can have.\<close>

lemma bnd_cong_ends:
  assumes "\<forall>w. ends m w (\<lambda>a _. Q a)" and "\<And>a. Q a \<Longrightarrow> f a = f' a"
  shows "bnd m f = bnd m f'"
  using assms by (fastforce simp: fun_eq_iff bnd_def ends_def split: bind_splits sum.splits)

lemma confine_PawnMain:
  assumes "\<forall>w. ends (absl_ParseCommandLine P argv) w (\<lambda>r _. dump_name r = name)"
  shows "PawnMain (confine name P Q) argv = PawnMain P argv"
proof (cases argv)
  case (Cons arg0 rest)
  show ?thesis
    unfolding PawnMain_def Cons list.case confine_same Let_def dump_name_def [symmetric]
    by (rule arg_cong [where f = "thn _"], rule bnd_cong_ends [OF assms [unfolded Cons]])
      (simp cong: if_cong sum.case_cong)
qed (simp add: PawnMain_def)

section \<open>Properties\<close>


end
