(* ===== verification/Pawn_Dump.thy ===== *)
theory Pawn_Dump
  imports Pawn_Main Flash_Sequencing
begin

text \<open>
  Correctness of the dump itself (the end of \<open>PawnMain\<close> in \<open>pawn/pawn.cc\<close>).

  The locale \<open>flash_dump\<close> extends \<open>spi_controller\<close>, for a flash that holds an image, by
  what the C library promises about the output stream. \<open>view\<close> is the contents of the
  file \<open>name\<close> behind the stream, \<open>None\<close> as long as it is not open. Its lemmas show that the block callback of the
  tool implements appending to the file, and that the file ends up holding the image.
\<close>

definition append_block :: "int \<Rightarrow> 8 word list \<Rightarrow> 8 word list option \<Rightarrow> bool \<times> 8 word list option" where
  "append_block a d v = (True, map_option (\<lambda>bs. bs @ d) v)"

lemma spec_blocks_append_block:
  "spec_blocks ans bs append_block None as (Some v)
     = (True, Some (v @ concat (map (block_data ans bs) as)))"
  by (induction "as" arbitrary: v) (simp_all add: spec_block_def spec_error_def append_block_def)

lemma spec_read_append_block:
  "spec_read ans fa n bs append_block None id (Some v)
     = Some (spec_read ans fa n bs (\<lambda>a d v. (True, v @ d)) None id v)"
  by (simp add: spec_read_def spec_blocks_append_block spec_blocks_append)

lemma runs_bnd_act: "runs (bnd (act f) k) w Q = runs (k (fst (f w))) (snd (f w)) Q"
  and runs_bnd_printf: "runs (thn (printf P fmt args) k') w Q = runs k' (absl_PrintF P fmt args w) Q"
  by (simp_all add: printf_def)

locale flash_dump = spi_controller P c m ctl view idle cleared addressed busy finished
    "image_answer img"
  for P :: "'w platform" and c m and ctl :: "'w \<Rightarrow> 'c" and view :: "'w \<Rightarrow> 8 word list option"
    and idle cleared addressed busy finished and img :: "25 word \<Rightarrow> 8 word" +
  fixes dump :: ptr and name :: string
  assumes stream: "dump \<noteq> nullptr"
    and fopen: "fst (io_fopen P name ''wb'' w) = dump"
      "view (snd (io_fopen P name ''wb'' w)) = Some []"
      "ctl (snd (io_fopen P name ''wb'' w)) = ctl w"
    and fwrite: "view w = Some bs \<Longrightarrow> fst (io_fwrite P d dump w) = length d"
      "view w = Some bs \<Longrightarrow> view (snd (io_fwrite P d dump w)) = Some (bs @ d)"
      "ctl (snd (io_fwrite P d dump w)) = ctl w"
    and fflush: "view (snd (io_fflush P s w)) = view w" "ctl (snd (io_fflush P s w)) = ctl w"
    and text_out: "view (absl_PrintF P fmt args w) = view w" "ctl (absl_PrintF P fmt args w) = ctl w"
    and ssfs_idle: "idle (ctl w) \<Longrightarrow> \<not> bit (fst (mem_load8 P (spi_addr c m 0x90) w)) 0"
      "idle (ctl w) \<Longrightarrow> idle (ctl (snd (mem_load8 P (spi_addr c m 0x90) w)))"
      "view (snd (mem_load8 P (spi_addr c m 0x90) w)) = view w"
begin

lemma dump_block_implements:
  assumes "length d = 64"
  shows "implements ctl view (\<lambda>v. v \<noteq> None) (dump_block P dump a d) (append_block a d)"
proof -
  have "runs (dump_block P dump a d) w (\<lambda>b w'. ctl w' = ctl w \<and> b \<and> view w' = Some (bs @ d))"
    if "view w = Some bs" for w bs
    using assms that
    by (simp add: dump_block_def printf_def kBlockSize_def fflush text_out fwrite(1,2) [where bs = bs]
        fwrite(3))
  note append = this
  have "runs (dump_block P dump a d) w (\<lambda>b w'. ctl w' = ctl w \<and> view w' \<noteq> None \<and>
      (b, view w') = append_block a d (view w))" if "view w \<noteq> None" for w
  proof -
    from that obtain bs where bs: "view w = Some bs" by blast
    show ?thesis
      by (rule runs_mono [OF append [OF bs]]) (simp add: append_block_def bs)
  qed
  then show ?thesis by (simp add: implements_def)
qed

lemma kMaxFlash_val: "kMaxFlash = 16777216"
  by (simp add: kMaxFlash_def push_bit_eq_mult)

lemma block_length: "length (block_data (image_answer img) 64 a) = 64"
  by (simp add: block_data_def image_answer_def)

lemma read_all_runs:
  assumes "idle (ctl w)" and "view w = Some []"
  shows "runs (ReadSpiWithHardwareSequencing (virtuals P c) 0 kMaxFlash kBlockSize
      (Some (dump_block P dump)) None (Some (printf P nl []))) w (\<lambda>s w'. s = OkStatus \<and>
      idle (ctl w') \<and> view w' = Some (map (\<lambda>i. img (of_nat i)) [0..<16777216]))"
proof -
  have "runs (ReadSpiWithHardwareSequencing (virtuals P c) 0 kMaxFlash kBlockSize
      (Some (dump_block P dump)) None (Some (printf P nl []))) w (\<lambda>s w'. s = OkStatus \<and>
      idle (ctl w') \<and> view w' \<noteq> None \<and>
      view w' = spec_read (image_answer img) 0 kMaxFlash kBlockSize append_block None id (view w))"
    using assms dump_block_implements [OF block_length]
    by (intro seq.ReadSpi_runs)
      (simp_all add: kBlockSize_def kMaxFlash_val in_int_iff implements_error_def implements_done_def
        implements_def printf_def text_out)
  then show ?thesis
    using assms(2) spec_read_image [of 64 16777216 img 0 "[]"]
    by (elim runs_mono) (simp add: spec_read_append_block kBlockSize_def kMaxFlash_val)
qed

lemma write_dump_runs:
  assumes "idle (ctl w)"
  shows "runs (write_dump P (virtuals P c) name) w (\<lambda>code w'. code = EXIT_SUCCESS \<and>
      idle (ctl w') \<and> view w' = Some (map (\<lambda>i. img (of_nat i)) [0..<16777216]))"
proof -
  have ssfs: "runs (v_ReadSsfsRegister (virtuals P c)) w' (\<lambda>s w''.
      \<not> ssfs_spi_cycle_in_progress s \<and> idle (ctl w'') \<and> view w'' = view w')"
    if "idle (ctl w')" for w'
    using ssfs_idle(1,2) [OF that]
    by (simp add: virtuals_def ReadSsfsRegister_def kSsfsRegisterOffset_def spi_access [OF mapped]
        Ssfs_of_def Test_eq_bit ssfs_idle(3))
  have "runs (bnd (v_ReadSsfsRegister (virtuals P c)) (\<lambda>ssfs.
       if ssfs_spi_cycle_in_progress ssfs
       then thn (printf P (''Error: SPI flash cycle in progress'' @ nl) []) (ret EXIT_FAILURE)
       else
         bnd (ReadSpiWithHardwareSequencing (virtuals P c) 0 kMaxFlash kBlockSize
                (Some (dump_block P dump)) None (Some (printf P nl []))) (\<lambda>status.
         if \<not> status_ok status then die (CheckFailed (status_message status))
         else ret EXIT_SUCCESS))) w' (\<lambda>code w'. code = EXIT_SUCCESS \<and>
      idle (ctl w') \<and> view w' = Some (map (\<lambda>i. img (of_nat i)) [0..<16777216]))"
    if "idle (ctl w')" "view w' = Some []" for w'
    using that
    by (intro runs_step [OF ssfs]) (auto intro!: runs_step [OF read_all_runs] simp: status_ok_def
        simp del: runs_bnd)
  note dumped = this
  show ?thesis
    unfolding write_dump_def runs_bnd_act fopen runs_bnd_printf
    using assms stream by (simp only: if_False runs_bnd_act runs_bnd_printf)
      (rule dumped, simp_all add: fopen fflush text_out)
qed

end

section \<open>Properties\<close>

text \<open>
  C3. The dump is complete and exact. On a flash controller and an output stream that behave
  as \<open>flash_dump\<close> says, started idle, the tool returns success and the file it was given holds the
  16 MiB of flash, byte i of the file being the byte at flash address i.
\<close>

theorem dump_file_is_flash_image:
  assumes "flash_dump P c m ctl view idle cleared addressed busy finished img dump name"
    and "idle (ctl w)"
  shows "runs (write_dump P (virtuals P c) name) w (\<lambda>code w'. code = EXIT_SUCCESS \<and>
    idle (ctl w') \<and> view w' = Some (map (\<lambda>i. img (of_nat i)) [0..<16 * 2 ^ 20]))"
  using flash_dump.write_dump_runs [OF assms] by simp

text \<open>
  C8. What is read does not depend on the block size. On a controller in front of a flash image, for
  every block size that is a multiple of 4, every range that fits in an \<open>int\<close> and every
  callback that appends its block, the bytes collected are exactly those of the range in order, with
  the flash address cut to 25 bits.
\<close>

theorem range_read_exact:
  assumes "spi_controller P c m ctl view idle cleared addressed busy finished (image_answer img)"
    and "idle (ctl w)" and "view w = Some v"
    and "4 \<le> bs" and "bs \<le> 64" and "4 dvd bs" and "bs dvd n" and "0 \<le> n"
    and "in_int fa" and "in_int (fa + n)"
    and "\<forall>a d. int (length d) = bs \<longrightarrow>
      implements ctl view (\<lambda>v. v \<noteq> None) (br a d) (append_block a d)"
  shows "runs (ReadSpiWithHardwareSequencing (virtuals P c) fa n bs (Some br) None None) w (\<lambda>s w'.
     s = OkStatus \<and> idle (ctl w') \<and>
     view w' = Some (v @ map (\<lambda>i. img (word_of_int (fa + int i))) [0..<nat n]))"
proof -
  have "int (length (block_data (image_answer img) bs a)) = bs" for a
    using assms(4,6) by (simp add: block_data_image)
  then have "\<forall>a. implements ctl view (\<lambda>v. v \<noteq> None) (br a (block_data (image_answer img) bs a))
      (append_block a (block_data (image_answer img) bs a))"
    using assms(11) by blast
  moreover have "n smod bs = 0" using assms(4,7,8) by (auto simp: signed_modulo_int_def sgn_0_0)
  moreover have "flash_sequencer (virtuals P c) ctl view idle cleared addressed busy finished
      (image_answer img)"
    using assms(1) by (rule spi_controller.axioms_to_sequencer)
  ultimately have "runs (ReadSpiWithHardwareSequencing (virtuals P c) fa n bs (Some br) None None) w
      (\<lambda>s w'. s = OkStatus \<and> idle (ctl w') \<and> view w' \<noteq> None \<and>
        view w' = spec_read (image_answer img) fa n bs append_block None id (view w))"
    using assms
    by (intro flash_sequencer.ReadSpi_runs [where J = "\<lambda>v. v \<noteq> None"])
      (auto simp: implements_error_def implements_done_def implements_def)
  then show ?thesis
    using assms(3) spec_read_image [OF assms(4,6,8,7), of img fa v]
    by (elim runs_mono) (simp add: spec_read_append_block)
qed

end
