(* ===== verification/Dump_Host.thy ===== *)
theory Dump_Host
  imports Pawn_Confined Pawn_Dump
begin

text \<open>
  The whole of \<open>PawnMain\<close> (\<open>pawn/pawn.cc\<close>) on any host that keeps its side of the
  interfaces: from the command line to the exit code, with every component in place.

  \<open>stays J m\<close> says that \<open>m\<close>, started where \<open>J\<close> holds, returns and leaves
  \<open>J\<close> true. The locale \<open>stable_host\<close> has the calls that leave a condition of the world
  alone: printing, and the two configuration ports. The locale \<open>dump_host\<close> puts
  the interfaces of the components together, the privilege ledger, descriptors and mappings, the
  configuration mechanism, the flash controller and the output stream, and adds what must
  not stand in the way: \<open>ready\<close> is a world in which the program can start, \<open>armed\<close> one
  in which the root complex is mapped and the dump can begin.
\<close>

section \<open>Conditions that a program leaves true\<close>

definition stays :: "('w \<Rightarrow> bool) \<Rightarrow> ('w, 'a) prog \<Rightarrow> bool" where
  "stays J m = (\<forall>w. J w \<longrightarrow> runs m w (\<lambda>_. J))"

named_theorems stays_rules

lemma stays_step:
  assumes "stays J m" and "J w" and "\<And>a w'. J w' \<Longrightarrow> runs (f a) w' Q"
  shows "runs (bnd m f) w Q"
  using assms unfolding stays_def by (auto elim!: runs_mono)

lemma stays_ret [stays_rules]: "stays J (ret a)"
  by (simp add: stays_def)

lemma stays_bnd [stays_rules]: "stays J m \<Longrightarrow> (\<And>a. stays J (f a)) \<Longrightarrow> stays J (bnd m f)"
  unfolding stays_def by (auto elim!: runs_mono)

lemma stays_Let [stays_rules]: "(\<And>x. stays J (f x)) \<Longrightarrow> stays J (let x = t in f x)"
  by (simp add: Let_def)

lemma stays_act: "(\<And>w. J w \<Longrightarrow> J (snd (f w))) \<Longrightarrow> stays J (act f)"
  and stays_eff: "(\<And>w. J w \<Longrightarrow> J (h w)) \<Longrightarrow> stays J (eff h)"
  by (simp_all add: stays_def)

lemma stays_if [stays_rules]: "stays J A \<Longrightarrow> stays J B \<Longrightarrow> stays J (if b then A else B)"
  by simp

lemma stays_class [stays_rules]:
  "stays J A1 \<Longrightarrow> stays J A2 \<Longrightarrow> stays J A3 \<Longrightarrow> stays J A4 \<Longrightarrow> stays J A5 \<Longrightarrow> stays J A6 \<Longrightarrow>
   stays J A7 \<Longrightarrow>
   stays J (case k of IntelIch8Chipset \<Rightarrow> A1 | IntelIch9Chipset \<Rightarrow> A2 | IntelIch10Chipset \<Rightarrow> A3
     | Intel6SeriesChipset \<Rightarrow> A4 | Intel7SeriesChipset \<Rightarrow> A5 | Intel8SeriesChipset \<Rightarrow> A6
     | Intel9SeriesChipset \<Rightarrow> A7)"
  by (cases k) simp_all

lemma runs_keeps: "runs m w Q \<Longrightarrow> keeps g m \<Longrightarrow> runs m w (\<lambda>a w'. Q a w' \<and> g w' = g w)"
  by (auto simp: runs_iff keeps_def)

lemma runs_else: "\<not> b \<Longrightarrow> runs B w Q \<Longrightarrow> runs (if b then A else B) w Q"
  by simp

section \<open>Printing and configuration space\<close>

locale stable_host =
  fixes P :: "'w platform" and J :: "'w \<Rightarrow> bool"
  assumes printing: "J w \<Longrightarrow> J (absl_PrintF P fmt args w)"
    and address_port: "J w \<Longrightarrow> J (snd (os_inl P kConfigAddress w))"
      "J w \<Longrightarrow> J (os_outl P v kConfigAddress w)"
    and data_port: "J w \<Longrightarrow> k < 4 \<Longrightarrow> J (snd (os_inb P (kConfigData + k) w))"
      "J w \<Longrightarrow> k < 4 \<Longrightarrow> J (snd (os_inw P (kConfigData + k) w))"
      "J w \<Longrightarrow> J (snd (os_inl P kConfigData w))"
begin

lemma stays_printf: "stays J (printf P fmt args)"
  by (simp add: printf_def stays_eff printing)

lemma stays_config:
  "stays J (ReadConfigUint8 P a)" "stays J (ReadConfigUint16 P a)" "stays J (ReadConfigUint32 P a)"
proof -
  have select: "stays J (select_config P a)"
    unfolding select_config_def by (intro stays_rules stays_act stays_eff address_port)
  show "stays J (ReadConfigUint8 P a)" "stays J (ReadConfigUint16 P a)"
    "stays J (ReadConfigUint32 P a)"
    unfolding ReadConfigUint8_def ReadConfigUint16_def ReadConfigUint32_def
    by (auto intro!: stays_rules select stays_act data_port config_lane)
qed

lemma stays_pci_registers: "stays J (ReadRcbaRegister P)" "stays J (ReadBiosCntlRegister P c)"
  by (auto simp: ReadRcbaRegister_def bios_cntl_defs intro!: stays_rules stays_config)

lemma stays_Chipset_Create: "stays J (Chipset_Create P)"
  unfolding Chipset_Create_def by (intro stays_rules stays_config)

lemma stays_ranges: "stays J (print_ranges P rs)"
proof (induction rs)
  case (Cons r rs)
  then show ?case by (cases r) (auto intro!: stays_rules stays_printf)
qed (simp add: stays_ret)

end


section \<open>Only the address of a mapping matters\<close>

lemma virtuals_same_window:
  assumes "rcrb_mem_ptr c = Some m" and "mem m' = mem m"
  shows "virtuals P (c\<lparr>rcrb_mem_ptr := Some m'\<rparr>) = virtuals P c"
proof -
  let ?c = "c\<lparr>rcrb_mem_ptr := Some m'\<rparr>"
  have spi: "spi_read8 P ?c = spi_read8 P c" "spi_read16 P ?c = spi_read16 P c"
    "spi_read32 P ?c = spi_read32 P c" "spi_write8 P ?c = spi_write8 P c"
    "spi_write16 P ?c = spi_write16 P c" "spi_write32 P ?c = spi_write32 P c"
    using assms
    by (simp_all add: fun_eq_iff spi_read8_def spi_read16_def spi_read32_def spi_write8_def
        spi_write16_def spi_write32_def access_defs SpiBar_def Ich8_SpiBar_def Ich9_SpiBar_def)
  have mem: "rcrb_mem ?c = ret m'" "rcrb_mem c = ret m" using assms(1) by simp_all
  have "ReadGcsRegister P ?c = ReadGcsRegister P c"
    using assms(2) by (cases "chipset_cls c")
      (simp_all add: gcs_defs ReadUint32_def mem integrated_io_defs)
  then show ?thesis
    by (simp add: virtuals_def register_defs bios_cntl_defs ReadFregNRegister_def
        ReadPrNRegister_def fun_eq_iff spi mem)
qed

section \<open>A host on which nothing stands in the way\<close>

text \<open>
  The device \<open>c\<close> with the mapping \<open>m\<close> is what the flash controller laws of
  \<open>flash_dump\<close> are stated for; \<open>rcba\<close> is the contents of the root complex base address
  register. The parser turns the accepted command lines into their operands. The registers
  that are reported before the dump are those at offsets 0 (BFPR), 4 (HSFS), 0x50 (FRAP), 0x54 to 0x64 (FREG) and
  0x74 to 0x84 (PR) of the SPI registers, and GCS.
\<close>

locale dump_host = process_resources P bal fds maps + config_mechanism P latch space +
    flash_dump P c m ctl view idle cleared addressed busy finished img dump name +
    before: stable_host P ready + after: stable_host P armed
  for P :: "'w platform" and bal fds maps latch space c m and ctl :: "'w \<Rightarrow> 'c" and view idle cleared
    addressed busy finished img dump name and ready armed :: "'w \<Rightarrow> bool" +
  fixes rcba :: "32 word" and accepted :: "string list \<Rightarrow> bool"
    and operands :: "string list \<Rightarrow> string list"
  assumes usage: "ready w \<Longrightarrow> ready (absl_SetProgramUsageMessage P s w)"
    and parsing: "ready w \<Longrightarrow> accepted argv \<Longrightarrow>
      runs (absl_ParseCommandLine P argv) w (\<lambda>r w'. r = operands argv \<and> ready w')"
    and privileged: "ready w \<Longrightarrow> fst (os_iopl P 3 w) = 0"
      "ready w \<Longrightarrow> ready (snd (os_iopl P 3 w))"
    and supported: "ready w \<Longrightarrow> SupportsDevice (chipset_cls c) (hardware_id c)"
    and identity: "ready w \<Longrightarrow> hardware_id c = \<lparr>vendor = ucast (space w 0xF800),
        device = ucast (drop_bit 16 (space w 0xF800)), revision = ucast (space w 0xF808)\<rparr>"
    and root_complex: "ready w \<Longrightarrow> space w 0xF8F0 = rcba" "ready w \<Longrightarrow> bit rcba 0"
    and mapping: "ready w \<Longrightarrow> fst (dev_mem_opened P w) \<noteq> - 1"
      "ready w \<Longrightarrow> fst (dev_mem_mapped P (ucast (rcba AND 0xFFFFC000)) 0x4000 w) = mem m"
      "ready w \<Longrightarrow> armed (snd (dev_mem_mapped P (ucast (rcba AND 0xFFFFC000)) 0x4000 w))"
      "mem m \<noteq> MAP_FAILED"
    and at_rest: "armed w \<Longrightarrow> idle (ctl w)"
    and boot_straps: "armed w \<Longrightarrow> straps_select_spi c (fst (mem_load32 P (mem m + 0x3410) w))"
      "armed w \<Longrightarrow> armed (snd (mem_load32 P (mem m + 0x3410) w))"
    and descriptor_mode: "armed w \<Longrightarrow> bit (fst (mem_load16 P (spi_addr c m 4) w)) 14"
      "armed w \<Longrightarrow> armed (snd (mem_load16 P (spi_addr c m 4) w))"
    and reported: "armed w \<Longrightarrow> off \<in> {0, 0x50} \<union> {0x54..0x64} \<union> {0x74..0x84} \<Longrightarrow>
      armed (snd (mem_load32 P (spi_addr c m off) w))"
    and release_view: "view (snd (os_munmap P a l w)) = view w" "view (snd (os_close P d w)) = view w"
      "view (snd (os_iopl P level w)) = view w"
begin

text \<open>The conditions together with the resources the process holds.\<close>

lemma stable_resources:
  assumes "stable_host P J"
  shows "stable_host P (\<lambda>w. J w \<and> (bal w, fds w, maps w) = R)"
  using assms ports streams by (simp add: stable_host_def)

end

sublocale dump_host \<subseteq> b: stable_host P "\<lambda>w. ready w \<and> (bal w, fds w, maps w) = R" for R
  by (rule stable_resources) (rule before.stable_host_axioms)

sublocale dump_host \<subseteq> a: stable_host P "\<lambda>w. armed w \<and> (bal w, fds w, maps w) = R" for R
  by (rule stable_resources) (rule after.stable_host_axioms)

context dump_host
begin

subsection \<open>Reporting\<close>

lemma stays_load:
  assumes "off \<in> {0, 0x50} \<union> {0x54..0x64} \<union> {0x74..0x84}"
  shows "stays (\<lambda>w. armed w \<and> (bal w, fds w, maps w) = R) (spi_read32 P c off)"
proof -
  have "0 \<le> off" "off < 0x100" using assms by auto
  then show ?thesis
    using reported [OF _ assms] memory(3) [of "spi_addr c m off"]
    by (simp add: spi_access(3) [OF mapped] stays_def)
qed

lemma stays_reported:
  "stays (\<lambda>w. armed w \<and> (bal w, fds w, maps w) = R) (ReadBfprRegister P c)"
  "stays (\<lambda>w. armed w \<and> (bal w, fds w, maps w) = R) (ReadFrapRegister P c)"
  "i < 5 \<Longrightarrow> stays (\<lambda>w. armed w \<and> (bal w, fds w, maps w) = R) (ReadFregNRegister P c (int i))"
  "i < 5 \<Longrightarrow> stays (\<lambda>w. armed w \<and> (bal w, fds w, maps w) = R) (ReadPrNRegister P c (int i))"
  by (auto simp: ReadBfprRegister_def ReadFrapRegister_def ReadFregNRegister_def ReadPrNRegister_def
      rcrb_mem_Some [OF mapped] indexed_offset_small offset_defs intro!: stays_rules stays_load)

lemma stays_regions:
  "\<forall>i \<in> set is. i < 5 \<Longrightarrow>
    stays (\<lambda>w. armed w \<and> (bal w, fds w, maps w) = R) (read_regions P (virtuals P c) is)"
  by (induction "is") (auto simp: virtuals_def intro!: stays_rules stays_reported a.stays_printf)

lemma hsfs_runs:
  assumes "armed w"
  shows "runs (ReadHsfsRegister P c) w (\<lambda>h w'. flash_descriptor_valid h \<and> armed w' \<and>
    (bal w', fds w', maps w') = (bal w, fds w, maps w))"
  using descriptor_mode [OF assms] memory(2) [of "spi_addr c m 4" w]
  by (simp add: ReadHsfsRegister_def kHsfsRegisterOffset_def spi_access [OF mapped] Hsfs_of_def
      Test_eq_bit)

lemma straps_runs:
  assumes "armed w"
  shows "runs (ReadGcsRegister P c) w (\<lambda>gcs w'. boot_bios_straps gcs = kBbsSpi \<and> armed w' \<and>
    (bal w', fds w', maps w') = (bal w, fds w, maps w))"
  using ReadGcs_runs [OF mapped prod.collapse [symmetric], of P w] boot_straps [OF assms]
    memory(3) [of "mem m + 0x3410" w]
  by (auto elim: runs_mono)

lemma report_runs:
  assumes "armed w \<and> (bal w, fds w, maps w) = R"
  shows "runs (report_protection P (virtuals P c) rs) w (\<lambda>h w'. flash_descriptor_valid h \<and>
    armed w' \<and> (bal w', fds w', maps w') = R)"
  unfolding report_protection_def virtuals_def Chipset_virtuals.simps
proof (rule stays_step [OF a.stays_printf assms], rule runs_step [OF hsfs_runs], goal_cases)
  case (2 u w1 h w2)
  then have w2: "armed w2 \<and> (bal w2, fds w2, maps w2) = R" and fdv: "flash_descriptor_valid h"
    by simp_all
  note steps = stays_step [OF a.stays_printf] stays_step [OF a.stays_pci_registers(2)]
    stays_step [OF a.stays_ranges]
  show ?case by (rule steps, rule w2, (rule steps, assumption)+) (simp add: fdv)
qed simp

subsection \<open>From the mapped chipset to the file\<close>

lemma dump_flash_runs:
  assumes "armed w \<and> (bal w, fds w, maps w) = R"
  shows "runs (dump_flash P (virtuals P c) name) w (\<lambda>code w'. code = EXIT_SUCCESS \<and>
    view w' = Some (map (\<lambda>i. img (of_nat i)) [0..<16777216]) \<and> (bal w', fds w', maps w') = R)"
    (is "runs _ w ?Q")
proof -
  have gcs: "runs (v_ReadGcsRegister (virtuals P c)) w (\<lambda>gcs w'. boot_bios_straps gcs = kBbsSpi \<and>
      armed w' \<and> (bal w', fds w', maps w') = R)"
    using straps_runs [of w] assms by (simp add: virtuals_def)
  have regs: "stays (\<lambda>w. armed w \<and> (bal w, fds w, maps w) = R) (v_ReadBfprRegister (virtuals P c))"
    "stays (\<lambda>w. armed w \<and> (bal w, fds w, maps w) = R) (v_ReadFrapRegister (virtuals P c))"
    "stays (\<lambda>w. armed w \<and> (bal w, fds w, maps w) = R) (read_regions P (virtuals P c) [0..<kNumFlashRegions])"
    by (simp_all add: virtuals_def stays_reported kNumFlashRegions_def
        stays_regions [unfolded virtuals_def])
  have written: "runs (write_dump P (virtuals P c) name) w' ?Q"
    if "armed w'" "(bal w', fds w', maps w') = R" for w'
    by (rule runs_mono [OF runs_keeps [OF write_dump_runs [OF at_rest [OF that(1)]] keeps_write_dump]])
      (use that(2) in simp)
  note steps = stays_step [OF a.stays_printf] stays_step [OF regs(1)] stays_step [OF regs(2)]
    stays_step [OF regs(3)]
  show ?thesis
    unfolding dump_flash_def
  proof (rule runs_step [OF gcs], goal_cases)
    case (1 gcs w1)
    then have w1: "armed w1 \<and> (bal w1, fds w1, maps w1) = R" "\<not> boot_bios_straps gcs \<noteq> kBbsSpi"
      by simp_all
    show ?case
      by (rule steps, rule w1(1), rule runs_else, rule w1(2), (rule steps, assumption)+,
          rule runs_step [OF report_runs], assumption, elim conjE, rule steps, (rule conjI; assumption),
          rule runs_else, simp, elim conjE, rule written)
  qed
qed

text \<open>The chipset before the mapping, and with the mapping the kernel hands out.\<close>

lemma c_mapped: "(Chipset_ctor (chipset_cls c) (hardware_id c))\<lparr>rcrb_mem_ptr := Some m'\<rparr>
    = c\<lparr>rcrb_mem_ptr := Some m'\<rparr>"
  by (simp add: Chipset_ctor_def)

lemma MapRootComplex_apply_ready:
  assumes "ready w"
  shows "\<exists>m' w'. MapRootComplex P (Chipset_ctor (chipset_cls c) (hardware_id c)) (Rcba_of rcba) w
      = Some (Inr (OkStatus, c\<lparr>rcrb_mem_ptr := Some m'\<rparr>), w') \<and> mem m' = mem m \<and> armed w' \<and>
    bal w' = bal w \<and> fds w' = insert (mem_fd m') (fds w) \<and> mem_fd m' \<notin> fds w \<and>
    maps w' = insert (mem m', length_mem m') (maps w) \<and> (mem m', length_mem m') \<notin> maps w"
proof -
  let ?off = "ucast (rcba AND 0xFFFFC000) :: ptr"
  let ?m = "\<lparr>mem_fd = fst (dev_mem_opened P w), mem = mem m, length_mem = 0x4000\<rparr>"
  let ?w = "snd (dev_mem_mapped P ?off 0x4000 w)"
  note opened = mapping(1) [OF assms] and at = mapping(2) [OF assms]
  have "PhysicalMemory_Create P ?off 0x4000 w = Some (Inr (Inr ?m), ?w)"
    using Create_succeeds [OF opened, of ?off "0x4000"] mapping(4) at by simp
  moreover have "rcba_enable (Rcba_of rcba)"
    using root_complex(2) [OF assms] by (simp add: Rcba_of_def Test_eq_bit)
  ultimately have "MapRootComplex P (Chipset_ctor (chipset_cls c) (hardware_id c)) (Rcba_of rcba) w
      = Some (Inr (OkStatus, c\<lparr>rcrb_mem_ptr := Some ?m\<rparr>), ?w)"
    unfolding c_mapped [symmetric]
    by (simp add: MapRootComplex_apply Rcba_base bnd_Inr destroy_mapping_def Chipset_ctor_def ret_apply)
  moreover have "bal ?w = bal w"
    by (simp add: dev_mem_mapped_def dev_mem_opened_def file_frame)
  ultimately show ?thesis
    using Create_leaves [OF opened, of ?off "0x4000"] opened_fresh [OF opened] mapping(3) [OF assms]
      mapping(4) at
    by (intro exI [of _ ?m] exI [of _ ?w]) simp
qed

lemma return_code_runs:
  assumes "h 0 = Some \<lparr>iopl_done = True\<rparr>" and "mem m' \<noteq> nullptr"
  shows "runs (return_code P h (c\<lparr>rcrb_mem_ptr := Some m'\<rparr>) code) w (\<lambda>r w'. r = code \<and>
    view w' = view w \<and> bal w' = bal w - 1 \<and> fds w' = fds w - {mem_fd m'} \<and>
    maps w' = maps w - {(mem m', length_mem m')})"
  using assms
  by (simp add: return_code_def Chipset_dtor_def destroy_mapping_def PhysicalMemory_dtor_def
      Pci_dtor_def release_view iopl_frame file_frame drop_level munmap close_fd)

lemma map_and_dump_runs:
  assumes "ready w" and "h 0 = Some \<lparr>iopl_done = True\<rparr>"
  shows "runs (map_and_dump P h (Chipset_ctor (chipset_cls c) (hardware_id c)) (Rcba_of rcba) name) w
    (\<lambda>code w'. code = EXIT_SUCCESS \<and> view w' = Some (map (\<lambda>i. img (of_nat i)) [0..<16777216]) \<and>
      bal w' = bal w - 1 \<and> fds w' = fds w \<and> maps w' = maps w)"
    (is "runs _ w ?Q")
proof -
  obtain m' w' where at: "MapRootComplex P (Chipset_ctor (chipset_cls c) (hardware_id c)) (Rcba_of rcba) w
      = Some (Inr (OkStatus, c\<lparr>rcrb_mem_ptr := Some m'\<rparr>), w')"
    and "mem m' = mem m" "armed w'"
    and held: "bal w' = bal w" "fds w' = insert (mem_fd m') (fds w)" "mem_fd m' \<notin> fds w"
      "maps w' = insert (mem m', length_mem m') (maps w)" "(mem m', length_mem m') \<notin> maps w"
    using MapRootComplex_apply_ready [OF assms(1)] by blast
  have same: "virtuals P (c\<lparr>rcrb_mem_ptr := Some m'\<rparr>) = virtuals P c"
    by (rule virtuals_same_window [OF mapped]) fact
  have "mem m' \<noteq> nullptr"
    using mapped_mem [of "ucast (rcba AND 0xFFFFC000)" "0x4000" w] mapping(2) [OF assms(1)] mapping(4)
      \<open>mem m' = mem m\<close> by simp
  note leave = return_code_runs [of h m', OF assms(2) this]
  have "runs (bnd (dump_flash P (virtuals P c) name) (return_code P h (c\<lparr>rcrb_mem_ptr := Some m'\<rparr>))) w' ?Q"
  proof (rule runs_step [OF dump_flash_runs [OF conjI [OF \<open>armed w'\<close> refl]]], goal_cases)
    case (1 code w'')
    then show ?case
      by (intro runs_mono [OF leave]) (use held in auto)
  qed
  then show ?thesis
    unfolding map_and_dump_def by (simp add: runs_def bnd_Inr at status_ok_def same)
qed

lemma rcba_runs:
  assumes "ready w \<and> (bal w, fds w, maps w) = R"
  shows "runs (v_ReadRcbaRegister (virtuals P c')) w
    (\<lambda>r w'. r = Rcba_of rcba \<and> ready w' \<and> (bal w', fds w', maps w') = R)"
proof -
  have "kRcbaRegister AND 0xFFFFFC = 0xF8F0"
    by (simp add: kRcbaRegister_def MakeConfigAddress_def Set_def One_nat_def)
  then have "runs (ReadRcbaRegister P) w (\<lambda>r _. r = Rcba_of rcba)"
    unfolding ReadRcbaRegister_def using assms
    by (intro runs_step [OF ReadConfigUint32_runs [OF kRcbaRegister_def]]) (simp add: root_complex)
  from runs_conj [OF this] b.stays_pci_registers(1) assms show ?thesis
    by (simp add: virtuals_def stays_def)
qed

lemma Chipset_Create_ready:
  assumes "ready w \<and> (bal w, fds w, maps w) = R"
  shows "runs (Chipset_Create P) w (\<lambda>r w'.
    r = (hardware_id c, Inr (Chipset_ctor (chipset_cls c) (hardware_id c))) \<and>
    ready w' \<and> (bal w', fds w', maps w') = R)"
proof -
  have "runs (Chipset_Create P) w (\<lambda>_ w'. ready w' \<and> (bal w', fds w', maps w') = R)"
    using b.stays_Chipset_Create assms by (simp add: stays_def)
  from runs_conj [OF Chipset_Create_runs this] show ?thesis
    by (rule runs_mono)
      (use assms identity [of w] probe_table [OF supported [of w]] in \<open>auto simp: prod_eq_iff\<close>)
qed

subsection \<open>The program\<close>

lemma probe_and_dump_runs:
  assumes "ready w \<and> (bal w, fds w, maps w) = (b + 1, F, M)" and "h 0 = Some \<lparr>iopl_done = True\<rparr>"
  shows "runs (probe_and_dump P h name) w (\<lambda>code w'. code = EXIT_SUCCESS \<and>
    view w' = Some (map (\<lambda>i. img (of_nat i)) [0..<16777216]) \<and> bal w' = b \<and> fds w' = F \<and> maps w' = M)"
    (is "runs _ w ?Q")
proof -
  let ?c = "Chipset_ctor (chipset_cls c) (hardware_id c)"
  note print = stays_step [OF b.stays_printf]
  have probed: "runs (bnd (v_ReadRcbaRegister (virtuals P ?c)) (\<lambda>rcba.
      thn (printf P msg [fmt_word (base_address rcba)]) (map_and_dump P h ?c rcba name))) w' ?Q"
    if "ready w' \<and> (bal w', fds w', maps w') = (b + 1, F, M)" for w' msg
  proof (rule runs_step [OF rcba_runs [OF that]], elim conjE, rule print, (rule conjI; assumption), goal_cases)
    case (1 r w1 u w2)
    then show ?case
      using map_and_dump_runs [of w2 h] assms(2) by simp
  qed
  show ?thesis
    unfolding probe_and_dump_def Let_def
  proof (rule print, rule assms(1), rule runs_step [OF Chipset_Create_ready], assumption, goal_cases)
    case (1 u w1 r w2)
    then have r: "r = (hardware_id c, Inr ?c)"
      and w2: "ready w2 \<and> (bal w2, fds w2, maps w2) = (b + 1, F, M)" by simp_all
    show ?case
      unfolding r fst_conv snd_conv sum.case by (rule print, rule w2, rule probed)
  qed
qed

lemma Pci_Create_ready:
  assumes "ready w"
  shows "Pci_Create P 0 1 Map.empty w = Some (Inr (Inr [0 \<mapsto> \<lparr>iopl_done = True\<rparr>]), snd (os_iopl P 3 w))"
    and "ready (snd (os_iopl P 3 w)) \<and> (bal (snd (os_iopl P 3 w)), fds (snd (os_iopl P 3 w)),
      maps (snd (os_iopl P 3 w))) = (bal w + 1, fds w, maps w)"
  using privileged [OF assms] by (simp_all add: Pci_Create_apply raise_ok iopl_frame)

lemma PawnMain_runs:
  assumes "ready w" and "argv \<noteq> []" and "accepted argv" and "length (operands argv) \<le> 2"
    and "dump_name (operands argv) = name"
  shows "runs (PawnMain P argv) w (\<lambda>code w'. code = EXIT_SUCCESS \<and>
    view w' = Some (map (\<lambda>i. img (of_nat i)) [0..<16777216]) \<and>
    bal w' = bal w \<and> fds w' = fds w \<and> maps w' = maps w)"
    (is "runs _ w ?Q")
proof -
  let ?J = "\<lambda>w'. ready w' \<and> (bal w', fds w', maps w') = (bal w, fds w, maps w)"
  obtain arg0 rest where argv: "argv = arg0 # rest" using assms(2) by (cases argv) auto
  have created: "runs (bnd (Pci_Create P 0 1 Map.empty) (\<lambda>pci. case pci of
        Inl status \<Rightarrow> die (CheckFailed (status_message status))
      | Inr h \<Rightarrow> probe_and_dump P h name)) w' ?Q" if "?J w'" for w'
  proof -
    have "ready w'" using that by simp
    from Pci_Create_ready [OF this] that show ?thesis
      using probe_and_dump_runs [of "snd (os_iopl P 3 w')" "bal w" "fds w" "maps w"
          "[0 \<mapsto> \<lparr>iopl_done = True\<rparr>]"]
      by (simp add: runs_def bnd_Inr)
  qed
  have start: "stays ?J (eff (absl_SetProgramUsageMessage P s))"
    "stays ?J (act (\<lambda>w. (absl_FLAGS_logo P w, w)))"
    "stays ?J (if l then printf P s as else ret ())" for s l as
    using usage command_line(1) b.stays_printf [of "(bal w, fds w, maps w)"]
    by (auto simp: stays_def)
  have parse: "runs (absl_ParseCommandLine P argv) w' (\<lambda>r w''. r = operands argv \<and> ?J w'')"
    if "?J w'" for w'
    by (rule runs_mono [OF runs_keeps [OF parsing [OF _ assms(3)] command_line(2)]])
      (use that in auto)
  have start_w: "?J w" using assms(1) by simp
  show ?thesis
    unfolding PawnMain_def
  proof (subst argv, subst list.case, rule stays_step [OF start(1) start_w],
      rule runs_step [OF parse], assumption, goal_cases)
    case (1 u w1 r w2)
    then have few: "\<not> \<not> length r \<le> 2" and named: "dump_name r = name" and w2: "?J w2"
      using assms(4,5) by simp_all
    show ?case
      unfolding Let_def dump_name_def [symmetric] named
      by (rule runs_else, rule few, rule stays_step [OF start(2) w2], rule stays_step [OF start(3)],
          assumption, rule stays_step [OF b.stays_printf], assumption, rule created, assumption)
  qed
qed

end

end
