(* ===== verification/Pawn_Report.thy ===== *)
theory Pawn_Report
  imports Dump_Host
begin

text \<open>
  What \<open>PawnMain\<close> (\<open>pawn/pawn.cc\<close>) prints about the protection of the flash before it
  opens the output file. \<open>protection_report\<close> is the report as a function of the
  contents of the registers, bit by bit, and the locale \<open>register_host\<close> a host whose
  registers have given contents and which logs the calls of \<open>absl::PrintF\<close>. \<open>logs\<close>
  says what a program returns and prints there.
\<close>

section \<open>The report\<close>

type_synonym log = "(string \<times> fmt_arg list) list"

definition freg_line :: "(int \<Rightarrow> 32 word) \<Rightarrow> nat \<Rightarrow> string \<times> fmt_arg list" where
  "freg_line regs i =
     (let v = regs (0x54 + int i * 4) in
      (''FREG%d  Base: 0x%08X  Limit: 0x%08X'' @ nl,
       [FmtInt (int i), FmtInt (uint (take_bit 13 v)), FmtInt (if bit v 16 then 0x1FFF else 0xFFF)]))"

definition pr_lines :: "(int \<Rightarrow> 32 word) \<Rightarrow> nat \<Rightarrow> log" where
  "pr_lines regs i =
     (let v = regs (0x74 + int i * 4) in
      [(''    PR%d Write Protection Enable: %d'' @ nl, [FmtInt (int i), FmtInt (of_bool (bit v 31))]),
       (''        Read Protection Enable:  %d'' @ nl, [FmtInt (of_bool (bit v 15))]),
       (''        Protected Range Base:    0x%08X  Limit: 0x%08X'' @ nl,
        [FmtInt (if bit v 0 then 0x1000 else 0), FmtInt (if bit v 16 then 0x1FFF else 0xFFF)])])"

definition has_smm_bwp :: "chipset_class \<Rightarrow> bool" where
  "has_smm_bwp k = (k \<notin> {IntelIch8Chipset, IntelIch9Chipset, IntelIch10Chipset})"

definition mechanism_lines :: "chipset_class \<Rightarrow> (int \<Rightarrow> 32 word) \<Rightarrow> 16 word \<Rightarrow> 8 word \<Rightarrow> log" where
  "mechanism_lines k regs hsfs cntl =
     [(''BIOS protection mechanisms:'' @ nl, []),
      (''  HSFS Flash Configuration Lock-Down (FLOCKDN): %d'' @ nl, [FmtInt (of_bool (bit hsfs 15))]),
      (''  BIOS Control Register (BIOS_CNTL):'' @ nl, []),
      (''    SMM BIOS Write Protect Disable (SMM_BWP):   %d'' @ nl,
       [FmtInt (of_bool (has_smm_bwp k \<and> bit cntl 5))]),
      (''    BIOS Lock Enable (BLE):                     %d'' @ nl, [FmtInt (of_bool (bit cntl 1))]),
      (''    BIOS Write Enable (BIOSWE):                 %d'' @ nl, [FmtInt (of_bool (bit cntl 0))]),
      (''  Protected Range Registers:'' @ nl, [])] @
     concat (map (pr_lines regs) [0..<5])"

definition protection_report ::
    "chipset_class \<Rightarrow> (int \<Rightarrow> 32 word) \<Rightarrow> 16 word \<Rightarrow> 8 word \<Rightarrow> log" where
  "protection_report k regs hsfs cntl =
     [(''Boot BIOS Straps (BBS): %s'' @ nl, [FmtStr ''SPI'']),
      (''PRB: 0x%08X  PRL: 0x%08X'' @ nl,
       [FmtInt (uint (push_bit 12 (take_bit 13 (regs 0)))),
        FmtInt (uint (push_bit 12 (take_bit 13 (drop_bit 16 (regs 0)))))]),
      (''FRAP: 0x%08X'' @ nl, [FmtInt (uint (le_word (rev (le_bytes (regs 0x50))) :: 32 word))])] @
     map (freg_line regs) [0..<5] @
     mechanism_lines k regs hsfs cntl @
     [(''Flash Descriptor Valid (FDV): %d'' @ nl, [FmtInt (of_bool (bit hsfs 14))])]"

lemma freg_line_eq:
  "freg_line regs i = (''FREG%d  Base: 0x%08X  Limit: 0x%08X'' @ nl,
     [FmtInt (int i), fmt_word (region_base (FregN_of (regs (0x54 + int i * 4)))),
      fmt_word (region_limit (FregN_of (regs (0x54 + int i * 4))))])"
  by (simp add: freg_line_def fmt_word_def Let_def region_bounds unsigned_ucast_eq
      unsigned_take_bit_eq One_nat_def)

lemma pr_lines_eq:
  "pr_lines regs i =
     (let p = PrN_of (regs (0x74 + int i * 4)) in
      [(''    PR%d Write Protection Enable: %d'' @ nl,
        [FmtInt (int i), fmt_bool (write_protection_enable p)]),
       (''        Read Protection Enable:  %d'' @ nl, [fmt_bool (read_protection_enable p)]),
       (''        Protected Range Base:    0x%08X  Limit: 0x%08X'' @ nl,
        [fmt_word (protected_range_base p), fmt_word (protected_range_limit p)])])"
  by (simp add: pr_lines_def fmt_word_def fmt_bool_def Let_def region_bounds One_nat_def)
    (simp add: PrN_of_def Test_eq_bit)

lemma mechanism_lines_eq:
  "mechanism_lines k regs hsfs cntl =
     (let b = (if has_smm_bwp k then Series6_BiosCntl_of cntl else Ich8_BiosCntl_of cntl) in
      [(''BIOS protection mechanisms:'' @ nl, []),
       (''  HSFS Flash Configuration Lock-Down (FLOCKDN): %d'' @ nl,
        [fmt_bool (flash_configuration_lockdown (Hsfs_of hsfs))]),
       (''  BIOS Control Register (BIOS_CNTL):'' @ nl, []),
       (''    SMM BIOS Write Protect Disable (SMM_BWP):   %d'' @ nl,
        [fmt_bool (smm_bios_write_protect_disable b)]),
       (''    BIOS Lock Enable (BLE):                     %d'' @ nl, [fmt_bool (bios_lock_enable b)]),
       (''    BIOS Write Enable (BIOSWE):                 %d'' @ nl, [fmt_bool (bios_write_enable b)]),
       (''  Protected Range Registers:'' @ nl, [])] @
      concat (map (pr_lines regs) [0..<5]))"
  by (simp add: mechanism_lines_def fmt_bool_def Let_def Hsfs_of_def Series6_BiosCntl_of_def
      Ich8_BiosCntl_of_def Test_eq_bit)

lemma protection_report_eq:
  "protection_report k regs hsfs cntl =
     (''Boot BIOS Straps (BBS): %s'' @ nl,
      [FmtStr (kBootBiosStrapsDesc ! BootBiosStraps_val kBbsSpi)]) #
     (''PRB: 0x%08X  PRL: 0x%08X'' @ nl,
      [fmt_word (bios_flash_primary_region_base (Bfpr_of (regs 0))),
       fmt_word (bios_flash_primary_region_limit (Bfpr_of (regs 0)))]) #
     (''FRAP: 0x%08X'' @ nl, [fmt_word (Frap_reinterpret (Frap_of (regs 0x50)))]) #
     map (freg_line regs) [0..<5] @ mechanism_lines k regs hsfs cntl @
     [(''Flash Descriptor Valid (FDV): %d'' @ nl, [fmt_bool (flash_descriptor_valid (Hsfs_of hsfs))])]"
  by (simp add: protection_report_def fmt_word_def fmt_bool_def region_bounds Frap_reinterpret_rev
      kBootBiosStrapsDesc_def) (simp add: Hsfs_of_def Test_eq_bit)

section \<open>Programs that print\<close>

definition logs :: "('w \<Rightarrow> bool) \<Rightarrow> ('w \<Rightarrow> log) \<Rightarrow> ('w, 'a) prog \<Rightarrow> 'a \<Rightarrow> log \<Rightarrow> bool" where
  "logs J out m a ls = (\<forall>w. J w \<longrightarrow> runs m w (\<lambda>r w'. r = a \<and> J w' \<and> out w' = out w @ ls))"

lemma logsI:
  "(\<And>w. J w \<Longrightarrow> runs m w (\<lambda>r w'. r = a \<and> J w' \<and> out w' = out w @ ls)) \<Longrightarrow> logs J out m a ls"
  by (simp add: logs_def)

lemma logsD: "logs J out m a ls \<Longrightarrow> J w \<Longrightarrow> runs m w (\<lambda>r w'. r = a \<and> J w' \<and> out w' = out w @ ls)"
  by (simp add: logs_def)

lemma logs_ret: "logs J out (ret a) a []"
  by (simp add: logs_def)

lemma logs_bnd:
  assumes "logs J out m a ls" and "logs J out (f a) b ls'"
  shows "logs J out (bnd m f) b (ls @ ls')"
proof (rule logsI)
  fix w assume "J w"
  show "runs (bnd m f) w (\<lambda>r w'. r = b \<and> J w' \<and> out w' = out w @ ls @ ls')"
  proof (rule runs_step [OF logsD [OF assms(1) \<open>J w\<close>]], goal_cases)
    case (1 r w1)
    with logsD [OF assms(2), of w1] show ?case by (auto elim: runs_mono)
  qed
qed

lemma logs_map: "logs J out m a ls \<Longrightarrow> logs J out (bnd m (\<lambda>r. ret (f r))) (f a) ls"
  using logs_bnd [of J out m a ls "\<lambda>r. ret (f r)", OF _ logs_ret] by simp

lemma logs_silent: "logs J out m a [] \<Longrightarrow> logs J out (f a) b ls \<Longrightarrow> logs J out (bnd m f) b ls"
  using logs_bnd [of J out m a "[]" f b ls] by simp

text \<open>A program prints a text and goes on as another one.\<close>

definition prints_then ::
    "('w \<Rightarrow> bool) \<Rightarrow> ('w \<Rightarrow> log) \<Rightarrow> ('w, 'a) prog \<Rightarrow> 'w \<Rightarrow> log \<Rightarrow> ('w, 'a) prog \<Rightarrow> bool" where
  "prints_then J out M w ls K = (\<exists>w'. J w' \<and> out w' = out w @ ls \<and> M w = K w')"

lemma prints_then_refl: "J w \<Longrightarrow> prints_then J out M w [] M"
  by (auto simp: prints_then_def)

lemma prints_then_bnd:
  assumes "logs J out m a ls" and "J w"
    and "\<And>w'. J w' \<Longrightarrow> prints_then J out (f a) w' ls' K"
  shows "prints_then J out (bnd m f) w (ls @ ls') K"
proof -
  obtain w1 where w1: "m w = Some (Inr a, w1)" "J w1" "out w1 = out w @ ls"
    using logsD [OF assms(1,2)] by (auto simp: runs_iff)
  with assms(3) [of w1] show ?thesis by (auto simp: prints_then_def bnd_Inr)
qed

lemma prints_then_silent:
  "logs J out m a [] \<Longrightarrow> J w \<Longrightarrow> (\<And>w'. J w' \<Longrightarrow> prints_then J out (f a) w' ls K) \<Longrightarrow>
   prints_then J out (bnd m f) w ls K"
  using prints_then_bnd [of J out m a "[]" w f ls K] by simp

lemma virtuals_sel:
  "v_ReadGcsRegister (virtuals P c) = ReadGcsRegister P c"
  "v_ReadBfprRegister (virtuals P c) = ReadBfprRegister P c"
  "v_ReadFrapRegister (virtuals P c) = ReadFrapRegister P c"
  "v_ReadFregNRegister (virtuals P c) = ReadFregNRegister P c"
  "v_ReadPrNRegister (virtuals P c) = ReadPrNRegister P c"
  "v_ReadHsfsRegister (virtuals P c) = ReadHsfsRegister P c"
  "v_ReadBiosCntlRegister (virtuals P c) = ReadBiosCntlRegister P c"
  by (simp_all add: virtuals_def)

section \<open>A host that logs what is printed\<close>

locale register_host = config_mechanism P latch space + stable_host P J
  for P :: "'w platform" and latch space J +
  fixes c :: Chipset and m :: PhysicalMemory and out :: "'w \<Rightarrow> log"
    and gcs :: "32 word" and regs :: "int \<Rightarrow> 32 word" and hsfs :: "16 word" and cntl :: "8 word"
  assumes window: "rcrb_mem_ptr c = Some m"
    and log_printf: "out (absl_PrintF P fmt args w) = out w @ [(fmt, args)]"
    and silent_ports: "out (snd (os_inl P kConfigAddress w)) = out w"
      "out (os_outl P v kConfigAddress w) = out w" "out (snd (os_inb P (kConfigData + k) w)) = out w"
    and cntl_contents: "J w \<Longrightarrow> ucast (space w 0xF8DC) = cntl"
    and gcs_contents: "J w \<Longrightarrow> fst (mem_load32 P (mem m + 0x3410) w) = gcs"
      "J w \<Longrightarrow> J (snd (mem_load32 P (mem m + 0x3410) w))"
      "out (snd (mem_load32 P (mem m + 0x3410) w)) = out w"
    and hsfs_contents: "J w \<Longrightarrow> fst (mem_load16 P (spi_addr c m 4) w) = hsfs"
      "J w \<Longrightarrow> J (snd (mem_load16 P (spi_addr c m 4) w))"
      "out (snd (mem_load16 P (spi_addr c m 4) w)) = out w"
    and reg_contents: "J w \<Longrightarrow> off \<in> {0, 0x50} \<union> {0x54..0x64} \<union> {0x74..0x84} \<Longrightarrow>
        fst (mem_load32 P (spi_addr c m off) w) = regs off"
      "J w \<Longrightarrow> off \<in> {0, 0x50} \<union> {0x54..0x64} \<union> {0x74..0x84} \<Longrightarrow>
        J (snd (mem_load32 P (spi_addr c m off) w))"
      "out (snd (mem_load32 P (spi_addr c m off) w)) = out w"
begin

lemma logs_printf: "logs J out (printf P fmt args) () [(fmt, args)]"
  by (simp add: logs_def printf_def log_printf printing)

lemma logs_print:
  "logs J out k b ls \<Longrightarrow> logs J out (thn (printf P fmt args) k) b ((fmt, args) # ls)"
  using logs_bnd [of J out _ _ "[(fmt, args)]" "\<lambda>_. k" b ls, OF logs_printf] by simp

lemma logs_spi_read32:
  assumes "off \<in> {0, 0x50} \<union> {0x54..0x64} \<union> {0x74..0x84}"
  shows "logs J out (spi_read32 P c off) (regs off) []"
proof -
  have "0 \<le> off" "off < 0x100" using assms by auto
  then show ?thesis
    using reg_contents(1,2) [OF _ assms] by (simp add: logs_def spi_access(3) [OF window] reg_contents(3))
qed

lemma logs_reported:
  "logs J out (ReadBfprRegister P c) (Bfpr_of (regs 0)) []"
  "logs J out (ReadFrapRegister P c) (Frap_of (regs 0x50)) []"
  "i < 5 \<Longrightarrow> logs J out (ReadFregNRegister P c (int i)) (FregN_of (regs (0x54 + int i * 4))) []"
  "i < 5 \<Longrightarrow> logs J out (ReadPrNRegister P c (int i)) (PrN_of (regs (0x74 + int i * 4))) []"
  by (auto simp: ReadBfprRegister_def ReadFrapRegister_def ReadFregNRegister_def ReadPrNRegister_def
      rcrb_mem_Some [OF window] indexed_offset_small offset_defs intro!: logs_map logs_spi_read32)

lemma logs_hsfs: "logs J out (ReadHsfsRegister P c) (Hsfs_of hsfs) []"
  by (auto simp: ReadHsfsRegister_def kHsfsRegisterOffset_def spi_access [OF window] logs_def
      hsfs_contents)

lemma logs_config_byte: "logs J out (ReadConfigUint8 P kBiosCntlRegister) cntl []"
proof (rule logsI)
  fix w assume J: "J w"
  have "kBiosCntlRegister AND 0xFFFFFC = 0xF8DC"
    by (simp add: kBiosCntlRegister_def MakeConfigAddress_def Set_def One_nat_def)
  then have "runs (ReadConfigUint8 P kBiosCntlRegister) w (\<lambda>v w'. v = cntl)"
    using ReadConfigUint8_runs [OF kBiosCntlRegister_def, of w] cntl_contents [OF J]
    by (auto elim!: runs_mono)
  moreover have "runs (ReadConfigUint8 P kBiosCntlRegister) w (\<lambda>_. J)"
    using stays_config(1) J by (simp add: stays_def)
  moreover have "keeps out (ReadConfigUint8 P kBiosCntlRegister)"
    unfolding ReadConfigUint8_def select_config_def
    by (intro keeps_rules keeps_act keeps_eff silent_ports)
  ultimately show "runs (ReadConfigUint8 P kBiosCntlRegister) w
      (\<lambda>v w'. v = cntl \<and> J w' \<and> out w' = out w @ [])"
    by (auto simp: runs_iff keeps_def)
qed

lemma logs_bios_cntl:
  "logs J out (ReadBiosCntlRegister P c)
     (if has_smm_bwp (chipset_cls c) then Series6_BiosCntl_of cntl else Ich8_BiosCntl_of cntl) []"
  by (cases "chipset_cls c") (auto simp: bios_cntl_defs has_smm_bwp_def intro!: logs_map logs_config_byte)

lemma logs_gcs:
  "\<exists>g. logs J out (ReadGcsRegister P c) g [] \<and> (boot_bios_straps g = kBbsSpi \<longleftrightarrow> straps_select_spi c gcs)"
proof -
  have load: "logs J out (ReadUint32 P m (uint kGcsRegister)) gcs []"
    by (simp add: logs_def ReadUint32_def kGcsRegister_def gcs_contents)
  show ?thesis
    by (cases "chipset_cls c") (auto simp: gcs_defs rcrb_mem_Some [OF window] Ich8_straps_spi
        Series6_straps_spi Series8_straps_spi integrated_io_defs straps_select_spi_def intro!: exI logs_map [OF load])
qed

lemma logs_regions:
  "\<forall>i \<in> set is. i < 5 \<Longrightarrow> logs J out (read_regions P (virtuals P c) is)
     (map (\<lambda>i. (FregN_of (regs (0x54 + int i * 4)), PrN_of (regs (0x74 + int i * 4)))) is)
     (map (freg_line regs) is)"
proof (induction "is")
  case (Cons i "is")
  then have i: "i < 5" by simp
  have "logs J out (bnd (read_regions P (virtuals P c) is) (\<lambda>rest.
      ret ((FregN_of (regs (0x54 + int i * 4)), PrN_of (regs (0x74 + int i * 4))) # rest)))
      (map (\<lambda>i. (FregN_of (regs (0x54 + int i * 4)), PrN_of (regs (0x74 + int i * 4)))) (i # is))
      (map (freg_line regs) is)"
    unfolding list.map by (rule logs_map) (use Cons in simp)
  moreover have "map (freg_line regs) (i # is) = freg_line regs i # map (freg_line regs) is" by simp
  ultimately show ?case
    unfolding read_regions.simps virtuals_sel
    by (simp only:) (subst freg_line_eq, rule logs_silent [OF logs_reported(3) [OF i]],
      rule logs_silent [OF logs_reported(4) [OF i]], rule logs_print)
qed (simp add: logs_ret)

lemma logs_ranges:
  "logs J out (print_ranges P (map (\<lambda>i. (i, F i, PrN_of (regs (0x74 + int i * 4)))) is)) ()
     (concat (map (pr_lines regs) is))"
proof (induction "is")
  case (Cons i "is")
  have "concat (map (pr_lines regs) (i # is)) = pr_lines regs i @ concat (map (pr_lines regs) is)"
    by simp
  then show ?case
    by (simp only: list.map print_ranges.simps snd_conv)
      (subst pr_lines_eq, simp only: Let_def append.simps, (rule logs_print)+, rule Cons.IH)
qed (simp add: logs_ret)

lemma logs_mechanisms:
  "logs J out (report_protection P (virtuals P c)
       (map (\<lambda>i. (F i, PrN_of (regs (0x74 + int i * 4)))) [0..<5])) (Hsfs_of hsfs)
     (mechanism_lines (chipset_cls c) regs hsfs cntl)"
proof -
  let ?ranges = "print_ranges P (enumerate 0 (map (\<lambda>i. (F i, PrN_of (regs (0x74 + int i * 4)))) [0..<5]))"
  have "enumerate 0 (map (\<lambda>i. (F i, PrN_of (regs (0x74 + int i * 4)))) [0..<5])
      = map (\<lambda>i. (i, F i, PrN_of (regs (0x74 + int i * 4)))) [0..<5]"
    by (simp add: enumerate_eq_zip upt_rec)
  then have ranges: "logs J out (thn ?ranges (ret (Hsfs_of hsfs))) (Hsfs_of hsfs)
      (concat (map (pr_lines regs) [0..<5]))"
    using logs_map [OF logs_ranges, of F "[0..<5]" "\<lambda>_. Hsfs_of hsfs"] by simp
  show ?thesis
    unfolding report_protection_def mechanism_lines_eq virtuals_sel Let_def append.simps
    by (rule logs_print, rule logs_silent [OF logs_hsfs], (rule logs_print)+,
        rule logs_silent [OF logs_bios_cntl], (rule logs_print)+, rule ranges)
qed

lemma prints_then_print:
  "J w \<Longrightarrow> (\<And>w'. J w' \<Longrightarrow> prints_then J out k w' ls K) \<Longrightarrow>
   prints_then J out (thn (printf P fmt args) k) w ((fmt, args) # ls) K"
  using prints_then_bnd [of J out _ _ "[(fmt, args)]" w "\<lambda>_. k" ls K, OF logs_printf] by simp

lemma dump_flash_prints:
  assumes "J w" and "straps_select_spi c gcs"
  shows "prints_then J out (dump_flash P (virtuals P c) f) w
    (protection_report (chipset_cls c) regs hsfs cntl)
    (if \<not> bit hsfs 14
     then thn (printf P (''Error: System not in descriptor mode!'' @ nl) []) (ret EXIT_FAILURE)
     else write_dump P (virtuals P c) f)"
proof -
  obtain g where gcs: "logs J out (ReadGcsRegister P c) g []" and spi: "boot_bios_straps g = kBbsSpi"
    using logs_gcs assms(2) by blast
  have fdv: "flash_descriptor_valid (Hsfs_of hsfs) = bit hsfs 14"
    by (simp add: Hsfs_of_def Test_eq_bit)
  have regions: "logs J out (read_regions P (virtuals P c) [0..<kNumFlashRegions])
     (map (\<lambda>i. (FregN_of (regs (0x54 + int i * 4)), PrN_of (regs (0x74 + int i * 4)))) [0..<5])
     (map (freg_line regs) [0..<5])"
    unfolding kNumFlashRegions_def by (rule logs_regions) simp
  show ?thesis
    unfolding dump_flash_def protection_report_eq
    apply (rule prints_then_silent [OF gcs [folded virtuals_sel] assms(1)])
    apply (unfold spi, rule prints_then_print, assumption)
    apply (simp only: not_True_eq_False simp_thms if_False)
    apply (rule prints_then_silent [OF logs_reported(1) [folded virtuals_sel]], assumption)
    apply (rule prints_then_print, assumption)
    apply (rule prints_then_silent [OF logs_reported(2) [folded virtuals_sel]], assumption)
    apply (rule prints_then_print, assumption)
    apply (rule prints_then_bnd [OF regions], assumption)
    apply (rule prints_then_bnd [OF logs_mechanisms], assumption)
    apply (rule prints_then_print, assumption)
    apply (unfold fdv, erule prints_then_refl)
    done
qed

end

section \<open>Properties\<close>

text \<open>
  C10. The report tells what the registers hold. On a host whose registers have given contents and
  whose straps select the SPI flash, the tool first prints exactly \<open>protection_report\<close>, in this
  order: the straps, the BIOS region, the access permissions (with their bytes reversed), the five
  flash regions with their numbers, the lock-down, the BIOS control bits (no SMM_BWP bit before the 6 series), the five
  protected ranges with their enable bits, and descriptor mode; then it goes on to write the dump if the descriptor
  is valid, and otherwise prints the error and fails.
\<close>

theorem report_shows_registers:
  assumes "register_host P latch space J c m out gcs regs hsfs cntl"
    and "J w" and "straps_select_spi c gcs"
  shows "\<exists>w'. J w' \<and> out w' = out w @ protection_report (chipset_cls c) regs hsfs cntl \<and>
    dump_flash P (virtuals P c) f w =
      (if \<not> bit hsfs 14
       then thn (printf P (''Error: System not in descriptor mode!'' @ nl) []) (ret EXIT_FAILURE) w'
       else write_dump P (virtuals P c) f w')"
  using register_host.dump_flash_prints [OF assms, of f] by (auto simp: prints_then_def)

end
