(* ===== verification/Reference_Machine.thy ===== *)
theory Reference_Machine
  imports Pawn_Report
begin

text \<open>
  A concrete machine for the program to run on: a host bridge, a kernel that hands out the I/O
  privilege level, descriptors and the mapping of the chipset registers, a SPI flash controller
  with a number of polls of latency, an output file and the text printed. It stands for no
  code of the repository. It shows that the laws the interfaces of the other theories assume can
  hold together, and it is where the witnesses of the properties run.

  The platform has four parameters: the flash image, the latency, the chipset class (which decides
  where the SPI registers are) and whether the status bits of HSFS are cleared by writing ones, as
  the datasheets of the chipsets have it, or take the value written, as the program assumes.
\<close>

record spi_state =
  s_hsfs :: "16 word"
  s_hsfc :: "16 word"
  s_faddr :: "32 word"
  s_wait :: "nat option"
  s_fdata :: "8 word list"

record machine =
  m_latch :: "32 word"
  m_space :: "32 word \<Rightarrow> 32 word"
  m_root :: bool
  m_bal :: int
  m_fds :: "int list"
  m_maps :: "(ptr \<times> 64 word) list"
  m_strict :: bool
  m_ram :: "ptr \<Rightarrow> 8 word"
  m_spi :: spi_state
  m_files :: "string \<Rightarrow> 8 word list option"
  m_stream :: "string option"
  m_text :: "(string \<times> fmt_arg list) list"

section \<open>The parts of the machine\<close>

text \<open>The window at which the kernel maps the 16 KiB of chipset registers.\<close>

definition window :: ptr where "window = 0x7F0000000000"

definition bar :: "chipset_class \<Rightarrow> ptr" where
  "bar k = window + (if k = IntelIch8Chipset then 0x3020 else 0x3800)"

definition reg_offset :: "chipset_class \<Rightarrow> ptr \<Rightarrow> nat" where
  "reg_offset k a = unat (a - bar k)"

definition rcba_base :: "machine \<Rightarrow> ptr" where
  "rcba_base w = ucast (m_space w 0xF8F0 AND 0xFFFFC000)"

definition m_iopl :: "int \<Rightarrow> machine \<Rightarrow> int \<times> machine" where
  "m_iopl level w =
     (if level = 3 then (if m_root w then (0, w\<lparr>m_bal := m_bal w + 1\<rparr>) else (- 1, w))
      else (0, w\<lparr>m_bal := m_bal w - 1\<rparr>))"

definition config_dword :: "machine \<Rightarrow> 32 word" where
  "config_dword w = (if bit (m_latch w) 31 then m_space w (m_latch w AND 0xFFFFFC) else - 1)"

definition m_inb :: "16 word \<Rightarrow> machine \<Rightarrow> 8 word \<times> machine" where
  "m_inb p w = (ucast (drop_bit (8 * unat (p - kConfigData)) (config_dword w)), w)"

definition m_inw :: "16 word \<Rightarrow> machine \<Rightarrow> 16 word \<times> machine" where
  "m_inw p w = (ucast (drop_bit (8 * unat (p - kConfigData)) (config_dword w)), w)"

definition m_inl :: "16 word \<Rightarrow> machine \<Rightarrow> 32 word \<times> machine" where
  "m_inl p w = (if p = kConfigAddress then m_latch w else config_dword w, w)"

definition m_outl :: "32 word \<Rightarrow> 16 word \<Rightarrow> machine \<Rightarrow> machine" where
  "m_outl v p w = (if p = kConfigAddress then w\<lparr>m_latch := v\<rparr> else w)"

definition m_open :: "string \<Rightarrow> int \<Rightarrow> machine \<Rightarrow> int \<times> machine" where
  "m_open f n w =
     (if m_root w then let fd = foldr max (m_fds w) 2 + 1 in (fd, w\<lparr>m_fds := fd # m_fds w\<rparr>)
      else (- 1, w))"

definition m_close :: "int \<Rightarrow> machine \<Rightarrow> int \<times> machine" where
  "m_close d w = (0, w\<lparr>m_fds := removeAll d (m_fds w)\<rparr>)"

definition m_mmap :: "ptr \<Rightarrow> 64 word \<Rightarrow> int \<Rightarrow> int \<Rightarrow> int \<Rightarrow> 64 word \<Rightarrow> machine \<Rightarrow> ptr \<times> machine" where
  "m_mmap a k pr fl d off w =
     (if m_strict w \<or> off \<noteq> rcba_base w \<or> k \<noteq> 0x4000 \<or> (window, k) \<in> set (m_maps w)
      then (MAP_FAILED, w)
      else (window, w\<lparr>m_maps := (window, k) # m_maps w\<rparr>))"

definition m_munmap :: "ptr \<Rightarrow> 64 word \<Rightarrow> machine \<Rightarrow> int \<times> machine" where
  "m_munmap a k w = (0, w\<lparr>m_maps := removeAll (a, k) (m_maps w)\<rparr>)"

text \<open>The flash controller: a poll of HSFS, the writes, and the data registers.\<close>

definition spi_poll :: "(25 word \<Rightarrow> 8 word) \<Rightarrow> spi_state \<Rightarrow> 16 word \<times> spi_state" where
  "spi_poll img s =
     (case s_wait s of
        None \<Rightarrow> (s_hsfs s, s)
      | Some (Suc j) \<Rightarrow> (s_hsfs s OR 0x20, s\<lparr>s_wait := Some j\<rparr>)
      | Some 0 \<Rightarrow> (s_hsfs s OR 1,
          s\<lparr>s_hsfs := s_hsfs s OR 1, s_wait := None,
            s_fdata := snd (image_answer img (ucast (s_faddr s))
              (unat (ucast (drop_bit 8 (s_hsfc s)) :: 6 word) + 1))\<rparr>))"

definition spi_set_hsfs :: "bool \<Rightarrow> 16 word \<Rightarrow> spi_state \<Rightarrow> spi_state" where
  "spi_set_hsfs rwc v s =
     (if rwc then s\<lparr>s_hsfs := s_hsfs s AND NOT (v AND 7)\<rparr>
      else s\<lparr>s_hsfs := v AND NOT 0x20\<rparr>)"

definition spi_set_hsfc :: "nat \<Rightarrow> 16 word \<Rightarrow> spi_state \<Rightarrow> spi_state" where
  "spi_set_hsfc latency v s =
     s\<lparr>s_hsfc := v, s_wait := (if bit v 0 then Some latency else s_wait s)\<rparr>"

definition spi_fdata :: "nat \<Rightarrow> spi_state \<Rightarrow> 32 word" where
  "spi_fdata r s = le_word (take 4 (drop (r - 0x10) (s_fdata s)))"

section \<open>Loads and stores\<close>

definition m_load8 :: "chipset_class \<Rightarrow> ptr \<Rightarrow> machine \<Rightarrow> 8 word \<times> machine" where
  "m_load8 k a w =
     (if reg_offset k a = 0x90 then (if s_wait (m_spi w) = None then 0 else 1, w)
      else (m_ram w a, w))"

definition m_load16 ::
    "(25 word \<Rightarrow> 8 word) \<Rightarrow> chipset_class \<Rightarrow> ptr \<Rightarrow> machine \<Rightarrow> 16 word \<times> machine" where
  "m_load16 img k a w =
     (if reg_offset k a = 4
      then (fst (spi_poll img (m_spi w)), w\<lparr>m_spi := snd (spi_poll img (m_spi w))\<rparr>)
      else if reg_offset k a = 6 then (s_hsfc (m_spi w), w)
      else (le_word (map (m_ram w) (span a 2)), w))"

definition m_load32 :: "chipset_class \<Rightarrow> ptr \<Rightarrow> machine \<Rightarrow> 32 word \<times> machine" where
  "m_load32 k a w =
     (if reg_offset k a = 8 then (s_faddr (m_spi w), w)
      else if 0x10 \<le> reg_offset k a \<and> reg_offset k a < 0x50
      then (spi_fdata (reg_offset k a) (m_spi w), w)
      else (le_word (map (m_ram w) (span a 4)), w))"

definition m_load64 :: "ptr \<Rightarrow> machine \<Rightarrow> 64 word \<times> machine" where
  "m_load64 a w = (le_word (map (m_ram w) (span a 8)), w)"

definition m_store8 :: "ptr \<Rightarrow> 8 word \<Rightarrow> machine \<Rightarrow> machine" where
  "m_store8 a v w = w\<lparr>m_ram := (m_ram w)(a := v)\<rparr>"

definition m_store16 ::
    "nat \<Rightarrow> chipset_class \<Rightarrow> bool \<Rightarrow> ptr \<Rightarrow> 16 word \<Rightarrow> machine \<Rightarrow> machine" where
  "m_store16 latency k rwc a v w =
     (if reg_offset k a = 4 then w\<lparr>m_spi := spi_set_hsfs rwc v (m_spi w)\<rparr>
      else if reg_offset k a = 6 then w\<lparr>m_spi := spi_set_hsfc latency v (m_spi w)\<rparr>
      else w\<lparr>m_ram := put_bytes (span a 2) (le_bytes v) (m_ram w)\<rparr>)"

definition m_store32 :: "chipset_class \<Rightarrow> ptr \<Rightarrow> 32 word \<Rightarrow> machine \<Rightarrow> machine" where
  "m_store32 k a v w =
     (if reg_offset k a = 8 then w\<lparr>m_spi := (m_spi w)\<lparr>s_faddr := v\<rparr>\<rparr>
      else w\<lparr>m_ram := put_bytes (span a 4) (le_bytes v) (m_ram w)\<rparr>)"

definition m_store64 :: "ptr \<Rightarrow> 64 word \<Rightarrow> machine \<Rightarrow> machine" where
  "m_store64 a v w = w\<lparr>m_ram := put_bytes (span a 8) (le_bytes v) (m_ram w)\<rparr>"

section \<open>The platform\<close>

definition stream :: ptr where "stream = 0x5555"

definition m_fopen :: "string \<Rightarrow> string \<Rightarrow> machine \<Rightarrow> ptr \<times> machine" where
  "m_fopen f n w =
     (if n = ''wb'' then (stream, w\<lparr>m_files := (m_files w)(f \<mapsto> []), m_stream := Some f\<rparr>)
      else (nullptr, w))"

definition m_file :: "string \<Rightarrow> machine \<Rightarrow> 8 word list option" where
  "m_file f w = (if m_stream w = Some f then m_files w f else None)"

definition m_append :: "8 word list \<Rightarrow> machine \<Rightarrow> machine" where
  "m_append d w =
     (case m_stream w of
        None \<Rightarrow> w
      | Some f \<Rightarrow> w\<lparr>m_files := (m_files w)(f := map_option (\<lambda>bs. bs @ d) (m_files w f))\<rparr>)"

definition m_fwrite :: "8 word list \<Rightarrow> ptr \<Rightarrow> machine \<Rightarrow> nat \<times> machine" where
  "m_fwrite d s w = (if m_stream w = None then 0 else length d, m_append d w)"

lemma m_file_append [simp]: "m_file f (m_append d w) = map_option (\<lambda>bs. bs @ d) (m_file f w)"
  by (simp add: m_file_def m_append_def split: option.split)

lemma m_file_Some: "m_file f w = Some bs \<Longrightarrow> m_stream w = Some f"
  by (simp add: m_file_def split: if_splits)

definition machine_platform ::
    "(25 word \<Rightarrow> 8 word) \<Rightarrow> nat \<Rightarrow> chipset_class \<Rightarrow> bool \<Rightarrow> machine platform" where
  "machine_platform img latency k rwc =
     \<lparr>os_iopl = m_iopl, os_inb = m_inb, os_inw = m_inw, os_inl = m_inl, os_outl = m_outl,
      os_open = m_open, os_close = m_close, os_mmap = m_mmap, os_munmap = m_munmap,
      os_strerror_errno = (\<lambda>_. ''Operation not permitted''),
      mem_load8 = m_load8 k, mem_load16 = m_load16 img k, mem_load32 = m_load32 k,
      mem_load64 = m_load64, mem_store8 = m_store8, mem_store16 = m_store16 latency k rwc,
      mem_store32 = m_store32 k, mem_store64 = m_store64,
      io_fopen = m_fopen, io_fwrite = m_fwrite, io_fflush = (\<lambda>_ w. (0, w)),
      absl_PrintF = (\<lambda>f args w. w\<lparr>m_text := (f, args) # m_text w\<rparr>),
      absl_StrFormat = (\<lambda>f _. f), absl_SetProgramUsageMessage = (\<lambda>_ w. w),
      absl_ParseCommandLine = ret, absl_FLAGS_logo = (\<lambda>_. True),
      c_basename = id, build_kPawnDetailedVersion = ''1.0''\<rparr>"

lemmas system_defs = machine_platform_def m_iopl_def m_inb_def m_inw_def m_inl_def m_outl_def
  m_open_def m_close_def m_mmap_def m_munmap_def m_fopen_def m_fwrite_def Let_def m_append_def

lemmas memory_defs = machine_platform_def m_load8_def m_load16_def m_load32_def m_load64_def
  m_store8_def m_store16_def m_store32_def m_store64_def

section \<open>The laws hold\<close>

interpretation ledger: privilege_ledger "machine_platform img latency k rwc" m_bal
  for img latency k rwc
  by unfold_locales (auto simp: system_defs split: if_splits)

interpretation bridge: config_mechanism "machine_platform img latency k rwc" m_latch m_space
  for img latency k rwc
  by unfold_locales (auto simp: system_defs config_dword_def kConfigAddress_def kConfigData_def)

lemma foldr_max_bound: "d \<in> set ds \<Longrightarrow> d \<le> foldr max ds (b :: int)"
  and foldr_max_base: "b \<le> foldr max ds (b :: int)"
  by (induction ds) auto

lemma fresh_fd: "foldr max ds 2 + 1 \<notin> set ds" "foldr max ds (2 :: int) + 1 \<noteq> - 1"
  using foldr_max_bound [of "foldr max ds 2 + 1" ds 2] foldr_max_base [of 2 ds] by auto

interpretation files: memory_files "machine_platform img latency k rwc" "set \<circ> m_fds" "set \<circ> m_maps"
  for img latency k rwc
  by unfold_locales
    (auto simp: system_defs fresh_fd MAP_FAILED_def nullptr_def window_def)

lemma span_in_plain: "set (span a n) \<subseteq> A \<Longrightarrow> 0 < n \<Longrightarrow> a \<in> A"
  using span_start [of n a] by blast

interpretation ram: byte_memory "machine_platform img latency k rwc" m_ram
    "{a. 0x100 \<le> reg_offset k a}" for img latency k rwc
proof (unfold_locales, goal_cases)
qed (auto simp: memory_defs dest!: span_in_plain)

interpretation quiet: quiet_platform "machine_platform img latency k rwc"
    "\<lambda>w. (m_bal w, (set \<circ> m_fds) w, (set \<circ> m_maps) w)" for img latency k rwc
  by unfold_locales
    (auto simp: system_defs memory_defs keeps_ret split: option.splits)

interpretation resources: process_resources "machine_platform img latency k rwc" m_bal
    "set \<circ> m_fds" "set \<circ> m_maps" for img latency k rwc
  by unfold_locales (auto simp: system_defs)

section \<open>The flash controller\<close>

definition mapping :: "int \<Rightarrow> PhysicalMemory" where
  "mapping fd = \<lparr>mem_fd = fd, mem = window, length_mem = 0x4000\<rparr>"

definition mapped_chipset :: "chipset_class \<Rightarrow> HardwareId \<Rightarrow> int \<Rightarrow> Chipset" where
  "mapped_chipset k hw fd =
     \<lparr>chipset_cls = k, hardware_id = hw, rcrb_mem_ptr = Some (mapping fd)\<rparr>"

definition s_idle :: "spi_state \<Rightarrow> bool" where
  "s_idle s = (s_wait s = None \<and> \<not> bit (s_hsfs s) 5)"

text \<open>
  How the controller must be for the tool to read it: the status bits take the value written, or
  they are cleared by ones and every cycle is done when it is polled first. \<open>prompt\<close> is
  the latency with that restriction; the cycle error bit, which the tool cannot clear in the second
  case, must not be set at the start.
\<close>

definition prompt :: "bool \<Rightarrow> nat \<Rightarrow> nat" where
  "prompt rwc latency = (if rwc then 0 else latency)"

definition s_ready :: "bool \<Rightarrow> spi_state \<Rightarrow> bool" where
  "s_ready rwc s = (s_idle s \<and> (rwc \<longrightarrow> \<not> bit (s_hsfs s) 1))"

definition s_low :: "bool \<Rightarrow> spi_state \<Rightarrow> bool" where
  "s_low rwc s = (\<not> bit (s_hsfs s) 5 \<and> (if rwc then \<not> bit (s_hsfs s) 1 else s_hsfs s AND 7 = 0))"

definition s_cleared :: "bool \<Rightarrow> spi_state \<Rightarrow> bool" where
  "s_cleared rwc s = (s_wait s = None \<and> s_low rwc s)"

definition s_addressed :: "bool \<Rightarrow> 25 word \<Rightarrow> spi_state \<Rightarrow> bool" where
  "s_addressed rwc a s = (s_cleared rwc s \<and> ucast (s_faddr s) = a)"

definition s_busy :: "bool \<Rightarrow> nat \<Rightarrow> 25 word \<Rightarrow> 6 word \<Rightarrow> spi_state \<Rightarrow> bool" where
  "s_busy rwc j a n s = (s_wait s = Some j \<and> (rwc \<longrightarrow> j = 0) \<and> s_low rwc s \<and>
     ucast (s_faddr s) = a \<and> ucast (drop_bit 8 (s_hsfc s)) = n)"

definition s_finished :: "bool \<Rightarrow> (25 word \<Rightarrow> 8 word) \<Rightarrow> 25 word \<Rightarrow> 6 word \<Rightarrow> spi_state \<Rightarrow> bool" where
  "s_finished rwc img a n s = (s_ready rwc s \<and> s_fdata s = snd (image_answer img a (unat n + 1)))"

lemmas spi_defs = s_idle_def s_ready_def s_low_def s_cleared_def s_addressed_def s_busy_def
  s_finished_def spi_poll_def spi_set_hsfs_def spi_set_hsfc_def spi_fdata_def

lemma reg_offset_spi_addr:
  assumes "0 \<le> off" and "off < 0x100"
  shows "reg_offset k (spi_addr (mapped_chipset k hw fd) (mapping fd) off) = nat off"
proof -
  have "spi_addr (mapped_chipset k hw fd) (mapping fd) off - bar k = word_of_int off"
    by (simp add: spi_addr_def spibar_base_def mapped_chipset_def mapping_def bar_def)
  moreover have "unat (word_of_int off :: ptr) = nat off"
    using assms by (simp add: unsigned_of_int take_bit_eq_mod)
  ultimately show ?thesis by (simp add: reg_offset_def)
qed

lemma low_bits_clear:
  fixes v :: "16 word"
  assumes "v AND 7 = 0"
  shows "\<not> bit v 0" "\<not> bit v 1" "\<not> bit v 2"
proof -
  have c: "7 = (mask 3 :: 16 word)" by (simp add: mask_eq_exp_minus_1)
  have "\<not> bit v n" if "n < 3" for n
  proof
    assume "bit v n"
    then have "bit (v AND mask 3) n" using that by (auto simp: bit_simps dest: bit_imp_le_length)
    with assms show False by (simp add: c)
  qed
  then show "\<not> bit v 0" "\<not> bit v 1" "\<not> bit v 2" by simp_all
qed

lemma drop_readonly_bit:
  fixes v :: "16 word"
  assumes "v AND 7 = 0"
  shows "(v AND NOT 0x20) AND 7 = 0" "\<not> bit (v AND NOT 0x20) 5"
proof -
  have "(v AND NOT 0x20) AND 7 = (v AND 7) AND NOT 0x20" by (simp add: ac_simps)
  with assms show "(v AND NOT 0x20) AND 7 = 0" by simp
  show "\<not> bit (v AND NOT 0x20) 5" by (simp add: bit_simps One_nat_def)
qed

lemma bit_poll_values:
  fixes v :: "16 word"
  shows "bit (v OR 1) n \<longleftrightarrow> bit v n \<or> n = 0" and "bit (v OR 0x20) 0 \<longleftrightarrow> bit v 0"
  by (auto simp: bit_simps)

lemma write_zero_keeps_status: "v AND 7 = 0 \<Longrightarrow> spi_set_hsfs True v s = s"
  unfolding spi_set_hsfs_def by (simp only: if_True) simp

lemma spi_clear:
  assumes "s_ready rwc s" and "v AND 7 = 0"
  shows "s_cleared rwc (spi_set_hsfs rwc v s)"
proof (cases rwc)
  case True
  then show ?thesis
    using assms by (simp add: write_zero_keeps_status s_ready_def s_idle_def s_cleared_def s_low_def)
next
  case False
  then show ?thesis
    using assms drop_readonly_bit [OF assms(2)]
    by (simp only: s_ready_def s_idle_def s_cleared_def s_low_def spi_set_hsfs_def if_False
        spi_state.simps) simp
qed

lemma spi_poll_busy:
  assumes "s_busy rwc j a n s"
  shows "if bit (fst (spi_poll img s)) 0
    then s_finished rwc img a n (snd (spi_poll img s)) \<and> \<not> bit (fst (spi_poll img s)) 1
    else \<exists>i < j. s_busy rwc i a n (snd (spi_poll img s))"
proof -
  have low: "\<not> bit (s_hsfs s) 5" "\<not> bit (s_hsfs s) 1" "\<not> rwc \<Longrightarrow> \<not> bit (s_hsfs s) 0"
    using assms low_bits_clear [of "s_hsfs s"] by (auto simp: s_busy_def s_low_def split: if_splits)
  show ?thesis
    using assms low
    by (cases j) (auto simp: s_busy_def s_low_def s_finished_def s_ready_def s_idle_def spi_poll_def
        bit_poll_values)
qed

lemma image_answer_simps [simp]:
  "\<not> fst (image_answer img a l)" "length (snd (image_answer img a l)) = l"
  by (simp_all add: image_answer_def)

lemma m_file_update [simp]: "m_file f (w\<lparr>m_spi := s\<rparr>) = m_file f w"
  "m_file f (w\<lparr>m_ram := r\<rparr>) = m_file f w" "m_file f (w\<lparr>m_text := t\<rparr>) = m_file f w"
  "m_file f (w\<lparr>m_maps := ms\<rparr>) = m_file f w" "m_file f (w\<lparr>m_fds := ds\<rparr>) = m_file f w"
  "m_file f (w\<lparr>m_bal := b\<rparr>) = m_file f w"
  by (simp_all add: m_file_def)

interpretation spi: spi_controller "machine_platform img (prompt rwc latency) k rwc" "mapped_chipset k hw fd"
    "mapping fd" m_spi "m_file name" "s_ready rwc" "s_cleared rwc" "s_addressed rwc" "s_busy rwc"
    "s_finished rwc img"
    "image_answer img" for img latency k rwc hw fd name
proof (unfold_locales, goal_cases)
  case 1
  show ?case by (simp add: mapped_chipset_def)
next
  case (5 i w)
  then show ?case by (simp add: memory_defs reg_offset_spi_addr)
next
  case (11 w v16)
  then show ?case by (simp add: memory_defs reg_offset_spi_addr spi_clear)
next
  case (16 j a n w)
  then show ?case
    using spi_poll_busy [OF 16, of img] by (simp add: memory_defs reg_offset_spi_addr)
next
  case (17 a n w i)
  have "unat n < 2 ^ LENGTH(6)" by (rule unsigned_less)
  then have "reg_offset k (spi_addr (mapped_chipset k hw fd) (mapping fd) (0x10 + 4 * int i))
      = 0x10 + 4 * i" and "i < 16"
    using 17(2) by (simp_all add: reg_offset_spi_addr nat_add_distrib)
  then show ?case
    using 17 by (simp add: memory_defs spi_defs)
qed (simp_all add: memory_defs reg_offset_spi_addr spi_defs prompt_def)

interpretation dump: flash_dump "machine_platform img (prompt rwc latency) k rwc" "mapped_chipset k hw fd"
    "mapping fd" m_spi "m_file name" "s_ready rwc" "s_cleared rwc" "s_addressed rwc" "s_busy rwc"
    "s_finished rwc img" img stream name
  for img latency k rwc hw fd name
proof (unfold_locales, goal_cases)
  case (5 w bs d)
  then show ?case by (simp add: machine_platform_def m_fwrite_def m_file_Some)
next
  case (6 w bs d)
  then show ?case by (simp add: machine_platform_def m_fwrite_def)
qed (simp_all add: memory_defs reg_offset_spi_addr s_ready_def s_idle_def system_defs stream_def nullptr_def
      m_file_def split: option.split)

end
