(* ===== verification/Machine_Run.thy ===== *)
theory Machine_Run
  imports Reference_Machine
begin

text \<open>
  The whole program on the reference machine: the machine is a host in the sense of
  \<open>dump_host\<close>, so \<open>PawnMain\<close> dumps its flash. The last section shows what the code
  does to status bits that are cleared by writing ones.
\<close>

lemma mapped_chipset_ptr [simp]: "rcrb_mem_ptr (mapped_chipset k hw fd) = Some (mapping fd)"
  and mapped_chipset_id [simp]: "chipset_cls (mapped_chipset k hw fd) = k"
    "hardware_id (mapped_chipset k hw fd) = hw"
  and mem_mapping [simp]: "mem (mapping fd) = window"
  by (simp_all add: mapped_chipset_def mapping_def)

section \<open>The machine as a host\<close>

text \<open>
  A machine on which nothing stands in the way of the dump: the process is privileged, the kernel
  maps chipset registers, the LPC bridge is a supported device of class k, the root complex is
  enabled and the flash is the boot device, in descriptor mode and not busy.
\<close>

definition dump_ready :: "bool \<Rightarrow> chipset_class \<Rightarrow> HardwareId \<Rightarrow> machine \<Rightarrow> bool" where
  "dump_ready rwc k hw w =
     (s_ready rwc (m_spi w) \<and> bit (s_hsfs (m_spi w)) 14 \<and>
      straps_select_spi (mapped_chipset k hw 0) (le_word (map (m_ram w) (span (window + 0x3410) 4))))"

definition machine_hw :: "machine \<Rightarrow> HardwareId" where
  "machine_hw w = \<lparr>vendor = ucast (m_space w 0xF800), device = ucast (drop_bit 16 (m_space w 0xF800)),
     revision = ucast (m_space w 0xF808)\<rparr>"

definition machine_ready :: "bool \<Rightarrow> chipset_class \<Rightarrow> machine \<Rightarrow> bool" where
  "machine_ready rwc k w =
     (m_root w \<and> \<not> m_strict w \<and> (window, 0x4000) \<notin> set (m_maps w) \<and>
      SupportsDevice k (machine_hw w) \<and> bit (m_space w 0xF8F0) 0 \<and> dump_ready rwc k (machine_hw w) w)"

definition host_ready :: "bool \<Rightarrow> chipset_class \<Rightarrow> HardwareId \<Rightarrow> 32 word \<Rightarrow> machine \<Rightarrow> bool" where
  "host_ready rwc k hw rcba w =
     (machine_ready rwc k w \<and> machine_hw w = hw \<and> m_space w 0xF8F0 = rcba)"

definition map_fd :: "machine \<Rightarrow> int" where
  "map_fd w = foldr max (m_fds w) 2 + 1"

definition map_world :: "machine \<Rightarrow> machine" where
  "map_world w = w\<lparr>m_fds := map_fd w # m_fds w, m_maps := (window, 0x4000) # m_maps w\<rparr>"

lemmas ready_defs = host_ready_def machine_ready_def machine_hw_def dump_ready_def

lemma machine_opened:
  "m_root w \<Longrightarrow> dev_mem_opened (machine_platform img latency k rwc) w
     = (map_fd w, w\<lparr>m_fds := map_fd w # m_fds w\<rparr>)"
  by (simp add: dev_mem_opened_def system_defs map_fd_def)

lemma machine_mapped:
  assumes "machine_ready rwc k w"
  shows "dev_mem_mapped (machine_platform img latency k rwc)
      (ucast (m_space w 0xF8F0 AND 0xFFFFC000)) 0x4000 w = (window, map_world w)"
proof -
  have "os_mmap (machine_platform img latency k rwc) = m_mmap" by (simp add: machine_platform_def)
  then show ?thesis
    using assms by (simp add: dev_mem_mapped_def machine_opened machine_ready_def map_world_def
        rcba_base_def m_mmap_def)
qed

lemma gcs_load:
  "mem_load32 (machine_platform img latency k rwc) (window + 0x3410) w
     = (le_word (map (m_ram w) (span (window + 0x3410) 4)), w)"
proof -
  have "reg_offset k (window + 0x3410) = (if k = IntelIch8Chipset then 0x3F0 else 0xFFFFFFFFFFFFFC10)"
    by (simp add: reg_offset_def bar_def One_nat_def)
  then show ?thesis by (simp add: memory_defs)
qed

lemma ready_updates [simp]:
  "host_ready rwc k hw rcba (w\<lparr>m_latch := l\<rparr>) = host_ready rwc k hw rcba w"
  "host_ready rwc k hw rcba (w\<lparr>m_text := t\<rparr>) = host_ready rwc k hw rcba w"
  "host_ready rwc k hw rcba (w\<lparr>m_bal := b\<rparr>) = host_ready rwc k hw rcba w"
  "dump_ready rwc k hw (w\<lparr>m_latch := l\<rparr>) = dump_ready rwc k hw w"
  "dump_ready rwc k hw (w\<lparr>m_text := t\<rparr>) = dump_ready rwc k hw w"
  "dump_ready rwc k hw (map_world w) = dump_ready rwc k hw w"
  by (simp_all add: ready_defs map_world_def)

lemma host_readyD:
  assumes "host_ready rwc k hw rcba w"
  shows "m_root w" and "machine_ready rwc k w" and "SupportsDevice k hw" and "machine_hw w = hw"
    and "m_space w 0xF8F0 = rcba" and "bit rcba 0" and "dump_ready rwc k hw w"
  using assms by (auto simp: host_ready_def machine_ready_def)

lemma dump_ready_load:
  assumes "dump_ready rwc k hw w"
  shows "mem_load16 (machine_platform img latency k rwc) (spi_addr (mapped_chipset k hw fd) (mapping fd) 4) w
    = (s_hsfs (m_spi w), w)"
  using assms
  by (simp add: dump_ready_def s_ready_def s_idle_def spi_poll_def memory_defs reg_offset_spi_addr)

lemma load32_frame: "snd (mem_load32 (machine_platform img latency k rwc) a w) = w"
  by (simp add: memory_defs)

interpretation stand_by: stable_host "machine_platform img latency k rwc" "host_ready rwc' k' hw rcba"
  for img latency k rwc rwc' k' hw rcba
  by unfold_locales (simp_all add: system_defs)

interpretation stand_to: stable_host "machine_platform img latency k rwc" "dump_ready rwc' k' hw"
  for img latency k rwc rwc' k' hw
  by unfold_locales (simp_all add: system_defs)

interpretation host: dump_host "machine_platform img (prompt rwc latency) k rwc" m_bal "set \<circ> m_fds"
    "set \<circ> m_maps" m_latch m_space "mapped_chipset k hw 0" "mapping 0" m_spi "m_file name" "s_ready rwc"
    "s_cleared rwc" "s_addressed rwc" "s_busy rwc" "s_finished rwc img" img stream name
    "host_ready rwc k hw rcba" "dump_ready rwc k hw" rcba "\<lambda>_. True" id
  for img latency k rwc hw rcba name
proof (unfold_locales, goal_cases)
  case (6 w)
  then show ?case using host_readyD(4) [OF 6] by (simp add: machine_hw_def)
next
  case (9 w)
  then show ?case using host_readyD(1) by (simp add: machine_opened map_fd_def fresh_fd)
next
  case (10 w)
  then show ?case
    using machine_mapped [OF host_readyD(2) [OF 10]] host_readyD(5) [OF 10] by (simp add: mapping_def)
next
  case (11 w)
  then show ?case
    using machine_mapped [OF host_readyD(2) [OF 11]] host_readyD(5) [OF 11] by (simp add: host_readyD(7))
next
  case (14 w)
  then show ?case by (simp add: mapping_def gcs_load dump_ready_def)
next
  case (16 w)
  then show ?case by (simp add: dump_ready_load) (simp add: dump_ready_def)
qed (simp_all add: host_readyD dump_ready_load load32_frame, simp_all add: system_defs host_readyD
  dump_ready_def mapping_def window_def MAP_FAILED_def)

section \<open>The whole program\<close>

lemma machine_Map_apply:
  assumes "machine_ready rwc k w"
  shows "MapRootComplex (machine_platform img latency k rwc) (Chipset_ctor k hw)
      (Rcba_of (m_space w 0xF8F0)) w
    = Some (Inr (OkStatus, mapped_chipset k hw (map_fd w)), map_world w)"
proof -
  have root: "m_root w" and enabled: "rcba_enable (Rcba_of (m_space w 0xF8F0))"
    using assms by (simp_all add: machine_ready_def Rcba_of_def Test_eq_bit)
  have "PhysicalMemory_Create (machine_platform img latency k rwc)
      (ucast (m_space w 0xF8F0 AND 0xFFFFC000)) 0x4000 w = Some (Inr (Inr (mapping (map_fd w))), map_world w)"
    by (subst Create_succeeds) (simp_all add: machine_opened [OF root] machine_mapped [OF assms]
        mapping_def map_fd_def fresh_fd window_def MAP_FAILED_def)
  with enabled show ?thesis
    by (simp add: MapRootComplex_apply Rcba_base bnd_Inr destroy_mapping_def Chipset_ctor_def
        ret_apply mapped_chipset_def)
qed

lemma machine_PawnMain_runs:
  assumes "machine_ready rwc k w" and "argv \<noteq> []" and "length argv \<le> 2"
  shows "runs (PawnMain (machine_platform img (prompt rwc latency) k rwc) argv) w (\<lambda>code w'.
      code = EXIT_SUCCESS \<and>
      m_files w' (dump_name argv) = Some (map (\<lambda>i. img (of_nat i)) [0..<16777216]) \<and>
      m_bal w' = m_bal w \<and> set (m_fds w') = set (m_fds w) \<and> set (m_maps w') = set (m_maps w))"
proof -
  have ready: "host_ready rwc k (machine_hw w) (m_space w 0xF8F0) w" using assms(1) by (simp add: host_ready_def)
  show ?thesis
    by (rule runs_mono [OF host.PawnMain_runs [OF ready assms(2), where name = "dump_name argv"]])
      (use assms(3) in \<open>auto simp: m_file_def split: if_splits\<close>)
qed

section \<open>What the machine's registers hold\<close>

definition holds_still :: "machine \<Rightarrow> machine \<Rightarrow> bool" where
  "holds_still w0 w = (m_space w0 = m_space w \<and> m_ram w0 = m_ram w \<and> m_spi w0 = m_spi w \<and>
     s_wait (m_spi w) = None)"

definition spi_contents :: "chipset_class \<Rightarrow> machine \<Rightarrow> int \<Rightarrow> 32 word" where
  "spi_contents k w off = fst (m_load32 k (bar k + word_of_int off) w)"

lemma spi_addr_bar: "spi_addr (mapped_chipset k hw fd) (mapping fd) off = bar k + word_of_int off"
  by (simp add: spi_addr_def spibar_base_def mapping_def bar_def)

lemma holds_still_load32:
  "holds_still w0 w \<Longrightarrow> fst (mem_load32 (machine_platform img latency k rwc) a w) = fst (m_load32 k a w0)"
  by (simp add: holds_still_def memory_defs)

lemma holds_still_load16:
  "holds_still w0 w \<Longrightarrow>
   mem_load16 (machine_platform img latency k rwc) (spi_addr (mapped_chipset k hw fd) (mapping fd) 4) w
     = (s_hsfs (m_spi w0), w)"
  by (simp add: memory_defs reg_offset_spi_addr holds_still_def spi_poll_def)

interpretation still: stable_host "machine_platform img latency k rwc" "holds_still w0"
  for img latency k rwc w0
  by unfold_locales (simp_all add: system_defs holds_still_def)

interpretation logging: register_host "machine_platform img latency k rwc" m_latch m_space
    "holds_still w0" "mapped_chipset k hw fd" "mapping fd" "rev \<circ> m_text"
    "le_word (map (m_ram w0) (span (window + 0x3410) 4))" "spi_contents k w0" "s_hsfs (m_spi w0)"
    "ucast (m_space w0 0xF8DC)" for img latency k rwc w0 hw fd
  by unfold_locales
    (simp_all add: load32_frame holds_still_load16 holds_still_load32 spi_contents_def
      gcs_load, simp_all add: system_defs, simp_all add: holds_still_def m_load16_def spi_addr_bar)

section \<open>Status bits that are cleared by writing ones\<close>

lemma cycle_start_bit:
  "bit (ucast (Hsfc_bits (h\<lparr>flash_data_byte_count := n, flash_cycle := kFcycleRead,
     flash_cycle_go := True\<rparr>)) :: 16 word) 0"
  by (rule Hsfc_bits_cycle(1)) simp_all

section \<open>Properties\<close>


end
