(* ===== verification/Pawn_Defined.thy ===== *)
theory Pawn_Defined
  imports Pawn_Safety
begin

text \<open>
  Freedom from undefined behaviour. The model ends a run with \<open>UndefinedBehaviour\<close> where
  C++17 leaves the behaviour open: a signed overflow, a cast to a value that is no
  enumerator, a read past the end of the block buffer, an empty argument vector.
  \<open>defined_prog m\<close> says that no run of m ends so, on any world; the rules below
  establish it for the whole program, on all hardware.
\<close>

section \<open>Rules\<close>

named_theorems defined_rules

definition not_ub :: "(fatal + 'a) \<times> 'w \<Rightarrow> bool" where
  "not_ub y = (\<forall>e. fst y \<noteq> Inl (UndefinedBehaviour e))"

definition defined_prog :: "('w, 'a) prog \<Rightarrow> bool" where
  "defined_prog m = (\<forall>w y. m w = Some y \<longrightarrow> not_ub y)"

lemma defined_simps [defined_rules]:
  "defined_prog (ret a)" "defined_prog (act f)" "defined_prog (eff h)"
  "defined_prog (die (LogFatal s))" "defined_prog (die (CheckFailed s))"
  by (simp_all add: defined_prog_def not_ub_def prog_simps)

lemma defined_at:
  assumes "bnd m f w = Some y" and "defined_prog m"
    and "\<And>a w'. m w = Some (Inr a, w') \<Longrightarrow> f a w' = Some y \<Longrightarrow> not_ub y"
  shows "not_ub y"
proof (cases "m w")
  case (Some rw)
  obtain r w' where rw: "rw = (r, w')" by fastforce
  have "not_ub rw" using assms(2) Some unfolding defined_prog_def by blast
  with Some rw assms(1,3) show ?thesis by (cases r) (auto simp: bnd_def not_ub_def)
qed (use assms(1) in \<open>simp add: bnd_def\<close>)

lemma defined_bnd_result:
  assumes "defined_prog m" and "\<And>w a w'. m w = Some (Inr a, w') \<Longrightarrow> defined_prog (f a)"
  shows "defined_prog (bnd m f)"
  unfolding defined_prog_def
proof (intro allI impI)
  fix w y assume "bnd m f w = Some y"
  then show "not_ub y"
    by (rule defined_at [OF _ assms(1)]) (use assms(2) in \<open>unfold defined_prog_def, blast\<close>)
qed

lemma defined_bnd [defined_rules]:
  "defined_prog m \<Longrightarrow> (\<And>a. defined_prog (f a)) \<Longrightarrow> defined_prog (bnd m f)"
  by (rule defined_bnd_result)

lemma defined_if [defined_rules]:
  "(b \<Longrightarrow> defined_prog A) \<Longrightarrow> (\<not> b \<Longrightarrow> defined_prog B) \<Longrightarrow> defined_prog (if b then A else B)"
  by simp

lemma defined_case_option [defined_rules]:
  "(p = None \<Longrightarrow> defined_prog A) \<Longrightarrow> (\<And>x. p = Some x \<Longrightarrow> defined_prog (B x)) \<Longrightarrow>
   defined_prog (case p of None \<Rightarrow> A | Some x \<Rightarrow> B x)"
  by (cases p) simp_all

lemma defined_case_sum [defined_rules]:
  "(\<And>x. p = Inl x \<Longrightarrow> defined_prog (A x)) \<Longrightarrow> (\<And>x. p = Inr x \<Longrightarrow> defined_prog (B x)) \<Longrightarrow>
   defined_prog (case p of Inl x \<Rightarrow> A x | Inr x \<Rightarrow> B x)"
  by (cases p) simp_all

lemma defined_Let [defined_rules]: "(\<And>x. defined_prog (F x)) \<Longrightarrow> defined_prog (let x = t in F x)"
  by (simp add: Let_def)

lemma defined_case_class [defined_rules]:
  "defined_prog A1 \<Longrightarrow> defined_prog A2 \<Longrightarrow> defined_prog A3 \<Longrightarrow> defined_prog A4 \<Longrightarrow>
   defined_prog A5 \<Longrightarrow> defined_prog A6 \<Longrightarrow> defined_prog A7 \<Longrightarrow>
   defined_prog (case k of IntelIch8Chipset \<Rightarrow> A1 | IntelIch9Chipset \<Rightarrow> A2 | IntelIch10Chipset \<Rightarrow> A3
     | Intel6SeriesChipset \<Rightarrow> A4 | Intel7SeriesChipset \<Rightarrow> A5 | Intel8SeriesChipset \<Rightarrow> A6
     | Intel9SeriesChipset \<Rightarrow> A7)"
  by (cases k) simp_all

lemma defined_c_int: "in_int i \<Longrightarrow> defined_prog (c_int i)"
  by (simp add: defined_rules)

section \<open>The flash reader\<close>

definition defined_virtuals :: "'w Chipset_virtuals \<Rightarrow> bool" where
  "defined_virtuals V = (defined_prog (v_ReadHsfsRegister V) \<and>
     (\<forall>h. defined_prog (v_WriteHsfsRegister V h)) \<and>
     defined_prog (v_ReadFaddrRegister V) \<and> (\<forall>f. defined_prog (v_WriteFaddrRegister V f)) \<and>
     defined_prog (v_ReadHsfcRegister V) \<and> (\<forall>h. defined_prog (v_WriteHsfcRegister V h)) \<and>
     (\<forall>i. defined_prog (v_ReadFdataNRegister V i)))"

lemma defined_wait:
  assumes "defined_virtuals V"
  shows "defined_prog (wait_cycle_done V)"
proof -
  have "defined_prog (v_ReadHsfsRegister V) \<longrightarrow> not_ub y" if "wait_cycle_done V w = Some y"
    for V :: "'a Chipset_virtuals" and w y
    using that
  proof (rule wait_cycle_done.raw_induct [rotated, where P = "\<lambda>V w y.
      defined_prog (v_ReadHsfsRegister V) \<longrightarrow> not_ub y"], goal_cases)
    case (1 f V w y)
    show ?case
    proof
      assume reads: "defined_prog (v_ReadHsfsRegister V)"
      show "not_ub y"
        by (rule defined_at [OF 1(2) reads])
          (use 1(1) reads in \<open>auto simp: ret_apply not_ub_def split: if_splits\<close>)
    qed
  qed
  with assms show ?thesis
    unfolding defined_prog_def [of "wait_cycle_done V"] by (auto simp: defined_virtuals_def)
qed

lemma defined_fill_buf: "defined_virtuals V \<Longrightarrow> defined_prog (fill_buf V is buf)"
  by (induction "is" arbitrary: buf) (auto simp: defined_virtuals_def intro!: defined_rules)

lemma defined_run_cycle: "defined_virtuals V \<Longrightarrow> defined_prog (run_cycle V cur bs)"
  unfolding run_cycle_def
  by (intro defined_rules defined_wait) (simp_all add: defined_virtuals_def)

lemma defined_read_block:
  assumes "defined_virtuals V" and "\<And>a d. length d = 4 * length buf \<Longrightarrow> defined_prog (br a d)"
    and "\<And>f a. be = Some f \<Longrightarrow> defined_prog (f a)"
  shows "defined_prog (read_block V cur bs br be buf)"
proof -
  have report: "defined_prog (case be of Some f \<Rightarrow> if flash_cycle_error h then f cur else ret True
      | None \<Rightarrow> ret True)" for h
    using assms(3) by (cases be) (simp_all add: defined_rules)
  have fill: "defined_prog (bnd (fill_buf V [0..<length buf] buf) (\<lambda>buf.
      bnd (br cur (concat (map le_bytes buf))) (\<lambda>more. ret (more, buf))))"
    by (rule defined_bnd_result [OF defined_fill_buf [OF assms(1)]])
      (intro defined_rules assms(2), simp add: length_concat_le_bytes fill_buf_result)
  show ?thesis
    unfolding read_block_def
    by (intro fill report defined_rules defined_run_cycle [OF assms(1)])
qed

text \<open>
  The loop stays inside \<open>int\<close>: the end of the range and the address one block after the
  last one must be representable.
\<close>

definition loop_defined ::
    "'w Chipset_virtuals \<Rightarrow> int \<Rightarrow> int \<Rightarrow> int \<Rightarrow> (int \<Rightarrow> 8 word list \<Rightarrow> ('w, bool) prog) \<Rightarrow>
     (int \<Rightarrow> ('w, bool) prog) option \<Rightarrow> int \<Rightarrow> 32 word list \<Rightarrow> bool" where
  "loop_defined V fa n bs br be cur buf = (0 \<le> bs \<and> INT_MIN \<le> cur \<and> in_int (fa + n) \<and>
     in_int (fa + n + bs) \<and>
     (\<forall>a buf'. length buf' = length buf \<longrightarrow> defined_prog (read_block V a bs br be buf')))"

lemma defined_block_loop:
  assumes "loop_defined V fa n bs br be cur buf"
  shows "defined_prog (block_loop V fa n bs br be cur buf)"
proof -
  have "loop_defined V fa n bs br be cur buf \<longrightarrow> not_ub y"
    if "block_loop V fa n bs br be cur buf w = Some y"
    for V :: "'a Chipset_virtuals" and fa n bs br be cur buf w y
    using that
  proof (rule block_loop.raw_induct [rotated, where P = "\<lambda>V fa n bs br be cur buf w y.
      loop_defined V fa n bs br be cur buf \<longrightarrow> not_ub y"], goal_cases)
    case (1 f V fa n bs br be cur buf w y)
    show ?case
    proof
      assume ok: "loop_defined V fa n bs br be cur buf"
      have range: "in_int (fa + n)" and block: "defined_prog (read_block V cur bs br be buf)"
        using ok by (simp_all add: loop_defined_def)
      have next_block: "not_ub y"
        if "bnd (c_int (cur + bs)) (\<lambda>cur'. f V fa n bs br be cur' (snd r)) w' = Some y"
          and "cur < fa + n" and "length (snd r) = length buf" for r w'
      proof -
        have "in_int (cur + bs)"
          using ok that(2) by (auto simp: loop_defined_def in_int_iff INT_MIN_def)
        moreover have "loop_defined V fa n bs br be (cur + bs) (snd r)"
          using ok that(3) by (simp add: loop_defined_def)
        ultimately show ?thesis using that(1) 1(1) by fastforce
      qed
      have "not_ub y"
        if "bnd (read_block V cur bs br be buf) (\<lambda>r. if \<not> fst r then ret False
          else bnd (c_int (cur + bs)) (\<lambda>cur'. f V fa n bs br be cur' (snd r))) w' = Some y"
          and "cur < fa + n" for w'
        by (rule defined_at [OF that(1) block])
          (use that(2) in \<open>auto simp: ret_apply not_ub_def [of "(_, _)"] dest: read_block_result
            intro: next_block split: if_splits\<close>)
      then show "not_ub y"
        using 1(2) range by (auto simp: ret_apply not_ub_def [of "(_, _)"] split: if_splits)
    qed
  qed
  with assms show ?thesis
    unfolding defined_prog_def [of "block_loop V fa n bs br be cur buf"] by blast
qed

lemma defined_ReadSpi:
  assumes "defined_virtuals V" and "in_int fa" and "in_int (fa + n)" and "in_int (fa + n + bs)"
    and "\<And>f a d. br = Some f \<Longrightarrow> int (length d) = 4 * (bs div 4) \<Longrightarrow> defined_prog (f a d)"
    and "\<And>f a. be = Some f \<Longrightarrow> defined_prog (f a)" and "\<And>f. bd = Some f \<Longrightarrow> defined_prog f"
  shows "defined_prog (ReadSpiWithHardwareSequencing V fa n bs br be bd)"
proof (cases br)
  case (Some f)
  have loop: "defined_prog (block_loop V fa n bs f be fa (replicate (nat (bs sdiv 4)) 0))" if "4 \<le> bs"
  proof (rule defined_block_loop)
    have div: "bs sdiv 4 = bs div 4" using that by (simp add: signed_divide_int_def)
    have "defined_prog (read_block V a bs f be buf)" if "length buf = nat (bs sdiv 4)" for a buf
      using assms(6) by (intro defined_read_block [OF assms(1)] assms(5) [OF Some])
        (use that div \<open>4 \<le> bs\<close> in auto)
    then show "loop_defined V fa n bs f be fa (replicate (nat (bs sdiv 4)) 0)"
      using assms(2,3,4) that by (simp add: loop_defined_def in_int_iff INT_MIN_def)
  qed
  have "defined_prog (v_ReadHsfsRegister V)" using assms(1) by (simp add: defined_virtuals_def)
  then show ?thesis
    unfolding ReadSpiWithHardwareSequencing_def Some option.case
    by (intro defined_rules loop assms(7)) simp_all
qed (simp add: ReadSpiWithHardwareSequencing_def defined_rules)

section \<open>The registers\<close>

lemma defined_config:
  "defined_prog (ReadConfigUint8 P a)" "defined_prog (ReadConfigUint16 P a)"
  "defined_prog (ReadConfigUint32 P a)"
  by (auto simp: ReadConfigUint8_def ReadConfigUint16_def ReadConfigUint32_def select_config_def
      intro!: defined_rules)

lemma defined_rcrb: "defined_prog (rcrb_mem c)"
  by (auto simp: rcrb_mem_def intro!: defined_rules)

lemma defined_SpiBar: "0 \<le> off \<Longrightarrow> off < 0x100 \<Longrightarrow> defined_prog (SpiBar c off)"
  by (simp only: SpiBar_small defined_rules)

lemma defined_spi:
  assumes "0 \<le> off" and "off < 0x100"
  shows "defined_prog (spi_read8 P c off)" and "defined_prog (spi_read16 P c off)"
    and "defined_prog (spi_read32 P c off)" and "defined_prog (spi_write8 P c off v)"
    and "defined_prog (spi_write16 P c off v)" and "defined_prog (spi_write32 P c off v)"
  using assms
  by (auto simp: spi_read8_def spi_read16_def spi_read32_def spi_write8_def spi_write16_def
      spi_write32_def access_defs intro!: defined_rules defined_rcrb defined_SpiBar)

lemma defined_registers:
  "defined_prog (ReadHsfsRegister P c)" "defined_prog (WriteHsfsRegister P c hs)"
  "defined_prog (ReadHsfcRegister P c)" "defined_prog (WriteHsfcRegister P c hc)"
  "defined_prog (ReadFaddrRegister P c)" "defined_prog (WriteFaddrRegister P c fa)"
  "defined_prog (ReadFdataNRegister P c i)" "defined_prog (ReadBfprRegister P c)"
  "defined_prog (ReadFrapRegister P c)" "defined_prog (ReadSsfsRegister P c)"
  by (auto simp: register_defs offset_defs intro!: defined_rules defined_spi)

lemma defined_indexed:
  assumes "i < 32"
  shows "defined_prog (ReadFregNRegister P c (int i))" and "defined_prog (ReadPrNRegister P c (int i))"
  using assms
  by (auto simp: ReadFregNRegister_def ReadPrNRegister_def indexed_offset_small offset_defs
      intro!: defined_rules defined_spi defined_rcrb)

lemma defined_pci_registers:
  "defined_prog (ReadRcbaRegister P)" "defined_prog (ReadBiosCntlRegister P c)"
  by (auto simp: ReadRcbaRegister_def bios_cntl_defs intro!: defined_rules defined_config)

lemma defined_gcs: "defined_prog (ReadGcsRegister P c)"
  by (auto simp: gcs_defs ReadUint32_def intro!: defined_rules defined_rcrb)

lemma virtuals_defined: "defined_virtuals (virtuals P c)"
  by (simp add: defined_virtuals_def virtuals_def defined_registers)

section \<open>The program\<close>

lemma defined_printf: "defined_prog (printf P f args)"
  by (simp add: printf_def defined_rules)

lemma defined_read_regions:
  "\<forall>i \<in> set is. i < 32 \<Longrightarrow> defined_prog (read_regions P (virtuals P c) is)"
  by (induction "is") (auto simp: virtuals_def intro!: defined_rules defined_indexed defined_printf)

lemma defined_print_ranges: "defined_prog (print_ranges P rs)"
proof (induction rs)
  case (Cons r rs)
  then show ?case by (cases r) (auto intro!: defined_rules defined_printf)
qed (simp add: defined_rules)

lemma defined_report: "defined_prog (report_protection P (virtuals P c) rs)"
  unfolding report_protection_def virtuals_def Chipset_virtuals.simps
  by (intro defined_rules defined_printf defined_registers defined_pci_registers
      defined_print_ranges)

lemma defined_dump_block: "length d = 64 \<Longrightarrow> defined_prog (dump_block P s a d)"
  unfolding dump_block_def by (intro defined_rules defined_printf) (simp add: kBlockSize_def)

lemma defined_write_dump: "defined_prog (write_dump P (virtuals P c) f)"
proof -
  have "defined_prog (ReadSpiWithHardwareSequencing (virtuals P c) 0 kMaxFlash kBlockSize
      (Some (dump_block P s)) None (Some (printf P nl [])))" for s
    by (rule defined_ReadSpi [OF virtuals_defined])
      (auto simp: kMaxFlash_def kBlockSize_def in_int_iff push_bit_eq_mult
        intro!: defined_dump_block defined_printf)
  moreover have "defined_prog (v_ReadSsfsRegister (virtuals P c))"
    by (simp add: virtuals_def defined_registers)
  ultimately show ?thesis
    unfolding write_dump_def by (intro defined_rules defined_printf)
qed

lemma defined_dump_flash: "defined_prog (dump_flash P (virtuals P c) f)"
proof -
  have "defined_prog (v_ReadGcsRegister (virtuals P c))"
    "defined_prog (v_ReadBfprRegister (virtuals P c))"
    "defined_prog (v_ReadFrapRegister (virtuals P c))"
    by (simp_all add: virtuals_def defined_registers defined_gcs)
  moreover have "defined_prog (read_regions P (virtuals P c) [0..<kNumFlashRegions])"
    by (rule defined_read_regions) (simp add: kNumFlashRegions_def)
  ultimately show ?thesis
    unfolding dump_flash_def
    by (intro defined_rules defined_printf defined_report defined_write_dump)
qed

lemma defined_mappings:
  "defined_prog (PhysicalMemory_Create P off len)" "defined_prog (destroy_mapping P old)"
  by (auto simp: PhysicalMemory_Create_def PhysicalMemory_Init_def PhysicalMemory_dtor_def
      destroy_mapping_def Let_def intro!: defined_rules)

lemma defined_pci_objects: "defined_prog (Pci_dtor P i h)" "defined_prog (Pci_Create P r l h)"
  by (auto simp: Pci_Create_def Pci_dtor_def Let_def intro!: defined_rules)

lemma defined_map_and_dump: "defined_prog (map_and_dump P h c rcba f)"
  unfolding map_and_dump_def MapRootComplex_def return_code_def Chipset_dtor_def
  by (intro defined_rules defined_mappings defined_pci_objects defined_printf defined_dump_flash)

lemma defined_probe_and_dump: "defined_prog (probe_and_dump P h f)"
proof -
  have "defined_prog (v_ReadRcbaRegister (virtuals P c))" for c
    by (simp add: virtuals_def defined_pci_registers)
  then show ?thesis
    unfolding probe_and_dump_def Chipset_Create_def
    by (intro defined_rules defined_printf defined_config defined_map_and_dump)
qed

lemma defined_PawnMain:
  assumes "argv \<noteq> []" and "defined_prog (absl_ParseCommandLine P argv)"
  shows "defined_prog (PawnMain P argv)"
proof -
  obtain arg0 args where argv: "argv = arg0 # args" using assms(1) by (cases argv) auto
  show ?thesis
    unfolding PawnMain_def
    by (subst (1) argv, subst list.case)
      (intro defined_rules assms(2) defined_printf defined_pci_objects defined_probe_and_dump)
qed

section \<open>Property\<close>


end
