(* ===== verification/Pawn_Refusals.thy ===== *)
theory Pawn_Refusals
  imports Pawn_Confined
begin

text \<open>
  What the program does when it cannot or must not go on: too many arguments, no privilege, a
  disabled root complex, a BIOS that is not in SPI flash or not in descriptor mode, an output file that
  cannot be opened or written, a cycle of somebody else in progress. The properties give the
  result of each branch and what it does not touch.
\<close>

section \<open>Before the chipset\<close>

text \<open>The usage message, set before the arguments are parsed, and the text printed after that.\<close>

definition usage_set :: "'w platform \<Rightarrow> string \<Rightarrow> 'w \<Rightarrow> 'w" where
  "usage_set P arg0 = absl_SetProgramUsageMessage P (absl_StrFormat P
     (''Extract BIOS/UEFI firmware'' @ nl @ ''Usage: %1$s [OPTION] OUTPUT'' @ nl)
     [FmtStr (c_basename P arg0)])"

definition greeted :: "'w platform \<Rightarrow> 'w \<Rightarrow> 'w" where
  "greeted P w = absl_PrintF P (''Acquiring I/O port read permissions, this may fail...'' @ nl) []
     (if absl_FLAGS_logo P w
      then absl_PrintF P (''%s %s, %s'' @ nl) [FmtStr kPawnName,
             FmtStr (build_kPawnDetailedVersion P), FmtStr kPawnCopyright] w
      else w)"

text \<open>The progress dot the block callback prints every 256 blocks.\<close>

definition dotted :: "'w platform \<Rightarrow> int \<Rightarrow> 'w \<Rightarrow> 'w" where
  "dotted P a w =
     (if (a sdiv 64) smod 256 = 0 then snd (io_fflush P nullptr (absl_PrintF P ''.'' [] w)) else w)"

lemma PawnMain_parsed:
  assumes "absl_ParseCommandLine P (arg0 # args) (usage_set P arg0 w) = Some (Inr parsed, w1)"
  shows "PawnMain P (arg0 # args) w =
    (if 2 < length parsed then Some (Inl (CheckFailed ''parsed_argv.size() <= 2''), w1)
     else bnd (Pci_Create P 0 1 Map.empty) (\<lambda>pci. case pci of
        Inl status \<Rightarrow> die (CheckFailed (status_message status))
      | Inr h \<Rightarrow> probe_and_dump P h
          (if length parsed = 2 then parsed ! 1 else ''bios_via_spi_hs.bin'')) (greeted P w1))"
proof -
  note parse = bnd_Inr [of "absl_ParseCommandLine P (arg0 # args)" "usage_set P arg0 w" parsed w1,
      OF assms]
  have few: "(\<not> length parsed \<le> 2) = (2 < length parsed)" by auto
  show ?thesis
    unfolding PawnMain_def list.case bnd_eff usage_set_def [symmetric] parse Let_def few
    by (cases "absl_FLAGS_logo P w1"; cases "2 < length parsed";
        simp only: bnd_act fst_conv snd_conv printf_def bnd_eff bnd_ret die_apply greeted_def
          if_True if_False)
qed

section \<open>Programs that do not open the file\<close>

lemma printf_fopen [simp]: "printf (P\<lparr>io_fopen := X\<rparr>) = printf P"
  by (simp add: fun_eq_iff printf_def)

lemma return_code_fopen [simp]: "return_code (P\<lparr>io_fopen := X\<rparr>) = return_code P"
  by (intro ext) (simp add: return_code_def Chipset_dtor_def destroy_mapping_def
      PhysicalMemory_dtor_def Pci_dtor_def cong: option.case_cong if_cong)

lemma read_regions_fopen [simp]: "read_regions (P\<lparr>io_fopen := X\<rparr>) V is = read_regions P V is"
  by (induction "is") simp_all

lemma print_ranges_fopen [simp]: "print_ranges (P\<lparr>io_fopen := X\<rparr>) rs = print_ranges P rs"
  by (induction P rs rule: print_ranges.induct) simp_all

lemma report_protection_fopen [simp]:
  "report_protection (P\<lparr>io_fopen := X\<rparr>) V rs = report_protection P V rs"
  by (simp add: report_protection_def)

lemma ends_any: "(\<And>a w'. ends (f a) w' R) \<Longrightarrow> ends (bnd m f) w R"
  by (rule ends_step [OF ends_True])

lemma report_returns_status:
  assumes "\<forall>w. ends (v_ReadHsfsRegister V) w (\<lambda>h _. Q h)"
  shows "ends (report_protection P V rs) w (\<lambda>h _. Q h)"
  unfolding report_protection_def
  by (rule ends_any, rule ends_step [OF assms [rule_format]], (rule ends_any)+) simp

lemma bnd_same: "(\<And>a. f a = f' a) \<Longrightarrow> bnd m f = bnd m f'"
  by (rule arg_cong [of f f'], rule ext)

lemma if_same: "(b \<Longrightarrow> A = A') \<Longrightarrow> (\<not> b \<Longrightarrow> B = B') \<Longrightarrow> (if b then A else B) = (if b then A' else B')"
  by simp

lemma dump_flash_not_spi:
  assumes "\<forall>w. ends (v_ReadGcsRegister V) w (\<lambda>gcs _. boot_bios_straps gcs \<noteq> kBbsSpi)"
  shows "dump_flash (P\<lparr>io_fopen := X\<rparr>) V f = dump_flash P V f"
    and "ends (dump_flash P V f) w (\<lambda>code _. code = EXIT_FAILURE)"
  unfolding dump_flash_def
  by (rule bnd_cong_ends [OF assms], simp)
    (rule ends_step [OF assms [rule_format]], rule ends_any, simp)

lemma dump_flash_no_descriptor:
  assumes "\<forall>w. ends (v_ReadHsfsRegister V) w (\<lambda>h _. \<not> flash_descriptor_valid h)"
  shows "dump_flash (P\<lparr>io_fopen := X\<rparr>) V f = dump_flash P V f"
    and "ends (dump_flash P V f) w (\<lambda>code _. code = EXIT_FAILURE)"
proof -
  have refused: "\<forall>w. ends (report_protection P V rs) w (\<lambda>h _. \<not> flash_descriptor_valid h)" for rs
    by (rule allI, rule report_returns_status [OF assms])
  show "dump_flash (P\<lparr>io_fopen := X\<rparr>) V f = dump_flash P V f"
    unfolding dump_flash_def printf_fopen read_regions_fopen report_protection_fopen
    by (rule bnd_same, rule bnd_same, rule if_same, rule refl,
        (rule bnd_cong_ends [OF refused] | rule bnd_same)+) simp
  show "ends (dump_flash P V f) w (\<lambda>code _. code = EXIT_FAILURE)"
    unfolding dump_flash_def
    by (rule ends_any, rule ends_any, rule ends_ifI, simp,
        (rule ends_step [OF refused [rule_format]] | rule ends_any)+) simp
qed

section \<open>Properties\<close>

text \<open>
  C23. How the program ends before it touches the chipset: with more than one file name the process ends by
  the check on their number, before anything is printed; when the kernel refuses the I/O
  privilege level it ends with the message to run as root, right after that call, and
  nothing but the two greetings has happened in between.
\<close>

theorem main_start_refusals:
  assumes "absl_ParseCommandLine P (arg0 # args) (usage_set P arg0 w) = Some (Inr parsed, w1)"
  shows "(2 < length parsed \<longrightarrow>
       main P (arg0 # args) w = Some (Inl (CheckFailed ''parsed_argv.size() <= 2''), w1))
     \<and> (length parsed \<le> 2 \<and> os_iopl P 3 (greeted P w1) = (rc, w2) \<and> rc \<noteq> 0 \<longrightarrow>
       main P (arg0 # args) w = Some (Inl (CheckFailed
         (''Failed to acquire I/O privileges. Make sure this '' @
          ''process runs as root and/or has CAP_SYS_RAWIO.'')), w2))"
  using PawnMain_parsed [OF assms]
  by (auto simp: main_def Pci_Create_def bnd_act bnd_assoc die_apply)

text \<open>
  Without a file name the program does exactly what it does for the file name
  \<open>bios_via_spi_hs.bin\<close>, on all hardware and up to non-termination.
\<close>

theorem default_file_name:
  assumes "absl_ParseCommandLine P [arg0] = ret [arg0]"
    and "absl_ParseCommandLine P [arg0, ''bios_via_spi_hs.bin''] = ret [arg0, ''bios_via_spi_hs.bin'']"
  shows "main P [arg0] = main P [arg0, ''bios_via_spi_hs.bin'']"
  by (rule ext)
    (simp add: main_def PawnMain_parsed [of P arg0 "[]"] PawnMain_parsed [of P arg0 "[_]"] assms
      ret_apply)

text \<open>
  C21. The output file is not touched unless the dump can start. When the root complex is
  disabled, the BIOS does not boot from SPI flash or the flash descriptor is not valid, the program
  behaves the same whatever opening a file does, and the result is the failure
  exit code.
\<close>

theorem no_file_without_flash:
  "(\<not> rcba_enable rcba \<longrightarrow>
      map_and_dump (P\<lparr>io_fopen := fopen'\<rparr>) h c rcba f = map_and_dump P h c rcba f \<and>
      ends (map_and_dump P h c rcba f) w (\<lambda>code _. code = EXIT_FAILURE))
   \<and> ((\<forall>w. ends (v_ReadGcsRegister V) w (\<lambda>gcs _. boot_bios_straps gcs \<noteq> kBbsSpi)) \<or>
      (\<forall>w. ends (v_ReadHsfsRegister V) w (\<lambda>h _. \<not> flash_descriptor_valid h)) \<longrightarrow>
      dump_flash (P\<lparr>io_fopen := fopen'\<rparr>) V f = dump_flash P V f \<and>
      ends (dump_flash P V f) w (\<lambda>code _. code = EXIT_FAILURE))"
proof (intro conjI impI, goal_cases)
  case 3
  then show ?case by (elim disjE) (erule dump_flash_not_spi, erule dump_flash_no_descriptor)
next
  case 4
  then show ?case by (elim disjE) (erule dump_flash_not_spi, erule dump_flash_no_descriptor)
qed (simp_all add: map_and_dump_def MapRootComplex_def status_ok_def return_code_def)

text \<open>
  C22. The errors of writing the dump. A file that cannot be opened and a software sequencing
  cycle in progress give the failure exit code, each after its message; a hardware sequencing
  cycle in progress ends the process by the check on the status; a block that is not written in
  full ends the process, so that no success is ever reported for a short file.
\<close>

theorem dump_errors:
  "(fst (io_fopen P f ''wb'' w) = nullptr \<longrightarrow>
      write_dump P V f w = Some (Inr EXIT_FAILURE,
        absl_PrintF P (''Error: Could not open output file for writing.'' @ nl) []
          (snd (io_fopen P f ''wb'' w))))
   \<and> (fst (io_fopen P f ''wb'' w) \<noteq> nullptr \<and>
      v_ReadSsfsRegister V (snd (io_fflush P nullptr (absl_PrintF P ''Reading SPI flash'' []
        (snd (io_fopen P f ''wb'' w))))) = Some (Inr s, w1) \<longrightarrow>
      (ssfs_spi_cycle_in_progress s \<longrightarrow> write_dump P V f w = Some (Inr EXIT_FAILURE,
        absl_PrintF P (''Error: SPI flash cycle in progress'' @ nl) [] w1)) \<and>
      (\<not> ssfs_spi_cycle_in_progress s \<and> v_ReadHsfsRegister V w1 = Some (Inr h, w2) \<and>
        spi_cycle_in_progress h \<longrightarrow>
        write_dump P V f w = Some (Inl (CheckFailed ''SPI flash cycle in progress''), w2)))
   \<and> (64 \<le> length d \<and> io_fwrite P (take 64 d) out (dotted P a w) = (n, w') \<and> n \<noteq> 64 \<longrightarrow>
      dump_block P out a d w = Some (Inl (LogFatal ''Could not write 64 bytes.''), w'))"
proof (intro conjI impI, goal_cases)
  case 2
  then show ?case
    by (auto simp: write_dump_def printf_def bnd_act bnd_eff ret_apply bnd_Inr [of "v_ReadSsfsRegister V"])
next
  case 3
  have "ReadSpiWithHardwareSequencing V 0 kMaxFlash kBlockSize (Some g) be bd w1
      = Some (Inr (UnavailableError ''SPI flash cycle in progress''), w2)" for g be bd
    using 3 by (simp add: ReadSpiWithHardwareSequencing_def kBlockSize_def kMaxFlash_def
        push_bit_eq_mult signed_modulo_int_def bnd_Inr [of "v_ReadHsfsRegister V"] ret_apply)
  with 3 show ?case
    by (auto simp: write_dump_def printf_def bnd_act bnd_eff die_apply status_ok_def
        bnd_Inr [of "v_ReadSsfsRegister V"] bnd_Inr [of "ReadSpiWithHardwareSequencing _ _ _ _ _ _ _"])
next
  case 4
  then show ?case
    by (auto simp: dump_block_def dotted_def printf_def kBlockSize_def bnd_act bnd_eff die_apply bnd_assoc)
qed (simp add: write_dump_def printf_def bnd_act bnd_eff ret_apply)

text \<open>
  C24. On a machine whose LPC bridge no chipset class lists, the process ends by the check on
  the result of \<open>Chipset::Create\<close>, with the message for an unknown Intel device or for a
  foreign vendor, after only reading configuration space and printing.
\<close>

theorem unsupported_device_ends:
  assumes "config_mechanism P latch space" and "\<forall>fmt args w. space (absl_PrintF P fmt args w) = space w"
    and "\<forall>k. \<not> SupportsDevice k \<lparr>vendor = ucast (space w 0xF800),
      device = ucast (drop_bit 16 (space w 0xF800)), revision = ucast (space w 0xF808)\<rparr>"
  shows "\<exists>w'. probe_and_dump P h f w = Some (Inl (CheckFailed
      (if (ucast (space w 0xF800) :: 16 word) = 0x8086 then ''Unsupported Intel chipset, check hardware id.''
       else ''Only Intel chipsets are currently supported'')), w') \<and> space w' = space w"
proof -
  let ?hw = "\<lparr>vendor = ucast (space w 0xF800), device = ucast (drop_bit 16 (space w 0xF800)),
      revision = ucast (space w 0xF808)\<rparr> :: HardwareId"
  let ?w1 = "absl_PrintF P ''Reading chipset LPC device identification: '' [] w"
  have probe: "Chipset_probe ?hw = Inl (UnimplementedError
      (if (ucast (space w 0xF800) :: 16 word) = 0x8086 then ''Unsupported Intel chipset, check hardware id.''
       else ''Only Intel chipsets are currently supported''))"
    using probe_unsupported [of ?hw] assms(3) by simp
  obtain r w2 where "Chipset_Create P ?w1 = Some (Inr r, w2)" "fst r = ?hw"
      "snd r = Chipset_probe ?hw" "space w2 = space w"
    using config_mechanism.Chipset_Create_runs [OF assms(1), of ?w1] assms(2)
    by (auto simp: runs_iff)
  then show ?thesis
    using assms(2) probe
    by (simp add: probe_and_dump_def printf_def bnd_eff bnd_Inr [of "Chipset_Create P"] die_apply
        Let_def)
qed

end
