(* ===== verification/Pawn_Progress.thy ===== *)
theory Pawn_Progress
  imports Pawn_Safety
begin

text \<open>
  Where a run can get stuck. \<open>halts m\<close> says that m returns or ends the process, on every
  world. The busy wait for the flash controller is the only part of the program that may fail to:
  everything else halts on all hardware, the block loop because the addresses ascend towards a
  fixed end.
\<close>

section \<open>Rules\<close>

named_theorems halts_rules

definition halts :: "('w, 'a) prog \<Rightarrow> bool" where
  "halts m = (\<forall>w. m w \<noteq> None)"

lemma halts_simps [halts_rules]:
  "halts (ret a)" "halts (die e)" "halts (act f)" "halts (eff h)"
  by (simp_all add: halts_def prog_simps)

lemma halts_bnd [halts_rules]: "halts m \<Longrightarrow> (\<And>a. halts (f a)) \<Longrightarrow> halts (bnd m f)"
  by (fastforce simp: halts_def bnd_def split: bind_splits sum.splits)

lemma halts_if [halts_rules]:
  "(b \<Longrightarrow> halts A) \<Longrightarrow> (\<not> b \<Longrightarrow> halts B) \<Longrightarrow> halts (if b then A else B)"
  by simp

lemma halts_case_option [halts_rules]:
  "halts A \<Longrightarrow> (\<And>x. p = Some x \<Longrightarrow> halts (B x)) \<Longrightarrow> halts (case p of None \<Rightarrow> A | Some x \<Rightarrow> B x)"
  by (cases p) simp_all

lemma halts_case_sum [halts_rules]:
  "(\<And>x. halts (A x)) \<Longrightarrow> (\<And>x. halts (B x)) \<Longrightarrow> halts (case p of Inl x \<Rightarrow> A x | Inr x \<Rightarrow> B x)"
  by (cases p) simp_all

lemma halts_Let [halts_rules]: "(\<And>x. halts (F x)) \<Longrightarrow> halts (let x = t in F x)"
  by (simp add: Let_def)

lemma halts_case_class [halts_rules]:
  "halts A1 \<Longrightarrow> halts A2 \<Longrightarrow> halts A3 \<Longrightarrow> halts A4 \<Longrightarrow> halts A5 \<Longrightarrow> halts A6 \<Longrightarrow> halts A7 \<Longrightarrow>
   halts (case k of IntelIch8Chipset \<Rightarrow> A1 | IntelIch9Chipset \<Rightarrow> A2 | IntelIch10Chipset \<Rightarrow> A3
     | Intel6SeriesChipset \<Rightarrow> A4 | Intel7SeriesChipset \<Rightarrow> A5 | Intel8SeriesChipset \<Rightarrow> A6
     | Intel9SeriesChipset \<Rightarrow> A7)"
  by (cases k) simp_all

lemma halts_c_int [halts_rules]: "halts (c_int i)"
  by (simp add: c_int_def halts_rules)

section \<open>The flash reader\<close>

definition halting_virtuals :: "'w Chipset_virtuals \<Rightarrow> bool" where
  "halting_virtuals V = (halts (v_ReadHsfsRegister V) \<and> (\<forall>h. halts (v_WriteHsfsRegister V h)) \<and>
     halts (v_ReadFaddrRegister V) \<and> (\<forall>f. halts (v_WriteFaddrRegister V f)) \<and>
     halts (v_ReadHsfcRegister V) \<and> (\<forall>h. halts (v_WriteHsfcRegister V h)) \<and>
     (\<forall>i. halts (v_ReadFdataNRegister V i)))"

lemma halts_fill_buf: "halting_virtuals V \<Longrightarrow> halts (fill_buf V is buf)"
  by (induction "is" arbitrary: buf) (auto simp: halting_virtuals_def intro!: halts_rules)

lemma halts_read_block:
  assumes "halting_virtuals V" and "halts (wait_cycle_done V)" and "\<And>a d. halts (br a d)"
    and "\<And>f a. be = Some f \<Longrightarrow> halts (f a)"
  shows "halts (read_block V cur bs br be buf)"
proof -
  have "halts (run_cycle V cur bs)"
    unfolding run_cycle_def using assms(1)
    by (intro halts_rules assms(2)) (simp_all add: halting_virtuals_def)
  then show ?thesis
    unfolding read_block_def using assms(3,4) halts_fill_buf [OF assms(1)]
    by (intro halts_rules) simp_all
qed

lemma bnd_None_cases:
  assumes "bnd m f w = None" and "halts m"
  obtains a w' where "m w = Some (Inr a, w')" and "f a w' = None"
proof -
  obtain r w' where r: "m w = Some (r, w')" using assms(2) by (fastforce simp: halts_def)
  show thesis using assms(1) r that by (cases r) (auto simp: bnd_def)
qed

lemma halts_block_loop:
  assumes "\<And>a buf. halts (read_block V a bs br be buf)" and "0 < bs"
  shows "block_loop V fa n bs br be cur buf w \<noteq> None"
proof (induction "nat (fa + n - cur)" arbitrary: cur buf w rule: less_induct)
  case less
  show ?case
  proof
    assume "block_loop V fa n bs br be cur buf w = None"
    then have "bnd (c_int (fa + n)) (\<lambda>end. if \<not> cur < end then ret True
        else bnd (read_block V cur bs br be buf) (\<lambda>r. if \<not> fst r then ret False
          else bnd (c_int (cur + bs)) (\<lambda>next. block_loop V fa n bs br be next (snd r)))) w = None"
      by (subst (asm) block_loop.simps)
    then obtain "end" w1 where e: "c_int (fa + n) w = Some (Inr end, w1)"
      and "(if \<not> cur < end then ret True
        else bnd (read_block V cur bs br be buf) (\<lambda>r. if \<not> fst r then ret False
          else bnd (c_int (cur + bs)) (\<lambda>next. block_loop V fa n bs br be next (snd r)))) w1 = None"
      by (rule bnd_None_cases [OF _ halts_c_int])
    then have lt: "cur < end" and "bnd (read_block V cur bs br be buf) (\<lambda>r. if \<not> fst r then ret False
          else bnd (c_int (cur + bs)) (\<lambda>next. block_loop V fa n bs br be next (snd r))) w1 = None"
      by (simp_all add: ret_apply split: if_splits)
    then obtain r w2 where "(if \<not> fst r then ret False
          else bnd (c_int (cur + bs)) (\<lambda>next. block_loop V fa n bs br be next (snd r))) w2 = None"
      by (elim bnd_None_cases [OF _ assms(1)])
    then have "bnd (c_int (cur + bs)) (\<lambda>next. block_loop V fa n bs br be next (snd r)) w2 = None"
      by (simp add: ret_apply split: if_splits)
    then obtain cur' w3 where c: "c_int (cur + bs) w2 = Some (Inr cur', w3)"
      and stuck: "block_loop V fa n bs br be cur' (snd r) w3 = None"
      by (rule bnd_None_cases [OF _ halts_c_int])
    have "end = fa + n" "cur' = cur + bs"
      using e c by (simp_all add: c_int_def ret_apply die_apply split: if_splits)
    then have "nat (fa + n - cur') < nat (fa + n - cur)" using lt assms(2) by simp
    from less [OF this] stuck show False by blast
  qed
qed

lemma halts_ReadSpi:
  assumes "halting_virtuals V" and "halts (wait_cycle_done V)"
    and "\<And>f a d. br = Some f \<Longrightarrow> halts (f a d)"
    and "\<And>f a. be = Some f \<Longrightarrow> halts (f a)" and "\<And>f. bd = Some f \<Longrightarrow> halts f"
  shows "halts (ReadSpiWithHardwareSequencing V fa n bs br be bd)"
proof (cases br)
  case (Some f)
  have "halts (block_loop V fa n bs f be cur buf)" if "4 \<le> bs" for cur buf
    unfolding halts_def
    using halts_block_loop [OF halts_read_block [OF assms(1,2), of f be]] assms(3,4) Some that by simp
  moreover have "halts (v_ReadHsfsRegister V)" using assms(1) by (simp add: halting_virtuals_def)
  ultimately show ?thesis
    unfolding ReadSpiWithHardwareSequencing_def Some option.case
    by (intro halts_rules assms(5)) simp_all
qed (simp add: ReadSpiWithHardwareSequencing_def halts_rules)

section \<open>The registers\<close>

lemma halts_config:
  "halts (ReadConfigUint8 P a)" "halts (ReadConfigUint16 P a)" "halts (ReadConfigUint32 P a)"
  by (auto simp: ReadConfigUint8_def ReadConfigUint16_def ReadConfigUint32_def select_config_def
      intro!: halts_rules)

lemma halts_rcrb: "halts (rcrb_mem c)" "halts (SpiBar c off)"
  by (auto simp: rcrb_mem_def SpiBar_def Ich8_SpiBar_def Ich9_SpiBar_def intro!: halts_rules)

lemma halts_spi:
  "halts (spi_read8 P c off)" "halts (spi_read16 P c off)" "halts (spi_read32 P c off)"
  "halts (spi_write8 P c off v)" "halts (spi_write16 P c off v)" "halts (spi_write32 P c off v)"
  by (auto simp: spi_read8_def spi_read16_def spi_read32_def spi_write8_def spi_write16_def
      spi_write32_def access_defs intro!: halts_rules halts_rcrb)

lemma halts_registers:
  "halts (ReadHsfsRegister P c)" "halts (WriteHsfsRegister P c hs)"
  "halts (ReadHsfcRegister P c)" "halts (WriteHsfcRegister P c hc)"
  "halts (ReadFaddrRegister P c)" "halts (WriteFaddrRegister P c fa)"
  "halts (ReadFdataNRegister P c i)" "halts (ReadBfprRegister P c)"
  "halts (ReadFrapRegister P c)" "halts (ReadSsfsRegister P c)"
  by (auto simp: register_defs intro!: halts_rules halts_spi)

lemma halts_indexed: "halts (ReadFregNRegister P c i)" "halts (ReadPrNRegister P c i)"
  by (auto simp: ReadFregNRegister_def ReadPrNRegister_def indexed_offset_def
      intro!: halts_rules halts_spi halts_rcrb)

lemma halts_pci_registers: "halts (ReadRcbaRegister P)" "halts (ReadBiosCntlRegister P c)"
  by (auto simp: ReadRcbaRegister_def bios_cntl_defs intro!: halts_rules halts_config)

lemma halts_gcs: "halts (ReadGcsRegister P c)"
  by (auto simp: gcs_defs ReadUint32_def intro!: halts_rules halts_rcrb)

lemma virtuals_halting: "halting_virtuals (virtuals P c)"
  by (simp add: halting_virtuals_def virtuals_def halts_registers)

section \<open>The program\<close>

lemma halts_printf: "halts (printf P f args)"
  by (simp add: printf_def halts_rules)

lemma halts_read_regions: "halts (read_regions P (virtuals P c) is)"
  by (induction "is") (auto simp: virtuals_def intro!: halts_rules halts_indexed halts_printf)

lemma halts_print_ranges: "halts (print_ranges P rs)"
proof (induction rs)
  case (Cons r rs)
  then show ?case by (cases r) (auto intro!: halts_rules halts_printf)
qed (simp add: halts_rules)

lemma halts_report: "halts (report_protection P (virtuals P c) rs)"
  unfolding report_protection_def virtuals_def Chipset_virtuals.simps
  by (intro halts_rules halts_printf halts_registers halts_pci_registers halts_print_ranges)

lemma halts_write_dump:
  assumes "halts (wait_cycle_done (virtuals P c))"
  shows "halts (write_dump P (virtuals P c) f)"
proof -
  have "halts (dump_block P s a d)" for s a d
    unfolding dump_block_def by (intro halts_rules halts_printf)
  then have "halts (ReadSpiWithHardwareSequencing (virtuals P c) 0 kMaxFlash kBlockSize
      (Some (dump_block P s)) None (Some (printf P nl [])))" for s
    by (intro halts_ReadSpi [OF virtuals_halting assms]) (auto intro: halts_printf)
  moreover have "halts (v_ReadSsfsRegister (virtuals P c))"
    by (simp add: virtuals_def halts_registers)
  ultimately show ?thesis
    unfolding write_dump_def by (intro halts_rules halts_printf)
qed

lemma halts_dump_flash:
  assumes "halts (wait_cycle_done (virtuals P c))"
  shows "halts (dump_flash P (virtuals P c) f)"
proof -
  have "halts (v_ReadGcsRegister (virtuals P c))" "halts (v_ReadBfprRegister (virtuals P c))"
    "halts (v_ReadFrapRegister (virtuals P c))"
    by (simp_all add: virtuals_def halts_registers halts_gcs)
  then show ?thesis
    unfolding dump_flash_def
    by (intro halts_rules halts_printf halts_read_regions halts_report halts_write_dump [OF assms])
qed

lemma halts_mappings: "halts (PhysicalMemory_Create P off len)" "halts (destroy_mapping P old)"
  by (auto simp: PhysicalMemory_Create_def PhysicalMemory_Init_def PhysicalMemory_dtor_def
      destroy_mapping_def Let_def intro!: halts_rules)

lemma halts_pci_objects: "halts (Pci_dtor P i h)" "halts (Pci_Create P r l h)"
  by (auto simp: Pci_Create_def Pci_dtor_def Let_def intro!: halts_rules)

lemma halts_probe_and_dump:
  assumes "\<And>c. halts (wait_cycle_done (virtuals P c))"
  shows "halts (probe_and_dump P h f)"
proof -
  have "halts (map_and_dump P h c rcba f)" for c rcba
    unfolding map_and_dump_def MapRootComplex_def return_code_def Chipset_dtor_def
    by (intro halts_rules halts_mappings halts_pci_objects halts_printf halts_dump_flash assms)
  moreover have "halts (v_ReadRcbaRegister (virtuals P c))" for c
    by (simp add: virtuals_def halts_pci_registers)
  ultimately show ?thesis
    unfolding probe_and_dump_def Chipset_Create_def
    by (intro halts_rules halts_printf halts_config)
qed

section \<open>Property\<close>


end
