(* ===== verification/Machine_Witnesses.thy ===== *)
theory Machine_Witnesses
  imports Machine_Run Pawn_Defined Pawn_Refusals Pawn_Progress
begin

text \<open>
  The properties of the component theories at concrete inputs: an ICH9 board (device 0x2918) with an
  idle flash controller, on the reference machine. Each theorem applies the property it is named
  after, with its hypotheses discharged there.
\<close>

definition board_image :: "25 word \<Rightarrow> 8 word" where
  "board_image a = ucast a XOR ucast (drop_bit 8 a)"

definition board_platform :: "machine platform" where
  "board_platform = machine_platform board_image 3 IntelIch9Chipset False"

definition board_id :: HardwareId where
  "board_id = \<lparr>vendor = 0x8086, device = 0x2918, revision = 2\<rparr>"

definition board :: machine where
  "board = \<lparr>m_latch = 0x12000000,
     m_space = (\<lambda>a. if a = 0xF800 then 0x29188086 else if a = 0xF808 then 2
        else if a = 0xF8F0 then 0xFED1C001 else 0),
     m_root = True, m_bal = 0, m_fds = [0, 1, 2], m_maps = [], m_strict = False,
     m_ram = (\<lambda>_. 0),
     m_spi = \<lparr>s_hsfs = 0x4000, s_hsfc = 0, s_faddr = 0, s_wait = None, s_fdata = []\<rparr>,
     m_files = Map.empty, m_stream = None, m_text = []\<rparr>"

definition board_chipset :: Chipset where
  "board_chipset = mapped_chipset IntelIch9Chipset board_id 3"

text \<open>The board with the output file open.\<close>

definition board_open :: machine where
  "board_open = board\<lparr>m_files := [''bios.bin'' \<mapsto> []], m_stream := Some ''bios.bin''\<rparr>"

lemma board_open_simps [simp]:
  "m_file ''bios.bin'' board_open = Some []" "m_spi board_open = m_spi board"
  by (simp_all add: board_open_def m_file_def)

lemma m_append_spi [simp]: "m_spi (m_append d w) = m_spi w"
  by (simp add: m_append_def split: option.split)

lemma board_hw: "machine_hw board = board_id"
  by (simp add: machine_hw_def board_def board_id_def One_nat_def)

lemma board_idle: "s_idle (m_spi board)" "bit (s_hsfs (m_spi board)) 14"
  by (simp_all add: board_def s_idle_def One_nat_def)

lemma board_spi_ready: "s_ready False (m_spi board)"
  using board_idle by (simp add: s_ready_def)

lemma board_prompt: "machine_platform board_image (prompt False 3) IntelIch9Chipset False = board_platform"
  by (simp add: prompt_def board_platform_def)

lemma board_ready: "machine_ready False IntelIch9Chipset board"
proof -
  have "straps_select_spi (mapped_chipset IntelIch9Chipset board_id 0)
      (le_word (map (m_ram board) (span (window + 0x3410) 4)))"
    by (simp add: straps_select_spi_def mapped_chipset_def bit_le_word board_def span_def)
  moreover have "SupportsDevice IntelIch9Chipset board_id"
    by (simp add: SupportsDevice_def Ich9_SupportsDevice_def board_id_def)
  ultimately show ?thesis
    using board_idle by (simp add: machine_ready_def dump_ready_def s_ready_def board_hw)
      (simp add: board_def)
qed

theorem config_reads_return_register_witness:
  "runs (ReadConfigUint16_bdf board_platform 0 31 0 2) board (\<lambda>v w'. v = 0x2918 \<and>
     m_latch w' AND 0x7F000000 = 0x12000000)"
proof -
  have "MakeConfigAddress 0 31 0 2 AND 0xFFFFFC = 0xF800"
    by (simp add: MakeConfigAddress_def Set_def One_nat_def)
  then show ?thesis
    using config_reads_return_register [OF bridge.config_mechanism_axioms
        [of board_image 3 IntelIch9Chipset False], of 0 31 0 2 board]
    unfolding board_platform_def
    by (elim conjE runs_mono) (simp add: board_def One_nat_def)
qed


text \<open>The mapping of the board's chipset registers, with the world it leaves.\<close>

lemma board_create:
  "PhysicalMemory_Create board_platform 0xFED1C000 0x4000 board
     = Some (Inr (Inr (mapping 3)), board\<lparr>m_fds := [3, 0, 1, 2], m_maps := [(window, 0x4000)]\<rparr>)"
proof -
  have "dev_mem_opened board_platform board = (3, board\<lparr>m_fds := [3, 0, 1, 2]\<rparr>)"
    by (simp add: dev_mem_opened_def board_platform_def system_defs board_def)
  moreover from this have "dev_mem_mapped board_platform 0xFED1C000 0x4000 board
      = (window, board\<lparr>m_fds := [3, 0, 1, 2], m_maps := [(window, 0x4000)]\<rparr>)"
    by (simp add: dev_mem_mapped_def board_platform_def machine_platform_def m_mmap_def board_def
        rcba_base_def One_nat_def)
  ultimately show ?thesis
    using Create_succeeds [of board_platform board "0xFED1C000" "0x4000"]
    by (simp add: mapping_def window_def MAP_FAILED_def)
qed

theorem create_then_destroy_releases_witness:
  "runs (PhysicalMemory_dtor board_platform (mapping 3))
     (board\<lparr>m_fds := [3, 0, 1, 2], m_maps := [(window, 0x4000)]\<rparr>)
     (\<lambda>_ w'. set (m_fds w') = {0, 1, 2} \<and> set (m_maps w') = {})"
  using create_then_destroy_releases [OF files.memory_files_axioms
      [of board_image 3 IntelIch9Chipset False] board_create [unfolded board_platform_def]]
  unfolding board_platform_def [symmetric] by (rule runs_mono) (simp add: board_def)

theorem failed_map_leaks_descriptor_witness:
  "runs (PhysicalMemory_Create board_platform 0xFED1C000 0x4000) (board\<lparr>m_strict := True\<rparr>)
     (\<lambda>r w'. r = Inl (FailedPreconditionError
          ''Could not map physical memory: Operation not permitted'') \<and>
        set (m_fds w') = {3, 0, 1, 2})"
proof -
  let ?w = "board\<lparr>m_strict := True\<rparr>"
  have opened: "dev_mem_opened board_platform ?w = (3, ?w\<lparr>m_fds := [3, 0, 1, 2]\<rparr>)"
    by (simp add: dev_mem_opened_def board_platform_def system_defs board_def)
  then have "fst (dev_mem_opened board_platform ?w) \<noteq> - 1" by simp
  moreover have "fst (dev_mem_mapped board_platform 0xFED1C000 0x4000 ?w) = MAP_FAILED"
    using opened by (simp add: dev_mem_mapped_def board_platform_def machine_platform_def m_mmap_def)
  ultimately show ?thesis
    using failed_map_leaks_descriptor [OF files.memory_files_axioms
        [of board_image 3 IntelIch9Chipset False], of ?w "0xFED1C000" "0x4000"] opened
    unfolding board_platform_def [symmetric]
    by (auto simp: board_platform_def machine_platform_def board_def elim!: runs_mono)
qed

theorem write_then_read_witness:
  "runs (bnd (WriteUint32 board_platform \<lparr>mem_fd = 3, mem = 0x1000, length_mem = 0x100\<rparr> 0x20 0xCAFEF00D)
     (\<lambda>_. ReadUint32 board_platform \<lparr>mem_fd = 3, mem = 0x1000, length_mem = 0x100\<rparr> 0x20)) board
     (\<lambda>v _. v = 0xCAFEF00D)"
proof -
  let ?m = "\<lparr>mem_fd = 3, mem = 0x1000, length_mem = 0x100\<rparr>"
  have "set (span (GetAt ?m 0x20) 8) \<subseteq> {a. 0x100 \<le> reg_offset IntelIch9Chipset a}"
    by (simp add: span_def upt_rec GetAt_def reg_offset_def bar_def window_def One_nat_def)
  then show ?thesis
    using write_then_read [OF ram.byte_memory_axioms [of board_image 3 IntelIch9Chipset False],
        of ?m "0x20" _ board _ "0xCAFEF00D"]
    unfolding board_platform_def by blast
qed



theorem boot_straps_spi_witness:
  "runs (ReadGcsRegister board_platform board_chipset) board (\<lambda>gcs w'. w' = board \<and>
     boot_bios_straps gcs = kBbsSpi \<and> \<not> bios_interface_lockdown gcs)"
proof -
  have "reg_offset IntelIch9Chipset (mem (mapping 3) + 0x3410) = 0xFFFFFFFFFFFFFC10"
    by (simp add: reg_offset_def bar_def mapping_def One_nat_def)
  then have "mem_load32 board_platform (mem (mapping 3) + 0x3410) board = (0, board)"
    by (simp add: board_platform_def memory_defs board_def span_def upt_rec)
  from boot_straps_spi [of board_chipset, OF _ this] show ?thesis
    by (auto simp: board_chipset_def mapped_chipset_def elim!: runs_mono)
qed

theorem unmapped_registers_are_fatal_witness:
  "v_ReadHsfsRegister (virtuals board_platform (Chipset_ctor IntelIch9Chipset board_id))
     = die (LogFatal ''Call MapRootComplex() first.'')"
  using unmapped_registers_are_fatal [of "Chipset_ctor IntelIch9Chipset board_id" board_platform]
  by (simp add: Chipset_ctor_def)

theorem create_probes_lpc_bridge_witness:
  "runs (Chipset_Create board_platform) board (\<lambda>r _.
     r = (board_id, Inr (Chipset_ctor IntelIch9Chipset board_id)))"
proof -
  have "Chipset_probe board_id = Inr (Chipset_ctor IntelIch9Chipset board_id)"
    by (rule probe_table) (simp add: SupportsDevice_def Ich9_SupportsDevice_def board_id_def)
  moreover have "\<lparr>vendor = ucast (m_space board 0xF800), device = ucast (drop_bit 16 (m_space board 0xF800)),
      revision = ucast (m_space board 0xF808)\<rparr> = board_id"
    using board_hw by (simp add: machine_hw_def)
  ultimately show ?thesis
    using create_probes_lpc_bridge [OF bridge.config_mechanism_axioms
        [of board_image 3 IntelIch9Chipset False], of board]
    unfolding board_platform_def [symmetric] by (auto simp: prod_eq_iff elim!: runs_mono)
qed

theorem mapping_released_after_any_sequence_witness:
  "runs (Chipset_dtor board_platform board_chipset) (map_world board) (\<lambda>_ w'. set (m_maps w') = {})"
proof -
  have "map_step board_platform (Chipset_ctor IntelIch9Chipset board_id, board)
      (board_chipset, map_world board)"
    using machine_Map_apply [OF board_ready, of board_image 3 board_id]
    by (intro map_rcrb [of _ _ "Rcba_of (m_space board 0xF8F0)" _ OkStatus])
      (simp add: board_platform_def board_chipset_def map_fd_def board_def)
  then have "(map_step board_platform)\<^sup>*\<^sup>* (Chipset_ctor IntelIch9Chipset board_id, board)
      (board_chipset, map_world board)" by blast
  from mapping_released_after_any_sequence [OF files.memory_files_axioms
      [of board_image 3 IntelIch9Chipset False], folded board_platform_def, OF this]
  show ?thesis by (rule runs_mono) (simp add: board_def)
qed

theorem wait_returns_at_first_done_witness:
  "wait_cycle_done (virtuals board_platform board_chipset)
     (board\<lparr>m_spi := \<lparr>s_hsfs = 0, s_hsfc = 0, s_faddr = 0, s_wait = Some 1, s_fdata = []\<rparr>\<rparr>) \<noteq> None
   \<and> wait_cycle_done ((virtuals board_platform board_chipset)\<lparr>v_ReadHsfsRegister := ret (Hsfs_of 0x20)\<rparr>)
     board = None"
proof
  let ?w = "board\<lparr>m_spi := \<lparr>s_hsfs = 0, s_hsfc = 0, s_faddr = 0, s_wait = Some 1, s_fdata = []\<rparr>\<rparr>"
  let ?load = "mem_load16 board_platform (spi_addr board_chipset (mapping 3) 4)"
  let ?nx = "\<lambda>w. snd (?load w)" and ?hs = "\<lambda>w. Hsfs_of (fst (?load w))"
  have "\<forall>w. v_ReadHsfsRegister (virtuals board_platform board_chipset) w = Some (Inr (?hs w), ?nx w)"
    by (simp add: virtuals_def ReadHsfsRegister_def offset_defs prog_simps board_chipset_def
        spi_access [OF mapped_chipset_ptr])
  note returns = wait_returns_at_first_done [OF this, of ?w]
  have "flash_cycle_done (?hs ((?nx ^^ 1) ?w))"
    by (simp add: board_chipset_def board_platform_def memory_defs reg_offset_spi_addr spi_poll_def
        Hsfs_of_status bit_poll_values One_nat_def)
  then show "wait_cycle_done (virtuals board_platform board_chipset) ?w \<noteq> None"
    unfolding returns Let_def by auto
next
  let ?V = "(virtuals board_platform board_chipset)\<lparr>v_ReadHsfsRegister := ret (Hsfs_of 0x20)\<rparr>"
  have "\<not> flash_cycle_done (Hsfs_of 0x20)" by (simp add: Hsfs_of_def Test_def One_nat_def)
  then show "wait_cycle_done ?V board = None"
    using wait_returns_at_first_done [of ?V "\<lambda>_. Hsfs_of 0x20" "\<lambda>w. w" board]
    by (simp add: ret_apply)
qed

theorem flash_read_refines_specification_witness:
  "runs (ReadSpiWithHardwareSequencing (virtuals board_platform board_chipset) 0x100 128 64
     (Some (dump_block board_platform stream)) None None) board_open (\<lambda>s w'.
     s = OkStatus \<and> m_file ''bios.bin'' w' =
       Some (map (\<lambda>i. board_image (word_of_int (0x100 + int i))) [0..<128]))"
proof -
  have blocks: "\<forall>a. implements m_spi (m_file ''bios.bin'') (\<lambda>v. v \<noteq> None)
      (dump_block board_platform stream a (block_data (image_answer board_image) 64 a))
      (append_block a (block_data (image_answer board_image) 64 a))"
    unfolding board_prompt [symmetric]
    by (blast intro: dump.dump_block_implements dump.block_length)
  have "runs (ReadSpiWithHardwareSequencing (virtuals board_platform board_chipset) 0x100 128 64
     (Some (dump_block board_platform stream)) None None) board_open (\<lambda>s w'.
     s = OkStatus \<and> s_ready False (m_spi w') \<and> m_file ''bios.bin'' w' \<noteq> None \<and>
     m_file ''bios.bin'' w' = spec_read (image_answer board_image) 0x100 128 64 append_block None id
       (m_file ''bios.bin'' board_open))"
    by (rule flash_read_refines_specification [OF spi.spi_controller_axioms
          [where img = board_image and latency = 3 and k = IntelIch9Chipset and rwc = False
            and hw = board_id and fd = 3], unfolded board_prompt, folded board_chipset_def,
          where J = "\<lambda>v. v \<noteq> None"])
      (use board_idle blocks in \<open>simp_all add: s_ready_def in_int_iff implements_error_def implements_done_def
        implements_def\<close>)
  then show ?thesis
    using spec_read_image [of 64 128 board_image "0x100" "[]"]
    by (elim runs_mono) (simp add: spec_read_append_block)
qed

theorem dump_file_is_flash_image_witness:
  "runs (write_dump board_platform (virtuals board_platform board_chipset) ''bios.bin'') board
     (\<lambda>code w'. code = EXIT_SUCCESS \<and>
       m_file ''bios.bin'' w' = Some (map (\<lambda>i. board_image (of_nat i)) [0..<16 * 2 ^ 20]))"
  using dump_file_is_flash_image [OF dump.flash_dump_axioms
      [where img = board_image and latency = 3 and k = IntelIch9Chipset and rwc = False
        and hw = board_id and fd = 3], unfolded board_prompt, folded board_chipset_def,
      OF board_spi_ready]
  by (rule runs_mono) simp


text \<open>The board's registers before the dump: all zero but the status with its descriptor bit.\<close>

theorem report_shows_registers_witness:
  "\<exists>w'. rev (m_text w') = protection_report IntelIch9Chipset (spi_contents IntelIch9Chipset board) 0x4000 0 \<and>
     dump_flash board_platform (virtuals board_platform board_chipset) ''bios.bin'' board
       = write_dump board_platform (virtuals board_platform board_chipset) ''bios.bin'' w'"
proof -
  have "holds_still board board" by (simp add: holds_still_def board_def)
  moreover have "straps_select_spi (mapped_chipset IntelIch9Chipset board_id 3)
      (le_word (map (m_ram board) (span (window + 0x3410) 4)))"
    by (simp add: straps_select_spi_def mapped_chipset_def bit_le_word board_def span_def)
  ultimately have "\<exists>w'. holds_still board w' \<and> (rev \<circ> m_text) w' = (rev \<circ> m_text) board @
      protection_report (chipset_cls board_chipset) (spi_contents IntelIch9Chipset board)
        (s_hsfs (m_spi board)) (ucast (m_space board 0xF8DC)) \<and>
      dump_flash board_platform (virtuals board_platform board_chipset) ''bios.bin'' board =
      (if \<not> bit (s_hsfs (m_spi board)) 14
       then thn (printf board_platform (''Error: System not in descriptor mode!'' @ nl) [])
         (ret EXIT_FAILURE) w'
       else write_dump board_platform (virtuals board_platform board_chipset) ''bios.bin'' w')"
    unfolding board_platform_def board_chipset_def
    by (rule report_shows_registers [OF logging.register_host_axioms])
  then show ?thesis
    using board_idle(2) by (auto simp: board_chipset_def board_def)
qed



theorem range_read_exact_witness:
  "runs (ReadSpiWithHardwareSequencing (virtuals board_platform board_chipset) 0x100 24 12
     (Some (\<lambda>a d. act (\<lambda>w. (True, m_append d w)))) None None) board_open (\<lambda>s w'. s = OkStatus \<and>
     m_file ''bios.bin'' w' = Some (map (\<lambda>i. board_image (word_of_int (0x100 + int i))) [0..<24]))"
proof -
  let ?br = "\<lambda>a d. act (\<lambda>w. (True, m_append d w))"
  have "\<forall>a d. int (length d) = 12 \<longrightarrow>
      implements m_spi (m_file ''bios.bin'') (\<lambda>v. v \<noteq> None) (?br a d) (append_block a d)"
    by (simp add: implements_def append_block_def)
  note exact = range_read_exact [OF spi.spi_controller_axioms
      [where img = board_image and latency = 3 and k = IntelIch9Chipset and rwc = False
        and hw = board_id and fd = 3 and name = "''bios.bin''"], unfolded board_prompt,
      folded board_chipset_def, of board_open "[]" 12 24 "0x100", OF _ _ _ _ _ _ _ _ _ this]
  show ?thesis
    by (rule runs_mono [OF exact]) (use board_spi_ready in \<open>simp_all add: in_int_iff\<close>)
qed


theorem main_start_refusals_witness:
  "main board_platform [''pawn'', ''a'', ''b''] board
     = Some (Inl (CheckFailed ''parsed_argv.size() <= 2''), board)
   \<and> main board_platform [''pawn''] (board\<lparr>m_root := False\<rparr>)
     = Some (Inl (CheckFailed (''Failed to acquire I/O privileges. Make sure this '' @
          ''process runs as root and/or has CAP_SYS_RAWIO.'')),
         greeted board_platform (board\<lparr>m_root := False\<rparr>))"
proof
  have set: "usage_set board_platform a w = w" "absl_ParseCommandLine board_platform argv = ret argv"
    for a w argv
    by (simp_all add: usage_set_def board_platform_def machine_platform_def)
  show "main board_platform [''pawn'', ''a'', ''b''] board
     = Some (Inl (CheckFailed ''parsed_argv.size() <= 2''), board)"
    using main_start_refusals [of board_platform "''pawn''" "[''a'', ''b'']" board
        "[''pawn'', ''a'', ''b'']" board]
    by (simp add: set ret_apply)
  let ?w = "board\<lparr>m_root := False\<rparr>"
  have "os_iopl board_platform 3 (greeted board_platform ?w) = (- 1, greeted board_platform ?w)"
    by (simp add: greeted_def board_platform_def system_defs)
  then show "main board_platform [''pawn''] ?w
     = Some (Inl (CheckFailed (''Failed to acquire I/O privileges. Make sure this '' @
          ''process runs as root and/or has CAP_SYS_RAWIO.'')), greeted board_platform ?w)"
    using main_start_refusals [of board_platform "''pawn''" "[]" ?w "[''pawn'']" ?w "- 1"
        "greeted board_platform ?w"]
    by (simp add: set ret_apply)
qed

theorem default_file_name_witness:
  "main board_platform [''pawn''] = main board_platform [''pawn'', ''bios_via_spi_hs.bin'']"
  by (rule default_file_name) (simp_all add: board_platform_def machine_platform_def)

theorem no_file_without_flash_witness:
  "dump_flash (board_platform\<lparr>io_fopen := (\<lambda>_ _ w. (nullptr, w))\<rparr>)
     ((virtuals board_platform board_chipset)\<lparr>v_ReadHsfsRegister := ret (Hsfs_of 0)\<rparr>) ''bios.bin''
   = dump_flash board_platform
     ((virtuals board_platform board_chipset)\<lparr>v_ReadHsfsRegister := ret (Hsfs_of 0)\<rparr>) ''bios.bin''"
proof -
  let ?V = "(virtuals board_platform board_chipset)\<lparr>v_ReadHsfsRegister := ret (Hsfs_of 0)\<rparr>"
  have "\<forall>w. ends (v_ReadHsfsRegister ?V) w (\<lambda>h _. \<not> flash_descriptor_valid h)"
    by (simp add: Hsfs_of_def Test_def)
  then show ?thesis
    using no_file_without_flash [where V = ?V and P = board_platform and f = "''bios.bin''"
        and fopen' = "\<lambda>_ _ w. (nullptr, w)"] by blast
qed

theorem dump_errors_witness:
  "write_dump (board_platform\<lparr>io_fopen := (\<lambda>_ _ w. (nullptr, w))\<rparr>)
     (virtuals board_platform board_chipset) ''bios.bin'' board = Some (Inr EXIT_FAILURE,
     absl_PrintF board_platform (''Error: Could not open output file for writing.'' @ nl) [] board)"
  using dump_errors [where P = "board_platform\<lparr>io_fopen := (\<lambda>_ _ w. (nullptr, w))\<rparr>"
      and f = "''bios.bin''" and w = board and V = "virtuals board_platform board_chipset"]
  by simp


theorem unsupported_device_ends_witness:
  "\<exists>w'. probe_and_dump board_platform Map.empty ''bios.bin'' (board\<lparr>m_space := (\<lambda>_. 0x12348086)\<rparr>) =
     Some (Inl (CheckFailed ''Unsupported Intel chipset, check hardware id.''), w')"
proof -
  let ?w = "board\<lparr>m_space := (\<lambda>_. 0x12348086)\<rparr>"
  have "\<not> SupportsDevice k \<lparr>vendor = ucast (m_space ?w 0xF800),
      device = ucast (drop_bit 16 (m_space ?w 0xF800)), revision = ucast (m_space ?w 0xF808)\<rparr>" for k
    by (cases k) (simp_all add: SupportsDevice_def table_defs One_nat_def)
  moreover have "\<forall>fmt args w. m_space (absl_PrintF board_platform fmt args w) = m_space w"
    by (simp add: board_platform_def machine_platform_def)
  ultimately have "\<exists>w'. probe_and_dump board_platform Map.empty ''bios.bin'' ?w = Some (Inl (CheckFailed
      (if (ucast (m_space ?w 0xF800) :: 16 word) = 0x8086
       then ''Unsupported Intel chipset, check hardware id.''
       else ''Only Intel chipsets are currently supported'')), w') \<and> m_space w' = m_space ?w"
    by (intro unsupported_device_ends [OF bridge.config_mechanism_axioms
          [of board_image 3 IntelIch9Chipset False, folded board_platform_def]]) blast+
  then show ?thesis by (auto simp: One_nat_def)
qed

end
