(* ===== verification/Bits_Test.thy ===== *)
theory Bits_Test
  imports Bits
begin

text \<open>
  \<open>pawn/bits_test.cc\<close>: the unit test of the bit field templates, one definition per test
  case. The literals are \<open>int\<close>; all of them and all results are in range, so the
  32-bit accessors give the values of the \<open>int\<close> instantiations. The case of \<open>Raw\<close>
  takes the accessor as an argument, to compare the code with what its comment promises.
\<close>

definition RawBits :: "(nat \<Rightarrow> nat \<Rightarrow> 32 word \<Rightarrow> 32 word) \<Rightarrow> bool" where
  "RawBits raw = (raw 15 15 0xFFFF = 0x8000 \<and> raw 6 2 0xFF = 0x7C)"

definition ValueOfBits :: bool where
  "ValueOfBits = (Value 15 15 (0xFFFF :: 32 word) = 0x1 \<and> Value 6 2 (0xFF :: 32 word) = 0x1F)"

definition TestBit :: bool where
  "TestBit = Test 15 (0xFFFF :: 32 word)"

definition SetBits :: bool where
  "SetBits = (Set 15 15 1 = 0x8000 \<and> Set 6 2 0x1F = 0x7C)"

lemma unit_test_passes: "RawBits Raw \<and> ValueOfBits \<and> TestBit \<and> SetBits"
  by (simp add: RawBits_def ValueOfBits_def TestBit_def SetBits_def Raw_def Value_def Test_def Set_def
      One_nat_def)

text \<open>
  The documented accessor passes the same test, and yet it is not the one the code has: the test does
  not tell them apart.
\<close>

lemma unit_test_accepts_documented_raw:
  "RawBits (\<lambda>msb lsb v. v AND field_mask msb lsb) \<and>
   (Raw 7 4 (0xFFFF :: 32 word) \<noteq> 0xFFFF AND field_mask 7 4)"
  by (simp add: RawBits_def field_mask_def mask_eq_exp_minus_1 Raw_def One_nat_def)

end
