(* ===== verification/Spec2Isabelle.thy ===== *)
theory Spec2Isabelle
  imports Machine_Witnesses Bits_Test
begin

text \<open>
  \<^bold>\<open>Pawn, the BIOS dumping tool: a verification development.\<close>

  The program under \<open>src/pawn\<close> reads the flash chip that holds the BIOS of an Intel machine and
  writes its contents to a file. \<open>PawnMain\<close> raises the I/O privilege level (\<open>Pci\<close>),
  identifies the LPC bridge through PCI configuration space and picks a chipset class
  (\<open>Chipset::Create\<close>), maps the 16 KiB of chipset registers through \<open>/dev/mem\<close>
  (\<open>MapRootComplex\<close>, \<open>PhysicalMemory\<close>), reports the protection registers, and reads
  16 MiB of flash in blocks of 64 bytes with the controller's hardware sequencing
  (\<open>ReadSpiWithHardwareSequencing\<close>), each block going to the file through a callback. All of
  this code is modelled, function by function.

  \<^bold>\<open>How a run is represented.\<close> Code with effects is a \<open>prog\<close> (theory Pawn_Prelude): from a
  world of any type to \<open>None\<close> (never returns) or a result and the world after it, the result being
  \<open>Inl\<close> for a terminated process (\<open>LOG(FATAL)\<close>, \<open>QCHECK\<close>, an exit, or C++
  undefined behaviour such as signed overflow) and \<open>Inr\<close> for a returned value.
  \<open>absl::Status\<close> and \<open>absl::StatusOr\<close> are returned values. \<open>runs m w Q\<close> says that
  the run returns and establishes Q: it is total correctness. What the
  program calls and the repository does not contain (system calls, port instructions, the answers of
  the hardware to loads and stores, C streams, Abseil's printing and flag parsing) is the record
  \<open>platform\<close> (theory Platform), an argument of every definition that needs it. Registers and
  bit-fields are words of their width, C \<open>int\<close> is \<open>int\<close> with overflow as undefined
  behaviour (\<open>c_int\<close>), pointers and \<open>size_t\<close> are 64-bit words. Objects with destructors
  are explicit: a \<open>Pci\<close> object is a cell of a store, a \<open>PhysicalMemory\<close> is a record owned
  by the \<open>Chipset\<close> record, and \<open>PawnMain\<close> runs the destructors on each return. Virtual
  functions are a record of programs, \<open>Chipset_virtuals\<close>, filled for an object by
  \<open>virtuals\<close> according to its class.

  \<^bold>\<open>Which theory models which source.\<close>
  \<^item> Pawn_Prelude: the program representation, C integers, little-endian bytes of words.
  \<^item> Platform: the interface to the operating system, the hardware and the libraries.
  \<^item> Bits: \<open>bits.h\<close> (\<open>Raw\<close>, \<open>Value\<close>, \<open>Test\<close>, \<open>Set\<close>); Bits_Test: the
    cases of \<open>bits_test.cc\<close>.
  \<^item> Pci: \<open>pci.h\<close>, \<open>pci.cc\<close> (configuration addresses, the three read widths, creation,
    move and destruction of the object that holds the privilege level).
  \<^item> Physical_Memory: \<open>physical_memory.h\<close>, \<open>physical_memory.cc\<close>.
  \<^item> Chipset_Types: \<open>chipset.h\<close> (enumerations, register structures, the object and its
    virtual functions; the class chain as a linear order).
  \<^item> Chipset_Ich8: \<open>chipset_intel_ich8.h\<close>, \<open>chipset_intel_ich8.cc\<close> (all register reads
    and writes; a decoder \<open>R_of\<close> and an encoder \<open>R_bits\<close> per register R).
  \<^item> Chipset_Series: the device tables, constructors and overrides of \<open>chipset_intel_ich9\<close>,
    \<open>ich10\<close>, \<open>6_series\<close> to \<open>9_series\<close>, the dispatch, and that it follows the
    inheritance chain.
  \<^item> Chipset_Base: \<open>chipset.cc\<close> (probing, mapping, the flash reader).
  \<^item> Pawn_Main: \<open>pawn.cc\<close> and the constants of \<open>version.h.in\<close>.
  \<^item> Flash_Sequencing: what the flash reader promises, \<open>spec_read\<close>, and that it keeps it.
  \<^item> Pawn_Dump, Pawn_Safety: the dump file; what the program never does and always gives back.
  \<^item> Pawn_Confined: the calls the program is confined to.
  \<^item> Pawn_Defined, Pawn_Progress, Pawn_Refusals: freedom from undefined behaviour; that only the
    busy wait can hang; the results of the error paths.
  \<^item> Dump_Host: the whole program on any host that keeps the interfaces.
  \<^item> Pawn_Report: the report on the protection of the flash, as a function of the registers.
  \<^item> Reference_Machine, Machine_Run, Machine_Witnesses: a concrete machine, the whole program on
    it, and the properties at concrete inputs. They model no code of the repository.

  \<^bold>\<open>Interfaces.\<close> What a part relies on is a locale, and the lemmas about its client are proved in
  it: \<open>config_mechanism\<close> (PCI configuration mechanism 1), \<open>privilege_ledger\<close>
  (\<open>iopl\<close>), \<open>memory_files\<close> (\<open>open\<close>, \<open>mmap\<close> and their inverses),
  \<open>byte_memory\<close> (plain memory), \<open>flash_sequencer\<close> (the virtual functions the flash
  reader calls) and \<open>spi_controller\<close> (the device registers behind them), with a sublocale that
  derives the former from the latter through the register functions, \<open>flash_dump\<close> (a
  controller and an output stream), \<open>quiet_platform\<close> and \<open>process_resources\<close>,
  \<open>stable_host\<close> (printing and the configuration ports leave a condition alone),
  \<open>dump_host\<close>, which puts these together for the whole program, and \<open>register_host\<close> (a
  host with given register contents that logs what is printed). Each is
  interpreted on the reference machine, for every flash image, latency and chipset class. The two
  sequences of operations on objects, of \<open>Pci\<close> objects and of mappings, are the
  inductive relations \<open>pci_step\<close> and \<open>map_step\<close>, with invariants over all reachable
  states.

  \<^bold>\<open>What is proved.\<close> End to end: on every host that keeps the interfaces the program returns success
  with the exact 16 MiB image in the file it was told to write and all resources given back (below, from
  Dump_Host), and the reference machine is such a host. Report: what is printed about the protection of the flash is
  what the registers hold. Flash reader: it refines its
  specification on every chipset class and for any callbacks, rejects unusable arguments, hands over
  blocks of a fixed length, reads the same bytes for every block size, and its busy wait returns
  exactly at the first status with the done bit. Safety: no write or erase cycle is ever
  started, no privileged call is made but the few the program is meant to make, no run ends in undefined behaviour, every register access stays in the mapped window,
  privilege and mappings are balanced on every path. Error paths: each refusal has its result,
  and the output file is not touched unless the dump can start. Identification: configuration reads return the addressed register, probing
  decides by disjoint tables. Registers: round trips, alignment, boot straps per class, and the places where
  an encoder or decoder differs from what it documents (erase size, region bounds, \<open>Raw\<close>, SSFC,
  FDATA 16, FRAP). Resources: what a failed \<open>mmap\<close> leaves behind and what move assignment does
  to the owners.

  \<^bold>\<open>Loops.\<close> No fuel is used. The loops over registers and buffers are structural recursions. The busy
  wait and the block loop have no bound in the code and are \<open>partial_function (option)\<close>
  definitions; that they return is proved, from the controller answering after finitely many
  polls and from the block arithmetic staying in \<open>int\<close>; on all hardware, a run that does not
  end is stuck in the busy wait.

  \<^bold>\<open>Status bits.\<close> The tool clears the status bits of HSFS by writing zeros. The reference machine
  can be told to let them take the value written or to clear them on ones, as the chipset
  datasheets have it. The dump is proved exact in the first case for every latency, in the second
  when each cycle is done by the first poll; Machine_Run shows what happens in the second case
  otherwise.

  \<^bold>\<open>Not modelled.\<close> Build files and packaging, which hold no program logic; the text layout of
  formatted output (a call of \<open>absl::PrintF\<close> is its format string and argument values);
  the version string, which the build generates; the deleted copy operations and the passkey type
  \<open>Tag\<close>, which only restrict what compiles.
\<close>

section \<open>The whole program\<close>



text \<open>
  The reference machine is such a host: for every supported chipset class and every flash image,
  whether the status bits of the flash controller take the value written (with any latency) or are
  cleared by ones (with cycles that are done when polled first), started in any state in which
  nothing stands in the way.
\<close>

theorem main_dumps_flash:
  assumes "machine_ready rwc k w" and "rwc \<longrightarrow> latency = 0" and "argv \<noteq> []" and "length argv \<le> 2"
  shows "runs (main (machine_platform img latency k rwc) argv) w (\<lambda>code w'.
      code = EXIT_SUCCESS \<and>
      m_files w' (dump_name argv) = Some (map (\<lambda>i. img (of_nat i)) [0..<16 * 2 ^ 20]) \<and>
      m_bal w' = m_bal w \<and> set (m_fds w') = set (m_fds w) \<and> set (m_maps w') = set (m_maps w))"
proof -
  have "prompt rwc latency = latency" using assms(2) by (simp add: prompt_def)
  then show ?thesis
    using machine_PawnMain_runs [OF assms(1,3,4), of img latency] by (simp add: main_def)
qed

end
